(* ===== verification/Sdk_Prelude.thy ===== *)
theory Sdk_Prelude
  imports Complex_Main "HOL-Library.AList" "HOL-Library.Sublist"
begin

text \<open>
  Shared vocabulary of the development: results with an error alternative, the traversal of
  a list by a fallible function, association lists in insertion order (the Python
  dictionary), and the string operations the sources use. Nothing here is specific to one
  component. A \<open>string\<close> stands for a Python \<open>str\<close> whose code points are below 256; every
  comparison the sources make on characters is against ASCII.
\<close>

named_theorems result_dests "what a successful result says of the steps it came from"
named_theorems dict_simps "lookup in updated association lists"

subsection \<open>Results\<close>

definition bindr :: "'e + 'a \<Rightarrow> ('a \<Rightarrow> 'e + 'b) \<Rightarrow> 'e + 'b" where
  "bindr m f = (case m of Inl e \<Rightarrow> Inl e | Inr x \<Rightarrow> f x)"

definition ensure :: "bool \<Rightarrow> 'e \<Rightarrow> 'e + unit" where
  "ensure b e = (if b then Inr () else Inl e)"

fun mapr :: "('a \<Rightarrow> 'e + 'b) \<Rightarrow> 'a list \<Rightarrow> 'e + 'b list" where
  "mapr f [] = Inr []"
| "mapr f (x # xs) = bindr (f x) (\<lambda>y. bindr (mapr f xs) (\<lambda>ys. Inr (y # ys)))"

definition is_ok :: "'e + 'a \<Rightarrow> bool" where
  "is_ok m = (case m of Inl _ \<Rightarrow> False | Inr _ \<Rightarrow> True)"

lemma bindr_simps [simp]: "bindr (Inl e) f = Inl e" "bindr (Inr x) f = f x"
  by (simp_all add: bindr_def)

lemma bindr_eq_Inr [simp]: "bindr m f = Inr y \<longleftrightarrow> (\<exists>x. m = Inr x \<and> f x = Inr y)"
  by (cases m) simp_all

lemma if_Inl_eq_Inr [simp]: "(if c then Inl e else m) = Inr x \<longleftrightarrow> \<not> c \<and> m = Inr x"
  by simp

lemma if_else_Inl_eq_Inr [simp]: "(if c then m else Inl e) = Inr x \<longleftrightarrow> c \<and> m = Inr x"
  by simp

lemma case_option_Inl_eq_Inr [simp]:
  "(case opt of None \<Rightarrow> Inl e | Some y \<Rightarrow> f y) = Inr x \<longleftrightarrow> (\<exists>y. opt = Some y \<and> f y = Inr x)"
  by (cases opt) simp_all

lemma bindr_InrE:
  assumes "bindr m f = Inr y"
  obtains x where "m = Inr x" "f x = Inr y"
  using assms by auto

lemma if_InlE:
  assumes "(if c then Inl e else m) = Inr x"
  obtains "\<not> c" "m = Inr x"
  using assms by auto

lemma case_option_InlE:
  assumes "(case opt of None \<Rightarrow> Inl e | Some y \<Rightarrow> f y) = Inr x"
  obtains y where "opt = Some y" "f y = Inr x"
  using assms by auto

lemma bindr_InrI: "m = Inr x \<Longrightarrow> f x = Inr y \<Longrightarrow> bindr m f = Inr y"
  by simp

lemma if_InlI: "\<not> c \<Longrightarrow> m = Inr x \<Longrightarrow> (if c then Inl e else m) = Inr x"
  by simp

lemma case_option_InlI:
  "opt = Some y \<Longrightarrow> f y = Inr x \<Longrightarrow> (case opt of None \<Rightarrow> Inl e | Some y \<Rightarrow> f y) = Inr x"
  by simp

text \<open>Building a successful result, one step of the code at a time.\<close>

lemmas result_intros = bindr_InrI if_InlI case_option_InlI

text \<open>Taking a successful result apart, one step of the code at a time.\<close>

lemmas result_elims = bindr_InrE if_InlE case_option_InlE

lemma bindr_eq_Inl:
  "bindr m f = Inl e \<longleftrightarrow> m = Inl e \<or> (\<exists>x. m = Inr x \<and> f x = Inl e)"
  by (cases m) simp_all

lemma bindr_cong [fundef_cong]:
  "m = m' \<Longrightarrow> (\<And>x. m' = Inr x \<Longrightarrow> f x = f' x) \<Longrightarrow> bindr m f = bindr m' f'"
  by (cases m') simp_all

lemma ensure_eq_Inr [simp]: "ensure b e = Inr u \<longleftrightarrow> b"
  by (simp add: ensure_def)

lemma ensure_eq_Inl [simp]: "ensure b e = Inl e' \<longleftrightarrow> \<not> b \<and> e' = e"
  by (auto simp: ensure_def)

lemma ensure_True [simp]: "ensure True e = Inr ()"
  by (simp add: ensure_def)

lemma ensure_False [simp]: "ensure False e = Inl e"
  by (simp add: ensure_def)

lemma is_ok_simps [simp]: "is_ok (Inl e) = False" "is_ok (Inr x) = True"
  by (simp_all add: is_ok_def)

lemma is_ok_iff: "is_ok m \<longleftrightarrow> (\<exists>x. m = Inr x)"
  by (cases m) simp_all

lemma mapr_cong [fundef_cong]:
  "xs = ys \<Longrightarrow> (\<And>x. x \<in> set ys \<Longrightarrow> f x = g x) \<Longrightarrow> mapr f xs = mapr g ys"
  by (induction ys arbitrary: xs) (auto intro: bindr_cong)

lemma mapr_eq_Inr: "mapr f xs = Inr ys \<longleftrightarrow> list_all2 (\<lambda>x y. f x = Inr y) xs ys"
  by (induction xs arbitrary: ys) (auto simp: list_all2_Cons1)

lemma mapr_length [result_dests]: "mapr f xs = Inr ys \<Longrightarrow> length ys = length xs"
  by (auto simp: mapr_eq_Inr dest: list_all2_lengthD)

lemma mapr_mem:
  "mapr f xs = Inr ys \<Longrightarrow> y \<in> set ys \<Longrightarrow> \<exists>x \<in> set xs. f x = Inr y"
  by (induction xs arbitrary: ys) auto

lemma mapr_all_ok: "mapr f xs = Inr us \<Longrightarrow> x \<in> set xs \<Longrightarrow> f x = Inr ()"
  by (induction xs arbitrary: us) auto

lemma mapr_map_ok: "(\<And>x. x \<in> set xs \<Longrightarrow> f (g x) = Inr x) \<Longrightarrow> mapr f (map g xs) = Inr xs"
  by (induction xs) auto

subsection \<open>Insertion-ordered dictionaries\<close>

text \<open>
  \<open>AList.update\<close> is Python's item assignment: an existing key keeps its position, a new one
  goes to the end. \<open>merge_items d d'\<close> is \<open>{**d, **d'}\<close> and \<open>d.update(d')\<close>.
\<close>

abbreviation put_item :: "string \<Rightarrow> 'v \<Rightarrow> (string \<times> 'v) list \<Rightarrow> (string \<times> 'v) list" where
  "put_item \<equiv> AList.update"

fun merge_items :: "(string \<times> 'v) list \<Rightarrow> (string \<times> 'v) list \<Rightarrow> (string \<times> 'v) list" where
  "merge_items d [] = d"
| "merge_items d ((k, v) # kvs) = merge_items (put_item k v d) kvs"

definition pop_item :: "string \<Rightarrow> (string \<times> 'v) list \<Rightarrow> (string \<times> 'v) list" where
  "pop_item k d = filter (\<lambda>(k', _). k' \<noteq> k) d"

definition keys_of :: "(string \<times> 'v) list \<Rightarrow> string list" where
  "keys_of d = map fst d"

lemma map_of_put_item [simp, dict_simps]:
  "map_of (put_item k v d) k' = (if k' = k then Some v else map_of d k')"
  by (simp add: update_conv')

lemma map_of_pop_item [simp, dict_simps]:
  "map_of (pop_item k d) k' = (if k' = k then None else map_of d k')"
  by (induction d) (auto simp: pop_item_def)

lemma distinct_put_item [intro]:
  "distinct (map fst d) \<Longrightarrow> distinct (map fst (put_item k v d))"
  by (rule distinct_update)

lemma distinct_merge_items [intro]:
  "distinct (map fst d) \<Longrightarrow> distinct (map fst (merge_items d d'))"
  by (induction d d' rule: merge_items.induct) (auto intro: distinct_put_item)

lemma map_of_merge_items [dict_simps]:
  "distinct (map fst d') \<Longrightarrow>
     map_of (merge_items d d') k = (case map_of d' k of Some v \<Rightarrow> Some v | None \<Rightarrow> map_of d k)"
  by (induction d d' rule: merge_items.induct)
     (auto split: option.splits simp: map_of_eq_None_iff image_iff)

lemma put_item_notin: "k \<notin> set (map fst d) \<Longrightarrow> put_item k v d = d @ [(k, v)]"
  by (induction d) auto

lemma merge_items_disjoint:
  "distinct (map fst d') \<Longrightarrow> set (map fst d) \<inter> set (map fst d') = {} \<Longrightarrow> merge_items d d' = d @ d'"
proof (induction d d' rule: merge_items.induct)
  case (2 d k v kvs)
  then have "put_item k v d = d @ [(k, v)]" by (intro put_item_notin) auto
  with 2 show ?case by auto
qed simp

subsection \<open>Strings\<close>

abbreviation ord :: "char \<Rightarrow> nat" where
  "ord \<equiv> of_char"

definition between :: "nat \<Rightarrow> nat \<Rightarrow> char \<Rightarrow> bool" where
  "between lo hi c \<longleftrightarrow> lo \<le> ord c \<and> ord c \<le> hi"

definition is_space :: "char \<Rightarrow> bool" where
  "is_space c \<longleftrightarrow> between 9 13 c \<or> between 28 32 c \<or> ord c = 133 \<or> ord c = 160"

definition lstrip :: "string \<Rightarrow> string" where
  "lstrip s = dropWhile is_space s"

definition strip :: "string \<Rightarrow> string" where
  "strip s = rev (dropWhile is_space (rev (lstrip s)))"

definition lower_char :: "char \<Rightarrow> char" where
  "lower_char c = (if between 65 90 c \<or> (between 192 222 c \<and> ord c \<noteq> 215)
                   then char_of (ord c + 32) else c)"

definition upper_char :: "char \<Rightarrow> string" where
  "upper_char c = (if between 97 122 c \<or> (between 224 254 c \<and> ord c \<noteq> 247)
                   then [char_of (ord c - 32)]
                   else if ord c = 223 then ''SS'' else [c])"

definition str_lower :: "string \<Rightarrow> string" where
  "str_lower s = map lower_char s"

definition str_upper :: "string \<Rightarrow> string" where
  "str_upper s = concat (map upper_char s)"

definition starts_with :: "string \<Rightarrow> string \<Rightarrow> bool" where
  "starts_with p s \<longleftrightarrow> take (length p) s = p"

fun split_on :: "char \<Rightarrow> string \<Rightarrow> string list" where
  "split_on c [] = [[]]"
| "split_on c (x # xs) =
     (if x = c then [] # split_on c xs
      else case split_on c xs of [] \<Rightarrow> [[x]] | w # ws \<Rightarrow> (x # w) # ws)"

text \<open>\<open>s.partition(c)\<close>: the text before the first \<open>c\<close>, whether there is one, the text after.\<close>

fun partition_on :: "char \<Rightarrow> string \<Rightarrow> string \<times> bool \<times> string" where
  "partition_on c [] = ([], False, [])"
| "partition_on c (x # xs) =
     (if x = c then ([], True, xs)
      else case partition_on c xs of (a, b, r) \<Rightarrow> (x # a, b, r))"

text \<open>\<open>s.rstrip(c)\<close> for one character.\<close>

definition rstrip_char :: "char \<Rightarrow> string \<Rightarrow> string" where
  "rstrip_char c s = rev (dropWhile (\<lambda>x. x = c) (rev s))"

text \<open>The UTF-8 bytes of a string whose code points are below 256.\<close>

definition utf8 :: "string \<Rightarrow> string" where
  "utf8 s = concat (map (\<lambda>c. if ord c < 128 then [c]
     else [char_of (192 + ord c div 64), char_of (128 + ord c mod 64)]) s)"

text \<open>Character classes of the sources' regular expressions.\<close>

definition is_digit :: "char \<Rightarrow> bool" where
  "is_digit = between 48 57"

definition is_ascii_upper :: "char \<Rightarrow> bool" where
  "is_ascii_upper = between 65 90"

definition is_ascii_lower :: "char \<Rightarrow> bool" where
  "is_ascii_lower = between 97 122"

definition is_alnum :: "char \<Rightarrow> bool" where
  "is_alnum c \<longleftrightarrow> is_digit c \<or> is_ascii_upper c \<or> is_ascii_lower c"

definition is_id_char :: "char \<Rightarrow> bool" where
  \<comment> \<open>\<open>[A-Za-z0-9_-]\<close>\<close>
  "is_id_char c \<longleftrightarrow> is_alnum c \<or> c = CHR ''_'' \<or> c = CHR ''-''"

definition is_lower_hex :: "char \<Rightarrow> bool" where
  \<comment> \<open>\<open>[0-9a-f]\<close>\<close>
  "is_lower_hex c \<longleftrightarrow> is_digit c \<or> between 97 102 c"

definition is_printable :: "char \<Rightarrow> bool" where
  \<comment> \<open>\<open>0x20 <= ord(c) <= 0x7E\<close>\<close>
  "is_printable = between 32 126"

definition is_sha256_hex :: "string \<Rightarrow> bool" where
  \<comment> \<open>\<open>[0-9a-f]{64}\<close>\<close>
  "is_sha256_hex s \<longleftrightarrow> length s = 64 \<and> list_all is_lower_hex s"

definition is_sha256_tag :: "string \<Rightarrow> bool" where
  \<comment> \<open>\<open>sha256:[0-9a-f]{64}\<close>\<close>
  "is_sha256_tag s \<longleftrightarrow> starts_with ''sha256:'' s \<and> is_sha256_hex (drop 7 s)"

lemmas char_class_defs = is_digit_def is_ascii_upper_def is_ascii_lower_def is_alnum_def
  is_id_char_def is_lower_hex_def is_printable_def between_def

lemma starts_with_append [simp]: "starts_with p (p @ s)"
  by (simp add: starts_with_def)

lemma starts_with_iff: "starts_with p s \<longleftrightarrow> (\<exists>r. s = p @ r)"
  by (metis append_take_drop_id starts_with_append starts_with_def)

lemma starts_with_Nil [simp]: "starts_with [] s"
  by (simp add: starts_with_def)

lemma starts_with_Cons [simp]: "starts_with (c # p) (d # s) \<longleftrightarrow> c = d \<and> starts_with p s"
  by (auto simp: starts_with_def)

lemma starts_with_Cons_Nil [simp]: "\<not> starts_with (c # p) []"
  by (simp add: starts_with_def)

subsection \<open>Literals on the wire\<close>

text \<open>
  A literal type is a datatype with the string each value stands for, and a partial inverse that the
  parsers use: a string is accepted exactly when it is the string of a value.
\<close>

locale wire_literal =
  fixes str_of :: "'a \<Rightarrow> string"
    and of_str :: "string \<Rightarrow> 'a option"
  assumes of_str_iff: "of_str s = Some x \<longleftrightarrow> s = str_of x"
begin

lemma of_str_of: "of_str (str_of x) = Some x"
  by (simp add: of_str_iff)

lemma str_of_inject: "str_of x = str_of y \<longleftrightarrow> x = y"
  by (metis of_str_of option.inject)

lemma of_str_None: "of_str s = None \<longleftrightarrow> s \<notin> range str_of"
  by (metis of_str_iff not_None_eq rangeE rangeI)

end

end
