(* ===== verification/Py_Value.thy ===== *)
theory Py_Value
  imports Sdk_Prelude
begin

text \<open>
  The Python values the SDK handles: what \<open>json.loads\<close> returns, what callers pass, and what
  is written to the journal. A dictionary is an association list in insertion order with
  distinct string keys. A float is a rational, an infinity or a NaN. \<open>PObj\<close> is any other
  object (a tuple, a class instance), compared by identity; \<open>PBytes\<close> is a \<open>bytes\<close> object.
\<close>

datatype pyfloat = Fin rat | Pos_Inf | Neg_Inf | Nan

datatype pyval =
    PNone
  | PBool bool
  | PInt int
  | PFloat pyfloat
  | PStr string
  | PBytes string
  | PList "pyval list"
  | PDict "(string \<times> pyval) list"
  | PObj nat

type_synonym pydict = "(string \<times> pyval) list"

subsection \<open>Numbers\<close>

text \<open>\<open>True == 1\<close> and \<open>1 == 1.0\<close>: booleans, integers and floats compare as numbers.\<close>

fun num_of :: "pyval \<Rightarrow> pyfloat option" where
  "num_of (PBool b) = Some (Fin (if b then 1 else 0))"
| "num_of (PInt i) = Some (Fin (of_int i))"
| "num_of (PFloat x) = Some x"
| "num_of _ = None"

fun float_le :: "pyfloat \<Rightarrow> pyfloat \<Rightarrow> bool" where
  "float_le Nan _ = False"
| "float_le _ Nan = False"
| "float_le Neg_Inf _ = True"
| "float_le _ Pos_Inf = True"
| "float_le (Fin x) (Fin y) = (x \<le> y)"
| "float_le _ _ = False"

fun float_eq :: "pyfloat \<Rightarrow> pyfloat \<Rightarrow> bool" where
  "float_eq Nan _ = False"
| "float_eq _ Nan = False"
| "float_eq x y = (x = y)"

subsection \<open>Equality\<close>

text \<open>
  Python's \<open>==\<close>. Dictionaries compare as maps, whatever the insertion order; a value of one
  kind never equals a value of another, numbers apart.
\<close>

function py_eq :: "pyval \<Rightarrow> pyval \<Rightarrow> bool" where
  "py_eq v w =
     (case (num_of v, num_of w) of
        (Some x, Some y) \<Rightarrow> float_eq x y
      | (None, None) \<Rightarrow>
          (case (v, w) of
             (PNone, PNone) \<Rightarrow> True
           | (PStr s, PStr t) \<Rightarrow> s = t
           | (PBytes s, PBytes t) \<Rightarrow> s = t
           | (PObj i, PObj j) \<Rightarrow> i = j
           | (PList xs, PList ys) \<Rightarrow>
               length xs = length ys \<and> (\<forall>(x, y) \<in> set (zip xs ys). py_eq x y)
           | (PDict d, PDict e) \<Rightarrow>
               length d = length e \<and>
               (\<forall>(k, x) \<in> set d. case map_of e k of None \<Rightarrow> False | Some y \<Rightarrow> py_eq x y)
           | _ \<Rightarrow> False)
      | _ \<Rightarrow> False)"
  by pat_completeness auto
termination
proof (relation "measure (\<lambda>(v, _). size v)", goal_cases)
  case (2 v w a b xs ys x)
  then show ?case
    by (auto dest!: set_zip_leftD simp: less_Suc_eq_le intro: size_list_estimation')
next
  case (3 v w a b d e x)
  then show ?case
    by (auto simp: less_Suc_eq_le intro!: size_list_estimation')
qed auto

declare py_eq.simps [simp del]

lemma py_eq_simps [simp]:
  "py_eq PNone PNone"
  "py_eq PNone (PStr s) = False" "py_eq (PStr s) PNone = False"
  "py_eq PNone (PDict d) = False" "py_eq (PDict d) PNone = False"
  "py_eq PNone (PBool b) = False" "py_eq (PBool b) PNone = False"
  "py_eq PNone (PInt i) = False" "py_eq (PInt i) PNone = False"
  "py_eq PNone (PList xs) = False" "py_eq (PList xs) PNone = False"
  "py_eq (PStr s) (PStr t) \<longleftrightarrow> s = t"
  "py_eq (PStr s) (PDict d) = False" "py_eq (PDict d) (PStr s) = False"
  "py_eq (PStr s) (PBool b) = False" "py_eq (PStr s) (PInt i) = False"
  "py_eq (PStr s) (PList xs) = False" "py_eq (PList xs) (PStr s) = False"
  "py_eq (PBool b) (PBool c) \<longleftrightarrow> b = c"
  "py_eq (PInt i) (PInt j) \<longleftrightarrow> i = j"
  "py_eq (PInt i) (PStr s) = False" "py_eq (PBool b) (PStr s) = False"
  "py_eq (PList xs) (PList ys) \<longleftrightarrow>
     length xs = length ys \<and> (\<forall>(x, y) \<in> set (zip xs ys). py_eq x y)"
  "py_eq (PDict d) (PDict e) \<longleftrightarrow>
     length d = length e \<and>
     (\<forall>(k, x) \<in> set d. case map_of e k of None \<Rightarrow> False | Some y \<Rightarrow> py_eq x y)"
  by (subst py_eq.simps, simp)+

lemma py_eq_PStr [simp]: "py_eq v (PStr s) \<longleftrightarrow> v = PStr s"
  by (cases v; subst py_eq.simps) auto

lemma py_eq_PStr' [simp]: "py_eq (PStr s) v \<longleftrightarrow> v = PStr s"
  by (cases v; subst py_eq.simps) auto

lemma py_eq_PNone [simp]: "py_eq v PNone \<longleftrightarrow> v = PNone"
  by (cases v; subst py_eq.simps) auto

subsection \<open>Dictionaries, truth, conversions\<close>

text \<open>\<open>d.get(k)\<close>, \<open>k in d\<close>; \<open>truthy\<close> is \<open>bool(v)\<close>.\<close>

definition dget :: "pydict \<Rightarrow> string \<Rightarrow> pyval" where
  "dget d k = (case map_of d k of None \<Rightarrow> PNone | Some v \<Rightarrow> v)"

definition dhas :: "pydict \<Rightarrow> string \<Rightarrow> bool" where
  "dhas d k \<longleftrightarrow> map_of d k \<noteq> None"

fun truthy :: "pyval \<Rightarrow> bool" where
  "truthy PNone = False"
| "truthy (PBool b) = b"
| "truthy (PInt i) = (i \<noteq> 0)"
| "truthy (PFloat x) = (x \<noteq> Fin 0)"
| "truthy (PStr s) = (s \<noteq> [])"
| "truthy (PBytes s) = (s \<noteq> [])"
| "truthy (PList xs) = (xs \<noteq> [])"
| "truthy (PDict d) = (d \<noteq> [])"
| "truthy (PObj i) = True"

text \<open>Lists and dictionaries are unhashable: using one as a set element raises.\<close>

fun hashable :: "pyval \<Rightarrow> bool" where
  "hashable (PList _) = False"
| "hashable (PDict _) = False"
| "hashable _ = True"

text \<open>A JSON value: what \<open>json.loads\<close> returns.\<close>

fun is_json :: "pyval \<Rightarrow> bool" where
  "is_json (PBytes _) = False"
| "is_json (PObj _) = False"
| "is_json (PList xs) = (\<forall>x \<in> set xs. is_json x)"
| "is_json (PDict d) = (distinct (map fst d) \<and> (\<forall>v \<in> snd ` set d. is_json v))"
| "is_json _ = True"

fun opt_str :: "string option \<Rightarrow> pyval" where
  "opt_str None = PNone"
| "opt_str (Some s) = PStr s"

fun opt_int :: "int option \<Rightarrow> pyval" where
  "opt_int None = PNone"
| "opt_int (Some i) = PInt i"

fun opt_val :: "pyval option \<Rightarrow> pyval" where
  "opt_val None = PNone"
| "opt_val (Some v) = v"

definition str_list :: "string list \<Rightarrow> pyval" where
  "str_list xs = PList (map PStr xs)"

lemma dget_Nil [simp]: "dget [] k = PNone"
  by (simp add: dget_def)

lemma dget_Cons [simp]: "dget ((k', v) # d) k = (if k = k' then v else dget d k)"
  by (simp add: dget_def)

lemma dget_put_item [simp]: "dget (put_item k v d) k' = (if k' = k then v else dget d k')"
  by (simp add: dget_def)

lemma dget_pop_item [simp]: "dget (pop_item k d) k' = (if k' = k then PNone else dget d k')"
  by (simp add: dget_def)

lemma dget_merge_items [dict_simps]:
  "distinct (map fst d') \<Longrightarrow> dget (merge_items d d') k = (if dhas d' k then dget d' k else dget d k)"
  by (auto simp: dget_def dhas_def map_of_merge_items split: option.splits)

lemma dhas_Nil [simp]: "\<not> dhas [] k"
  by (simp add: dhas_def)

lemma dhas_Cons [simp]: "dhas ((k', v) # d) k \<longleftrightarrow> k = k' \<or> dhas d k"
  by (simp add: dhas_def)

lemma dhas_put_item [simp]: "dhas (put_item k v d) k' \<longleftrightarrow> k' = k \<or> dhas d k'"
  by (simp add: dhas_def)

lemma dhas_iff_keys: "dhas d k \<longleftrightarrow> k \<in> fst ` set d"
  by (auto simp: dhas_def map_of_eq_None_iff)

lemma dget_not_dhas: "\<not> dhas d k \<Longrightarrow> dget d k = PNone"
  by (simp add: dget_def dhas_def)

lemma opt_str_inject [simp]: "opt_str a = opt_str b \<longleftrightarrow> a = b"
  by (cases a; cases b) auto

lemma opt_str_eq_PNone [simp]: "opt_str a = PNone \<longleftrightarrow> a = None"
  by (cases a) auto

lemma opt_str_eq_PStr [simp]: "opt_str a = PStr s \<longleftrightarrow> a = Some s" "PStr s = opt_str a \<longleftrightarrow> a = Some s"
  by (cases a; auto)+

lemma PNone_eq_opt_str [simp]: "PNone = opt_str a \<longleftrightarrow> a = None"
  by (cases a) auto

lemma opt_int_eq_PNone [simp]: "opt_int a = PNone \<longleftrightarrow> a = None"
  by (cases a) auto

subsection \<open>Rendering\<close>

text \<open>\<open>str(n)\<close> for an integer, and \<open>repr(s)\<close> for a string.\<close>

fun nat_str :: "nat \<Rightarrow> string" where
  "nat_str n = (if n < 10 then [char_of (48 + n)] else nat_str (n div 10) @ [char_of (48 + n mod 10)])"

declare nat_str.simps [simp del]

definition int_str :: "int \<Rightarrow> string" where
  "int_str i = (if i < 0 then ''-'' @ nat_str (nat (- i)) else nat_str (nat i))"

definition hex_digit :: "nat \<Rightarrow> char" where
  "hex_digit n = (if n < 10 then char_of (48 + n) else char_of (87 + n))"

definition hex_byte :: "char \<Rightarrow> string" where
  "hex_byte c = [hex_digit (ord c div 16), hex_digit (ord c mod 16)]"

definition repr_char :: "char \<Rightarrow> char \<Rightarrow> string" where
  "repr_char q c =
     (if c = q \<or> ord c = 92 then [char_of (92 :: nat), c]
      else if ord c = 10 then [char_of (92 :: nat), CHR ''n'']
      else if ord c = 13 then [char_of (92 :: nat), CHR ''r'']
      else if ord c = 9 then [char_of (92 :: nat), CHR ''t'']
      else if ord c < 32 \<or> between 127 160 c \<or> ord c = 173
        then [char_of (92 :: nat), CHR ''x''] @ hex_byte c
      else [c])"

definition repr_str :: "string \<Rightarrow> string" where
  "repr_str s =
     (let single = char_of (39 :: nat); double = char_of (34 :: nat);
          q = (if single \<in> set s \<and> double \<notin> set s then double else single)
      in [q] @ concat (map (repr_char q) s) @ [q])"

end
