(* ===== verification/Sdk_Error.thy ===== *)
theory Sdk_Error
  imports Py_Value
begin

text \<open>
  \<open>allowly/error.py\<close> and the exceptions of the language and of the HTTP client that the SDK
  raises, catches or lets through. The subclass relations the handlers depend on are the
  predicates at the end: \<open>AllowlyProtocolError\<close> is a \<open>ValueError\<close>, an HTTP timeout is a
  transport error, and a cancellation is not an \<open>Exception\<close>.
\<close>

record field_error =
  fe_field :: string
  fe_message :: string

record api_error =
  ae_status :: int
  ae_code :: pyval
  ae_message :: pyval
  ae_fields :: "field_error list"
  ae_retry_after :: "pyfloat option"

datatype httpx_kind =
    RemoteProtocolError
  | TimeoutException
  | OtherTransportError
  | DecodingError
  | OtherHttpxError

datatype exn =
    ProtocolError string
  | ApiError api_error
  | ValueError string
  | TypeError string
  | KeyError string
  | AttributeError
  | TimeoutError string
  | ExecutionRecoveryRequired string
  | FileNotFoundError
  | FileExistsError
  | OSError
  | VerificationError string
  | RecursionError
  | HttpxError httpx_kind
  | ToolError string
  | AsyncTimeoutError
  | CancelledError
  | OtherException nat
  | OtherBaseException nat

type_synonym 'a res = "exn + 'a"

definition allowly_api_error ::
  "int \<Rightarrow> pyval \<Rightarrow> pyval \<Rightarrow> field_error list option \<Rightarrow> pyfloat option \<Rightarrow> api_error" where
  "allowly_api_error status code message flds retry_after =
     \<lparr>ae_status = status, ae_code = code, ae_message = message,
      ae_fields = (case flds of None \<Rightarrow> [] | Some fs \<Rightarrow> fs),
      ae_retry_after = retry_after\<rparr>"

fun is_value_error :: "exn \<Rightarrow> bool" where
  "is_value_error (ProtocolError _) = True"
| "is_value_error (ValueError _) = True"
| "is_value_error _ = False"

fun is_os_error :: "exn \<Rightarrow> bool" where
  "is_os_error FileNotFoundError = True"
| "is_os_error FileExistsError = True"
| "is_os_error OSError = True"
| "is_os_error (TimeoutError _) = True"
| "is_os_error _ = False"

fun is_exception :: "exn \<Rightarrow> bool" where
  \<comment> \<open>what \<open>except Exception\<close> catches\<close>
  "is_exception CancelledError = False"
| "is_exception (OtherBaseException _) = False"
| "is_exception _ = True"

fun is_transport_error :: "exn \<Rightarrow> bool" where
  "is_transport_error (HttpxError RemoteProtocolError) = True"
| "is_transport_error (HttpxError TimeoutException) = True"
| "is_transport_error (HttpxError OtherTransportError) = True"
| "is_transport_error _ = False"

text \<open>\<open>d[k]\<close>.\<close>

definition dict_item :: "pydict \<Rightarrow> string \<Rightarrow> pyval res" where
  "dict_item d k = (case map_of d k of None \<Rightarrow> Inl (KeyError k) | Some v \<Rightarrow> Inr v)"

lemma dict_item_iff [simp]: "dict_item d k = Inr v \<longleftrightarrow> map_of d k = Some v"
  by (simp add: dict_item_def split: option.splits)

text \<open>\<open>d.get(k, other)\<close>.\<close>

definition dget_or :: "pydict \<Rightarrow> string \<Rightarrow> pyval \<Rightarrow> pyval" where
  "dget_or d k other = (if dhas d k then dget d k else other)"

text \<open>An \<open>isinstance(v, dict)\<close> test, with what happens otherwise.\<close>

definition as_dict :: "exn \<Rightarrow> pyval \<Rightarrow> pydict res" where
  "as_dict e v = (case v of PDict d \<Rightarrow> Inr d | _ \<Rightarrow> Inl e)"

lemma as_dict_iff [simp]: "as_dict e v = Inr d \<longleftrightarrow> v = PDict d"
  by (cases v) (auto simp: as_dict_def)

text \<open>\<open>except VerificationError as exc: raise AllowlyProtocolError(f"...{exc}")\<close>.\<close>

definition map_exn :: "(exn \<Rightarrow> exn) \<Rightarrow> 'a res \<Rightarrow> 'a res" where
  "map_exn f m = (case m of Inl e \<Rightarrow> Inl (f e) | Inr x \<Rightarrow> Inr x)"

fun verification_to_protocol :: "string \<Rightarrow> exn \<Rightarrow> exn" where
  "verification_to_protocol pre (VerificationError m) = ProtocolError (pre @ m)"
| "verification_to_protocol pre e = e"

lemma map_exn_simps [simp]: "map_exn f (Inl e) = Inl (f e)" "map_exn f (Inr x) = Inr x"
  by (simp_all add: map_exn_def)

lemma map_exn_eq_Inr [simp]: "map_exn f m = Inr x \<longleftrightarrow> m = Inr x"
  by (cases m) simp_all

lemma value_error_is_exception [simp]: "is_value_error e \<Longrightarrow> is_exception e"
  by (cases e) auto

lemma transport_error_is_exception [simp]: "is_transport_error e \<Longrightarrow> is_exception e"
  by (cases e) auto

end
