(* ===== verification/Sdk_Effects.thy ===== *)
theory Sdk_Effects
  imports Sdk_Error
begin

text \<open>
  Programs with effects. A coroutine of the SDK is a tree: it returns or raises (\<open>Done\<close>), or
  performs one effect and continues with the environment's answer (\<open>Act\<close>). The environment
  (the API, the provider, the file system, the clock, other processes) may answer any effect
  with an exception. A run, an interleaving of several runs and a crash are all defined over
  these trees, so a property of the tree holds for every behaviour of the environment.
  \<open>sdk_env\<close> holds what is not under \<open>src/\<close> or depends on the interpreter:
  \<^item> \<open>hash_seal_value\<close>, \<open>hash_seal_json\<close>, \<open>decode_receipt\<close>, \<open>canonicalize\<close>, \<open>validate_definition\<close>,
    \<open>validate_mapping\<close>, \<open>load_keys\<close> and the \<open>seal_\<close> constants: the verifier package \<open>allowly-receipt-format\<close>;
  \<^item> \<open>sha256_hex\<close>, \<open>hmac_sha256\<close>: \<open>hashlib.sha256(data).hexdigest()\<close> and \<open>hmac.digest(key, data, sha256)\<close>;
  \<^item> \<open>json_tree\<close>: the grammar of \<open>json.loads\<close> on the text with the given UTF-8 bytes, an object as the
    list of its members in the order of the text, duplicates kept, and the constants \<open>NaN\<close> and
    \<open>Infinity\<close> as floats; \<open>None\<close> if the bytes are not UTF-8, not JSON or nested too deeply;
  \<^item> \<open>ed25519_public\<close>, \<open>ed25519_sign\<close>: the \<open>cryptography\<close> package on a 32-byte private key;
  \<^item> \<open>fromisoformat\<close>: \<open>datetime.fromisoformat\<close>, whose grammar differs between the interpreter
    versions the package supports; a result is the instant in microseconds and whether it
    carries an offset;
  \<^item> \<open>float_repr\<close>, \<open>parse_float\<close>: the text \<open>json.dumps\<close> writes for a finite float, and \<open>float(s)\<close>
    (\<open>None\<close> when it raises \<open>ValueError\<close>);
  \<^item> \<open>is_global_ip\<close>: \<open>ipaddress.ip_address(a).is_global\<close>, a table that follows the IANA registries;
  \<^item> \<open>p256_fingerprint\<close>: the \<open>cryptography\<close> package on the \<open>data\<close> of a public key: decode the P-256
    point, encode it compressed, and hash it.
\<close>

subsection \<open>The environment's pure functions\<close>

record sdk_env =
  sha256_hex :: "string \<Rightarrow> string"
  hash_seal_value :: "pyval \<Rightarrow> string res"
  decode_receipt :: "pyval \<Rightarrow> pydict res"
  fromisoformat :: "string \<Rightarrow> (int \<times> bool) option"
  float_repr :: "rat \<Rightarrow> string"
  parse_float :: "string \<Rightarrow> pyfloat option"
  is_global_ip :: "string \<Rightarrow> bool"
  p256_fingerprint :: "pyval \<Rightarrow> string res"
  hash_seal_json :: "pyval \<Rightarrow> string res"
  canonicalize :: "pyval \<Rightarrow> string res"
  validate_definition :: "pyval \<Rightarrow> unit res"
  validate_mapping :: "pyval \<Rightarrow> unit res"
  load_keys :: "pyval \<Rightarrow> pyval list res"
  hmac_sha256 :: "string \<Rightarrow> string \<Rightarrow> string"
  json_tree :: "string \<Rightarrow> pyval option"
  ed25519_public :: "string \<Rightarrow> string"
  ed25519_sign :: "string \<Rightarrow> string \<Rightarrow> string"
  seal_profile :: string
  seal_action :: string
  seal_agent_id :: string
  seal_user_id :: string

text \<open>An instance with made-up functions, at which the properties are tried on concrete inputs.\<close>

definition sample_env :: sdk_env where
  "sample_env =
     \<lparr>sha256_hex = (\<lambda>s. replicate 64 (CHR ''a'')),
      hash_seal_value = (\<lambda>v. Inr (replicate 64 (CHR ''b''))),
      decode_receipt = (\<lambda>v. case v of PDict d \<Rightarrow> Inr d | _ \<Rightarrow> Inl (VerificationError ''shape'')),
      fromisoformat = (\<lambda>s. if s = [] then None else Some (int (length s), True)),
      float_repr = (\<lambda>_. ''1.5''), parse_float = (\<lambda>s. if s = [] then None else Some (Fin 1)),
      is_global_ip = (\<lambda>s. s \<noteq> ''10.0.0.1''),
      p256_fingerprint = (\<lambda>v. Inr (replicate 64 (CHR ''c''))),
      hash_seal_json = (\<lambda>v. Inr (replicate 64 (CHR ''d''))),
      canonicalize = (\<lambda>v. Inr ''{}''), validate_definition = (\<lambda>v. Inr ()),
      validate_mapping = (\<lambda>v. Inr ()), load_keys = (\<lambda>v. Inr []),
      hmac_sha256 = (\<lambda>k m. take 32 (k @ m @ replicate 32 (CHR ''e''))),
      json_tree = (\<lambda>s. if s = ''{}'' then Some (PDict []) else None),
      ed25519_public = (\<lambda>k. k), ed25519_sign = (\<lambda>k m. k @ k),
      seal_profile = ''seal.v1'', seal_action = ''seal'', seal_agent_id = ''seal-agent'',
      seal_user_id = ''seal-user''\<rparr>"

subsection \<open>Effects and answers\<close>

text \<open>
  A path is a directory and a name. \<open>Request\<close> is one call of the HTTP client. A document is a
  sequence of bytes with the value \<open>json.loads\<close> gives on it (\<open>None\<close> when it raises \<open>ValueError\<close>).
  \<open>Replace_File\<close> carries the value whose text was written to the temporary file. The headers of a
  response have one entry per name, repeated fields joined as the HTTP client does.
\<close>

type_synonym path = "string \<times> string"

datatype document = Doc (doc_bytes: string) (doc_json: "pyval option")

record http_request =
  rq_method :: string
  rq_path :: string
  rq_params :: pydict
  rq_json :: "pyval option"
  rq_headers :: "(string \<times> string) list option"
  rq_timeout :: "pyfloat option"

record http_response =
  rs_status :: int
  rs_headers :: "(string \<times> string) list"
  rs_json :: "pyval option"
  rs_text :: "string option"
  rs_redirected :: bool

text \<open>What a host's callback selects for a check (\<open>MCPCheckInput\<close>), and a timestamp argument.\<close>

datatype timestamp_arg = Datetime_Arg string bool | Value_Arg pyval

record check_input =
  ci_action :: pyval
  ci_resource :: pyval
  ci_context :: "pydict option"
  ci_client_timestamp :: "timestamp_arg option"
  ci_estimated_cost_micros :: pyval
  ci_idempotency_key :: "string option"

datatype eff =
    Request http_request
  | Agent_Token_Supplier
  | Now_Iso
  | Now_Utc
  | Loop_Time
  | Sleep pyfloat
  | Resolve_Dir string
  | Exists path
  | Dir_Exists string
  | Is_Dir string
  | Mkdir_Parents string
  | Mkdir string
  | Make_Temp string
  | Write_Temp path string
  | Replace_File path path pyval
  | Sync_Dir string
  | Remove_Temp path
  | Read_File path
  | Open_Lock string
  | Flock string
  | Close_Lock string
  | Get_Addr_Info string
  | Open_Socket string pyfloat
  | Connect string
  | Tls_Wrap string
  | Provider_Request string string "(string \<times> string) list" string
  | Provider_Response
  | Close_Connection
  | Config_Dir
  | Expand_User string
  | Resolve_Strict string
  | Is_File string
  | Is_Executable string
  | File_Size string
  | Spawn_Native "string list"
  | Start_Communicate string
  | Native_Done
  | Await_Native
  | Stop_Native
  | Native_Returncode
  | Native_Stdout
  | Callback string pyval
  | Call_Next
  | Unix_Time
  | Fetch_Document string "(string \<times> string) list"
  | Webhook_Request string string string "(string \<times> string) list"
  | Verify_Receipt pyval pyval string
  | Read_Text string

datatype ans =
    A_Unit
  | A_Bool bool
  | A_Int int
  | A_Float pyfloat
  | A_Str string
  | A_Strs "string list"
  | A_Val pyval
  | A_Doc document
  | A_Response http_response
  | A_Provider int "(string \<times> string) list" string "string option"
  | A_Fetched int string bool document
  | A_Check_Input "check_input option"
  | A_Exn exn

text \<open>A JSON response without headers, for runs on concrete inputs.\<close>

definition sample_reply :: "int \<Rightarrow> pyval \<Rightarrow> ans" where
  "sample_reply status v =
     A_Response \<lparr>rs_status = status, rs_headers = [], rs_json = Some v, rs_text = None,
                 rs_redirected = False\<rparr>"

datatype 'a prog = Done "'a res" | Act eff "ans \<Rightarrow> 'a prog"

subsection \<open>Sequencing and handlers\<close>

primrec bindp :: "'a prog \<Rightarrow> ('a \<Rightarrow> 'b prog) \<Rightarrow> 'b prog" where
  "bindp (Done r) f = (case r of Inl e \<Rightarrow> Done (Inl e) | Inr x \<Rightarrow> f x)"
| "bindp (Act e k) f = Act e (\<lambda>a. bindp (k a) f)"

primrec attempt :: "'a prog \<Rightarrow> 'a res prog" where
  "attempt (Done r) = Done (Inr r)"
| "attempt (Act e k) = Act e (\<lambda>a. attempt (k a))"

abbreviation return :: "'a \<Rightarrow> 'a prog" where
  "return x \<equiv> Done (Inr x)"

abbreviation raise :: "exn \<Rightarrow> 'a prog" where
  "raise e \<equiv> Done (Inl e)"

text \<open>\<open>try: m except e: h e\<close>, where \<open>h\<close> re-raises what the clause does not name.\<close>

definition handle :: "'a prog \<Rightarrow> (exn \<Rightarrow> 'a prog) \<Rightarrow> 'a prog" where
  "handle m h = bindp (attempt m) (\<lambda>r. case r of Inl e \<Rightarrow> h e | Inr x \<Rightarrow> return x)"

text \<open>\<open>try: m finally: c\<close>.\<close>

definition finally_do :: "'a prog \<Rightarrow> unit prog \<Rightarrow> 'a prog" where
  "finally_do m c = bindp (attempt m) (\<lambda>r. bindp c (\<lambda>_. Done r))"

text \<open>
  One effect, decoded. An answer of the wrong kind cannot come from the environment; the
  program then stops.
\<close>

definition perform :: "eff \<Rightarrow> (ans \<Rightarrow> 'a res) \<Rightarrow> 'a prog" where
  "perform e dec = Act e (\<lambda>a. Done (case a of A_Exn x \<Rightarrow> Inl x | _ \<Rightarrow> dec a))"

definition ill_typed :: "'a res" where
  "ill_typed = Inl (OtherBaseException 0)"

fun as_unit :: "ans \<Rightarrow> unit res" where
  "as_unit A_Unit = Inr ()" | "as_unit _ = ill_typed"

fun as_bool :: "ans \<Rightarrow> bool res" where
  "as_bool (A_Bool b) = Inr b" | "as_bool _ = ill_typed"

fun as_int :: "ans \<Rightarrow> int res" where
  "as_int (A_Int i) = Inr i" | "as_int _ = ill_typed"

fun as_float :: "ans \<Rightarrow> pyfloat res" where
  "as_float (A_Float i) = Inr i" | "as_float _ = ill_typed"

fun as_str :: "ans \<Rightarrow> string res" where
  "as_str (A_Str s) = Inr s" | "as_str _ = ill_typed"

fun as_strs :: "ans \<Rightarrow> string list res" where
  "as_strs (A_Strs s) = Inr s" | "as_strs _ = ill_typed"

fun as_val :: "ans \<Rightarrow> pyval res" where
  "as_val (A_Val v) = Inr v" | "as_val _ = ill_typed"

fun as_doc :: "ans \<Rightarrow> document res" where
  "as_doc (A_Doc d) = Inr d" | "as_doc _ = ill_typed"

fun as_response :: "ans \<Rightarrow> http_response res" where
  "as_response (A_Response r) = Inr r" | "as_response _ = ill_typed"

fun as_provider :: "ans \<Rightarrow> (int \<times> (string \<times> string) list \<times> string \<times> string option) res" where
  "as_provider (A_Provider c h b t) = Inr (c, h, b, t)" | "as_provider _ = ill_typed"

fun as_fetched :: "ans \<Rightarrow> (int \<times> string \<times> bool \<times> document) res" where
  "as_fetched (A_Fetched c u same d) = Inr (c, u, same, d)" | "as_fetched _ = ill_typed"

fun as_check_input :: "ans \<Rightarrow> check_input option res" where
  "as_check_input (A_Check_Input i) = Inr i" | "as_check_input _ = ill_typed"

lemma decoder_iffs [simp]:
  "as_unit a = Inr u \<longleftrightarrow> a = A_Unit" "as_bool a = Inr b \<longleftrightarrow> a = A_Bool b"
  "as_int a = Inr i \<longleftrightarrow> a = A_Int i" "as_float a = Inr x \<longleftrightarrow> a = A_Float x"
  "as_str a = Inr s \<longleftrightarrow> a = A_Str s" "as_strs a = Inr ss \<longleftrightarrow> a = A_Strs ss"
  "as_val a = Inr v \<longleftrightarrow> a = A_Val v" "as_doc a = Inr d \<longleftrightarrow> a = A_Doc d"
  "as_response a = Inr r \<longleftrightarrow> a = A_Response r"
  "as_provider a = Inr p \<longleftrightarrow> a = A_Provider (fst p) (fst (snd p)) (fst (snd (snd p))) (snd (snd (snd p)))"
  "as_fetched a = Inr q \<longleftrightarrow> a = A_Fetched (fst q) (fst (snd q)) (fst (snd (snd q))) (snd (snd (snd q)))"
  "as_check_input a = Inr ci \<longleftrightarrow> a = A_Check_Input ci"
  by (cases a; auto simp: ill_typed_def)+

lemma bindp_assoc: "bindp (bindp m f) g = bindp m (\<lambda>x. bindp (f x) g)"
  by (induction m) (auto split: sum.splits)

lemma bindp_return [simp]: "bindp m return = m"
  by (induction m) (auto split: sum.splits)

subsection \<open>Runs\<close>

text \<open>
  A run against a list of answers: the effects performed with their answers, and the result
  once there are enough answers. A run that stops early is a crash at that point.
\<close>

primrec events :: "'a prog \<Rightarrow> ans list \<Rightarrow> (eff \<times> ans) list" where
  "events (Done r) as = []"
| "events (Act e k) as = (case as of [] \<Rightarrow> [] | a # as' \<Rightarrow> (e, a) # events (k a) as')"

primrec outcome :: "'a prog \<Rightarrow> ans list \<Rightarrow> 'a res option" where
  "outcome (Done r) as = Some r"
| "outcome (Act e k) as = (case as of [] \<Rightarrow> None | a # as' \<Rightarrow> outcome (k a) as')"

primrec leftover :: "'a prog \<Rightarrow> ans list \<Rightarrow> ans list" where
  "leftover (Done r) as = as"
| "leftover (Act e k) as = (case as of [] \<Rightarrow> [] | a # as' \<Rightarrow> leftover (k a) as')"

lemma outcome_bindp:
  "outcome (bindp m f) as =
     (case outcome m as of None \<Rightarrow> None | Some (Inl e) \<Rightarrow> Some (Inl e)
      | Some (Inr x) \<Rightarrow> outcome (f x) (leftover m as))"
  by (induction m arbitrary: as) (auto split: sum.splits list.splits option.splits)

lemma outcome_bindp_ok:
  "outcome (bindp m f) as = Some (Inr x) \<longleftrightarrow>
     (\<exists>y. outcome m as = Some (Inr y) \<and> outcome (f y) (leftover m as) = Some (Inr x))"
  by (auto simp: outcome_bindp split: option.splits sum.splits)

lemma outcome_Done_ok: "outcome (Done r) as = Some (Inr x) \<longleftrightarrow> r = Inr x"
  by simp

lemma outcome_perform_ok:
  "outcome (perform e dec) as = Some (Inr x) \<longleftrightarrow>
     (\<exists>a as'. as = a # as' \<and> (case a of A_Exn e \<Rightarrow> Inl e | _ \<Rightarrow> dec a) = Inr x)"
  by (cases as) (auto simp: perform_def)

lemma outcome_if_raise_ok:
  "outcome (if c then raise e else m) as = Some (Inr x) \<longleftrightarrow> \<not> c \<and> outcome m as = Some (Inr x)"
  by simp

text \<open>What a run that returned says of its steps.\<close>

lemmas outcome_ok = outcome_bindp_ok outcome_Done_ok outcome_perform_ok outcome_if_raise_ok

lemma events_bindp:
  "events (bindp m f) as =
     events m as @ (case outcome m as of Some (Inr x) \<Rightarrow> events (f x) (leftover m as) | _ \<Rightarrow> [])"
  by (induction m arbitrary: as) (auto split: sum.splits list.splits option.splits)

text \<open>A run that returned ran its second part on some of its answers.\<close>

lemma outcome_bindp_tail:
  "outcome (bindp m f) as = Some (Inr x) \<Longrightarrow>
     \<exists>y as'. outcome (f y) as' = Some (Inr x) \<and> set (events (f y) as') \<subseteq> set (events (bindp m f) as)"
  unfolding outcome_bindp_ok by (elim exE conjE, rule exI, rule exI) (auto simp: events_bindp)

lemma performed_ok:
  "outcome (perform e dec) as = Some (Inr x) \<Longrightarrow>
     \<exists>a as'. as = a # as' \<and> dec a = Inr x \<and> events (perform e dec) as = [(e, a)]"
  unfolding outcome_perform_ok
proof (elim exE conjE)
  fix a as' assume "as = a # as'" "(case a of A_Exn e \<Rightarrow> Inl e | _ \<Rightarrow> dec a) = Inr x"
  then show ?thesis by (cases a) (auto simp: perform_def)
qed

lemma outcome_attempt: "outcome (attempt m) as = map_option Inr (outcome m as)"
  by (induction m arbitrary: as) (auto split: list.splits)

lemma events_attempt [simp]: "events (attempt m) as = events m as"
  by (induction m arbitrary: as) (auto split: list.splits)

lemma leftover_attempt [simp]: "leftover (attempt m) as = leftover m as"
  by (induction m arbitrary: as) (auto split: list.splits)

text \<open>Every program ends: enough answers always give an outcome.\<close>

lemma outcome_total: "\<exists>as. outcome m (as @ bs) \<noteq> None"
proof (induction m arbitrary: bs)
  case (Act e k)
  from Act[of "k A_Unit" bs] obtain as where "outcome (k A_Unit) (as @ bs) \<noteq> None" by auto
  then have "outcome (Act e k) ((A_Unit # as) @ bs) \<noteq> None" by simp
  then show ?case by blast
qed auto

subsection \<open>Effect protocols\<close>

text \<open>
  A protocol tracks what a program has done in a ghost state: which effects are allowed and
  how an answered effect advances it. \<open>safe\<close> is the weakest precondition of a program: from
  this ghost state every effect it performs, whatever the answers, is allowed, and the
  postcondition holds of the final ghost state and the result. Effects the protocol does not
  look at are neutral.
\<close>

primrec safe :: "('g \<Rightarrow> eff \<Rightarrow> bool) \<Rightarrow> ('g \<Rightarrow> eff \<Rightarrow> ans \<Rightarrow> 'g) \<Rightarrow>
    'a prog \<Rightarrow> ('g \<Rightarrow> 'a res \<Rightarrow> bool) \<Rightarrow> 'g \<Rightarrow> bool" where
  "safe allowed adv (Done r) Q g = Q g r"
| "safe allowed adv (Act e k) Q g =
     (allowed g e \<and> (\<forall>a. safe allowed adv (k a) Q (adv g e a)))"

primrec uses_only :: "(eff \<Rightarrow> bool) \<Rightarrow> 'a prog \<Rightarrow> bool" where
  "uses_only N (Done r) = True"
| "uses_only N (Act e k) = (N e \<and> (\<forall>a. uses_only N (k a)))"

lemma uses_only_bindp [intro]:
  "uses_only N m \<Longrightarrow> (\<And>x. uses_only N (f x)) \<Longrightarrow> uses_only N (bindp m f)"
  by (induction m) (auto split: sum.splits)

lemma uses_only_attempt [simp]: "uses_only N (attempt m) = uses_only N m"
  by (induction m) auto

lemma uses_only_handle [intro]:
  "uses_only N m \<Longrightarrow> (\<And>e. uses_only N (h e)) \<Longrightarrow> uses_only N (handle m h)"
  unfolding handle_def by (rule uses_only_bindp) (auto split: sum.splits)

lemma uses_only_finally [intro]:
  "uses_only N m \<Longrightarrow> uses_only N c \<Longrightarrow> uses_only N (finally_do m c)"
  unfolding finally_do_def by (rule uses_only_bindp) auto

lemma uses_only_perform [simp]: "uses_only N (perform e dec) = N e"
  by (simp add: perform_def)

lemma uses_only_events: "uses_only N m \<Longrightarrow> (e, a) \<in> set (events m as) \<Longrightarrow> N e"
  by (induction m arbitrary: as) (auto split: list.splits)

lemma uses_only_mono: "uses_only N m \<Longrightarrow> (\<And>e. N e \<Longrightarrow> M e) \<Longrightarrow> uses_only M m"
  by (induction m) auto

locale effect_protocol =
  fixes allowed :: "'g \<Rightarrow> eff \<Rightarrow> bool"
    and adv :: "'g \<Rightarrow> eff \<Rightarrow> ans \<Rightarrow> 'g"
    and neutral :: "eff \<Rightarrow> bool"
  assumes neutral_allowed: "neutral e \<Longrightarrow> allowed g e"
    and neutral_adv: "neutral e \<Longrightarrow> adv g e a = g"
begin

abbreviation wp :: "'a prog \<Rightarrow> ('g \<Rightarrow> 'a res \<Rightarrow> bool) \<Rightarrow> 'g \<Rightarrow> bool" where
  "wp \<equiv> safe allowed adv"

lemma wp_mono: "wp m Q g \<Longrightarrow> (\<And>g r. Q g r \<Longrightarrow> Q' g r) \<Longrightarrow> wp m Q' g"
  by (induction m arbitrary: g) auto

lemma wp_conj: "wp m Q g \<Longrightarrow> wp m Q' g \<Longrightarrow> wp m (\<lambda>g r. Q g r \<and> Q' g r) g"
  by (induction m arbitrary: g) auto

lemma wp_bindp:
  "wp (bindp m f) Q g =
     wp m (\<lambda>g r. case r of Inl e \<Rightarrow> Q g (Inl e) | Inr x \<Rightarrow> wp (f x) Q g) g"
  by (induction m arbitrary: g) (auto split: sum.splits)

lemma wp_attempt: "wp (attempt m) Q g = wp m (\<lambda>g r. Q g (Inr r)) g"
  by (induction m arbitrary: g) auto

lemma wp_handle:
  "wp (handle m h) Q g =
     wp m (\<lambda>g r. case r of Inl e \<Rightarrow> wp (h e) Q g | Inr x \<Rightarrow> Q g (Inr x)) g"
  unfolding handle_def wp_bindp wp_attempt
  by (rule arg_cong[where f = "\<lambda>P. wp m P g"]) (auto simp: fun_eq_iff split: sum.splits)

lemma wp_finally:
  "wp (finally_do m c) Q g =
     wp m (\<lambda>g r. wp c (\<lambda>g r'. case r' of Inl e \<Rightarrow> Q g (Inl e) | Inr _ \<Rightarrow> Q g r) g) g"
  unfolding finally_do_def wp_bindp wp_attempt
  by (rule arg_cong[where f = "\<lambda>P. wp m P g"]) (auto simp: fun_eq_iff wp_bindp split: sum.splits)

lemma wp_perform:
  "wp (perform e dec) Q g =
     (allowed g e \<and>
      (\<forall>a. Q (adv g e a) (case a of A_Exn x \<Rightarrow> Inl x | _ \<Rightarrow> dec a)))"
  by (simp add: perform_def)

lemma wp_neutral: "uses_only neutral m \<Longrightarrow> (\<And>r. Q g r) \<Longrightarrow> wp m Q g"
  by (induction m) (auto simp: neutral_allowed neutral_adv)

lemma wp_neutral_bindp:
  "uses_only neutral m \<Longrightarrow> (\<And>e. Q g (Inl e)) \<Longrightarrow> (\<And>x. wp (f x) Q g) \<Longrightarrow> wp (bindp m f) Q g"
  unfolding wp_bindp by (erule wp_neutral) (simp split: sum.split)

text \<open>
  Introduction rules that walk a program: one per way of putting programs together. The
  failure of an effect is one goal, its decoded answer another.
\<close>

lemma wp_performI:
  "allowed g e \<Longrightarrow> (\<And>a x. Q (adv g e a) (Inl x)) \<Longrightarrow> (\<And>a y. dec a = Inr y \<Longrightarrow> Q (adv g e a) (Inr y)) \<Longrightarrow>
     wp (perform e dec) Q g"
  unfolding wp_perform by (auto split: ans.split; metis sum.exhaust)

lemma wp_bind_performI:
  "allowed g e \<Longrightarrow> (\<And>a x. Q (adv g e a) (Inl x)) \<Longrightarrow> (\<And>a y. dec a = Inr y \<Longrightarrow> wp (f y) Q (adv g e a)) \<Longrightarrow>
     wp (bindp (perform e dec) f) Q g"
  unfolding wp_bindp by (rule wp_performI) auto

lemma wp_bind_DoneI:
  "(\<And>e. r = Inl e \<Longrightarrow> Q g (Inl e)) \<Longrightarrow> (\<And>x. r = Inr x \<Longrightarrow> wp (f x) Q g) \<Longrightarrow> wp (bindp (Done r) f) Q g"
  by (simp split: sum.split)

lemma wp_ifI: "(c \<Longrightarrow> wp m Q g) \<Longrightarrow> (\<not> c \<Longrightarrow> wp m' Q g) \<Longrightarrow> wp (if c then m else m') Q g"
  by simp

lemma wp_finallyI:
  "wp m (\<lambda>g r. wp c (\<lambda>g r'. case r' of Inl e \<Rightarrow> Q g (Inl e) | Inr _ \<Rightarrow> Q g r) g) g \<Longrightarrow>
     wp (finally_do m c) Q g"
  by (simp only: wp_finally)

lemma wp_bindI:
  "wp m R g \<Longrightarrow> (\<And>g e. R g (Inl e) \<Longrightarrow> Q g (Inl e)) \<Longrightarrow> (\<And>g x. R g (Inr x) \<Longrightarrow> wp (f x) Q g) \<Longrightarrow>
     wp (bindp m f) Q g"
  unfolding wp_bindp by (erule wp_mono) (auto split: sum.split)

lemma wp_prodI: "(\<And>a b. p = (a, b) \<Longrightarrow> wp (f a b) Q g) \<Longrightarrow> wp (case p of (a, b) \<Rightarrow> f a b) Q g"
  by (cases p) simp

lemma wp_optionI:
  "(opt = None \<Longrightarrow> wp m Q g) \<Longrightarrow> (\<And>x. opt = Some x \<Longrightarrow> wp (f x) Q g) \<Longrightarrow>
     wp (case opt of None \<Rightarrow> m | Some x \<Rightarrow> f x) Q g"
  by (cases opt) simp_all

lemma wp_nestI:
  "wp m (\<lambda>g r. case r of Inl e \<Rightarrow> Q g (Inl e) | Inr x \<Rightarrow> wp (f x) Q g) g \<Longrightarrow> wp (bindp m f) Q g"
  by (simp only: wp_bindp)

lemma wp_handleI:
  "wp m (\<lambda>g r. case r of Inl e \<Rightarrow> wp (h e) Q g | Inr x \<Rightarrow> Q g (Inr x)) g \<Longrightarrow> wp (handle m h) Q g"
  by (simp only: wp_handle)

lemma wp_raiseI: "Q g (Inl e) \<Longrightarrow> wp (raise e) Q g"
  by simp

lemma wp_returnI: "Q g (Inr x) \<Longrightarrow> wp (return x) Q g"
  by simp

lemma wp_DoneI:
  "(\<And>e. r = Inl e \<Longrightarrow> Q g (Inl e)) \<Longrightarrow> (\<And>x. r = Inr x \<Longrightarrow> Q g (Inr x)) \<Longrightarrow> wp (Done r) Q g"
  by (cases r) simp_all

lemmas wp_steps = wp_bind_performI wp_performI wp_bind_DoneI wp_ifI wp_finallyI wp_prodI
  wp_optionI wp_raiseI wp_returnI wp_DoneI wp_handleI

lemmas wp_simps = wp_bindp wp_attempt wp_handle wp_finally wp_perform

end

subsection \<open>What a run does\<close>

text \<open>
  \<open>advance adv g es\<close> is the ghost state after the events \<open>es\<close>. A safe program performs only effects
  allowed in the state its earlier events lead to, and ends in a state with the postcondition.
\<close>

definition advance :: "('g \<Rightarrow> eff \<Rightarrow> ans \<Rightarrow> 'g) \<Rightarrow> 'g \<Rightarrow> (eff \<times> ans) list \<Rightarrow> 'g" where
  "advance adv = foldl (\<lambda>g (e, a). adv g e a)"

lemma advance_simps [simp]:
  "advance adv g [] = g" "advance adv g ((e, a) # es) = advance adv (adv g e a) es"
  "advance adv g (es @ es') = advance adv (advance adv g es) es'"
  by (simp_all add: advance_def)

lemma safe_event:
  "safe P adv m Q g \<Longrightarrow> events m as = es @ (e, a) # es' \<Longrightarrow> P (advance adv g es) e"
proof (induction m arbitrary: g as es)
  case (Act e' k)
  then obtain x as' where as: "as = x # as'" by (cases as) auto
  show ?case
  proof (cases es)
    case Nil
    with Act.prems as show ?thesis by auto
  next
    case (Cons y es1)
    with Act.prems as have "events (k x) as' = es1 @ (e, a) # es'" "y = (e', x)" by auto
    with Act.IH[of "k x" "adv g e' x" as' es1] Act.prems(1) Cons show ?thesis by simp
  qed
qed auto

lemma safe_outcome:
  "safe P adv m Q g \<Longrightarrow> outcome m as = Some r \<Longrightarrow> Q (advance adv g (events m as)) r"
  by (induction m arbitrary: g as) (auto split: list.splits)

text \<open>
  With the history of answered effects as the ghost state, \<open>safe P snoc m Q []\<close> says that in every
  run of \<open>m\<close>, whatever the answers, each effect satisfies \<open>P\<close> of the events before it.
\<close>

definition snoc :: "(eff \<times> ans) list \<Rightarrow> eff \<Rightarrow> ans \<Rightarrow> (eff \<times> ans) list" where
  "snoc h e a = h @ [(e, a)]"

interpretation history: effect_protocol P snoc "\<lambda>_. False" for P
  by unfold_locales simp_all

lemma snoc_set [simp]: "set (snoc h e a) = insert (e, a) (set h)"
  by (auto simp: snoc_def)

lemma advance_snoc [simp]: "advance snoc h es = h @ es"
  by (induction es arbitrary: h) (auto simp: snoc_def)

lemma safe_snoc_event:
  "safe P snoc m Q h \<Longrightarrow> events m as = es @ (e, a) # es' \<Longrightarrow> P (h @ es) e"
  using safe_event[of P snoc m Q h as es e a es'] by simp

lemma safe_snoc_outcome:
  "safe P snoc m Q h \<Longrightarrow> outcome m as = Some r \<Longrightarrow> Q (h @ events m as) r"
  using safe_outcome[of P snoc m Q h as r] by simp

lemma history_grows: "safe (\<lambda>_ _. True) snoc m (\<lambda>h' _. set h \<subseteq> set h') h"
proof (induction m arbitrary: h)
  case (Act e k)
  have "safe (\<lambda>_ _. True) snoc (k a) (\<lambda>h' _. set h \<subseteq> set h') (snoc h e a)" for a
    by (rule history.wp_mono[OF Act]) auto
  then show ?case by simp
qed simp

end
