(* ===== verification/Sdk_Types.thy ===== *)
theory Sdk_Types
  imports Sdk_Effects
begin

text \<open>
  The data of \<open>allowly/types.py\<close>: literal types as datatypes with the strings they stand for
  on the wire, dataclasses as records. A field the SDK stores without looking at its type
  is a \<open>pyval\<close>.
\<close>

subsection \<open>Literal types\<close>

datatype decision = Allow | Deny | Confirm | Escalate

fun decision_str :: "decision \<Rightarrow> string" where
  "decision_str Allow = ''allow''"
| "decision_str Deny = ''deny''"
| "decision_str Confirm = ''confirm''"
| "decision_str Escalate = ''escalate''"

definition decision_of :: "string \<Rightarrow> decision option" where
  "decision_of s =
     (if s = ''allow'' then Some Allow else if s = ''deny'' then Some Deny
      else if s = ''confirm'' then Some Confirm
      else if s = ''escalate'' then Some Escalate else None)"

datatype fallback_mode = Fail_Open | Fail_Closed

datatype execution_status =
    Exec_Approved | Exec_Denied | Exec_Confirmation_Required | Exec_Escalation_Required
  | Exec_Waiting_For_Review | Exec_Succeeded | Exec_Failed | Exec_Unknown

fun execution_status_str :: "execution_status \<Rightarrow> string" where
  "execution_status_str Exec_Approved = ''approved''"
| "execution_status_str Exec_Denied = ''denied''"
| "execution_status_str Exec_Confirmation_Required = ''confirmation_required''"
| "execution_status_str Exec_Escalation_Required = ''escalation_required''"
| "execution_status_str Exec_Waiting_For_Review = ''waiting_for_review''"
| "execution_status_str Exec_Succeeded = ''succeeded''"
| "execution_status_str Exec_Failed = ''failed''"
| "execution_status_str Exec_Unknown = ''unknown''"

definition execution_status_of :: "string \<Rightarrow> execution_status option" where
  "execution_status_of s =
     (if s = ''approved'' then Some Exec_Approved
      else if s = ''denied'' then Some Exec_Denied
      else if s = ''confirmation_required'' then Some Exec_Confirmation_Required
      else if s = ''escalation_required'' then Some Exec_Escalation_Required
      else if s = ''waiting_for_review'' then Some Exec_Waiting_For_Review
      else if s = ''succeeded'' then Some Exec_Succeeded
      else if s = ''failed'' then Some Exec_Failed
      else if s = ''unknown'' then Some Exec_Unknown else None)"

interpretation decision: wire_literal decision_str decision_of
proof
  show "decision_of s = Some d \<longleftrightarrow> s = decision_str d" for s d
    by (cases d) (auto simp: decision_of_def split: if_splits)
qed

interpretation execution_status: wire_literal execution_status_str execution_status_of
proof
  show "execution_status_of s = Some d \<longleftrightarrow> s = execution_status_str d" for s d
    by (cases d) (auto simp: execution_status_of_def split: if_splits)
qed

lemmas literal_simps [simp] = decision.of_str_of decision.str_of_inject execution_status.of_str_of
  execution_status.str_of_inject

subsection \<open>Receipts\<close>

record pending_receipt =
  rcp_receipt_id :: string
  rcp_ready_at_estimate :: "string option"
  rcp_url :: string

datatype receipt_envelope = Env_Pending pending_receipt | Env_Signed pydict

subsection \<open>Budget, escalation, evidence\<close>

record budget_info =
  bi_limit_micros :: int
  bi_spent_micros :: int
  bi_estimated_cost_micros :: int
  bi_spent_after_micros :: "int option"

record budget_settlement =
  bs_check_receipt_id :: string
  bs_authorization_id :: string
  bs_estimated_cost_micros :: int
  bs_actual_cost_micros :: int
  bs_delta_micros :: int
  bs_spent_before_micros :: int
  bs_spent_after_micros :: int
  bs_receipt :: receipt_envelope

record escalation_info =
  ei_escalation_id :: string
  ei_status :: string
  ei_escalation_to :: "string option"
  ei_expires_at :: "string option"

record execution_downstream =
  ed_http_status :: "int option"
  ed_response_fingerprint :: "string option"
  ed_response_fingerprint_scope :: string
  ed_result :: pydict

record outcome_evidence =
  oe_record :: pydict
  oe_record_sha256 :: string
  oe_receipt :: "receipt_envelope option"
  oe_evidence_unavailable :: bool

subsection \<open>Executions\<close>

record header_commitment =
  hc_name :: string
  hc_value_sha256 :: string

record request_descriptor =
  rd_operation_id :: string
  rd_authorization_id :: string
  rd_destination_id :: string
  rd_action :: string
  rd_method :: string
  rd_origin :: string
  rd_path :: string
  rd_query :: string
  rd_headers :: "header_commitment list"
  rd_body_sha256 :: string
  rd_body_size :: int
  rd_content_type :: "string option"

datatype review_kind = Review_Confirm | Review_Escalate

record execution_review =
  rv_kind :: review_kind
  rv_id :: string
  rv_source_receipt_id :: string
  rv_expires_at :: string

record execution_response =
  er_operation_id :: string
  er_status :: execution_status
  er_decision :: decision
  er_reason :: string
  er_destination_id :: string
  er_action :: string
  er_request_fingerprint :: string
  er_request_descriptor :: request_descriptor
  er_decision_receipt :: receipt_envelope
  er_downstream :: "execution_downstream option"
  er_outcome_evidence :: "outcome_evidence option"
  er_confirm_nonce :: "string option"
  er_confirm_expires_at :: "string option"
  er_confirm_prompt_hint :: "string option"
  er_escalation_id :: "string option"
  er_escalation_expires_at :: "string option"
  er_escalation_to :: "string option"
  er_escalation :: "escalation_info option"
  er_effective_evidence_mode :: "string option"
  er_approval :: pyval
  er_approval_sha256 :: "string option"
  er_approval_expires_at :: "string option"
  er_decision_state :: "string option"
  er_target_state :: "string option"
  er_evidence_state :: "string option"
  er_witness_session :: pyval
  er_confirmation_id :: "string option"
  er_review :: "execution_review option"

subsection \<open>Policy evaluation\<close>

record provisional_policy_result =
  pp_decision :: decision
  pp_target :: "string option"
  pp_matched_rule_id :: "string option"
  pp_evaluated_fields :: pydict

record policy_eval_info =
  pe_input_sha256 :: string
  pe_result :: provisional_policy_result

subsection \<open>Check results\<close>

record check_result_base =
  cr_reason :: string
  cr_receipt :: "receipt_envelope option"
  cr_is_fallback :: bool
  cr_fallback_mode :: "fallback_mode option"
  cr_budget :: "budget_info option"
  cr_escalation :: "escalation_info option"
  cr_policy_eval :: "policy_eval_info option"

record confirm_details =
  cd_nonce :: string
  cd_expires_at :: string
  cd_prompt_hint :: string
  cd_confirmation_id :: "string option"

record escalate_details =
  xd_escalation_id :: string
  xd_escalation_to :: "string option"
  xd_escalation_expires_at :: "string option"

datatype action_check_result =
    Result_Allow check_result_base
  | Result_Deny check_result_base pyval
  | Result_Confirm check_result_base confirm_details
  | Result_Escalate check_result_base escalate_details

fun result_decision :: "action_check_result \<Rightarrow> decision" where
  "result_decision (Result_Allow _) = Allow"
| "result_decision (Result_Deny _ _) = Deny"
| "result_decision (Result_Confirm _ _) = Confirm"
| "result_decision (Result_Escalate _ _) = Escalate"

fun result_base :: "action_check_result \<Rightarrow> check_result_base" where
  "result_base (Result_Allow b) = b"
| "result_base (Result_Deny b _) = b"
| "result_base (Result_Confirm b _) = b"
| "result_base (Result_Escalate b _) = b"

record check_response =
  ck_authorization_id :: string
  ck_user_id :: "string option"
  ck_agent_id :: "string option"
  ck_authorization_expires_at :: "string option"
  ck_engine_version :: string
  ck_results :: "(string \<times> action_check_result) list"
  ck_billing_warning :: "string option"

end
