(* ===== verification/Wire_Readers.thy ===== *)
theory Wire_Readers
  imports Sdk_Types
begin

text \<open>
  The readers of \<open>allowly/client.py\<close>: each takes a decoded JSON object and a key and returns
  the value with its type checked, or raises \<open>AllowlyProtocolError\<close>. They share one contract,
  the locale \<open>field_reader\<close>: a reader succeeds on exactly the encodings of its values, so
  what it returns determines what was on the wire.
\<close>

subsection \<open>Readers\<close>

definition require_dict :: "pyval \<Rightarrow> string \<Rightarrow> pydict res" where
  "require_dict v name =
     (case v of PDict d \<Rightarrow> Inr d | _ \<Rightarrow> Inl (ProtocolError (name @ '' must be an object'')))"

definition require_str :: "pydict \<Rightarrow> string \<Rightarrow> string res" where
  "require_str raw key =
     (case dget raw key of PStr s \<Rightarrow> Inr s
      | _ \<Rightarrow> Inl (ProtocolError (key @ '' must be a string'')))"

definition require_int :: "pydict \<Rightarrow> string \<Rightarrow> int res" where
  \<comment> \<open>a boolean is an \<open>int\<close> for \<open>isinstance\<close> and is refused\<close>
  "require_int raw key =
     (case dget raw key of PInt i \<Rightarrow> Inr i
      | _ \<Rightarrow> Inl (ProtocolError (key @ '' must be an integer'')))"

fun as_string :: "pyval \<Rightarrow> string option" where
  "as_string (PStr s) = Some s"
| "as_string _ = None"

definition require_str_list :: "pydict \<Rightarrow> string \<Rightarrow> string list res" where
  "require_str_list raw key =
     (case dget raw key of
        PList xs \<Rightarrow>
          (if list_all (\<lambda>x. as_string x \<noteq> None) xs
           then Inr (map (\<lambda>x. the (as_string x)) xs)
           else Inl (ProtocolError (key @ '' must be an array of strings'')))
      | _ \<Rightarrow> Inl (ProtocolError (key @ '' must be an array of strings'')))"

definition optional_str :: "pydict \<Rightarrow> string \<Rightarrow> string option res" where
  "optional_str raw key =
     (case dget raw key of PNone \<Rightarrow> Inr None | PStr s \<Rightarrow> Inr (Some s)
      | _ \<Rightarrow> Inl (ProtocolError (key @ '' must be a string or null'')))"

text \<open>\<open>isinstance(v, list)\<close>, with the caller's message.\<close>

definition as_list :: "exn \<Rightarrow> pyval \<Rightarrow> pyval list res" where
  "as_list e v = (case v of PList xs \<Rightarrow> Inr xs | _ \<Rightarrow> Inl e)"

lemma as_list_iff [simp]: "as_list e v = Inr xs \<longleftrightarrow> v = PList xs"
  by (cases v) (auto simp: as_list_def)

definition require_null :: "pydict \<Rightarrow> string \<Rightarrow> unit res" where
  "require_null raw key =
     (if \<not> dhas raw key \<or> dget raw key \<noteq> PNone
      then Inl (ProtocolError (key @ '' must be null'')) else Inr ())"

subsection \<open>Timestamps\<close>

definition ends_with :: "string \<Rightarrow> string \<Rightarrow> bool" where
  "ends_with suf s \<longleftrightarrow> starts_with (rev suf) (rev s)"

definition utc_suffix :: "string \<Rightarrow> string" where
  \<comment> \<open>\<open>value[:-1] + "+00:00" if value.endswith("Z") else value\<close>\<close>
  "utc_suffix s = (if ends_with ''Z'' s then butlast s @ ''+00:00'' else s)"

fun client_timestamp :: "sdk_env \<Rightarrow> timestamp_arg \<Rightarrow> string res" where
  "client_timestamp E (Datetime_Arg rendered aware) =
     (if \<not> aware then Inl (ValueError ''client_timestamp must include a timezone'')
      else if ends_with ''+00:00'' rendered
        then Inr (take (length rendered - 6) rendered @ ''Z'')
      else Inr rendered)"
| "client_timestamp E (Value_Arg v) =
     (case v of
        PStr s \<Rightarrow>
          (if s = [] then Inl (ValueError ''client_timestamp must be a non-empty timezone-aware timestamp'')
           else case fromisoformat E (utc_suffix s) of
             None \<Rightarrow> Inl (ValueError ''client_timestamp must be a valid timezone-aware timestamp'')
           | Some (t, aware) \<Rightarrow>
               (if \<not> aware then Inl (ValueError ''client_timestamp must include a timezone'')
                else Inr s))
      | _ \<Rightarrow> Inl (ValueError ''client_timestamp must be a non-empty timezone-aware timestamp''))"

text \<open>
  The regular expression of the status and webhook timestamps,
  \<^verbatim>\<open>\d{4}-\d{2}-\d{2}T\d{2}:\d{2}:\d{2}(?:\.\d+)?(?:Z|[+-](\d{2}):(\d{2}))\<close>, as a matcher:
  \<open>None\<close> for no match, otherwise the offset's hour and minute when there is one.
\<close>

fun matches_shape :: "string \<Rightarrow> string \<Rightarrow> bool" where
  \<comment> \<open>\<open>0\<close> in the shape stands for a digit\<close>
  "matches_shape [] [] = True"
| "matches_shape (p # ps) (c # cs) =
     ((if p = CHR ''0'' then is_digit c else c = p) \<and> matches_shape ps cs)"
| "matches_shape _ _ = False"

definition drop_fraction :: "string \<Rightarrow> string option" where
  "drop_fraction s =
     (case s of
        c # r \<Rightarrow>
          if c = CHR ''.'' then
            (if takeWhile is_digit r = [] then None else Some (dropWhile is_digit r))
          else Some s
      | [] \<Rightarrow> Some s)"

definition two_digits :: "string \<Rightarrow> nat" where
  "two_digits s = (case s of [a, b] \<Rightarrow> 10 * (ord a - 48) + (ord b - 48) | _ \<Rightarrow> 0)"

definition match_zoned :: "string \<Rightarrow> (nat \<times> nat) option option" where
  "match_zoned s =
     (if \<not> matches_shape ''0000-00-00T00:00:00'' (take 19 s) then None
      else case drop_fraction (drop 19 s) of
        None \<Rightarrow> None
      | Some z \<Rightarrow>
          (if z = ''Z'' then Some None
           else if matches_shape ''+00:00'' z \<or> matches_shape ''-00:00'' z
             then Some (Some (two_digits (take 2 (drop 1 z)), two_digits (drop 4 z)))
           else None))"

definition zoned :: "string \<Rightarrow> bool" where
  \<comment> \<open>the regular expression matches and the offset's hour and minute are in range\<close>
  "zoned s =
     (case match_zoned s of
        None \<Rightarrow> False
      | Some None \<Rightarrow> True
      | Some (Some (h, m)) \<Rightarrow> h \<le> 23 \<and> m \<le> 59)"

subsection \<open>The contract of a reader\<close>

locale field_reader =
  fixes read :: "pydict \<Rightarrow> string \<Rightarrow> 'a res"
    and encode :: "'a \<Rightarrow> pyval"
  assumes read_iff: "read d k = Inr x \<longleftrightarrow> dget d k = encode x"
    and read_raises: "read d k = Inl e \<Longrightarrow> \<exists>m. e = ProtocolError m"
begin

lemma read_put: "read (put_item k (encode x) d) k = Inr x"
  by (simp add: read_iff)

lemma read_frame: "k' \<noteq> k \<Longrightarrow> read (put_item k' v d) k = Inr x \<longleftrightarrow> read d k = Inr x"
  by (simp add: read_iff)

lemma encode_inject: "encode x = encode y \<Longrightarrow> x = y"
proof -
  assume "encode x = encode y"
  then have "read (put_item k (encode x) d) k = Inr y" for k d
    by (simp only: read_put)
  then show "x = y" using read_put[of _ x] by (metis sum.inject(2))
qed

lemma same_field_same_value:
  "read d k = Inr x \<Longrightarrow> read d' k = Inr y \<Longrightarrow> dget d k = dget d' k \<Longrightarrow> x = y"
  using encode_inject by (simp add: read_iff)

end

interpretation str_field: field_reader require_str PStr
  by unfold_locales (auto simp: require_str_def split: pyval.splits)

interpretation int_field: field_reader require_int PInt
  by unfold_locales (auto simp: require_int_def split: pyval.splits)

interpretation opt_str_field: field_reader optional_str opt_str
proof
  show "optional_str d k = Inr x \<longleftrightarrow> dget d k = opt_str x" for d k x
    by (cases x) (auto simp: optional_str_def split: pyval.splits)
qed (auto simp: optional_str_def split: pyval.splits)

lemma as_string_eq_Some: "as_string v = Some s \<longleftrightarrow> v = PStr s"
  by (cases v) auto

lemma map_PStr_iff:
  "list_all (\<lambda>x. as_string x \<noteq> None) xs \<and> map (\<lambda>x. the (as_string x)) xs = ss \<longleftrightarrow> xs = map PStr ss"
proof (induction xs arbitrary: ss)
  case (Cons x xs)
  then show ?case by (cases ss) (force simp: as_string_eq_Some)+
qed auto

interpretation str_list_field: field_reader require_str_list str_list
proof
  show "require_str_list d k = Inr x \<longleftrightarrow> dget d k = str_list x" for d k x
    using map_PStr_iff[of _ x] by (auto simp: require_str_list_def str_list_def split: pyval.splits)
qed (auto simp: require_str_list_def split: pyval.splits if_splits)

lemmas reader_iffs = str_field.read_iff int_field.read_iff opt_str_field.read_iff
  str_list_field.read_iff

lemma require_dict_iff [simp]: "require_dict v name = Inr d \<longleftrightarrow> v = PDict d"
  by (auto simp: require_dict_def split: pyval.splits)

lemma require_dict_PDict [simp]: "require_dict (PDict d) name = Inr d"
  by simp

end
