(* ===== verification/Execution_Wire.thy ===== *)
theory Execution_Wire
  imports Wire_Readers
begin

text \<open>
  The wire contract of an execution: \<open>_parse_receipt_envelope\<close>, \<open>_parse_outcome_evidence\<close>,
  \<open>_parse_escalation_info\<close> and \<open>_parse_execution_response\<close> of \<open>allowly/client.py\<close>, and the
  \<open>dataclasses.asdict\<close> of their results, which is what the journal stores. The main fact is
  that a stored response parses back to itself.
\<close>

subsection \<open>Receipt envelopes\<close>

definition parse_pending_envelope :: "pyval \<Rightarrow> pending_receipt res" where
  "parse_pending_envelope v =
     bindr (require_dict v ''pending receipt envelope'') (\<lambda>raw.
     if \<not> py_eq (dget raw ''status'') (PStr ''pending'')
     then Inl (ProtocolError (''receipt status must be '' @ repr_str ''pending''))
     else
       bindr (require_str raw ''receipt_id'') (\<lambda>receipt_id.
       bindr (optional_str raw ''ready_at_estimate'') (\<lambda>ready.
       bindr (require_str raw ''url'') (\<lambda>url.
       Inr \<lparr>rcp_receipt_id = receipt_id, rcp_ready_at_estimate = ready, rcp_url = url\<rparr>))))"

definition parse_receipt_envelope :: "sdk_env \<Rightarrow> pyval \<Rightarrow> receipt_envelope res" where
  "parse_receipt_envelope E v =
     bindr (require_dict v ''receipt envelope'') (\<lambda>raw.
     if py_eq (dget raw ''status'') (PStr ''pending'') then
       bindr (parse_pending_envelope (PDict raw)) (\<lambda>p. Inr (Env_Pending p))
     else if py_eq (dget raw ''status'') (PStr ''signed'') then
       bindr (require_dict (dget raw ''receipt'') ''signed receipt'') (\<lambda>receipt.
       bindr (map_exn (verification_to_protocol ''invalid signed receipt: '')
                (decode_receipt E (PDict receipt))) (\<lambda>_. Inr (Env_Signed receipt)))
     else Inl (ProtocolError
       (''receipt status must be '' @ repr_str ''pending'' @ '' or '' @ repr_str ''signed'')))"

subsection \<open>Nested objects\<close>

definition parse_escalation_info :: "pyval \<Rightarrow> escalation_info option res" where
  "parse_escalation_info v =
     (if v = PNone then Inr None
      else
        bindr (require_dict v ''escalation'') (\<lambda>raw.
        bindr (require_str raw ''escalation_id'') (\<lambda>i.
        bindr (require_str raw ''status'') (\<lambda>s.
        bindr (optional_str raw ''escalation_to'') (\<lambda>t.
        bindr (optional_str raw ''expires_at'') (\<lambda>x.
        Inr (Some \<lparr>ei_escalation_id = i, ei_status = s, ei_escalation_to = t,
                   ei_expires_at = x\<rparr>)))))))"

definition parse_outcome_evidence :: "sdk_env \<Rightarrow> pyval \<Rightarrow> outcome_evidence res" where
  "parse_outcome_evidence E v =
     bindr (require_dict v ''outcome evidence'') (\<lambda>body.
     bindr (require_str body ''profile'') (\<lambda>profile.
     if profile \<noteq> ''allowly.seal.jcs-sha256.v1''
     then Inl (ProtocolError (''invalid outcome evidence profile: '' @ repr_str profile))
     else
       let receipt_raw = dget body ''receipt''; evidence_error = dget body ''evidence_error'' in
       if \<not> hashable evidence_error then Inl (TypeError ''unhashable type'')
       else if \<not> (py_eq evidence_error PNone \<or> py_eq evidence_error (PStr ''unavailable''))
       then Inl (ProtocolError ''invalid outcome evidence error'')
       else
         bindr (require_dict (dget body ''record'') ''outcome evidence record'') (\<lambda>record.
         bindr (require_str body ''record_sha256'') (\<lambda>sha.
         bindr (if receipt_raw = PNone then Inr None
                else bindr (parse_receipt_envelope E receipt_raw) (\<lambda>e. Inr (Some e))) (\<lambda>receipt.
         Inr \<lparr>oe_record = record, oe_record_sha256 = sha, oe_receipt = receipt,
              oe_evidence_unavailable = (evidence_error \<noteq> PNone)\<rparr>)))))"

fun review_kind_str :: "review_kind \<Rightarrow> string" where
  "review_kind_str Review_Confirm = ''confirm''"
| "review_kind_str Review_Escalate = ''escalate''"

definition review_kind_of :: "string \<Rightarrow> review_kind option" where
  "review_kind_of s =
     (if s = ''confirm'' then Some Review_Confirm
      else if s = ''escalate'' then Some Review_Escalate else None)"

fun review_prefix :: "review_kind \<Rightarrow> string" where
  "review_prefix Review_Confirm = ''cnf_''"
| "review_prefix Review_Escalate = ''esc_''"

definition parse_execution_review :: "pyval \<Rightarrow> execution_review option res" where
  "parse_execution_review v =
     (if v = PNone then Inr None
      else
        bindr (require_dict v ''execution review'') (\<lambda>body.
        bindr (require_str body ''kind'') (\<lambda>kind_str.
        case review_kind_of kind_str of
          None \<Rightarrow> Inl (ProtocolError ''invalid execution review kind'')
        | Some kind \<Rightarrow>
            bindr (require_str body ''id'') (\<lambda>i.
            bindr (require_str body ''source_receipt_id'') (\<lambda>source.
            bindr (require_str body ''expires_at'') (\<lambda>x.
            if \<not> starts_with (review_prefix kind) i \<or> source = []
            then Inl (ProtocolError ''invalid execution review binding'')
            else Inr (Some \<lparr>rv_kind = kind, rv_id = i, rv_source_receipt_id = source,
                            rv_expires_at = x\<rparr>)))))))"

text \<open>
  A waiting execution must carry the review it waits for: the decision is the review's kind,
  the review comes from this decision's receipt, and nothing is approved or sent.
\<close>

definition envelope_receipt_id :: "sdk_env \<Rightarrow> receipt_envelope \<Rightarrow> pyval res" where
  "envelope_receipt_id E env =
     (case env of
        Env_Pending p \<Rightarrow> Inr (PStr (rcp_receipt_id p))
      | Env_Signed receipt \<Rightarrow>
          bindr (decode_receipt E (PDict receipt)) (\<lambda>claims. Inr (dget claims ''receipt_id'')))"

definition check_waiting_review ::
  "sdk_env \<Rightarrow> pydict \<Rightarrow> decision \<Rightarrow> execution_review option \<Rightarrow> unit res" where
  "check_waiting_review E body decision review =
     bindr (parse_receipt_envelope E (dget body ''decision_receipt'')) (\<lambda>env.
     bindr (envelope_receipt_id E env) (\<lambda>receipt_id.
     case review of
       None \<Rightarrow> Inl (ProtocolError ''waiting execution has an invalid review binding'')
     | Some rv \<Rightarrow>
         (if decision_str decision \<noteq> review_kind_str (rv_kind rv)
             \<or> \<not> py_eq (PStr (rv_source_receipt_id rv)) receipt_id
             \<or> dget body ''approval'' \<noteq> PNone \<or> dget body ''approval_sha256'' \<noteq> PNone
             \<or> dget body ''downstream'' \<noteq> PNone
             \<or> \<not> py_eq (dget body ''decision_state'') (PStr ''not_allowed'')
             \<or> \<not> py_eq (dget body ''target_state'') (PStr ''not_started'')
             \<or> \<not> py_eq (dget body ''evidence_state'') (PStr ''pending'')
          then Inl (ProtocolError ''waiting execution has an invalid review binding'')
          else Inr ())))"

definition parse_execution_downstream :: "pyval \<Rightarrow> execution_downstream option res" where
  "parse_execution_downstream v =
     (if v = PNone then Inr None
      else
        bindr (require_dict v ''execution downstream'') (\<lambda>body.
        bindr (require_str body ''source'') (\<lambda>source.
        if source \<noteq> ''customer_runtime''
        then Inl (ProtocolError (''invalid execution downstream source: '' @ repr_str source))
        else
          bindr (case dget body ''http_status'' of PNone \<Rightarrow> Inr None | PInt i \<Rightarrow> Inr (Some i)
                 | _ \<Rightarrow> Inl (ProtocolError
                     ''execution downstream http_status must be an integer or null'')) (\<lambda>http_status.
          bindr (case dget body ''response_fingerprint'' of
                   PNone \<Rightarrow> Inr None | PStr s \<Rightarrow> Inr (Some s)
                 | _ \<Rightarrow> Inl (ProtocolError
                     ''execution downstream response_fingerprint must be a string or null'')) (\<lambda>fp.
          bindr (require_str body ''response_fingerprint_scope'') (\<lambda>scope.
          if scope \<notin> {''complete'', ''unavailable''}
          then Inl (ProtocolError
            (''invalid execution downstream response_fingerprint_scope: '' @ repr_str scope))
          else
            bindr (require_dict (dget body ''result'') ''execution downstream result'') (\<lambda>result.
            bindr (require_str body ''business_completion'') (\<lambda>completion.
            if completion \<noteq> ''not_verified''
            then Inl (ProtocolError
              (''invalid execution downstream business_completion: '' @ repr_str completion))
            else Inr (Some \<lparr>ed_http_status = http_status, ed_response_fingerprint = fp,
                            ed_response_fingerprint_scope = scope, ed_result = result\<rparr>)))))))))"

definition parse_header_commitment :: "pyval \<Rightarrow> header_commitment res" where
  "parse_header_commitment v =
     bindr (require_dict v ''execution request header'') (\<lambda>h.
     bindr (require_str h ''name'') (\<lambda>n.
     bindr (require_str h ''value_sha256'') (\<lambda>s.
     Inr \<lparr>hc_name = n, hc_value_sha256 = s\<rparr>)))"

definition http_methods :: "string set" where
  "http_methods = {''GET'', ''POST'', ''PUT'', ''PATCH'', ''DELETE''}"

definition parse_request_descriptor :: "pyval \<Rightarrow> request_descriptor res" where
  "parse_request_descriptor v =
     bindr (require_dict v ''execution request descriptor'') (\<lambda>body.
     bindr (require_str body ''method'') (\<lambda>method.
     if method \<notin> http_methods
     then Inl (ProtocolError (''invalid execution request descriptor method: '' @ repr_str method))
     else
       bindr (as_list (ProtocolError ''execution request descriptor headers must be an array'')
                (dget body ''headers'')) (\<lambda>raw_headers.
           bindr (mapr parse_header_commitment raw_headers) (\<lambda>headers.
           bindr (require_str body ''operation_id'') (\<lambda>operation_id.
           bindr (require_str body ''authorization_id'') (\<lambda>authorization_id.
           bindr (require_str body ''destination_id'') (\<lambda>destination_id.
           bindr (require_str body ''action'') (\<lambda>action.
           bindr (require_str body ''origin'') (\<lambda>origin.
           bindr (require_str body ''path'') (\<lambda>path.
           bindr (require_str body ''query'') (\<lambda>query.
           bindr (require_str body ''body_sha256'') (\<lambda>body_sha256.
           bindr (require_int body ''body_size'') (\<lambda>body_size.
           bindr (optional_str body ''content_type'') (\<lambda>content_type.
           Inr \<lparr>rd_operation_id = operation_id, rd_authorization_id = authorization_id,
                rd_destination_id = destination_id, rd_action = action, rd_method = method,
                rd_origin = origin, rd_path = path, rd_query = query, rd_headers = headers,
                rd_body_sha256 = body_sha256, rd_body_size = body_size,
                rd_content_type = content_type\<rparr>))))))))))))))"

subsection \<open>The execution response\<close>

definition parse_execution_response :: "sdk_env \<Rightarrow> pyval \<Rightarrow> execution_response res" where
  "parse_execution_response E raw =
     bindr (require_dict raw ''execution response'') (\<lambda>body.
     bindr (require_str body ''operation_id'') (\<lambda>operation_id.
     bindr (require_str body ''destination_id'') (\<lambda>destination_id.
     bindr (require_str body ''action'') (\<lambda>action.
     bindr (require_str body ''status'') (\<lambda>status_str.
     case execution_status_of status_str of
       None \<Rightarrow> Inl (ProtocolError (''invalid execution status: '' @ repr_str status_str))
     | Some status \<Rightarrow>
     bindr (require_str body ''decision'') (\<lambda>decision_string.
     case decision_of decision_string of
       None \<Rightarrow> Inl (ProtocolError (''invalid execution decision: '' @ repr_str decision_string))
     | Some decision \<Rightarrow>
     bindr (parse_execution_review (dget body ''review'')) (\<lambda>review.
     bindr (if status = Exec_Waiting_For_Review
            then check_waiting_review E body decision review else Inr ()) (\<lambda>_.
     bindr (parse_execution_downstream (dget body ''downstream'')) (\<lambda>downstream.
     bindr (if dget body ''outcome_evidence'' = PNone then Inr None
            else bindr (parse_outcome_evidence E (dget body ''outcome_evidence''))
                   (\<lambda>x. Inr (Some x))) (\<lambda>evidence.
     bindr (require_str body ''request_fingerprint_profile'') (\<lambda>fingerprint_profile.
     if fingerprint_profile \<noteq> ''allowly.execution.request.v1''
     then Inl (ProtocolError
       (''invalid execution request fingerprint profile: '' @ repr_str fingerprint_profile))
     else
     bindr (parse_request_descriptor (dget body ''request_descriptor'')) (\<lambda>descriptor.
     if rd_operation_id descriptor \<noteq> operation_id
        \<or> rd_destination_id descriptor \<noteq> destination_id
        \<or> rd_action descriptor \<noteq> action
     then Inl (ProtocolError ''execution request descriptor does not match the response'')
     else
     bindr (require_str body ''reason'') (\<lambda>reason.
     bindr (require_str body ''request_fingerprint'') (\<lambda>request_fingerprint.
     bindr (parse_receipt_envelope E (dget body ''decision_receipt'')) (\<lambda>decision_receipt.
     bindr (optional_str body ''confirmation_id'') (\<lambda>confirmation_id.
     bindr (optional_str body ''confirm_nonce'') (\<lambda>confirm_nonce.
     bindr (optional_str body ''confirm_expires_at'') (\<lambda>confirm_expires_at.
     bindr (optional_str body ''confirm_prompt_hint'') (\<lambda>confirm_prompt_hint.
     bindr (optional_str body ''escalation_id'') (\<lambda>escalation_id.
     bindr (optional_str body ''escalation_expires_at'') (\<lambda>escalation_expires_at.
     bindr (optional_str body ''escalation_to'') (\<lambda>escalation_to.
     bindr (parse_escalation_info (dget body ''escalation'')) (\<lambda>escalation.
     bindr (optional_str body ''effective_evidence_mode'') (\<lambda>evidence_mode.
     bindr (optional_str body ''approval_sha256'') (\<lambda>approval_sha256.
     bindr (optional_str body ''approval_expires_at'') (\<lambda>approval_expires_at.
     bindr (optional_str body ''decision_state'') (\<lambda>decision_state.
     bindr (optional_str body ''target_state'') (\<lambda>target_state.
     bindr (optional_str body ''evidence_state'') (\<lambda>evidence_state.
     Inr \<lparr>er_operation_id = operation_id, er_status = status, er_decision = decision,
          er_reason = reason, er_destination_id = destination_id, er_action = action,
          er_request_fingerprint = request_fingerprint,
          er_request_descriptor = descriptor, er_decision_receipt = decision_receipt,
          er_downstream = downstream, er_outcome_evidence = evidence,
          er_confirm_nonce = confirm_nonce, er_confirm_expires_at = confirm_expires_at,
          er_confirm_prompt_hint = confirm_prompt_hint, er_escalation_id = escalation_id,
          er_escalation_expires_at = escalation_expires_at,
          er_escalation_to = escalation_to, er_escalation = escalation,
          er_effective_evidence_mode = evidence_mode, er_approval = dget body ''approval'',
          er_approval_sha256 = approval_sha256, er_approval_expires_at = approval_expires_at,
          er_decision_state = decision_state, er_target_state = target_state,
          er_evidence_state = evidence_state,
          er_witness_session = dget body ''witness_session'',
          er_confirmation_id = confirmation_id, er_review = review\<rparr>
     )))))))))))))))))))))))))))))"

subsection \<open>\<open>dataclasses.asdict\<close>\<close>

fun asdict_envelope :: "receipt_envelope \<Rightarrow> pyval" where
  "asdict_envelope (Env_Pending p) =
     PDict [(''status'', PStr ''pending''), (''receipt_id'', PStr (rcp_receipt_id p)),
            (''ready_at_estimate'', opt_str (rcp_ready_at_estimate p)),
            (''url'', PStr (rcp_url p))]"
| "asdict_envelope (Env_Signed r) = PDict [(''status'', PStr ''signed''), (''receipt'', PDict r)]"

definition asdict_escalation :: "escalation_info \<Rightarrow> pyval" where
  "asdict_escalation x =
     PDict [(''escalation_id'', PStr (ei_escalation_id x)), (''status'', PStr (ei_status x)),
            (''escalation_to'', opt_str (ei_escalation_to x)),
            (''expires_at'', opt_str (ei_expires_at x))]"

definition asdict_downstream :: "execution_downstream \<Rightarrow> pyval" where
  "asdict_downstream d =
     PDict [(''source'', PStr ''customer_runtime''),
            (''http_status'', opt_int (ed_http_status d)),
            (''response_fingerprint'', opt_str (ed_response_fingerprint d)),
            (''response_fingerprint_scope'', PStr (ed_response_fingerprint_scope d)),
            (''result'', PDict (ed_result d)), (''business_completion'', PStr ''not_verified'')]"

definition asdict_evidence :: "outcome_evidence \<Rightarrow> pyval" where
  "asdict_evidence x =
     PDict [(''profile'', PStr ''allowly.seal.jcs-sha256.v1''), (''record'', PDict (oe_record x)),
            (''record_sha256'', PStr (oe_record_sha256 x)),
            (''receipt'', opt_val (map_option asdict_envelope (oe_receipt x))),
            (''evidence_error'', if oe_evidence_unavailable x then PStr ''unavailable'' else PNone)]"

definition asdict_header :: "header_commitment \<Rightarrow> pyval" where
  "asdict_header h = PDict [(''name'', PStr (hc_name h)), (''value_sha256'', PStr (hc_value_sha256 h))]"

definition asdict_descriptor :: "request_descriptor \<Rightarrow> pyval" where
  "asdict_descriptor d =
     PDict [(''operation_id'', PStr (rd_operation_id d)),
            (''authorization_id'', PStr (rd_authorization_id d)),
            (''destination_id'', PStr (rd_destination_id d)), (''action'', PStr (rd_action d)),
            (''method'', PStr (rd_method d)), (''origin'', PStr (rd_origin d)),
            (''path'', PStr (rd_path d)), (''query'', PStr (rd_query d)),
            (''headers'', PList (map asdict_header (rd_headers d))),
            (''body_sha256'', PStr (rd_body_sha256 d)), (''body_size'', PInt (rd_body_size d)),
            (''content_type'', opt_str (rd_content_type d))]"

definition asdict_review :: "execution_review \<Rightarrow> pyval" where
  "asdict_review r =
     PDict [(''kind'', PStr (review_kind_str (rv_kind r))), (''id'', PStr (rv_id r)),
            (''source_receipt_id'', PStr (rv_source_receipt_id r)),
            (''expires_at'', PStr (rv_expires_at r))]"

definition asdict_execution :: "execution_response \<Rightarrow> pydict" where
  "asdict_execution r =
     [(''operation_id'', PStr (er_operation_id r)),
      (''status'', PStr (execution_status_str (er_status r))),
      (''decision'', PStr (decision_str (er_decision r))), (''reason'', PStr (er_reason r)),
      (''destination_id'', PStr (er_destination_id r)), (''action'', PStr (er_action r)),
      (''request_fingerprint_profile'', PStr ''allowly.execution.request.v1''),
      (''request_fingerprint'', PStr (er_request_fingerprint r)),
      (''request_descriptor'', asdict_descriptor (er_request_descriptor r)),
      (''decision_receipt'', asdict_envelope (er_decision_receipt r)),
      (''downstream'', opt_val (map_option asdict_downstream (er_downstream r))),
      (''outcome_evidence'', opt_val (map_option asdict_evidence (er_outcome_evidence r))),
      (''confirm_nonce'', opt_str (er_confirm_nonce r)),
      (''confirm_expires_at'', opt_str (er_confirm_expires_at r)),
      (''confirm_prompt_hint'', opt_str (er_confirm_prompt_hint r)),
      (''escalation_id'', opt_str (er_escalation_id r)),
      (''escalation_expires_at'', opt_str (er_escalation_expires_at r)),
      (''escalation_to'', opt_str (er_escalation_to r)),
      (''escalation'', opt_val (map_option asdict_escalation (er_escalation r))),
      (''effective_evidence_mode'', opt_str (er_effective_evidence_mode r)),
      (''approval'', er_approval r), (''approval_sha256'', opt_str (er_approval_sha256 r)),
      (''approval_expires_at'', opt_str (er_approval_expires_at r)),
      (''decision_state'', opt_str (er_decision_state r)),
      (''target_state'', opt_str (er_target_state r)),
      (''evidence_state'', opt_str (er_evidence_state r)),
      (''witness_session'', er_witness_session r),
      (''confirmation_id'', opt_str (er_confirmation_id r)),
      (''review'', opt_val (map_option asdict_review (er_review r)))]"

text \<open>\<open>_journal_authorization\<close>: the review's bearer nonce never reaches the journal.\<close>

definition journal_authorization :: "execution_response \<Rightarrow> pydict" where
  "journal_authorization r =
     (if er_status r = Exec_Waiting_For_Review
      then put_item ''confirm_nonce'' PNone (asdict_execution r)
      else asdict_execution r)"

subsection \<open>Well-formed responses\<close>

text \<open>
  What the parser guarantees of its result. A waiting response is bound to its review and its
  receipt and carries neither an approval nor an outcome.
\<close>

definition wf_envelope :: "sdk_env \<Rightarrow> receipt_envelope \<Rightarrow> bool" where
  "wf_envelope E env =
     (case env of Env_Pending _ \<Rightarrow> True | Env_Signed r \<Rightarrow> is_ok (decode_receipt E (PDict r)))"

definition wf_review :: "execution_review \<Rightarrow> bool" where
  "wf_review rv \<longleftrightarrow> starts_with (review_prefix (rv_kind rv)) (rv_id rv) \<and> rv_source_receipt_id rv \<noteq> []"

definition wf_waiting :: "sdk_env \<Rightarrow> execution_response \<Rightarrow> bool" where
  "wf_waiting E r =
     (case er_review r of
        None \<Rightarrow> False
      | Some rv \<Rightarrow>
          decision_str (er_decision r) = review_kind_str (rv_kind rv)
          \<and> envelope_receipt_id E (er_decision_receipt r) = Inr (PStr (rv_source_receipt_id rv))
          \<and> er_approval r = PNone \<and> er_approval_sha256 r = None \<and> er_downstream r = None
          \<and> er_decision_state r = Some ''not_allowed'' \<and> er_target_state r = Some ''not_started''
          \<and> er_evidence_state r = Some ''pending'')"

definition wf_execution :: "sdk_env \<Rightarrow> execution_response \<Rightarrow> bool" where
  "wf_execution E r \<longleftrightarrow>
     wf_envelope E (er_decision_receipt r)
     \<and> (\<forall>rv. er_review r = Some rv \<longrightarrow> wf_review rv)
     \<and> (\<forall>d. er_downstream r = Some d \<longrightarrow>
           ed_response_fingerprint_scope d \<in> {''complete'', ''unavailable''})
     \<and> (\<forall>e env. er_outcome_evidence r = Some e \<longrightarrow> oe_receipt e = Some env \<longrightarrow> wf_envelope E env)
     \<and> rd_method (er_request_descriptor r) \<in> http_methods
     \<and> rd_operation_id (er_request_descriptor r) = er_operation_id r
     \<and> rd_destination_id (er_request_descriptor r) = er_destination_id r
     \<and> rd_action (er_request_descriptor r) = er_action r
     \<and> (er_status r = Exec_Waiting_For_Review \<longrightarrow> wf_waiting E r)"

lemma parse_pending_envelope_asdict [simp]:
  "parse_pending_envelope (asdict_envelope (Env_Pending p)) = Inr p"
  by (simp add: parse_pending_envelope_def reader_iffs)

lemma parse_receipt_envelope_asdict:
  "wf_envelope E env \<Longrightarrow> parse_receipt_envelope E (asdict_envelope env) = Inr env"
  by (cases env)
     (auto simp: parse_receipt_envelope_def parse_pending_envelope_def wf_envelope_def is_ok_iff
       reader_iffs)

lemma parse_receipt_envelope_wf:
  "parse_receipt_envelope E v = Inr env \<Longrightarrow> wf_envelope E env"
  by (auto simp: parse_receipt_envelope_def wf_envelope_def is_ok_iff split: if_splits)

lemma parse_escalation_asdict [simp]: "parse_escalation_info (asdict_escalation x) = Inr (Some x)"
  by (simp add: parse_escalation_info_def asdict_escalation_def reader_iffs)

lemma parse_outcome_evidence_asdict:
  assumes "\<forall>env. oe_receipt x = Some env \<longrightarrow> wf_envelope E env"
  shows "parse_outcome_evidence E (asdict_evidence x) = Inr x"
proof (cases "oe_receipt x")
  case None
  then show ?thesis by (simp add: parse_outcome_evidence_def asdict_evidence_def reader_iffs)
next
  case (Some env)
  with assms have "parse_receipt_envelope E (asdict_envelope env) = Inr env"
    by (simp add: parse_receipt_envelope_asdict)
  moreover have "asdict_envelope env \<noteq> PNone" by (cases env) auto
  ultimately show ?thesis using Some
    by (simp add: parse_outcome_evidence_def asdict_evidence_def reader_iffs)
qed

lemma parse_outcome_evidence_wf:
  "parse_outcome_evidence E v = Inr x \<Longrightarrow> oe_receipt x = Some env \<Longrightarrow> wf_envelope E env"
  by (auto simp: parse_outcome_evidence_def Let_def split: if_splits
      dest: parse_receipt_envelope_wf)

interpretation review_kind: wire_literal review_kind_str review_kind_of
proof
  show "review_kind_of s = Some k \<longleftrightarrow> s = review_kind_str k" for s k
    by (cases k) (auto simp: review_kind_of_def split: if_splits)
qed

lemma parse_review_asdict: "wf_review rv \<Longrightarrow> parse_execution_review (asdict_review rv) = Inr (Some rv)"
  by (simp add: parse_execution_review_def asdict_review_def reader_iffs
      review_kind.of_str_of wf_review_def)

lemma parse_review_wf: "parse_execution_review v = Inr (Some rv) \<Longrightarrow> wf_review rv"
  by (auto simp: parse_execution_review_def wf_review_def split: if_splits option.splits)

lemma parse_downstream_asdict:
  "ed_response_fingerprint_scope d \<in> {''complete'', ''unavailable''} \<Longrightarrow>
     parse_execution_downstream (asdict_downstream d) = Inr (Some d)"
  by (cases "ed_http_status d"; cases "ed_response_fingerprint d")
     (auto simp: parse_execution_downstream_def asdict_downstream_def reader_iffs)

lemma parse_downstream_wf:
  "parse_execution_downstream v = Inr (Some d) \<Longrightarrow>
     ed_response_fingerprint_scope d \<in> {''complete'', ''unavailable''}"
  by (auto simp: parse_execution_downstream_def split: if_splits)

lemma parse_header_asdict [simp]: "parse_header_commitment (asdict_header h) = Inr h"
  by (simp add: parse_header_commitment_def asdict_header_def reader_iffs)

lemma parse_descriptor_asdict:
  "rd_method d \<in> http_methods \<Longrightarrow> parse_request_descriptor (asdict_descriptor d) = Inr d"
  by (simp add: parse_request_descriptor_def asdict_descriptor_def reader_iffs
      mapr_map_ok)

lemma parse_descriptor_wf: "parse_request_descriptor v = Inr d \<Longrightarrow> rd_method d \<in> http_methods"
  unfolding parse_request_descriptor_def by (elim result_elims) clarsimp

lemma check_waiting_review_ok:
  assumes "check_waiting_review E body d review = Inr ()"
  obtains rv env where "review = Some rv"
    "parse_receipt_envelope E (dget body ''decision_receipt'') = Inr env"
    "envelope_receipt_id E env = Inr (PStr (rv_source_receipt_id rv))"
    "decision_str d = review_kind_str (rv_kind rv)"
    "dget body ''approval'' = PNone" "dget body ''approval_sha256'' = PNone"
    "dget body ''downstream'' = PNone"
    "dget body ''decision_state'' = PStr ''not_allowed''"
    "dget body ''target_state'' = PStr ''not_started''"
    "dget body ''evidence_state'' = PStr ''pending''"
  using assms by (auto simp: check_waiting_review_def split: option.splits if_splits)

lemma parse_execution_response_inv:
  assumes "parse_execution_response E raw = Inr r"
  shows "\<exists>body. raw = PDict body
    \<and> (er_status r = Exec_Waiting_For_Review \<longrightarrow>
         check_waiting_review E body (er_decision r) (er_review r) = Inr ())
    \<and> parse_receipt_envelope E (dget body ''decision_receipt'') = Inr (er_decision_receipt r)
    \<and> er_approval r = dget body ''approval''
    \<and> dget body ''approval_sha256'' = opt_str (er_approval_sha256 r)
    \<and> parse_execution_downstream (dget body ''downstream'') = Inr (er_downstream r)
    \<and> dget body ''decision_state'' = opt_str (er_decision_state r)
    \<and> dget body ''target_state'' = opt_str (er_target_state r)
    \<and> dget body ''evidence_state'' = opt_str (er_evidence_state r)
    \<and> parse_execution_review (dget body ''review'') = Inr (er_review r)
    \<and> (\<forall>x. er_outcome_evidence r = Some x \<longrightarrow>
         parse_outcome_evidence E (dget body ''outcome_evidence'') = Inr x)
    \<and> parse_request_descriptor (dget body ''request_descriptor'') = Inr (er_request_descriptor r)
    \<and> rd_operation_id (er_request_descriptor r) = er_operation_id r
    \<and> rd_destination_id (er_request_descriptor r) = er_destination_id r
    \<and> rd_action (er_request_descriptor r) = er_action r"
  using assms unfolding parse_execution_response_def
  by (elim result_elims) (clarsimp simp: opt_str_field.read_iff split: if_splits)

lemma parse_execution_response_wf:
  assumes "parse_execution_response E raw = Inr r"
  shows "wf_execution E r"
proof -
  obtain body where
    w: "er_status r = Exec_Waiting_For_Review \<Longrightarrow>
        check_waiting_review E body (er_decision r) (er_review r) = Inr ()"
    and e: "parse_receipt_envelope E (dget body ''decision_receipt'') = Inr (er_decision_receipt r)"
    and a: "er_approval r = dget body ''approval''"
    and s: "dget body ''approval_sha256'' = opt_str (er_approval_sha256 r)"
    and d: "parse_execution_downstream (dget body ''downstream'') = Inr (er_downstream r)"
    and st: "dget body ''decision_state'' = opt_str (er_decision_state r)"
        "dget body ''target_state'' = opt_str (er_target_state r)"
        "dget body ''evidence_state'' = opt_str (er_evidence_state r)"
    and rv: "parse_execution_review (dget body ''review'') = Inr (er_review r)"
    and ev: "\<And>x. er_outcome_evidence r = Some x \<Longrightarrow>
        parse_outcome_evidence E (dget body ''outcome_evidence'') = Inr x"
    and de: "parse_request_descriptor (dget body ''request_descriptor'')
        = Inr (er_request_descriptor r)"
    and ids: "rd_operation_id (er_request_descriptor r) = er_operation_id r"
        "rd_destination_id (er_request_descriptor r) = er_destination_id r"
        "rd_action (er_request_descriptor r) = er_action r"
    using parse_execution_response_inv[OF assms] by blast
  have "wf_waiting E r" if "er_status r = Exec_Waiting_For_Review"
  proof (rule check_waiting_review_ok[OF w[OF that]])
    fix rv env
    assume "er_review r = Some rv"
      and "parse_receipt_envelope E (dget body ''decision_receipt'') = Inr env"
      and "envelope_receipt_id E env = Inr (PStr (rv_source_receipt_id rv))"
      and "decision_str (er_decision r) = review_kind_str (rv_kind rv)"
      and "dget body ''approval'' = PNone" "dget body ''approval_sha256'' = PNone"
        "dget body ''downstream'' = PNone"
        "dget body ''decision_state'' = PStr ''not_allowed''"
        "dget body ''target_state'' = PStr ''not_started''"
        "dget body ''evidence_state'' = PStr ''pending''"
    with e a s d st show ?thesis
      by (simp add: wf_waiting_def parse_execution_downstream_def)
  qed
  then show ?thesis
    using parse_receipt_envelope_wf[OF e] parse_review_wf rv parse_downstream_wf d
      parse_outcome_evidence_wf ev parse_descriptor_wf[OF de] ids
    unfolding wf_execution_def by metis
qed

subsection \<open>A stored response parses back\<close>

lemma asdict_opt_ne [simp]:
  "asdict_envelope env \<noteq> PNone" "asdict_downstream d \<noteq> PNone" "asdict_evidence x \<noteq> PNone"
  "asdict_escalation y \<noteq> PNone" "asdict_review rv \<noteq> PNone"
  by (cases env)
     (auto simp: asdict_downstream_def asdict_evidence_def asdict_escalation_def asdict_review_def)

lemma wf_waiting_check:
  assumes "wf_waiting E r" and "wf_envelope E (er_decision_receipt r)"
    and "dget d ''decision_receipt'' = asdict_envelope (er_decision_receipt r)"
    and "dget d ''approval'' = er_approval r"
    and "dget d ''approval_sha256'' = opt_str (er_approval_sha256 r)"
    and "dget d ''downstream'' = opt_val (map_option asdict_downstream (er_downstream r))"
    and "dget d ''decision_state'' = opt_str (er_decision_state r)"
    and "dget d ''target_state'' = opt_str (er_target_state r)"
    and "dget d ''evidence_state'' = opt_str (er_evidence_state r)"
  shows "check_waiting_review E d (er_decision r) (er_review r) = Inr ()"
  using assms by (auto simp: wf_waiting_def check_waiting_review_def parse_receipt_envelope_asdict
      split: option.splits)

text \<open>
  \<open>carries d r\<close>: the object \<open>d\<close> has every field of the response \<open>r\<close>, whatever else it has and
  in whatever order.
\<close>

definition carries :: "pydict \<Rightarrow> execution_response \<Rightarrow> bool" where
  "carries d r \<longleftrightarrow> map (\<lambda>(k, v). dget d k) (asdict_execution r) = map snd (asdict_execution r)"

lemma distinct_asdict_execution: "distinct (map fst (asdict_execution r))"
  by (simp add: asdict_execution_def)

lemma carries_asdict: "carries (asdict_execution r) r"
proof -
  have "dget (asdict_execution r) k = v" if "(k, v) \<in> set (asdict_execution r)" for k v
    using that distinct_asdict_execution[of r] by (simp add: dget_def map_of_is_SomeI)
  then show ?thesis by (auto simp: carries_def)
qed

lemma carries_put_nonce:
  "carries (put_item ''confirm_nonce'' PNone (asdict_execution r)) (r\<lparr>er_confirm_nonce := None\<rparr>)"
proof -
  have "put_item ''confirm_nonce'' PNone (asdict_execution r)
      = asdict_execution (r\<lparr>er_confirm_nonce := None\<rparr>)"
    by (simp add: asdict_execution_def)
  then show ?thesis by (simp only: carries_asdict)
qed

lemma carries_fields:
  "carries d r \<Longrightarrow>
     dget d ''operation_id'' = PStr (er_operation_id r)
   \<and> dget d ''status'' = PStr (execution_status_str (er_status r))
   \<and> dget d ''decision'' = PStr (decision_str (er_decision r))
   \<and> dget d ''reason'' = PStr (er_reason r)
   \<and> dget d ''destination_id'' = PStr (er_destination_id r)
   \<and> dget d ''action'' = PStr (er_action r)
   \<and> dget d ''request_fingerprint_profile'' = PStr ''allowly.execution.request.v1''
   \<and> dget d ''request_fingerprint'' = PStr (er_request_fingerprint r)
   \<and> dget d ''request_descriptor'' = asdict_descriptor (er_request_descriptor r)
   \<and> dget d ''decision_receipt'' = asdict_envelope (er_decision_receipt r)
   \<and> dget d ''downstream'' = opt_val (map_option asdict_downstream (er_downstream r))
   \<and> dget d ''outcome_evidence'' = opt_val (map_option asdict_evidence (er_outcome_evidence r))
   \<and> dget d ''confirm_nonce'' = opt_str (er_confirm_nonce r)
   \<and> dget d ''confirm_expires_at'' = opt_str (er_confirm_expires_at r)
   \<and> dget d ''confirm_prompt_hint'' = opt_str (er_confirm_prompt_hint r)
   \<and> dget d ''escalation_id'' = opt_str (er_escalation_id r)
   \<and> dget d ''escalation_expires_at'' = opt_str (er_escalation_expires_at r)
   \<and> dget d ''escalation_to'' = opt_str (er_escalation_to r)
   \<and> dget d ''escalation'' = opt_val (map_option asdict_escalation (er_escalation r))
   \<and> dget d ''effective_evidence_mode'' = opt_str (er_effective_evidence_mode r)
   \<and> dget d ''approval'' = er_approval r
   \<and> dget d ''approval_sha256'' = opt_str (er_approval_sha256 r)
   \<and> dget d ''approval_expires_at'' = opt_str (er_approval_expires_at r)
   \<and> dget d ''decision_state'' = opt_str (er_decision_state r)
   \<and> dget d ''target_state'' = opt_str (er_target_state r)
   \<and> dget d ''evidence_state'' = opt_str (er_evidence_state r)
   \<and> dget d ''witness_session'' = er_witness_session r
   \<and> dget d ''confirmation_id'' = opt_str (er_confirmation_id r)
   \<and> dget d ''review'' = opt_val (map_option asdict_review (er_review r))"
  by (simp only: carries_def asdict_execution_def list.map list.inject prod.case snd_conv simp_thms)

lemma parse_optional_part:
  "(\<And>x. o' = Some x \<Longrightarrow> p (enc x) = Inr (Some x)) \<Longrightarrow> p PNone = Inr None \<Longrightarrow>
     p (opt_val (map_option enc o')) = Inr o'"
  by (cases o') auto

lemma carried_nested:
  assumes "wf_execution E r" and "carries d r"
  shows "parse_execution_review (dget d ''review'') = Inr (er_review r)"
    and "parse_execution_downstream (dget d ''downstream'') = Inr (er_downstream r)"
    and "parse_escalation_info (dget d ''escalation'') = Inr (er_escalation r)"
    and "parse_receipt_envelope E (dget d ''decision_receipt'') = Inr (er_decision_receipt r)"
    and "parse_request_descriptor (dget d ''request_descriptor'') = Inr (er_request_descriptor r)"
proof -
  note fields = carries_fields[OF assms(2)]
  have "parse_execution_review (opt_val (map_option asdict_review (er_review r))) = Inr (er_review r)"
    using assms(1) by (intro parse_optional_part[where p = parse_execution_review])
      (auto simp: wf_execution_def parse_review_asdict parse_execution_review_def[of PNone])
  then show "parse_execution_review (dget d ''review'') = Inr (er_review r)" by (simp only: fields)
  have "parse_execution_downstream (opt_val (map_option asdict_downstream (er_downstream r)))
      = Inr (er_downstream r)"
    using assms(1) by (intro parse_optional_part[where p = parse_execution_downstream])
      (auto simp: wf_execution_def parse_downstream_asdict parse_execution_downstream_def[of PNone])
  then show "parse_execution_downstream (dget d ''downstream'') = Inr (er_downstream r)"
    by (simp only: fields)
  have "parse_escalation_info (opt_val (map_option asdict_escalation (er_escalation r)))
      = Inr (er_escalation r)"
    by (intro parse_optional_part[where p = parse_escalation_info])
      (auto simp: parse_escalation_info_def[of PNone])
  then show "parse_escalation_info (dget d ''escalation'') = Inr (er_escalation r)"
    by (simp only: fields)
  show "parse_receipt_envelope E (dget d ''decision_receipt'') = Inr (er_decision_receipt r)"
    using assms(1) fields by (simp add: wf_execution_def parse_receipt_envelope_asdict)
  show "parse_request_descriptor (dget d ''request_descriptor'') = Inr (er_request_descriptor r)"
    using assms(1) fields by (simp add: wf_execution_def parse_descriptor_asdict)
qed

lemma carried_evidence:
  assumes "wf_execution E r" and "carries d r"
  shows "(if dget d ''outcome_evidence'' = PNone then Inr None
      else bindr (parse_outcome_evidence E (dget d ''outcome_evidence'')) (\<lambda>x. Inr (Some x)))
    = Inr (er_outcome_evidence r)"
  using assms(1) carries_fields[OF assms(2)]
  by (cases "er_outcome_evidence r") (auto simp: wf_execution_def parse_outcome_evidence_asdict)

lemma carried_reads:
  assumes "carries d r"
  shows "require_str d ''operation_id'' = Inr (er_operation_id r)"
    "require_str d ''status'' = Inr (execution_status_str (er_status r))"
    "require_str d ''decision'' = Inr (decision_str (er_decision r))"
    "require_str d ''reason'' = Inr (er_reason r)"
    "require_str d ''destination_id'' = Inr (er_destination_id r)"
    "require_str d ''action'' = Inr (er_action r)"
    "require_str d ''request_fingerprint_profile'' = Inr ''allowly.execution.request.v1''"
    "require_str d ''request_fingerprint'' = Inr (er_request_fingerprint r)"
    "optional_str d ''confirm_nonce'' = Inr (er_confirm_nonce r)"
    "optional_str d ''confirm_expires_at'' = Inr (er_confirm_expires_at r)"
    "optional_str d ''confirm_prompt_hint'' = Inr (er_confirm_prompt_hint r)"
    "optional_str d ''escalation_id'' = Inr (er_escalation_id r)"
    "optional_str d ''escalation_expires_at'' = Inr (er_escalation_expires_at r)"
    "optional_str d ''escalation_to'' = Inr (er_escalation_to r)"
    "optional_str d ''effective_evidence_mode'' = Inr (er_effective_evidence_mode r)"
    "optional_str d ''approval_sha256'' = Inr (er_approval_sha256 r)"
    "optional_str d ''approval_expires_at'' = Inr (er_approval_expires_at r)"
    "optional_str d ''decision_state'' = Inr (er_decision_state r)"
    "optional_str d ''target_state'' = Inr (er_target_state r)"
    "optional_str d ''evidence_state'' = Inr (er_evidence_state r)"
    "optional_str d ''confirmation_id'' = Inr (er_confirmation_id r)"
  by (simp_all only: str_field.read_iff opt_str_field.read_iff carries_fields[OF assms])

lemma carried_whole:
  assumes "carries d r"
  shows "Inr \<lparr>er_operation_id = er_operation_id r, er_status = er_status r,
    er_decision = er_decision r, er_reason = er_reason r, er_destination_id = er_destination_id r,
    er_action = er_action r, er_request_fingerprint = er_request_fingerprint r,
    er_request_descriptor = er_request_descriptor r, er_decision_receipt = er_decision_receipt r,
    er_downstream = er_downstream r, er_outcome_evidence = er_outcome_evidence r,
    er_confirm_nonce = er_confirm_nonce r, er_confirm_expires_at = er_confirm_expires_at r,
    er_confirm_prompt_hint = er_confirm_prompt_hint r, er_escalation_id = er_escalation_id r,
    er_escalation_expires_at = er_escalation_expires_at r, er_escalation_to = er_escalation_to r,
    er_escalation = er_escalation r, er_effective_evidence_mode = er_effective_evidence_mode r,
    er_approval = dget d ''approval'', er_approval_sha256 = er_approval_sha256 r,
    er_approval_expires_at = er_approval_expires_at r, er_decision_state = er_decision_state r,
    er_target_state = er_target_state r, er_evidence_state = er_evidence_state r,
    er_witness_session = dget d ''witness_session'', er_confirmation_id = er_confirmation_id r,
    er_review = er_review r\<rparr> = Inr r"
  by (simp only: carries_fields[OF assms]) simp

lemma parse_carried_response:
  assumes "wf_execution E r" and "carries d r"
  shows "parse_execution_response E (PDict d) = Inr r"
proof -
  have ids: "rd_operation_id (er_request_descriptor r) = er_operation_id r"
      "rd_destination_id (er_request_descriptor r) = er_destination_id r"
      "rd_action (er_request_descriptor r) = er_action r"
    using assms(1) by (auto simp: wf_execution_def)
  have waiting: "(if er_status r = Exec_Waiting_For_Review
      then check_waiting_review E d (er_decision r) (er_review r) else Inr ()) = Inr ()"
    using assms(1) carries_fields[OF assms(2)] by (auto simp: wf_execution_def intro!: wf_waiting_check)
  note parts = carried_reads[OF assms(2)] carried_nested[OF assms] carried_evidence[OF assms]
  show ?thesis
    unfolding parse_execution_response_def
    by ((rule carried_whole[OF assms(2)] result_intros require_dict_PDict parts waiting
          execution_status.of_str_of decision.of_str_of) | simp only: ids simp_thms)+
qed

subsection \<open>Properties\<close>

text \<open>
  C9: the execution parser accepts exactly the well-formed responses: what it returns is
  well formed, and every well-formed response is what it returns for some JSON object.
\<close>

theorem execution_parser_range:
  "(\<exists>raw. parse_execution_response E raw = Inr r) \<longleftrightarrow> wf_execution E r"
  using parse_execution_response_wf parse_carried_response carries_asdict by blast

text \<open>
  C8: the journal round trip. The authorization stored for a parsed response parses back to
  that response, except that the bearer nonce of a waiting review has been removed.
\<close>

theorem journal_authorization_roundtrip:
  assumes "parse_execution_response E raw = Inr r"
  shows "parse_execution_response E (PDict (journal_authorization r)) =
    Inr (if er_status r = Exec_Waiting_For_Review then r\<lparr>er_confirm_nonce := None\<rparr> else r)"
proof -
  have wf: "wf_execution E r" using assms by (rule parse_execution_response_wf)
  then have "wf_execution E (r\<lparr>er_confirm_nonce := None\<rparr>)"
    unfolding wf_execution_def wf_waiting_def by (cases "er_review r") simp_all
  with wf show ?thesis
    by (auto simp: journal_authorization_def parse_carried_response carries_asdict carries_put_nonce)
qed

text \<open>
  A response waiting for the confirmation \<open>cnf_1\<close> of its own decision receipt.
\<close>

definition sample_descriptor :: request_descriptor where
  "sample_descriptor =
     \<lparr>rd_operation_id = ''op'', rd_authorization_id = ''az'', rd_destination_id = ''exe'',
      rd_action = ''pay'', rd_method = ''POST'', rd_origin = ''https://a.io'', rd_path = ''/p'',
      rd_query = [], rd_headers = [\<lparr>hc_name = ''x'', hc_value_sha256 = ''h''\<rparr>],
      rd_body_sha256 = ''s'', rd_body_size = 2, rd_content_type = Some ''text/plain''\<rparr>"

definition sample_waiting :: execution_response where
  "sample_waiting =
     \<lparr>er_operation_id = ''op'', er_status = Exec_Waiting_For_Review, er_decision = Confirm,
      er_reason = ''ask'', er_destination_id = ''exe'', er_action = ''pay'',
      er_request_fingerprint = ''f'', er_request_descriptor = sample_descriptor,
      er_decision_receipt = Env_Pending \<lparr>rcp_receipt_id = ''r1'', rcp_ready_at_estimate = None,
                                          rcp_url = ''u''\<rparr>,
      er_downstream = None, er_outcome_evidence = None, er_confirm_nonce = Some ''secret'',
      er_confirm_expires_at = None, er_confirm_prompt_hint = None, er_escalation_id = None,
      er_escalation_expires_at = None, er_escalation_to = None, er_escalation = None,
      er_effective_evidence_mode = None, er_approval = PNone, er_approval_sha256 = None,
      er_approval_expires_at = None, er_decision_state = Some ''not_allowed'',
      er_target_state = Some ''not_started'', er_evidence_state = Some ''pending'',
      er_witness_session = PNone, er_confirmation_id = None,
      er_review = Some \<lparr>rv_kind = Review_Confirm, rv_id = ''cnf_1'', rv_source_receipt_id = ''r1'',
                        rv_expires_at = ''t''\<rparr>\<rparr>"

lemma wf_sample_waiting: "wf_execution sample_env sample_waiting"
  by (simp add: wf_execution_def wf_envelope_def wf_review_def wf_waiting_def http_methods_def
      envelope_receipt_id_def sample_waiting_def sample_descriptor_def)

lemma journal_authorization_roundtrip_witness:
  "parse_execution_response sample_env (PDict (journal_authorization sample_waiting))
     = Inr (sample_waiting\<lparr>er_confirm_nonce := None\<rparr>)"
  using journal_authorization_roundtrip
      [OF parse_carried_response[OF wf_sample_waiting carries_asdict]]
  by (simp add: sample_waiting_def)

end
