(* ===== verification/Sdk_Transport.thy ===== *)
theory Sdk_Transport
  imports Execution_Wire
begin

text \<open>
  The transport of the \<open>Allowly\<close> client: \<open>_request_with_headers\<close> with its one retry of a read,
  the decoding of responses and API errors with the redaction of secrets, the retry-after
  header and the identity headers.
\<close>

subsection \<open>The client's state\<close>

record client =
  cl_api_key :: string
  cl_edge_token :: "string option"
  cl_agent_token :: pyval
  cl_has_supplier :: bool
  cl_check_timeout :: rat
  cl_fallback_by_action :: "(string \<times> fallback_mode) list"

subsection \<open>Text\<close>

text \<open>\<open>s.replace(old, new)\<close>.\<close>

function replace_all :: "string \<Rightarrow> string \<Rightarrow> string \<Rightarrow> string" where
  "replace_all old new [] = []"
| "replace_all old new (c # cs) =
     (if old \<noteq> [] \<and> starts_with old (c # cs)
      then new @ replace_all old new (drop (length old) (c # cs))
      else c # replace_all old new cs)"
  by pat_completeness auto
termination
  by (relation "measure (\<lambda>(old, new, s). length s)") auto

text \<open>\<open>urllib.parse.quote(s, safe='')\<close>.\<close>

definition is_unreserved :: "char \<Rightarrow> bool" where
  "is_unreserved c \<longleftrightarrow> is_alnum c \<or> c \<in> {CHR ''_'', CHR ''.'', CHR ''-'', CHR ''~''}"

definition hex_upper :: "nat \<Rightarrow> char" where
  "hex_upper n = (if n < 10 then char_of (48 + n) else char_of (55 + n))"

definition quote_char :: "char \<Rightarrow> string" where
  "quote_char c =
     (if is_unreserved c then [c]
      else [CHR ''%'', hex_upper (ord c div 16), hex_upper (ord c mod 16)])"

definition quote :: "string \<Rightarrow> string" where
  "quote s = concat (map quote_char (utf8 s))"

text \<open>\<open>headers.get(name)\<close>: names compare without case.\<close>

fun header_get :: "(string \<times> string) list \<Rightarrow> string \<Rightarrow> string option" where
  "header_get [] name = None"
| "header_get ((k, v) # hs) name =
     (if str_lower k = str_lower name then Some v else header_get hs name)"

subsection \<open>Responses\<close>

definition parse_retry_after :: "sdk_env \<Rightarrow> string option \<Rightarrow> pyfloat option" where
  "parse_retry_after E value =
     (case value of
        None \<Rightarrow> None
      | Some s \<Rightarrow>
          (case parse_float E (strip s) of
             None \<Rightarrow> None
           | Some seconds \<Rightarrow> (if float_le (Fin 0) seconds then Some seconds else None)))"

definition is_success :: "http_response \<Rightarrow> bool" where
  "is_success r \<longleftrightarrow> 200 \<le> rs_status r \<and> rs_status r \<le> 299"

definition sensitive_values :: "client \<Rightarrow> http_request \<Rightarrow> string list" where
  "sensitive_values C rq =
     filter (\<lambda>s. s \<noteq> [])
       (cl_api_key C #
        (case cl_edge_token C of None \<Rightarrow> [] | Some t \<Rightarrow> [t]) @
        (case rq_headers rq of None \<Rightarrow> []
         | Some hs \<Rightarrow> (case map_of hs ''X-Allowly-Agent-Token'' of None \<Rightarrow> [] | Some t \<Rightarrow> [t])))"

definition safe_error_text :: "string list \<Rightarrow> pyval \<Rightarrow> string \<Rightarrow> string" where
  "safe_error_text secrets value fallback =
     fold (\<lambda>secret s. replace_all secret ''[REDACTED]'' s) secrets
       (case value of PStr s \<Rightarrow> s | _ \<Rightarrow> fallback)"

definition join_or :: "string list \<Rightarrow> string" where
  "join_or xs = (case xs of [] \<Rightarrow> [] | y # ys \<Rightarrow> y @ concat (map (\<lambda>z. '' or '' @ z) ys))"

definition error_object :: "pyval \<Rightarrow> pydict" where
  \<comment> \<open>the \<open>error\<close> member as an object: a string is its message\<close>
  "error_object data =
     (case data of
        PDict d \<Rightarrow>
          (case dget d ''error'' of
             PStr m \<Rightarrow> [(''message'', PStr m)]
           | PDict err \<Rightarrow> err
           | _ \<Rightarrow> [])
      | _ \<Rightarrow> [])"

definition error_fields :: "string list \<Rightarrow> pyval \<Rightarrow> field_error list" where
  "error_fields secrets raw_fields =
     (case raw_fields of
        PList fs \<Rightarrow>
          concat (map (\<lambda>f. case f of
              PDict d \<Rightarrow> [\<lparr>fe_field = safe_error_text secrets (dget d ''field'') [],
                          fe_message = safe_error_text secrets (dget d ''message'') []\<rparr>]
            | _ \<Rightarrow> []) fs)
      | _ \<Rightarrow> [])"

definition response_error :: "sdk_env \<Rightarrow> string list \<Rightarrow> http_response \<Rightarrow> exn" where
  "response_error E secrets resp =
     (let err = error_object (case rs_json resp of None \<Rightarrow> PDict [] | Some v \<Rightarrow> v) in
      ApiError (allowly_api_error (rs_status resp)
        (PStr (safe_error_text secrets (dget err ''code'') ''error''))
        (PStr (safe_error_text secrets (dget err ''message'') ''Unknown error''))
        (Some (error_fields secrets (dget err ''fields'')))
        (parse_retry_after E (header_get (rs_headers resp) ''Retry-After''))))"

definition media_type :: "http_response \<Rightarrow> string" where
  "media_type resp =
     str_lower (strip (fst (partition_on (CHR '';'')
       (case header_get (rs_headers resp) ''Content-Type'' of None \<Rightarrow> [] | Some t \<Rightarrow> t))))"

definition decode_text :: "string list \<Rightarrow> http_response \<Rightarrow> string res" where
  "decode_text secrets resp =
     (if rs_redirected resp \<or> media_type resp \<noteq> ''text/plain''
      then Inl (ProtocolError ''instructions response must be unredirected text/plain'')
      else case rs_text resp of
        None \<Rightarrow> Inl (ProtocolError ''instructions response must be UTF-8'')
      | Some text \<Rightarrow>
          (if strip text = [] \<or> starts_with ''<'' (lstrip text)
              \<or> (\<exists>s \<in> set secrets. sublist s text)
           then Inl (ProtocolError ''instructions response must contain nonempty plain-text guidance'')
           else if rs_json resp \<noteq> None
           then Inl (ProtocolError ''instructions response must not be JSON'')
           else Inr text))"

datatype response_format = Json_Response | Text_Response

definition decode_response ::
  "sdk_env \<Rightarrow> string list \<Rightarrow> int list \<Rightarrow> response_format \<Rightarrow> http_response \<Rightarrow> pyval res" where
  "decode_response E secrets expected fmt resp =
     (if is_success resp \<and> rs_status resp \<notin> set expected
      then Inl (ProtocolError (''expected HTTP '' @ join_or (map int_str expected) @
             '', got '' @ int_str (rs_status resp)))
      else if rs_status resp = 204 then Inr PNone
      else if is_success resp \<and> fmt = Text_Response
      then bindr (decode_text secrets resp) (\<lambda>t. Inr (PStr t))
      else if \<not> is_success resp then Inl (response_error E secrets resp)
      else case rs_json resp of
        None \<Rightarrow> Inl (ProtocolError ''successful response body must be valid JSON'')
      | Some v \<Rightarrow> Inr v)"

subsection \<open>Requests\<close>

definition send_request :: "http_request \<Rightarrow> http_response prog" where
  "send_request rq = perform (Request rq) as_response"

definition request_with_headers ::
  "sdk_env \<Rightarrow> client \<Rightarrow> http_request \<Rightarrow> int list \<Rightarrow> response_format \<Rightarrow>
     (pyval \<times> (string \<times> string) list) prog" where
  "request_with_headers E C rq expected fmt =
     bindp
       (handle (send_request rq) (\<lambda>e.
          if e = HttpxError RemoteProtocolError \<and> str_upper (rq_method rq) = ''GET''
          then send_request rq else raise e))
       (\<lambda>resp.
         bindp (Done (decode_response E (sensitive_values C rq) expected fmt resp)) (\<lambda>data.
         return (data, rs_headers resp)))"

definition request :: "sdk_env \<Rightarrow> client \<Rightarrow> http_request \<Rightarrow> int list \<Rightarrow> pyval prog" where
  "request E C rq expected =
     bindp (request_with_headers E C rq expected Json_Response) (\<lambda>(data, _). return data)"

definition api_call ::
  "string \<Rightarrow> string \<Rightarrow> pyval option \<Rightarrow> (string \<times> string) list option \<Rightarrow> http_request" where
  "api_call method path body headers =
     \<lparr>rq_method = method, rq_path = path, rq_params = [], rq_json = body, rq_headers = headers,
      rq_timeout = None\<rparr>"

subsection \<open>What an answered request says\<close>

lemma send_request_answered:
  "outcome (handle (send_request rq)
      (\<lambda>e. if b e then send_request rq else raise e)) as = Some (Inr resp) \<Longrightarrow>
   (Request rq, A_Response resp) \<in> set (events (handle (send_request rq)
      (\<lambda>e. if b e then send_request rq else raise e)) as)"
  by (cases as; cases "hd as"; cases "tl as"; cases "hd (tl as)")
     (auto simp: handle_def send_request_def perform_def ill_typed_def split: if_splits)

lemma request_with_headers_ok:
  assumes "outcome (request_with_headers E C rq expected Json_Response) as = Some (Inr (raw, hs))"
    and "204 \<notin> set expected"
  shows "\<exists>resp. (Request rq, A_Response resp) \<in> set (events (request_with_headers E C rq expected Json_Response) as)
    \<and> rs_status resp \<in> set expected \<and> rs_json resp = Some raw \<and> rs_headers resp = hs"
proof -
  let ?send = "handle (send_request rq) (\<lambda>e.
      if e = HttpxError RemoteProtocolError \<and> str_upper (rq_method rq) = ''GET'' then send_request rq else raise e)"
  from assms(1) obtain resp where resp: "outcome ?send as = Some (Inr resp)"
    "decode_response E (sensitive_values C rq) expected Json_Response resp = Inr raw" "rs_headers resp = hs"
    unfolding request_with_headers_def outcome_ok by auto
  from send_request_answered[OF resp(1)]
  have "(Request rq, A_Response resp) \<in> set (events (request_with_headers E C rq expected Json_Response) as)"
    by (simp add: request_with_headers_def events_bindp)
  moreover have "rs_status resp \<in> set expected \<and> rs_json resp = Some raw"
    using resp(2) assms(2) by (auto simp: decode_response_def is_success_def split: if_splits option.splits)
  ultimately show ?thesis using resp(3) by blast
qed

lemma request_ok:
  assumes "outcome (request E C rq expected) as = Some (Inr raw)" and "204 \<notin> set expected"
  shows "\<exists>resp. (Request rq, A_Response resp) \<in> set (events (request E C rq expected) as)
    \<and> rs_status resp \<in> set expected \<and> rs_json resp = Some raw"
proof -
  from assms(1) obtain hs where
    "outcome (request_with_headers E C rq expected Json_Response) as = Some (Inr (raw, hs))"
    unfolding request_def split_def outcome_ok by auto
  from request_with_headers_ok[OF this assms(2)] show ?thesis by (auto simp: request_def events_bindp)
qed

lemma request_uses_request: "uses_only (\<lambda>e. \<exists>rq. e = Request rq) (request E C rq expected)"
  unfolding request_def request_with_headers_def send_request_def split_def
  by (intro uses_only_bindp uses_only_handle) auto

subsection \<open>Identity headers\<close>

definition nonblank_str :: "pyval \<Rightarrow> bool" where
  "nonblank_str v = (case v of PStr s \<Rightarrow> strip s \<noteq> [] | _ \<Rightarrow> False)"

definition effective_agent_token :: "client \<Rightarrow> pyval \<Rightarrow> pyval prog" where
  "effective_agent_token C agent_token =
     (if agent_token = PNone \<and> cl_has_supplier C then
        bindp (perform Agent_Token_Supplier as_val) (\<lambda>supplied.
        if \<not> nonblank_str supplied
        then raise (ValueError ''agent token supplier must return a non-empty string'')
        else return supplied)
      else if agent_token = PNone then return (cl_agent_token C)
      else return agent_token)"

definition identity_headers ::
  "client \<Rightarrow> pyval \<Rightarrow> string option \<Rightarrow> (string \<times> string) list option prog" where
  "identity_headers C agent_token idempotency_key =
     bindp (effective_agent_token C agent_token) (\<lambda>token.
     bindp (case token of
              PNone \<Rightarrow> return []
            | PStr s \<Rightarrow>
                (if strip s = [] then raise (ValueError ''agent token must be a non-empty string'')
                 else return [(''X-Allowly-Agent-Token'', s)])
            | _ \<Rightarrow> raise (ValueError ''agent token must be a non-empty string'')) (\<lambda>hs.
     let headers = hs @ (case idempotency_key of None \<Rightarrow> [] | Some k \<Rightarrow> [(''Idempotency-Key'', k)])
     in return (if headers = [] then None else Some headers)))"

end
