(* ===== verification/Execution_Api.thy ===== *)
theory Execution_Api
  imports Sdk_Transport
begin

text \<open>
  The execution endpoints of the \<open>Allowly\<close> client: \<open>get_execution\<close>, \<open>prepare_execution\<close>,
  \<open>continue_execution\<close>, \<open>claim_execution_dispatch\<close>, \<open>get_execution_witness_token\<close> and
  \<open>report_execution_outcome\<close>. Each sends one request and accepts only a response bound to
  the operation it asked about. None of them sends provider bytes: the only effects are
  requests to the API and calls of the agent token supplier.
\<close>

subsection \<open>Endpoints\<close>

definition execution_path :: "string \<Rightarrow> string \<Rightarrow> string" where
  "execution_path operation_id tail = ''/v1/executions/'' @ quote operation_id @ tail"

definition get_execution :: "sdk_env \<Rightarrow> client \<Rightarrow> string \<Rightarrow> pyval \<Rightarrow> execution_response prog" where
  "get_execution E C operation_id agent_token =
     bindp (identity_headers C agent_token None) (\<lambda>headers.
     bindp (request E C (api_call ''GET'' (execution_path operation_id []) None headers) [200]) (\<lambda>raw.
     bindp (Done (parse_execution_response E raw)) (\<lambda>response.
     if er_operation_id response \<noteq> operation_id
     then raise (ProtocolError ''execution response does not match the requested operation'')
     else return response)))"

text \<open>
  What \<open>execute_http\<close> asks for: the object \<open>_http_execution_request\<close> builds, with the client
  timestamp \<open>execute_http\<close> adds.
\<close>

record execution_request =
  xr_operation_id :: string
  xr_authorization_id :: string
  xr_enabled_executable_id :: string
  xr_catalog_operation_id :: string
  xr_action :: string
  xr_http_request :: pydict
  xr_policy_input :: pydict
  xr_evidence_mode :: string
  xr_client_timestamp :: pyval

text \<open>The dictionary, in the order \<open>execute_http\<close> builds it.\<close>

definition request_dict :: "execution_request \<Rightarrow> pydict" where
  "request_dict x =
     [(''operation_id'', PStr (xr_operation_id x)),
      (''authorization_id'', PStr (xr_authorization_id x)),
      (''enabled_executable_id'', PStr (xr_enabled_executable_id x)),
      (''catalog_operation_id'', PStr (xr_catalog_operation_id x)),
      (''action'', PStr (xr_action x)), (''http_request'', PDict (xr_http_request x)),
      (''policy_input'', PDict (xr_policy_input x)),
      (''evidence_mode'', PStr (xr_evidence_mode x)),
      (''client_timestamp'', xr_client_timestamp x)]"

definition prepare_body :: "execution_request \<Rightarrow> string \<Rightarrow> pydict" where
  "prepare_body x timestamp =
     [(''operation_id'', PStr (xr_operation_id x)),
      (''authorization_id'', PStr (xr_authorization_id x)),
      (''enabled_executable_id'', PStr (xr_enabled_executable_id x)),
      (''catalog_operation_id'', PStr (xr_catalog_operation_id x)),
      (''action'', PStr (xr_action x)), (''http_request'', PDict (xr_http_request x)),
      (''policy_input'', PDict (xr_policy_input x)),
      (''evidence_mode'', PStr (xr_evidence_mode x)),
      (''client_timestamp'', PStr timestamp)]"

definition prepare_execution ::
  "sdk_env \<Rightarrow> client \<Rightarrow> execution_request \<Rightarrow> string \<Rightarrow> pyval \<Rightarrow> execution_response prog" where
  "prepare_execution E C x idempotency_key agent_token =
     bindp (identity_headers C agent_token (Some idempotency_key)) (\<lambda>headers.
     bindp (Done (client_timestamp E (Value_Arg (xr_client_timestamp x)))) (\<lambda>timestamp.
     bindp (request E C (api_call ''POST'' ''/v1/execute'' (Some (PDict (prepare_body x timestamp)))
              headers) [200, 201]) (\<lambda>raw.
     bindp (Done (parse_execution_response E raw)) (\<lambda>result.
     if er_operation_id result \<noteq> xr_operation_id x
        \<or> er_destination_id result \<noteq> xr_enabled_executable_id x
        \<or> er_action result \<noteq> xr_action x
        \<or> rd_authorization_id (er_request_descriptor result) \<noteq> xr_authorization_id x
     then raise (ProtocolError ''execution approval does not match the requested operation'')
     else return result))))"

definition continue_execution ::
  "sdk_env \<Rightarrow> client \<Rightarrow> string \<Rightarrow> pyval \<Rightarrow> string \<Rightarrow> string \<Rightarrow> string \<Rightarrow> pyval \<Rightarrow>
     execution_response prog" where
  "continue_execution E C operation_id execution_request review_id source_receipt_id
       idempotency_key agent_token =
     (case execution_request of
        PDict er \<Rightarrow>
          (if \<not> py_eq (dget er ''operation_id'') (PStr operation_id)
              \<or> review_id = [] \<or> source_receipt_id = [] \<or> idempotency_key = []
           then raise (ValueError ''continuation requires the original operation and review binding'')
           else
             bindp (Done (client_timestamp E (Value_Arg (dget er ''client_timestamp'')))) (\<lambda>timestamp.
             let req = put_item ''client_timestamp'' (PStr timestamp) er in
             bindp (identity_headers C agent_token (Some idempotency_key)) (\<lambda>headers.
             bindp (request E C (api_call ''POST'' (execution_path operation_id ''/continue'')
                      (Some (PDict [(''execution_request'', PDict req), (''review_id'', PStr review_id),
                                    (''source_receipt_id'', PStr source_receipt_id)]))
                      headers) [200, 201]) (\<lambda>raw.
             bindp (Done (parse_execution_response E raw)) (\<lambda>result.
             if er_operation_id result \<noteq> operation_id
                \<or> \<not> py_eq (PStr (er_destination_id result)) (dget req ''enabled_executable_id'')
                \<or> \<not> py_eq (PStr (er_action result)) (dget req ''action'')
                \<or> \<not> py_eq (PStr (rd_authorization_id (er_request_descriptor result)))
                      (dget req ''authorization_id'')
             then raise (ProtocolError
               ''execution continuation does not match the requested operation'')
             else return result)))))
      | _ \<Rightarrow> raise (ValueError ''continuation requires the original operation and review binding''))"

definition claim_execution_dispatch ::
  "sdk_env \<Rightarrow> client \<Rightarrow> string \<Rightarrow> pyval \<Rightarrow> pyval \<Rightarrow> pydict prog" where
  "claim_execution_dispatch E C operation_id approval_sha256 agent_token =
     bindp (identity_headers C agent_token None) (\<lambda>headers.
     bindp (request E C (api_call ''POST'' (execution_path operation_id ''/dispatch'')
              (Some (PDict [(''approval_sha256'', approval_sha256)])) headers) [200]) (\<lambda>raw.
     case raw of
       PDict d \<Rightarrow>
         (if \<not> py_eq (dget d ''operation_id'') (PStr operation_id)
             \<or> \<not> py_eq (dget d ''approval_sha256'') approval_sha256
             \<or> \<not> py_eq (dget d ''dispatch_state'') (PStr ''claimed'')
          then raise (ProtocolError ''invalid execution dispatch claim'')
          else return d)
     | _ \<Rightarrow> raise (ProtocolError ''invalid execution dispatch claim'')))"

definition get_execution_witness_token ::
  "sdk_env \<Rightarrow> client \<Rightarrow> string \<Rightarrow> pyval \<Rightarrow> pyval \<Rightarrow> pydict prog" where
  "get_execution_witness_token E C operation_id approval_sha256 agent_token =
     bindp (identity_headers C agent_token None) (\<lambda>headers.
     bindp (request E C (api_call ''POST'' (execution_path operation_id ''/witness-session-token'')
              (Some (PDict [(''approval_sha256'', approval_sha256)])) headers) [200]) (\<lambda>raw.
     case raw of
       PDict d \<Rightarrow>
         (if \<not> py_eq (dget d ''approval_sha256'') approval_sha256
          then raise (ProtocolError ''invalid execution witness admission'')
          else return d)
     | _ \<Rightarrow> raise (ProtocolError ''invalid execution witness admission'')))"

text \<open>
  \<open>flush_execution_outcome\<close> passes on what the journal holds, so the body and the key are any
  values: a body of \<open>None\<close> is no body, a key of \<open>None\<close> no header, and the HTTP client refuses any
  other header value that is not text.
\<close>

definition report_execution_outcome ::
  "sdk_env \<Rightarrow> client \<Rightarrow> string \<Rightarrow> pyval \<Rightarrow> pyval \<Rightarrow> pyval \<Rightarrow> execution_response prog" where
  "report_execution_outcome E C operation_id outc idempotency_key agent_token =
     bindp (identity_headers C agent_token (as_string idempotency_key)) (\<lambda>headers.
     if idempotency_key \<noteq> PNone \<and> as_string idempotency_key = None
     then raise (TypeError ''Header value must be str or bytes'')
     else
       bindp (request E C (api_call ''POST'' (execution_path operation_id ''/outcome'')
                (if outc = PNone then None else Some outc) headers) [200, 201]) (\<lambda>raw.
       bindp (Done (parse_execution_response E raw)) (\<lambda>result.
       if er_operation_id result \<noteq> operation_id
       then raise (ProtocolError ''execution outcome does not match the requested operation'')
       else case outc of
         PDict body \<Rightarrow>
           (if \<not> py_eq (opt_str (er_approval_sha256 result)) (dget body ''approval_sha256'')
            then raise (ProtocolError ''execution outcome does not match the requested operation'')
            else return result)
       | _ \<Rightarrow> raise AttributeError)))"

subsection \<open>The endpoints only talk to the API\<close>

fun api_effect :: "eff \<Rightarrow> bool" where
  "api_effect (Request _) = True"
| "api_effect Agent_Token_Supplier = True"
| "api_effect _ = False"

lemma uses_only_Done [simp]: "uses_only N (Done r)"
  by simp

lemma uses_only_if [intro]:
  "uses_only N m \<Longrightarrow> uses_only N m' \<Longrightarrow> uses_only N (if c then m else m')"
  by simp

lemma uses_only_Let [intro]: "(\<And>x. uses_only N (f x)) \<Longrightarrow> uses_only N (Let v f)"
  by (simp add: Let_def)

lemma uses_only_prod [intro]:
  "(\<And>a b. uses_only N (f a b)) \<Longrightarrow> uses_only N (case p of (a, b) \<Rightarrow> f a b)"
  by (cases p) simp

lemma uses_only_pyval [intro]:
  "uses_only N n \<Longrightarrow> (\<And>b. uses_only N (fb b)) \<Longrightarrow> (\<And>i. uses_only N (fi i)) \<Longrightarrow>
   (\<And>x. uses_only N (ff x)) \<Longrightarrow> (\<And>s. uses_only N (fs s)) \<Longrightarrow> (\<And>s. uses_only N (fy s)) \<Longrightarrow>
   (\<And>xs. uses_only N (fl xs)) \<Longrightarrow> (\<And>d. uses_only N (fd d)) \<Longrightarrow> (\<And>i. uses_only N (fo i)) \<Longrightarrow>
   uses_only N (case v of PNone \<Rightarrow> n | PBool b \<Rightarrow> fb b | PInt i \<Rightarrow> fi i | PFloat x \<Rightarrow> ff x
     | PStr s \<Rightarrow> fs s | PBytes s \<Rightarrow> fy s | PList xs \<Rightarrow> fl xs | PDict d \<Rightarrow> fd d | PObj i \<Rightarrow> fo i)"
  by (cases v) simp_all

lemma identity_headers_api [intro]: "uses_only api_effect (identity_headers C t k)"
  unfolding identity_headers_def effective_agent_token_def
  by (intro uses_only_bindp uses_only_if uses_only_Let) (auto split: pyval.splits)

lemma request_with_headers_api [intro]:
  "uses_only api_effect (request_with_headers E C rq expected fmt)"
  unfolding request_with_headers_def send_request_def
  by (intro uses_only_bindp uses_only_handle uses_only_if) auto

lemma request_api [intro]: "uses_only api_effect (request E C rq expected)"
  unfolding request_def by (intro uses_only_bindp uses_only_prod request_with_headers_api) simp

lemma execution_endpoints_api [intro]:
  "uses_only api_effect (get_execution E C i t)"
  "uses_only api_effect (prepare_execution E C x k t)"
  "uses_only api_effect (continue_execution E C i er rv src k t)"
  "uses_only api_effect (claim_execution_dispatch E C i h t)"
  "uses_only api_effect (get_execution_witness_token E C i h t)"
  "uses_only api_effect (report_execution_outcome E C i outc kv t)"
  unfolding get_execution_def prepare_execution_def continue_execution_def
    claim_execution_dispatch_def get_execution_witness_token_def report_execution_outcome_def
  by ((intro uses_only_bindp uses_only_if uses_only_Let identity_headers_api request_api
        uses_only_Done uses_only_pyval)+)

end
