(* ===== verification/Py_Url.thy ===== *)
theory Py_Url
  imports Py_Value
begin

text \<open>
  The parts of \<open>urllib.parse\<close> and \<open>ipaddress\<close> the SDK relies on: \<open>urlsplit\<close> with the accessors of
  its result, \<open>unquote\<close> with strict errors, and the recognition of IPv4 literals.
\<close>

subsection \<open>urlsplit\<close>

record split_url =
  su_scheme :: string
  su_netloc :: string
  su_path :: string
  su_query :: string
  su_fragment :: string

definition is_scheme_char :: "char \<Rightarrow> bool" where
  "is_scheme_char c \<longleftrightarrow> is_alnum c \<or> c \<in> {CHR ''+'', CHR ''-'', CHR ''.''}"

definition split_scheme :: "string \<Rightarrow> string \<times> string" where
  "split_scheme s =
     (case partition_on (CHR '':'') s of (pre, found, post) \<Rightarrow>
        (if found \<and> pre \<noteq> [] \<and> (is_ascii_upper (hd pre) \<or> is_ascii_lower (hd pre))
            \<and> list_all is_scheme_char pre
         then (str_lower pre, post) else ([], s)))"

definition split_netloc :: "string \<Rightarrow> string \<times> string" where
  "split_netloc s =
     (if starts_with ''//'' s then
        let r = drop 2 s; stop = (\<lambda>c. c \<notin> {CHR ''/'', CHR ''?'', CHR ''#''}) in
        (takeWhile stop r, dropWhile stop r)
      else ([], s))"

text \<open>
  Tabs and line breaks are removed and leading control characters and blanks skipped, as the
  interpreters with the WHATWG fix do. \<open>None\<close> is \<open>ValueError\<close> (unbalanced brackets).
\<close>

definition urlsplit :: "string \<Rightarrow> split_url option" where
  "urlsplit url =
     (let s = filter (\<lambda>c. ord c \<notin> {9, 10, 13}) (dropWhile (\<lambda>c. ord c \<le> 32) url);
          (scheme, r) = split_scheme s;
          (netloc, r) = split_netloc r;
          (r, _, fragment) = partition_on (CHR ''#'') r;
          (path, _, query) = partition_on (CHR ''?'') r
      in if (CHR ''['' \<in> set netloc) \<noteq> (CHR '']'' \<in> set netloc) then None
         else Some \<lparr>su_scheme = scheme, su_netloc = netloc, su_path = path, su_query = query,
                    su_fragment = fragment\<rparr>)"

text \<open>\<open>netloc.rpartition("@")\<close>: the user information, when there is one, and the host part.\<close>

definition user_info :: "split_url \<Rightarrow> string option" where
  "user_info u =
     (if CHR ''@'' \<in> set (su_netloc u)
      then Some (rev (tl (dropWhile (\<lambda>c. c \<noteq> CHR ''@'') (rev (su_netloc u))))) else None)"

definition host_info :: "split_url \<Rightarrow> string" where
  "host_info u = rev (takeWhile (\<lambda>c. c \<noteq> CHR ''@'') (rev (su_netloc u)))"

definition host_and_port :: "split_url \<Rightarrow> string \<times> string" where
  "host_and_port u =
     (case partition_on (CHR ''['') (host_info u) of
        (_, True, bracketed) \<Rightarrow>
          (case partition_on (CHR '']'') bracketed of (host, _, r) \<Rightarrow>
             (host, snd (snd (partition_on (CHR '':'') r))))
      | (_, False, _) \<Rightarrow>
          (case partition_on (CHR '':'') (host_info u) of (host, _, port) \<Rightarrow> (host, port)))"

text \<open>\<open>parsed.hostname or ""\<close>, in lower case up to a zone identifier.\<close>

definition hostname :: "split_url \<Rightarrow> string" where
  "hostname u =
     (case partition_on (CHR ''%'') (fst (host_and_port u)) of (h, found, zone) \<Rightarrow>
        str_lower h @ (if found then CHR ''%'' # zone else []))"

fun digits_value :: "string \<Rightarrow> int \<Rightarrow> int" where
  "digits_value [] acc = acc"
| "digits_value (c # cs) acc = digits_value cs (10 * acc + int (ord c - 48))"

text \<open>\<open>parsed.port\<close>: the outer \<open>None\<close> is \<open>ValueError\<close>, the inner one no port.\<close>

definition port_of :: "split_url \<Rightarrow> int option option" where
  "port_of u =
     (let p = snd (host_and_port u) in
      if p = [] then Some None
      else if \<not> list_all is_digit p \<or> digits_value p 0 > 65535 then None
      else Some (Some (digits_value p 0)))"

subsection \<open>unquote\<close>

definition hex_value :: "char \<Rightarrow> nat option" where
  "hex_value c =
     (if is_digit c then Some (ord c - 48)
      else if between 97 102 c then Some (ord c - 87)
      else if between 65 70 c then Some (ord c - 55) else None)"

definition hex_pair :: "char \<Rightarrow> char \<Rightarrow> char option" where
  "hex_pair a b =
     (case hex_value a of None \<Rightarrow> None
      | Some x \<Rightarrow> (case hex_value b of None \<Rightarrow> None | Some y \<Rightarrow> Some (char_of (16 * x + y))))"

fun percent_decode :: "string \<Rightarrow> string" where
  "percent_decode (p # a # b # cs) =
     (if p = CHR ''%'' then
        (case hex_pair a b of
           Some c \<Rightarrow> c # percent_decode cs
         | None \<Rightarrow> p # percent_decode (a # b # cs))
      else p # percent_decode (a # b # cs))"
| "percent_decode cs = cs"

text \<open>Well-formed UTF-8: shortest encodings, no surrogates, nothing above U+10FFFF.\<close>

abbreviation is_cont :: "char \<Rightarrow> bool" where
  "is_cont \<equiv> between 128 191"

fun utf8_valid :: "string \<Rightarrow> bool" where
  "utf8_valid [] = True"
| "utf8_valid (a # cs) =
     (if ord a < 128 then utf8_valid cs
      else case cs of
        [] \<Rightarrow> False
      | b # cs \<Rightarrow>
          (if between 194 223 a then is_cont b \<and> utf8_valid cs
           else case cs of
             [] \<Rightarrow> False
           | c # cs \<Rightarrow>
               (if between 224 239 a
                then is_cont b \<and> is_cont c \<and> (ord a = 224 \<longrightarrow> 160 \<le> ord b)
                     \<and> (ord a = 237 \<longrightarrow> ord b \<le> 159) \<and> utf8_valid cs
                else case cs of
                  [] \<Rightarrow> False
                | d # cs \<Rightarrow>
                    between 240 244 a \<and> is_cont b \<and> is_cont c \<and> is_cont d
                    \<and> (ord a = 240 \<longrightarrow> 144 \<le> ord b) \<and> (ord a = 244 \<longrightarrow> ord b \<le> 143)
                    \<and> utf8_valid cs)))"

text \<open>
  \<open>unquote(s, errors="strict")\<close> on the UTF-8 bytes of \<open>s\<close>. \<open>None\<close> is \<open>UnicodeDecodeError\<close>, a
  \<open>ValueError\<close>.
\<close>

definition unquote_strict :: "string \<Rightarrow> string option" where
  "unquote_strict s =
     (if CHR ''%'' \<notin> set s then Some s
      else if utf8_valid (percent_decode s) then Some (percent_decode s) else None)"

fun unquote_times :: "nat \<Rightarrow> string \<Rightarrow> string option" where
  "unquote_times 0 s = Some s"
| "unquote_times (Suc n) s =
     (case unquote_strict s of None \<Rightarrow> None | Some t \<Rightarrow> unquote_times n t)"

subsection \<open>IPv4 literals\<close>

definition is_octet :: "string \<Rightarrow> bool" where
  "is_octet s \<longleftrightarrow> s \<noteq> [] \<and> length s \<le> 3 \<and> list_all is_digit s \<and> digits_value s 0 \<le> 255
     \<and> (length s > 1 \<longrightarrow> hd s \<noteq> CHR ''0'')"

definition is_ipv4_literal :: "string \<Rightarrow> bool" where
  "is_ipv4_literal h \<longleftrightarrow> length (split_on (CHR ''.'') h) = 4 \<and> list_all is_octet (split_on (CHR ''.'') h)"

subsection \<open>Decoding a segment any number of times\<close>

lemma percent_decode_no_percent: "CHR ''%'' \<notin> set s \<Longrightarrow> percent_decode s = s"
  by (induction s rule: percent_decode.induct) auto

lemma percent_decode_keeps:
  "c \<in> set s \<Longrightarrow> c \<noteq> CHR ''%'' \<Longrightarrow> hex_value c = None \<Longrightarrow> c \<in> set (percent_decode s)"
  by (induction s rule: percent_decode.induct) (auto simp: hex_pair_def split: option.splits)

lemma unquote_no_percent: "CHR ''%'' \<notin> set s \<Longrightarrow> unquote_times n s = Some s"
  by (induction n) (simp_all add: unquote_strict_def)

lemma unquote_strict_keeps:
  "unquote_strict s = Some t \<Longrightarrow> c \<in> set s \<Longrightarrow> c \<noteq> CHR ''%'' \<Longrightarrow> hex_value c = None \<Longrightarrow> c \<in> set t"
  by (auto simp: unquote_strict_def percent_decode_keeps split: if_splits)

lemma unquote_times_keeps:
  "unquote_times n s = Some t \<Longrightarrow> c \<in> set s \<Longrightarrow> c \<noteq> CHR ''%'' \<Longrightarrow> hex_value c = None \<Longrightarrow> c \<in> set t"
  by (induction n arbitrary: s) (auto split: option.splits dest: unquote_strict_keeps)

lemma unquote_times_add:
  "unquote_times (m + n) s = (case unquote_times m s of None \<Rightarrow> None | Some t \<Rightarrow> unquote_times n t)"
  by (induction m arbitrary: s) (auto split: option.splits)

text \<open>
  Once \<open>m\<close> decodings leave no percent sign, any number of decodings gives a text that
  reaches the same end: it is an earlier stage or the end itself.
\<close>

lemma unquote_times_reaches:
  assumes "unquote_times m s = Some t" and "CHR ''%'' \<notin> set t"
  shows "\<exists>u k. unquote_times n s = Some u \<and> unquote_times k u = Some t"
proof (cases "n \<le> m")
  case True
  then obtain k where "m = n + k" by (auto simp: le_iff_add)
  with assms(1) show ?thesis by (auto simp: unquote_times_add split: option.splits)
next
  case False
  then obtain k where "n = m + k" by (metis le_add_diff_inverse nat_le_linear)
  with assms show ?thesis by (auto simp: unquote_times_add unquote_no_percent intro: exI[of _ 0])
qed

end
