(* ===== verification/Http_Request.thy ===== *)
theory Http_Request
  imports Execution_Api Py_Url "HOL-Library.List_Lexorder" "HOL-Library.Char_ord"
    "HOL-Library.Multiset"
begin

text \<open>
  \<open>_request\<close> and \<open>_http_execution_request\<close> of \<open>allowly/execution.py\<close>: the normalisation of
  the caller's HTTP request into the descriptor the API approves and the headers that stay
  private. The descriptor holds commitments (hashes) of header values and body only. Facts:
  the destination is an HTTPS DNS name, no decoding of a path segment is ambiguous, forbidden
  headers never pass, and the descriptor does not depend on the order of the headers.
\<close>

definition sha :: "sdk_env \<Rightarrow> string \<Rightarrow> string" where
  "sha E data = ''sha256:'' @ sha256_hex E data"

definition forbidden_headers :: "string list" where
  "forbidden_headers =
     [''host'', ''content-length'', ''transfer-encoding'', ''connection'', ''keep-alive'', ''te'',
      ''trailer'', ''upgrade'', ''proxy-authorization'', ''proxy-connection'',
      ''accept-encoding'', ''expect'']"

subsection \<open>The destination\<close>

definition is_host_char :: "char \<Rightarrow> bool" where
  \<comment> \<open>\<open>[a-z0-9.-]\<close>\<close>
  "is_host_char c \<longleftrightarrow> is_ascii_lower c \<or> is_digit c \<or> c = CHR ''.'' \<or> c = CHR ''-''"

definition check_destination :: "split_url \<Rightarrow> string res" where
  "check_destination u =
     (let host = hostname u;
          bad = Inl (ValueError ''execution destination must be a public HTTPS DNS origin on port 443'')
      in if su_scheme u \<noteq> ''https'' \<or> host = [] then bad
         else case port_of u of
           None \<Rightarrow> Inl (ValueError ''Port could not be cast to integer value'')
         | Some port \<Rightarrow>
             (if port \<notin> {None, Some 443} \<or> user_info u \<noteq> None \<or> su_fragment u \<noteq> []
                 \<or> \<not> list_all is_host_char host \<or> CHR ''.'' \<notin> set host
              then bad
              else if is_ipv4_literal host
              then Inl (ValueError ''IP-literal execution destinations are not supported'')
              else Inr host))"

subsection \<open>The path\<close>

definition is_url_visible :: "char \<Rightarrow> bool" where
  "is_url_visible = between 33 126"

definition ambiguous :: "string \<Rightarrow> bool" where
  "ambiguous decoded \<longleftrightarrow>
     decoded \<in> {''.'', ''..''} \<or> CHR ''/'' \<in> set decoded \<or> char_of (92 :: nat) \<in> set decoded
     \<or> CHR ''%'' \<in> set decoded \<or> (\<exists>c \<in> set decoded. ord c < 32 \<or> ord c = 127)"

definition check_segment :: "string \<Rightarrow> unit res" where
  "check_segment segment =
     (case unquote_times 4 segment of
        None \<Rightarrow> Inl (ValueError ''codec cannot decode bytes'')
      | Some decoded \<Rightarrow>
          (if ambiguous decoded then Inl (ValueError ''ambiguous path segment'') else Inr ()))"

subsection \<open>The headers\<close>

definition is_header_char :: "char \<Rightarrow> bool" where
  \<comment> \<open>\<open>[a-z0-9-]\<close>\<close>
  "is_header_char c \<longleftrightarrow> is_ascii_lower c \<or> is_digit c \<or> c = CHR ''-''"

fun normalize_headers ::
  "(string \<times> string) list \<Rightarrow> (string \<times> pyval) list \<Rightarrow> (string \<times> string) list res" where
  "normalize_headers acc [] = Inr acc"
| "normalize_headers acc ((n, v) # hs) =
     (let name = str_lower n in
      case as_string v of
        None \<Rightarrow> Inl (ValueError ''unsafe, duplicate, or unsupported request header'')
      | Some value \<Rightarrow>
          (if name = [] \<or> \<not> list_all is_header_char name \<or> name \<in> set forbidden_headers
              \<or> name \<in> set (map fst acc) \<or> value \<noteq> strip value \<or> \<not> list_all is_printable value
           then Inl (ValueError ''unsafe, duplicate, or unsupported request header'')
           else normalize_headers (acc @ [(name, value)]) hs))"

definition header_digest :: "sdk_env \<Rightarrow> string \<Rightarrow> string \<Rightarrow> string" where
  "header_digest E name value =
     sha E (''allowly.execution.header.v1'' @ [char_of (0 :: nat)] @ utf8 name @
            [char_of (0 :: nat)] @ utf8 value)"

definition commit_header :: "sdk_env \<Rightarrow> (string \<times> string) list \<Rightarrow> string \<Rightarrow> pyval" where
  "commit_header E normalized name =
     PDict [(''name'', PStr name),
            (''value_sha256'', PStr (header_digest E name (the (map_of normalized name))))]"

subsection \<open>The request\<close>

definition methods :: "string list" where
  "methods = [''GET'', ''POST'', ''PUT'', ''PATCH'', ''DELETE'']"

definition request_descriptor_of ::
  "sdk_env \<Rightarrow> string \<Rightarrow> string \<Rightarrow> string \<Rightarrow> string \<Rightarrow> (string \<times> string) list \<Rightarrow> string \<Rightarrow> pydict" where
  "request_descriptor_of E method host path query normalized body =
     [(''method'', PStr method), (''origin'', PStr (''https://'' @ host)), (''path'', PStr path),
      (''query'', PStr query),
      (''headers'', PList (map (commit_header E normalized) (sort (map fst normalized)))),
      (''body_sha256'', PStr (sha E (utf8 body))), (''body_size'', PInt (int (length (utf8 body)))),
      (''content_type'', opt_str (map_of normalized ''content-type''))]"

definition url_path :: "split_url \<Rightarrow> string" where
  \<comment> \<open>\<open>parsed.path or "/"\<close>\<close>
  "url_path u = (if su_path u = [] then ''/'' else su_path u)"

definition http_request_of ::
  "sdk_env \<Rightarrow> string \<Rightarrow> string \<Rightarrow> (string \<times> pyval) list \<Rightarrow> pyval \<Rightarrow>
     (pydict \<times> (string \<times> string) list) res" where
  "http_request_of E url meth headers body_arg =
     (case as_string body_arg of
        None \<Rightarrow> Inl (ValueError ''execute_http requires a UTF-8 string body and normalized HTTPS URL'')
      | Some body \<Rightarrow>
     if url \<noteq> strip url \<or> char_of (92 :: nat) \<in> set url
     then Inl (ValueError ''execute_http requires a UTF-8 string body and normalized HTTPS URL'')
     else case urlsplit url of
       None \<Rightarrow> Inl (ValueError ''Invalid IPv6 URL'')
     | Some parsed \<Rightarrow>
     bindr (check_destination parsed) (\<lambda>host.
     let method = str_upper meth in
     if method \<notin> set methods then Inl (ValueError ''unsupported HTTP method'')
     else
       let path = url_path parsed;
           query = su_query parsed in
     if \<not> list_all is_url_visible (path @ query)
     then Inl (ValueError ''encode the URL path and query before execution'')
     else
     bindr (mapr check_segment (split_on (CHR ''/'') path)) (\<lambda>_.
     bindr (normalize_headers [] headers) (\<lambda>normalized.
     if body \<noteq> [] \<and> map_of normalized ''content-type'' \<in> {None, Some []}
     then Inl (ValueError ''a body requires a content-type header'')
     else if 256 * 1024 < int (length (utf8 body))
     then Inl (ValueError ''request body exceeds 256 KiB'')
     else Inr (request_descriptor_of E method host path query normalized body, normalized)))))"

definition policy_defaults :: pydict where
  "policy_defaults =
     [(''resource'', PNone), (''context'', PDict []), (''estimated_cost_micros'', PNone)]"

text \<open>The keyword arguments of \<open>execute_http\<close> and \<open>continue_http_execution\<close>.\<close>

record http_call =
  hx_url :: string
  hx_operation_id :: string
  hx_authorization_id :: string
  hx_enabled_executable_id :: string
  hx_catalog_operation_id :: string
  hx_action :: string
  hx_method :: string
  hx_headers :: "(string \<times> pyval) list"
  hx_body :: pyval
  hx_evidence_mode :: string
  hx_policy_input :: pydict
  hx_storage_dir :: string
  hx_agent_token :: pyval
  hx_native_binary :: "string option"
  hx_trusted_notary_key :: "string option"
  hx_timeout :: pyfloat

definition http_execution_request ::
  "sdk_env \<Rightarrow> http_call \<Rightarrow> (execution_request \<times> (string \<times> string) list) res" where
  "http_execution_request E c =
     (if hx_operation_id c = [] \<or> hx_evidence_mode c \<notin> {''receipt'', ''witnessed''}
         \<or> float_le (hx_timeout c) (Fin 0) \<or> \<not> float_le (hx_timeout c) (Fin 150)
      then Inl (ValueError ''operation ID, evidence mode, or timeout is invalid'')
      else
        bindr (http_request_of E (hx_url c) (hx_method c) (hx_headers c) (hx_body c))
          (\<lambda>(descriptor, private_headers).
        Inr (\<lparr>xr_operation_id = hx_operation_id c, xr_authorization_id = hx_authorization_id c,
              xr_enabled_executable_id = hx_enabled_executable_id c,
              xr_catalog_operation_id = hx_catalog_operation_id c, xr_action = hx_action c,
              xr_http_request = descriptor,
              xr_policy_input = merge_items policy_defaults (hx_policy_input c),
              xr_evidence_mode = hx_evidence_mode c, xr_client_timestamp = PNone\<rparr>,
             private_headers)))"

subsection \<open>Path segments\<close>

definition harmless :: "string \<Rightarrow> bool" where
  "harmless u \<longleftrightarrow> u \<notin> {''.'', ''..''} \<and> CHR ''/'' \<notin> set u \<and> char_of (92 :: nat) \<notin> set u
     \<and> (\<forall>c \<in> set u. 32 \<le> ord c \<and> ord c \<noteq> 127)"

lemma hex_value_None_specials:
  "hex_value (CHR ''/'') = None" "hex_value (char_of (92 :: nat)) = None"
  "ord c < 32 \<or> ord c = 127 \<Longrightarrow> hex_value c = None"
  by (auto simp: hex_value_def is_digit_def between_def)

lemma reaching_harmless:
  assumes "unquote_times k u = Some t" and "\<not> ambiguous t"
  shows "harmless u"
proof -
  have keep: "c \<in> set t" if "c \<in> set u" "hex_value c = None" "c \<noteq> CHR ''%''" for c
    using unquote_times_keeps[OF assms(1)] that by blast
  have "u \<notin> {''.'', ''..''}"
    using assms unquote_no_percent[of u k] by (auto simp: ambiguous_def)
  moreover have "CHR ''/'' \<notin> set u"
    using keep[OF _ hex_value_None_specials(1)] assms(2) by (auto simp: ambiguous_def)
  moreover have "char_of (92 :: nat) \<notin> set u"
  proof
    assume "char_of (92 :: nat) \<in> set u"
    then have "char_of (92 :: nat) \<in> set t"
      by (rule keep[OF _ hex_value_None_specials(2)]) code_simp
    with assms(2) show False by (simp add: ambiguous_def)
  qed
  moreover have "32 \<le> ord c \<and> ord c \<noteq> 127" if "c \<in> set u" for c
  proof (rule ccontr)
    assume bad: "\<not> (32 \<le> ord c \<and> ord c \<noteq> 127)"
    then have "c \<noteq> CHR ''%''" by auto
    with bad that keep[of c] hex_value_None_specials(3)[of c] have "c \<in> set t" by auto
    with bad assms(2) show False by (auto simp: ambiguous_def)
  qed
  ultimately show ?thesis by (auto simp: harmless_def)
qed

lemma check_segment_harmless:
  assumes "check_segment seg = Inr ()"
  shows "\<exists>u. unquote_times n seg = Some u \<and> harmless u"
proof -
  from assms obtain t where t: "unquote_times 4 seg = Some t" "\<not> ambiguous t"
    by (auto simp: check_segment_def)
  then obtain u k where "unquote_times n seg = Some u" "unquote_times k u = Some t"
    using unquote_times_reaches[of 4 seg t n] by (auto simp: ambiguous_def)
  with t(2) show ?thesis using reaching_harmless by blast
qed

subsection \<open>Headers\<close>

definition header_ok :: "string \<times> pyval \<Rightarrow> bool" where
  "header_ok h =
     (case as_string (snd h) of
        None \<Rightarrow> False
      | Some value \<Rightarrow>
          str_lower (fst h) \<noteq> [] \<and> list_all is_header_char (str_lower (fst h))
          \<and> str_lower (fst h) \<notin> set forbidden_headers
          \<and> value = strip value \<and> list_all is_printable value)"

definition header_pair :: "string \<times> pyval \<Rightarrow> string \<times> string" where
  "header_pair h = (str_lower (fst h), the (as_string (snd h)))"

lemma normalize_headers_Cons:
  "normalize_headers acc (h # hs) =
     (if header_ok h \<and> fst (header_pair h) \<notin> set (map fst acc)
      then normalize_headers (acc @ [header_pair h]) hs
      else Inl (ValueError ''unsafe, duplicate, or unsupported request header''))"
  by (cases h; cases "as_string (snd h)")
     (auto simp: header_ok_def header_pair_def Let_def simp del: set_map)

lemma normalize_headers_iff:
  "normalize_headers acc hs = Inr nrm \<longleftrightarrow>
     nrm = acc @ map header_pair hs \<and> list_all header_ok hs
     \<and> distinct (map (fst \<circ> header_pair) hs)
     \<and> set (map fst acc) \<inter> set (map (fst \<circ> header_pair) hs) = {}"
  by (induction hs arbitrary: acc)
     (auto simp: normalize_headers_Cons simp del: normalize_headers.simps(2))

lemma normalize_headers_perm:
  assumes "mset hs = mset hs'" and "normalize_headers [] hs = Inr nrm"
  shows "\<exists>nrm'. normalize_headers [] hs' = Inr nrm' \<and> mset nrm' = mset nrm"
proof -
  from assms(1) have s: "set hs = set hs'" by (rule mset_eq_setD)
  have d: "distinct (map f hs) = distinct (map f hs')" for f :: "string \<times> pyval \<Rightarrow> string"
    using assms(1) by (metis mset_map mset_eq_imp_distinct_iff)
  have "normalize_headers [] hs' = Inr (map header_pair hs')"
    using assms(2) s d by (auto simp: normalize_headers_iff list_all_iff)
  moreover have "mset (map header_pair hs') = mset nrm"
    using assms by (simp add: normalize_headers_iff)
  ultimately show ?thesis by blast
qed

lemma map_of_perm:
  assumes "mset nrm = mset nrm'" and "distinct (map fst nrm)"
  shows "map_of nrm = map_of nrm'"
proof -
  have "distinct (map fst nrm')"
    using assms mset_eq_imp_distinct_iff[of "map fst nrm" "map fst nrm'"] by simp
  then show ?thesis
    using assms mset_eq_setD[OF assms(1)] by (intro map_of_inject_set[THEN iffD2])
qed

lemma request_descriptor_perm:
  assumes "mset nrm = mset nrm'" and "distinct (map fst nrm)"
  shows "request_descriptor_of E m h p q nrm b = request_descriptor_of E m h p q nrm' b"
proof -
  have keys: "mset (map fst nrm) = mset (map fst nrm')"
    using assms(1) by simp
  have "sort (map fst nrm) = sort (map fst nrm')"
    using sorted_list_of_multiset_mset keys by metis
  then show ?thesis
    by (simp add: request_descriptor_of_def commit_header_def map_of_perm[OF assms])
qed

subsection \<open>What an accepted request is\<close>

definition accepted_parts ::
  "sdk_env \<Rightarrow> string \<Rightarrow> string \<Rightarrow> (string \<times> pyval) list \<Rightarrow> pyval \<Rightarrow> pydict \<Rightarrow> (string \<times> string) list
     \<Rightarrow> string \<Rightarrow> split_url \<Rightarrow> string \<Rightarrow> bool" where
  "accepted_parts E url meth hs b d nrm body u host \<longleftrightarrow>
     b = PStr body \<and> \<not> (url \<noteq> strip url \<or> char_of (92 :: nat) \<in> set url)
     \<and> urlsplit url = Some u \<and> check_destination u = Inr host \<and> \<not> str_upper meth \<notin> set methods
     \<and> \<not> \<not> list_all is_url_visible (url_path u @ su_query u)
     \<and> (\<exists>us. mapr check_segment (split_on (CHR ''/'') (url_path u)) = Inr us)
     \<and> normalize_headers [] hs = Inr nrm
     \<and> \<not> (body \<noteq> [] \<and> map_of nrm ''content-type'' \<in> {None, Some []})
     \<and> \<not> 256 * 1024 < int (length (utf8 body))
     \<and> d = request_descriptor_of E (str_upper meth) host (url_path u) (su_query u) nrm body"

lemma http_request_of_iff:
  "http_request_of E url meth hs b = Inr (d, nrm) \<longleftrightarrow>
     (\<exists>body u host. accepted_parts E url meth hs b d nrm body u host)"
  (is "?L \<longleftrightarrow> ?R")
proof
  assume ?L
  then show ?R
    unfolding http_request_of_def Let_def
    apply (elim result_elims)
    apply (simp only: sum.inject prod.inject as_string_eq_Some accepted_parts_def)
    apply blast
    done
next
  assume ?R
  then obtain body u host where *: "accepted_parts E url meth hs b d nrm body u host"
    by blast
  then have eqs: "as_string b = Some body" "urlsplit url = Some u" "check_destination u = Inr host"
    "normalize_headers [] hs = Inr nrm" "\<not> (url \<noteq> strip url \<or> char_of (92 :: nat) \<in> set url)"
    "\<not> str_upper meth \<notin> set methods" "\<not> \<not> list_all is_url_visible (url_path u @ su_query u)"
    "\<not> (body \<noteq> [] \<and> map_of nrm ''content-type'' \<in> {None, Some []})"
    "\<not> 256 * 1024 < int (length (utf8 body))"
    "d = request_descriptor_of E (str_upper meth) host (url_path u) (su_query u) nrm body"
    unfolding accepted_parts_def as_string_eq_Some by blast+
  from * obtain us where us: "mapr check_segment (split_on (CHR ''/'') (url_path u)) = Inr us"
    unfolding accepted_parts_def by blast
  show ?L
    unfolding http_request_of_def Let_def
    by (simp only: eqs us option.case bindr_simps if_False)
qed

lemma check_destination_inv:
  assumes "check_destination u = Inr host"
  shows "su_scheme u = ''https''" "host = hostname u" "user_info u = None"
    "list_all is_host_char host" "CHR ''.'' \<in> set host" "\<not> is_ipv4_literal host"
    "port_of u \<in> {Some None, Some (Some 443)}" "su_fragment u = []"
  using assms by (auto simp: check_destination_def Let_def split: if_splits option.splits)

lemma normalize_headers_distinct:
  "normalize_headers [] hs = Inr nrm \<Longrightarrow> distinct (map fst nrm)"
  by (auto simp: normalize_headers_iff)

lemma commit_headers_eq_iff:
  assumes "distinct (map fst n)" and "distinct (map fst n')"
  shows "map (commit_header E n) (sort (map fst n)) = map (commit_header E n') (sort (map fst n'))
    \<longleftrightarrow> set (map fst n) = set (map fst n')
      \<and> (\<forall>name \<in> set (map fst n).
           header_digest E name (the (map_of n name)) = header_digest E name (the (map_of n' name)))"
    (is "?L \<longleftrightarrow> ?R")
proof
  let ?nm = "\<lambda>v. case v of PDict ((_, PStr s) # _) \<Rightarrow> s | _ \<Rightarrow> []"
  have nm: "map ?nm (map (commit_header E m) xs) = xs" for m xs
    by (induction xs) (simp_all add: commit_header_def)
  assume L: ?L
  then have keys: "sort (map fst n) = sort (map fst n')"
    using nm by metis
  then have "set (map fst n) = set (map fst n')" by (metis set_sort)
  moreover have "\<forall>x \<in> set (sort (map fst n)). commit_header E n x = commit_header E n' x"
    using L keys by simp
  ultimately show ?R by (simp add: commit_header_def)
next
  assume R: ?R
  then have "mset (map fst n) = mset (map fst n')"
    using assms set_eq_iff_mset_eq_distinct by blast
  then have "sort (map fst n) = sort (map fst n')"
    using sorted_list_of_multiset_mset by metis
  moreover have "commit_header E n x = commit_header E n' x" if "x \<in> set (map fst n)" for x
    using R that unfolding commit_header_def by metis
  ultimately show ?L by (metis (no_types, lifting) map_eq_conv set_sort)
qed

subsection \<open>Properties\<close>

text \<open>
  C10: every segment of the path of an accepted request, decoded any number of times, is neither
  a dot segment nor contains a slash, a backslash or a control character: no server-side
  decoding can turn the approved path into another one.
\<close>

theorem request_path_unambiguous:
  assumes "http_request_of E url meth hs b = Inr (d, nrm)"
  shows "\<exists>path. dget d ''path'' = PStr path \<and>
    (\<forall>seg \<in> set (split_on (CHR ''/'') path). \<forall>n. \<exists>u. unquote_times n seg = Some u \<and> harmless u)"
proof -
  from assms obtain body u host us where
    *: "mapr check_segment (split_on (CHR ''/'') (url_path u)) = Inr us"
      "d = request_descriptor_of E (str_upper meth) host (url_path u) (su_query u) nrm body"
    unfolding http_request_of_iff accepted_parts_def by blast
  then show ?thesis
    using mapr_all_ok[OF *(1)] check_segment_harmless by (simp add: request_descriptor_of_def)
qed

text \<open>
  C11: an accepted request goes to the host of an HTTPS URL without credentials or fragment, on
  port 443, named by a DNS name and not an IP literal; the body is at most 256 KiB.
\<close>

theorem request_destination_https:
  assumes "http_request_of E url meth hs b = Inr (d, nrm)"
  shows "\<exists>u body. urlsplit url = Some u \<and> b = PStr body
    \<and> su_scheme u = ''https'' \<and> user_info u = None \<and> su_fragment u = []
    \<and> port_of u \<in> {Some None, Some (Some 443)}
    \<and> dget d ''origin'' = PStr (''https://'' @ hostname u)
    \<and> list_all is_host_char (hostname u) \<and> \<not> is_ipv4_literal (hostname u)
    \<and> dget d ''method'' \<in> PStr ` set methods
    \<and> dget d ''body_size'' = PInt (int (length (utf8 body))) \<and> int (length (utf8 body)) \<le> 262144"
proof -
  from assms obtain body u host where *: "b = PStr body" "urlsplit url = Some u"
    "check_destination u = Inr host" "str_upper meth \<in> set methods"
    "\<not> 256 * 1024 < int (length (utf8 body))"
    "d = request_descriptor_of E (str_upper meth) host (url_path u) (su_query u) nrm body"
    unfolding http_request_of_iff accepted_parts_def by blast
  then show ?thesis
    using check_destination_inv[OF *(3)] by (simp add: request_descriptor_of_def)
qed

text \<open>
  C15: reordering the caller's headers changes neither whether a request is accepted nor its
  descriptor, so the request hash and the approval do not depend on the order.
\<close>

theorem request_header_order_irrelevant:
  assumes "http_request_of E url meth hs b = Inr (d, nrm)" and "mset hs = mset hs'"
  shows "\<exists>nrm'. http_request_of E url meth hs' b = Inr (d, nrm') \<and> mset nrm' = mset nrm"
proof -
  from assms(1) obtain body u host where
    *: "accepted_parts E url meth hs b d nrm body u host"
    unfolding http_request_of_iff by blast
  then have nrm: "normalize_headers [] hs = Inr nrm" by (simp only: accepted_parts_def)
  from normalize_headers_perm[OF assms(2) nrm] obtain nrm' where
    nrm': "normalize_headers [] hs' = Inr nrm'" "mset nrm = mset nrm'" by auto
  note same = map_of_perm[OF nrm'(2) normalize_headers_distinct[OF nrm]]
    request_descriptor_perm[OF nrm'(2) normalize_headers_distinct[OF nrm]]
  from * nrm' have "accepted_parts E url meth hs' b d nrm' body u host"
    unfolding accepted_parts_def same by blast
  then have "http_request_of E url meth hs' b = Inr (d, nrm')"
    unfolding http_request_of_iff by blast
  with nrm'(2) show ?thesis by auto
qed

text \<open>
  C14: for a fixed URL and method the descriptor is determined by commitments and determines
  them: two accepted requests have the same descriptor exactly when the header names, the
  header digests, the body digest and size, and the content type agree. Nothing else of the
  private headers and body reaches the API.
\<close>

theorem request_descriptor_commits:
  assumes "http_request_of E url meth hs (PStr body) = Inr (d, n)"
    and "http_request_of E url meth hs' (PStr body') = Inr (d', n')"
  shows "d = d' \<longleftrightarrow>
    set (map fst n) = set (map fst n')
    \<and> (\<forall>name \<in> set (map fst n).
         header_digest E name (the (map_of n name)) = header_digest E name (the (map_of n' name)))
    \<and> sha E (utf8 body) = sha E (utf8 body') \<and> length (utf8 body) = length (utf8 body')
    \<and> map_of n ''content-type'' = map_of n' ''content-type''"
proof -
  have inv: "\<exists>u host. urlsplit url = Some u \<and> check_destination u = Inr host
      \<and> normalize_headers [] hs = Inr n
      \<and> d = request_descriptor_of E (str_upper meth) host (url_path u) (su_query u) n body"
    if "http_request_of E url meth hs (PStr body) = Inr (d, n)" for hs body d n
    using that unfolding http_request_of_iff accepted_parts_def pyval.inject by blast
  from inv[OF assms(1)] inv[OF assms(2)] obtain u host where
    d: "d = request_descriptor_of E (str_upper meth) host (url_path u) (su_query u) n body"
      "d' = request_descriptor_of E (str_upper meth) host (url_path u) (su_query u) n' body'"
      "normalize_headers [] hs = Inr n" "normalize_headers [] hs' = Inr n'"
    by (metis option.inject sum.inject(2))
  show ?thesis
    unfolding d(1,2) request_descriptor_of_def list.inject prod.inject pyval.inject simp_thms
      commit_headers_eq_iff[OF d(3,4)[THEN normalize_headers_distinct]] opt_str_inject of_nat_eq_iff
    by blast
qed

subsection \<open>The properties on a concrete request\<close>

definition sample_url :: string where
  "sample_url = ''https://api.pay.io/a%20b?x=1''"

definition sample_headers :: "(string \<times> pyval) list" where
  "sample_headers = [(''Content-Type'', PStr ''text/plain''), (''X-A'', PStr ''b'')]"

definition sample_descriptor_dict :: pydict where
  "sample_descriptor_dict =
     [(''method'', PStr ''POST''), (''origin'', PStr ''https://api.pay.io''), (''path'', PStr ''/a%20b''),
      (''query'', PStr ''x=1''),
      (''headers'', PList (map (commit_header sample_env [(''content-type'', ''text/plain''), (''x-a'', ''b'')])
                           [''content-type'', ''x-a''])),
      (''body_sha256'', PStr (sha sample_env ''hi'')), (''body_size'', PInt 2),
      (''content_type'', PStr ''text/plain'')]"

lemma sample_request_accepted:
  "http_request_of sample_env sample_url ''post'' sample_headers (PStr ''hi'')
     = Inr (sample_descriptor_dict, [(''content-type'', ''text/plain''), (''x-a'', ''b'')])"
  by code_simp

lemma request_path_unambiguous_witness:
  "\<exists>path. dget sample_descriptor_dict ''path'' = PStr path \<and>
     (\<forall>seg \<in> set (split_on (CHR ''/'') path). \<forall>n. \<exists>u. unquote_times n seg = Some u \<and> harmless u)"
  by (rule request_path_unambiguous[OF sample_request_accepted])

lemma request_destination_https_witness:
  "\<exists>u. urlsplit sample_url = Some u \<and> su_scheme u = ''https'' \<and> user_info u = None
     \<and> dget sample_descriptor_dict ''origin'' = PStr (''https://'' @ hostname u)"
  using request_destination_https[OF sample_request_accepted] by blast

lemma request_header_order_irrelevant_witness:
  "\<exists>nrm'. http_request_of sample_env sample_url ''post'' (rev sample_headers) (PStr ''hi'')
       = Inr (sample_descriptor_dict, nrm')
     \<and> mset nrm' = mset [(''content-type'', ''text/plain''), (''x-a'', ''b'')]"
  by (rule request_header_order_irrelevant[OF sample_request_accepted]) simp

lemma request_descriptor_commits_witness:
  "set (map fst [(''content-type'', ''text/plain''), (''x-a'', ''b'')]) = {''content-type'', ''x-a''}
   \<and> sha sample_env (utf8 ''hi'') = sha sample_env (utf8 ''hi'')"
  using request_descriptor_commits[OF sample_request_accepted sample_request_accepted] by simp

end
