(* ===== verification/Samples.thy ===== *)
theory Samples
  imports Http_Request
begin

text \<open>
  One operation with concrete values: the caller's request, the approval the API gives for it
  and the approved response. The properties are tried on it.
\<close>

definition sample_client :: client where
  "sample_client =
     \<lparr>cl_api_key = ''key'', cl_edge_token = None, cl_agent_token = PNone, cl_has_supplier = False,
      cl_check_timeout = 1, cl_fallback_by_action = []\<rparr>"

definition sample_call :: http_call where
  "sample_call =
     \<lparr>hx_url = ''https://a.io/p'', hx_operation_id = ''op'', hx_authorization_id = ''az'',
      hx_enabled_executable_id = ''exe'', hx_catalog_operation_id = ''cat'', hx_action = ''pay'',
      hx_method = ''post'', hx_headers = [(''Content-Type'', PStr ''text/plain'')],
      hx_body = PStr ''hi'', hx_evidence_mode = ''receipt'', hx_policy_input = [],
      hx_storage_dir = ''d'', hx_agent_token = PNone, hx_native_binary = None,
      hx_trusted_notary_key = None, hx_timeout = Fin 30\<rparr>"

definition digest_a :: string where
  "digest_a = ''sha256:'' @ replicate 64 (CHR ''a'')"

definition digest_b :: string where
  "digest_b = ''sha256:'' @ replicate 64 (CHR ''b'')"

definition sample_http_request :: pydict where
  "sample_http_request =
     [(''method'', PStr ''POST''), (''origin'', PStr ''https://a.io''), (''path'', PStr ''/p''),
      (''query'', PStr []),
      (''headers'', PList [PDict [(''name'', PStr ''content-type''), (''value_sha256'', PStr digest_a)]]),
      (''body_sha256'', PStr digest_a), (''body_size'', PInt 2),
      (''content_type'', PStr ''text/plain'')]"

definition sample_approval :: pydict where
  "sample_approval =
     [(''profile'', PStr ''allowly.execution.approval.v1''), (''operation_id'', PStr ''op''),
      (''authorization_id'', PStr ''az''), (''action'', PStr ''pay''),
      (''executable'', PDict [(''enabled_executable_id'', PStr ''exe''),
                              (''catalog_operation_id'', PStr ''cat'')]),
      (''policy_input_sha256'', PStr digest_b),
      (''request'', PDict (sample_http_request @
                          [(''provider_idempotency'', PDict [(''kind'', PStr ''none'')])])),
      (''evidence_mode'', PStr ''receipt''), (''issued_at'', PStr ''i''),
      (''expires_at'', PStr ''expires'')]"

definition sample_approved :: execution_response where
  "sample_approved =
     \<lparr>er_operation_id = ''op'', er_status = Exec_Approved, er_decision = Allow,
      er_reason = ''ok'', er_destination_id = ''exe'', er_action = ''pay'',
      er_request_fingerprint = ''f'',
      er_request_descriptor =
        \<lparr>rd_operation_id = ''op'', rd_authorization_id = ''az'', rd_destination_id = ''exe'',
         rd_action = ''pay'', rd_method = ''POST'', rd_origin = ''https://a.io'', rd_path = ''/p'',
         rd_query = [], rd_headers = [\<lparr>hc_name = ''content-type'', hc_value_sha256 = digest_a\<rparr>],
         rd_body_sha256 = digest_a, rd_body_size = 2, rd_content_type = Some ''text/plain''\<rparr>,
      er_decision_receipt = Env_Pending \<lparr>rcp_receipt_id = ''r1'', rcp_ready_at_estimate = None,
                                          rcp_url = ''u''\<rparr>,
      er_downstream = None, er_outcome_evidence = None, er_confirm_nonce = None,
      er_confirm_expires_at = None, er_confirm_prompt_hint = None, er_escalation_id = None,
      er_escalation_expires_at = None, er_escalation_to = None, er_escalation = None,
      er_effective_evidence_mode = Some ''receipt'', er_approval = PDict sample_approval,
      er_approval_sha256 = Some digest_b, er_approval_expires_at = None,
      er_decision_state = Some ''allowed'', er_target_state = Some ''not_started'',
      er_evidence_state = Some ''pending'', er_witness_session = PNone, er_confirmation_id = None,
      er_review = None\<rparr>"

definition sample_request :: execution_request where
  "sample_request =
     \<lparr>xr_operation_id = ''op'', xr_authorization_id = ''az'', xr_enabled_executable_id = ''exe'',
      xr_catalog_operation_id = ''cat'', xr_action = ''pay'', xr_http_request = sample_http_request,
      xr_policy_input = policy_defaults, xr_evidence_mode = ''receipt'',
      xr_client_timestamp = PStr ''t''\<rparr>"

lemma sample_call_accepted:
  "http_execution_request sample_env sample_call =
     Inr (sample_request\<lparr>xr_client_timestamp := PNone\<rparr>, [(''content-type'', ''text/plain'')])"
  by code_simp

end
