(* ===== verification/Approval.thy ===== *)
theory Approval
  imports Samples
begin

text \<open>
  \<open>_validate_approval\<close>, \<open>_live\<close> and \<open>_observed_response\<close> of \<open>allowly/execution.py\<close>: the binding of
  an approval to the local request, its lifetime, and the check of the provider's response
  before it is stored. The main fact is that an approval which passes is exactly the approval
  of this request: same operation, executable, policy input, HTTP request and evidence mode.
\<close>

subsection \<open>\<open>dict(v)\<close>\<close>

text \<open>
  The constructor copies a dictionary and also takes an iterable of pairs. A key that is not
  a string gives a dictionary without counterpart here, \<open>Inr None\<close>: it differs from every
  dictionary the code compares it to.
\<close>

fun pair_of :: "pyval \<Rightarrow> (pyval \<times> pyval) res" where
  "pair_of (PList [a, b]) = (if hashable a then Inr (a, b) else Inl (TypeError ''unhashable type''))"
| "pair_of (PList xs) = Inl (ValueError ''dictionary update sequence element'')"
| "pair_of (PStr [a, b]) = Inr (PStr [a], PStr [b])"
| "pair_of (PStr s) = Inl (ValueError ''dictionary update sequence element'')"
| "pair_of (PDict [(a, _), (b, _)]) = Inr (PStr a, PStr b)"
| "pair_of (PDict d) = Inl (ValueError ''dictionary update sequence element'')"
| "pair_of v = Inl (TypeError ''cannot convert dictionary update sequence element'')"

definition dict_of_pairs :: "(pyval \<times> pyval) list \<Rightarrow> pydict option" where
  "dict_of_pairs ps =
     (if list_all (\<lambda>p. as_string (fst p) \<noteq> None) ps
      then Some (merge_items [] (map (\<lambda>p. (the (as_string (fst p)), snd p)) ps)) else None)"

definition py_dict :: "pyval \<Rightarrow> pydict option res" where
  "py_dict v =
     (case v of
        PDict d \<Rightarrow> Inr (Some d)
      | PList xs \<Rightarrow> bindr (mapr pair_of xs) (\<lambda>ps. Inr (dict_of_pairs ps))
      | PStr s \<Rightarrow> (if s = [] then Inr (Some []) else Inl (ValueError ''dictionary update sequence''))
      | _ \<Rightarrow> Inl (TypeError ''object is not iterable''))"

subsection \<open>Lifetime\<close>

fun caught_by_live :: "exn \<Rightarrow> bool" where
  "caught_by_live (KeyError _) = True"
| "caught_by_live (TypeError _) = True"
| "caught_by_live e = is_value_error e"

text \<open>\<open>datetime.fromisoformat(approval[k].replace("Z", "+00:00"))\<close>.\<close>

definition approval_instant :: "sdk_env \<Rightarrow> pydict \<Rightarrow> string \<Rightarrow> (int \<times> bool) res" where
  "approval_instant E approval k =
     (case map_of approval k of
        None \<Rightarrow> Inl (KeyError k)
      | Some (PStr s) \<Rightarrow>
          (case fromisoformat E (replace_all ''Z'' ''+00:00'' s) of
             None \<Rightarrow> Inl (ValueError ''Invalid isoformat string'')
           | Some t \<Rightarrow> Inr t)
      | Some (PBytes _) \<Rightarrow> Inl (TypeError ''a bytes-like object is required'')
      | Some _ \<Rightarrow> Inl AttributeError)"

text \<open>\<open>issued <= now < expires\<close> with an aware \<open>now\<close>; a naive time cannot be compared to it.\<close>

definition in_lifetime :: "int \<times> bool \<Rightarrow> int \<Rightarrow> int \<times> bool \<Rightarrow> bool res" where
  "in_lifetime issued now expires =
     (if \<not> snd issued then Inl (TypeError ''can't compare offset-naive and offset-aware datetimes'')
      else if \<not> fst issued \<le> now then Inr False
      else if \<not> snd expires then Inl (TypeError ''can't compare offset-naive and offset-aware datetimes'')
      else Inr (now < fst expires))"

definition live :: "sdk_env \<Rightarrow> pydict \<Rightarrow> unit prog" where
  "live E approval =
     bindp
       (handle
         (bindp (Done (approval_instant E approval ''issued_at'')) (\<lambda>issued.
          bindp (Done (approval_instant E approval ''expires_at'')) (\<lambda>expires.
          bindp (perform Now_Utc as_int) (\<lambda>now.
          Done (in_lifetime issued now expires)))))
         (\<lambda>e. if caught_by_live e then return False else raise e))
       (\<lambda>valid. if \<not> valid then raise (ProtocolError ''execution approval is not currently valid'')
                else return ())"

subsection \<open>Binding\<close>

definition expected_descriptor :: "execution_request \<Rightarrow> pydict" where
  "expected_descriptor x =
     merge_items
       [(''operation_id'', PStr (xr_operation_id x)),
        (''authorization_id'', PStr (xr_authorization_id x)),
        (''destination_id'', PStr (xr_enabled_executable_id x)), (''action'', PStr (xr_action x))]
       (xr_http_request x)"

definition evidence_modes :: "string set" where
  "evidence_modes = {''receipt'', ''witnessed''}"

definition check_approval ::
  "sdk_env \<Rightarrow> execution_response \<Rightarrow> execution_request \<Rightarrow> pydict res" where
  "check_approval E r x =
     (if er_decision r \<noteq> Allow \<or> er_status r \<noteq> Exec_Approved
         \<or> er_decision_state r \<noteq> Some ''allowed'' \<or> er_target_state r \<noteq> Some ''not_started''
         \<or> er_evidence_state r \<noteq> Some ''pending'' \<or> er_downstream r \<noteq> None
      then Inl (ProtocolError ''allow decision did not produce an approved execution'')
      else
        bindr (as_dict (ProtocolError ''missing execution approval'') (er_approval r)) (\<lambda>approval.
        bindr (hash_seal_value E (PDict approval)) (\<lambda>h.
        if Some (''sha256:'' @ h) \<noteq> er_approval_sha256 r
        then Inl (ProtocolError ''execution approval hash does not match'')
        else if \<not> py_eq (dget approval ''operation_id'') (PStr (xr_operation_id x))
           \<or> \<not> py_eq (dget approval ''authorization_id'') (PStr (xr_authorization_id x))
           \<or> \<not> py_eq (dget approval ''action'') (PStr (xr_action x))
           \<or> \<not> py_eq (dget approval ''profile'') (PStr ''allowly.execution.approval.v1'')
        then Inl (ProtocolError ''execution approval identity does not match'')
        else
          bindr (as_dict AttributeError
            (if dhas approval ''executable'' then dget approval ''executable'' else PDict []))
            (\<lambda>executable.
             if \<not> py_eq (dget executable ''enabled_executable_id'') (PStr (xr_enabled_executable_id x))
                \<or> \<not> py_eq (dget executable ''catalog_operation_id'') (PStr (xr_catalog_operation_id x))
             then Inl (ProtocolError ''execution approval scope does not match'')
             else
               bindr (hash_seal_value E (PDict (xr_policy_input x))) (\<lambda>ph.
               if \<not> py_eq (dget approval ''policy_input_sha256'') (PStr (''sha256:'' @ ph))
               then Inl (ProtocolError ''execution approval scope does not match'')
               else
                 bindr (py_dict (if dhas approval ''request'' then dget approval ''request'' else PDict []))
                   (\<lambda>copied.
                 case copied of
                   None \<Rightarrow> Inl (ProtocolError ''execution approval request does not match'')
                 | Some actual \<Rightarrow>
                     (if \<not> py_eq (PDict (pop_item ''provider_idempotency'' actual))
                             (PDict (xr_http_request x))
                         \<or> \<not> py_eq (dget actual ''provider_idempotency'') (PDict [(''kind'', PStr ''none'')])
                      then Inl (ProtocolError ''execution approval request does not match'')
                      else if \<not> py_eq (asdict_descriptor (er_request_descriptor r))
                                  (PDict (expected_descriptor x))
                      then Inl (ProtocolError
                        ''execution request descriptor does not match the local request'')
                      else if er_effective_evidence_mode r \<notin> Some ` evidence_modes
                         \<or> \<not> py_eq (dget approval ''evidence_mode'')
                                (opt_str (er_effective_evidence_mode r))
                         \<or> (xr_evidence_mode x = ''witnessed''
                            \<and> er_effective_evidence_mode r \<noteq> Some ''witnessed'')
                      then Inl (ProtocolError ''execution evidence mode was downgraded or is invalid'')
                      else Inr approval)))))))"

definition validate_approval ::
  "sdk_env \<Rightarrow> execution_response \<Rightarrow> execution_request \<Rightarrow> pydict prog" where
  "validate_approval E r x =
     bindp (Done (check_approval E r x)) (\<lambda>approval.
     bindp (live E approval) (\<lambda>_. return approval))"

subsection \<open>The provider's response\<close>

definition observed_response :: "sdk_env \<Rightarrow> pyval \<Rightarrow> int \<Rightarrow> pydict res" where
  "observed_response E v maximum =
     (case v of
        PDict d \<Rightarrow>
          (case dget d ''body'' of
             PStr body \<Rightarrow>
               (case dget d ''status'' of
                  PInt status \<Rightarrow>
                    (if \<not> (200 \<le> status \<and> status \<le> 599) \<or> maximum < int (length (utf8 body))
                        \<or> dget d ''body_bytes'' \<noteq> PInt (int (length (utf8 body)))
                     then Inl (ProtocolError ''local response bytes do not match its metadata'')
                     else if \<not> hashable (dget d ''body_sha256'')
                     then Inl (TypeError ''unhashable type'')
                     else if dget d ''body_sha256'' \<noteq> PStr (sha E (utf8 body))
                        \<and> dget d ''body_sha256'' \<noteq> PStr (drop 7 (sha E (utf8 body)))
                     then Inl (ProtocolError ''local response bytes do not match its metadata'')
                     else Inr (put_item ''body_sha256'' (PStr (sha E (utf8 body))) d))
                | _ \<Rightarrow> Inl (ProtocolError ''local response bytes do not match its metadata''))
           | _ \<Rightarrow> Inl (ProtocolError ''malformed local provider response''))
      | _ \<Rightarrow> Inl (ProtocolError ''malformed local provider response''))"

subsection \<open>Lifetime facts\<close>

text \<open>
  \<open>live\<close> reads the clock once, after both times have parsed; what it then answers depends on the
  clock alone.
\<close>

definition live_verdict :: "bool res \<Rightarrow> unit res" where
  "live_verdict v =
     (case v of
        Inl e \<Rightarrow> (if caught_by_live e
                  then Inl (ProtocolError ''execution approval is not currently valid'') else Inl e)
      | Inr b \<Rightarrow> (if b then Inr () else Inl (ProtocolError ''execution approval is not currently valid'')))"

lemma live_verdict_ok [simp]: "live_verdict v = Inr u \<longleftrightarrow> v = Inr True"
  by (auto simp: live_verdict_def split: sum.splits)

lemma live_unfold:
  "live E approval =
     (case approval_instant E approval ''issued_at'' of
        Inl e \<Rightarrow> Done (live_verdict (Inl e))
      | Inr issued \<Rightarrow>
          (case approval_instant E approval ''expires_at'' of
             Inl e \<Rightarrow> Done (live_verdict (Inl e))
           | Inr expires \<Rightarrow>
               Act Now_Utc (\<lambda>a. Done (live_verdict
                 (bindr (case a of A_Exn x \<Rightarrow> Inl x | _ \<Rightarrow> as_int a)
                   (\<lambda>now. in_lifetime issued now expires))))))"
proof -
  have verdict: "bindp (case v of Inl e \<Rightarrow> if caught_by_live e then return False else raise e
        | Inr x \<Rightarrow> return x)
      (\<lambda>valid. if \<not> valid then raise (ProtocolError ''execution approval is not currently valid'')
               else return ()) = Done (live_verdict v)" for v :: "bool res"
    by (cases v) (simp_all add: live_verdict_def)
  show ?thesis
    by (cases "approval_instant E approval ''issued_at''";
        cases "approval_instant E approval ''expires_at''")
       (simp_all add: live_def handle_def perform_def bindp_assoc bindr_def verdict[symmetric]
          fun_eq_iff split: sum.split)
qed

lemma in_lifetime_True [simp]:
  "in_lifetime i now x = Inr True \<longleftrightarrow> snd i \<and> snd x \<and> fst i \<le> now \<and> now < fst x"
  by (auto simp: in_lifetime_def)

lemma as_int_Inr: "(case a of A_Exn x \<Rightarrow> Inl x | _ \<Rightarrow> as_int a) = Inr n \<longleftrightarrow> a = A_Int n"
  by (cases a) (auto simp: ill_typed_def)

lemma outcome_live_ok:
  assumes "outcome (live E approval) as = Some (Inr u)"
  shows "\<exists>issued expires now as'. as = A_Int now # as'
    \<and> approval_instant E approval ''issued_at'' = Inr (issued, True)
    \<and> approval_instant E approval ''expires_at'' = Inr (expires, True)
    \<and> issued \<le> now \<and> now < expires"
  using assms unfolding live_unfold
  by (auto simp: as_int_Inr split: sum.splits list.splits)

text \<open>The rules of \<open>live\<close> for walking a program: one reading of the clock, inside the lifetime.\<close>

context effect_protocol
begin

lemma wp_liveI:
  assumes "allowed g Now_Utc" and "\<And>e. Q g (Inl e)" and "\<And>a e. Q (adv g Now_Utc a) (Inl e)"
    and "\<And>now issued expires. approval_instant E approval ''issued_at'' = Inr (issued, True) \<Longrightarrow>
      approval_instant E approval ''expires_at'' = Inr (expires, True) \<Longrightarrow>
      issued \<le> now \<Longrightarrow> now < expires \<Longrightarrow> Q (adv g Now_Utc (A_Int now)) (Inr ())"
  shows "wp (live E approval) Q g"
proof -
  have end_ok: "Q (adv g Now_Utc a) (live_verdict
      (bindr (case a of A_Exn x \<Rightarrow> Inl x | _ \<Rightarrow> as_int a) (\<lambda>now. in_lifetime i now x)))"
    if "approval_instant E approval ''issued_at'' = Inr i"
      "approval_instant E approval ''expires_at'' = Inr x" for a i x
  proof (cases "live_verdict
      (bindr (case a of A_Exn x \<Rightarrow> Inl x | _ \<Rightarrow> as_int a) (\<lambda>now. in_lifetime i now x))")
    case (Inl e)
    with assms(3) show ?thesis by simp
  next
    case (Inr u)
    then obtain now where "a = A_Int now" "snd i" "snd x" "fst i \<le> now" "now < fst x"
      by (auto simp: as_int_Inr)
    with Inr that assms(4)[of "fst i" "fst x" now] show ?thesis
      by (metis (full_types) prod.collapse old.unit.exhaust)
  qed
  have "\<exists>e'. live_verdict (Inl e) = Inl e'" for e by (simp add: live_verdict_def)
  with assms(1,2) end_ok show ?thesis
    unfolding live_unfold by (auto split: sum.split) metis+
qed

lemma wp_bind_liveI:
  assumes "allowed g Now_Utc" and "\<And>e. Q g (Inl e)" and "\<And>a e. Q (adv g Now_Utc a) (Inl e)"
    and "\<And>now issued expires. approval_instant E approval ''issued_at'' = Inr (issued, True) \<Longrightarrow>
      approval_instant E approval ''expires_at'' = Inr (expires, True) \<Longrightarrow>
      issued \<le> now \<Longrightarrow> now < expires \<Longrightarrow> wp (f ()) Q (adv g Now_Utc (A_Int now))"
  shows "wp (bindp (live E approval) f) Q g"
  unfolding wp_bindp using assms by (intro wp_liveI) simp_all

end

subsection \<open>What a validated approval is\<close>

lemma check_approval_binds:
  assumes "check_approval E r x = Inr approval"
  shows "er_approval r = PDict approval \<and> er_decision r = Allow \<and> er_status r = Exec_Approved"
    and "\<exists>h. hash_seal_value E (PDict approval) = Inr h \<and> er_approval_sha256 r = Some (''sha256:'' @ h)"
    and "dget approval ''operation_id'' = PStr (xr_operation_id x)"
    and "dget approval ''authorization_id'' = PStr (xr_authorization_id x)"
    and "dget approval ''action'' = PStr (xr_action x)"
    and "py_eq (asdict_descriptor (er_request_descriptor r)) (PDict (expected_descriptor x))"
    and "\<exists>mode \<in> evidence_modes. er_effective_evidence_mode r = Some mode
           \<and> (xr_evidence_mode x = ''witnessed'' \<longrightarrow> mode = ''witnessed'')"
    and "\<exists>actual. py_dict (if dhas approval ''request'' then dget approval ''request'' else PDict [])
             = Inr (Some actual)
           \<and> py_eq (PDict (pop_item ''provider_idempotency'' actual)) (PDict (xr_http_request x))
           \<and> py_eq (dget actual ''provider_idempotency'') (PDict [(''kind'', PStr ''none'')])"
  using assms unfolding check_approval_def
  by (elim result_elims; fastforce split: option.splits if_splits)+


lemma sample_validates:
  "outcome (validate_approval sample_env sample_approved sample_request) [A_Int 3]
     = Some (Inr sample_approval)"
  by code_simp


text \<open>
  C16: the check of a provider response accepts exactly the objects whose status is an HTTP
  status, whose body fits the limit and whose size and hash are those of the body; the hash may
  come with or without its tag and leaves with it.
\<close>

theorem observed_response_iff:
  "observed_response E v maximum = Inr d \<longleftrightarrow>
     (\<exists>d0 body status. v = PDict d0 \<and> dget d0 ''body'' = PStr body \<and> dget d0 ''status'' = PInt status
        \<and> status \<in> {200..599} \<and> int (length (utf8 body)) \<le> maximum
        \<and> dget d0 ''body_bytes'' = PInt (int (length (utf8 body)))
        \<and> dget d0 ''body_sha256'' \<in> {PStr (sha E (utf8 body)), PStr (sha256_hex E (utf8 body))}
        \<and> d = put_item ''body_sha256'' (PStr (sha E (utf8 body))) d0)"
  unfolding observed_response_def sha_def
  by (auto split: pyval.splits)

end
