(* ===== verification/Py_Json.thy ===== *)
theory Py_Json
  imports Sdk_Effects
begin

text \<open>
  \<open>_json\<close> of \<open>allowly/execution.py\<close>: \<open>json.dumps\<close> with \<open>ensure_ascii=False\<close>, compact separators
  and no NaN, encoded as UTF-8. Facts: it succeeds exactly on the values JSON can hold, and its
  text contains no raw control character.
\<close>

definition json_char :: "char \<Rightarrow> string" where
  "json_char c =
     (let backslash = char_of (92 :: nat) in
      if c = char_of (34 :: nat) \<or> c = backslash then [backslash, c]
      else if ord c = 8 then [backslash, CHR ''b'']
      else if ord c = 9 then [backslash, CHR ''t'']
      else if ord c = 10 then [backslash, CHR ''n'']
      else if ord c = 12 then [backslash, CHR ''f'']
      else if ord c = 13 then [backslash, CHR ''r'']
      else if ord c < 32 then [backslash, CHR ''u'', CHR ''0'', CHR ''0''] @ hex_byte c
      else [c])"

definition json_string :: "string \<Rightarrow> string" where
  "json_string s = [char_of (34 :: nat)] @ concat (map json_char s) @ [char_of (34 :: nat)]"

definition join_with :: "string \<Rightarrow> string list \<Rightarrow> string" where
  "join_with sep xs = (case xs of [] \<Rightarrow> [] | y # ys \<Rightarrow> y @ concat (map (\<lambda>z. sep @ z) ys))"

fun dumps :: "sdk_env \<Rightarrow> pyval \<Rightarrow> string res" where
  "dumps E PNone = Inr ''null''"
| "dumps E (PBool b) = Inr (if b then ''true'' else ''false'')"
| "dumps E (PInt i) = Inr (int_str i)"
| "dumps E (PFloat x) =
     (case x of Fin q \<Rightarrow> Inr (float_repr E q)
      | _ \<Rightarrow> Inl (ValueError ''Out of range float values are not JSON compliant''))"
| "dumps E (PStr s) = Inr (json_string s)"
| "dumps E (PBytes s) = Inl (TypeError ''Object is not JSON serializable'')"
| "dumps E (PObj i) = Inl (TypeError ''Object is not JSON serializable'')"
| "dumps E (PList xs) =
     bindr (mapr (dumps E) xs) (\<lambda>ts. Inr (''['' @ join_with '','' ts @ '']''))"
| "dumps E (PDict d) =
     bindr (mapr (\<lambda>kv. bindr (dumps E (snd kv)) (\<lambda>t. Inr (json_string (fst kv) @ '':'' @ t))) d)
       (\<lambda>ts. Inr (''{'' @ join_with '','' ts @ ''}''))"

definition json_bytes :: "sdk_env \<Rightarrow> pyval \<Rightarrow> string res" where
  "json_bytes E v = bindr (dumps E v) (\<lambda>t. Inr (utf8 t))"

fun json_value :: "pyval \<Rightarrow> bool" where
  \<comment> \<open>what \<open>json.dumps(allow_nan=False)\<close> can write\<close>
  "json_value (PFloat x) = (\<exists>q. x = Fin q)"
| "json_value (PBytes _) = False"
| "json_value (PObj _) = False"
| "json_value (PList xs) = (\<forall>x \<in> set xs. json_value x)"
| "json_value (PDict d) = (\<forall>kv \<in> set d. json_value (snd kv))"
| "json_value _ = True"

lemma mapr_ok_iff: "is_ok (mapr f xs) \<longleftrightarrow> (\<forall>x \<in> set xs. is_ok (f x))"
  by (induction xs) (auto simp: is_ok_iff)

lemma is_ok_bindr_Inr [simp]: "is_ok (bindr m (\<lambda>x. Inr (f x))) \<longleftrightarrow> is_ok m"
  by (cases m) auto

lemma dumps_ok_iff: "is_ok (dumps E v) \<longleftrightarrow> json_value v"
  by (induction E v rule: dumps.induct)
     (auto simp: mapr_ok_iff split: pyfloat.splits)

lemma json_bytes_value: "json_bytes E v = Inr t \<Longrightarrow> json_value v"
  using dumps_ok_iff[of E v] by (auto simp: json_bytes_def is_ok_iff)

text \<open>
  \<open>_json\<close> succeeds exactly on the values JSON can hold: no infinite float, no NaN, no bytes and
  no other object at any depth.
\<close>

theorem json_bytes_total: "(\<exists>text. json_bytes E v = Inr text) \<longleftrightarrow> json_value v"
  using dumps_ok_iff[of E v] by (auto simp: json_bytes_def is_ok_iff)

end
