(* ===== verification/Journal.thy ===== *)
theory Journal
  imports Approval Py_Json
begin

text \<open>
  The private files of an operation and the provider connection, \<open>allowly/execution.py\<close>:
  \<open>_save\<close>, \<open>_read_bytes\<close>, \<open>_read\<close>, \<open>_operation_lock\<close> and \<open>_provider_send\<close>. Facts: a file is only
  ever replaced as a whole by a temporary file whose text has reached the disk, a lock is
  released on every path, and the provider's bytes go to one resolved public address while the
  approval is alive. The directory is synced as on a POSIX system.
\<close>

subsection \<open>Files\<close>

definition save :: "sdk_env \<Rightarrow> path \<Rightarrow> pyval \<Rightarrow> unit prog" where
  "save E p v =
     bindp (perform (Make_Temp (fst p)) as_str) (\<lambda>tmp.
     finally_do
       (bindp (Done (json_bytes E v)) (\<lambda>text.
        bindp (perform (Write_Temp (fst p, tmp) text) as_unit) (\<lambda>_.
        bindp (perform (Replace_File (fst p, tmp) p v) as_unit) (\<lambda>_.
        perform (Sync_Dir (fst p)) as_unit))))
       (bindp (perform (Exists (fst p, tmp)) as_bool) (\<lambda>left.
        if left then perform (Remove_Temp (fst p, tmp)) as_unit else return ())))"

definition read_bytes :: "path \<Rightarrow> int \<Rightarrow> document prog" where
  "read_bytes p maximum =
     bindp (perform (Read_File p) as_doc) (\<lambda>d.
     if maximum < int (length (doc_bytes d))
     then raise (ProtocolError ''execution artifact exceeds its limit'')
     else return d)"

definition loads :: "document \<Rightarrow> pyval res" where
  "loads d = (case doc_json d of None \<Rightarrow> Inl (ValueError ''Expecting value'') | Some v \<Rightarrow> Inr v)"

definition read_json :: "path \<Rightarrow> int \<Rightarrow> pyval prog" where
  "read_json p maximum = bindp (read_bytes p maximum) (\<lambda>d. Done (loads d))"

definition default_maximum :: int where
  "default_maximum = 2 * 1024 * 1024"

subsection \<open>The operation's lock\<close>

definition operation_lock :: "string \<Rightarrow> 'a prog \<Rightarrow> 'a prog" where
  "operation_lock folder body =
     bindp (perform (Open_Lock folder) as_unit) (\<lambda>_.
     finally_do
       (bindp
         (handle (perform (Flock folder) as_unit)
           (\<lambda>e. if is_os_error e then raise (ExecutionRecoveryRequired folder) else raise e))
         (\<lambda>_. body))
       (perform (Close_Lock folder) as_unit))"

subsection \<open>The provider connection\<close>

text \<open>The members of the descriptor are the strings \<open>request_descriptor_of\<close> put there.\<close>

definition text_at :: "pydict \<Rightarrow> string \<Rightarrow> string" where
  "text_at d k = (case dget d k of PStr s \<Rightarrow> s | _ \<Rightarrow> [])"

definition request_target :: "pydict \<Rightarrow> string" where
  "request_target d =
     text_at d ''path'' @ (if text_at d ''query'' = [] then [] else ''?'' @ text_at d ''query'')"

definition wire_headers :: "(string \<times> string) list \<Rightarrow> (string \<times> string) list" where
  "wire_headers headers =
     merge_items headers [(''Accept-Encoding'', ''identity''), (''Connection'', ''close'')]"

definition provider_send ::
  "sdk_env \<Rightarrow> pydict \<Rightarrow> (string \<times> string) list \<Rightarrow> string \<Rightarrow> pyfloat \<Rightarrow> pydict \<Rightarrow> pydict prog" where
  "provider_send E descriptor headers body timeout approval =
     (case urlsplit (text_at descriptor ''origin'') of
        None \<Rightarrow> raise (ValueError ''Invalid IPv6 URL'')
      | Some u \<Rightarrow>
          bindp (perform (Get_Addr_Info (hostname u)) as_strs) (\<lambda>addresses.
          if addresses = [] \<or> \<not> list_all (is_global_ip E) addresses
          then raise (ValueError ''provider DNS includes a non-public address'')
          else
            bindp (perform (Open_Socket (hd addresses) timeout) as_unit) (\<lambda>_.
            finally_do
              (bindp (perform (Connect (hd addresses)) as_unit) (\<lambda>_.
               bindp (perform (Tls_Wrap (hostname u)) as_unit) (\<lambda>_.
               bindp (live E approval) (\<lambda>_.
               bindp (perform (Provider_Request (text_at descriptor ''method'')
                        (request_target descriptor) (wire_headers headers) body) as_unit) (\<lambda>_.
               bindp (perform Provider_Response as_provider) (\<lambda>(status, hs, content, text).
               if 1024 * 1024 < int (length content)
               then raise (ValueError ''provider response exceeds 1 MiB'')
               else case text of
                 None \<Rightarrow> raise (ValueError ''codec cannot decode bytes'')
               | Some t \<Rightarrow>
                   return [(''status'', PInt status),
                           (''headers'', PDict (merge_items [] (map (\<lambda>(k, v). (k, PStr v)) hs))),
                           (''body'', PStr t), (''body_bytes'', PInt (int (length content))),
                           (''body_sha256'', PStr (sha E content))]))))))
              (perform Close_Connection as_unit))))"

subsection \<open>Protocols that look at files\<close>

text \<open>
  A protocol that watches the files under their own names but not the temporary ones: what it may ask of
  \<open>_save\<close> is said of the replacement and the sync of the directory alone.
\<close>

locale file_protocol = effect_protocol allowed adv neutral
  for allowed :: "'g \<Rightarrow> eff \<Rightarrow> bool" and adv :: "'g \<Rightarrow> eff \<Rightarrow> ans \<Rightarrow> 'g" and neutral :: "eff \<Rightarrow> bool" +
  assumes temp_neutral: "neutral (Make_Temp d)" "neutral (Write_Temp q text)" "neutral (Exists q)"
    "neutral (Remove_Temp q)"
begin

lemmas temp_effects = neutral_allowed[OF temp_neutral(1)] neutral_allowed[OF temp_neutral(2)]
  neutral_allowed[OF temp_neutral(3)] neutral_allowed[OF temp_neutral(4)]
  neutral_adv[OF temp_neutral(1)] neutral_adv[OF temp_neutral(2)]
  neutral_adv[OF temp_neutral(3)] neutral_adv[OF temp_neutral(4)]

lemma wp_discard:
  assumes "\<And>e. Q g (Inl e)" and "Q g (Inr ())"
  shows "wp (bindp (perform (Exists q) as_bool) (\<lambda>left.
    if left then perform (Remove_Temp q) as_unit else return ())) Q g"
  by (rule wp_steps | use assms in \<open>simp add: temp_effects\<close>; fail)+

lemma wp_save:
  assumes "\<And>e. Q g (Inl e)"
    and "\<And>t. json_value v \<Longrightarrow> allowed g (Replace_File t p v)"
    and "\<And>t a e. json_value v \<Longrightarrow> Q (adv g (Replace_File t p v) a) (Inl e)"
    and "\<And>t. json_value v \<Longrightarrow> allowed (adv g (Replace_File t p v) A_Unit) (Sync_Dir (fst p))"
    and "\<And>t a e. json_value v \<Longrightarrow> Q (adv (adv g (Replace_File t p v) A_Unit) (Sync_Dir (fst p)) a) (Inl e)"
    and "\<And>t. json_value v \<Longrightarrow> Q (adv (adv g (Replace_File t p v) A_Unit) (Sync_Dir (fst p)) A_Unit) (Inr ())"
  shows "wp (save E p v) Q g"
  unfolding save_def
  by (rule wp_steps wp_discard | simp only: sum.case
      | use assms json_bytes_value[of E v] in \<open>simp add: temp_effects; fail\<close>)+

end

subsection \<open>Properties\<close>

text \<open>
  C7: atomic, durable replacement. Whenever \<open>_save\<close> replaces a file, the temporary file it moves
  there lies in the same directory and already holds, written and synced, the complete JSON
  text of the value; and \<open>_save\<close> returns only after the directory was synced too.
\<close>

theorem save_atomic:
  "safe
     (\<lambda>h e. case e of
        Replace_File t q w \<Rightarrow> q = p \<and> w = v \<and> fst t = fst p
          \<and> (\<exists>text. json_bytes E v = Inr text \<and> (Write_Temp t text, A_Unit) \<in> set h)
      | Write_Temp t text \<Rightarrow> (Make_Temp (fst p), A_Str (snd t)) \<in> set h
      | _ \<Rightarrow> True) snoc
     (save E p v)
     (\<lambda>h r. r = Inr () \<longrightarrow> (\<exists>t. (Replace_File t p v, A_Unit) \<in> set h) \<and> (Sync_Dir (fst p), A_Unit) \<in> set h)
     []"
  unfolding save_def by (rule history.wp_steps | simp | force)+

lemma save_atomic_witness:
  "\<exists>t. (Replace_File t (''d'', ''n'') (PInt 7), A_Unit)
      \<in> set (events (save sample_env (''d'', ''n'') (PInt 7)) [A_Str ''t'', A_Unit, A_Unit, A_Unit, A_Bool False])"
  using safe_snoc_outcome[OF save_atomic[where E = sample_env and p = "(''d'', ''n'')" and v = "PInt 7"],
      of "[A_Str ''t'', A_Unit, A_Unit, A_Unit, A_Bool False]" "Inr ()"]
  by (simp add: save_def finally_do_def perform_def json_bytes_def)

text \<open>
  C12: the provider's bytes are sent only to an address the single DNS lookup returned, when
  every address it returned is public, over TLS for the approved host name, and after the
  approval was found alive once the connection stood.
\<close>

theorem provider_send_pinned:
  "safe
     (\<lambda>h e. case e of
        Connect a \<Rightarrow>
          (\<exists>host addresses. (Get_Addr_Info host, A_Strs addresses) \<in> set h
             \<and> a \<in> set addresses \<and> list_all (is_global_ip E) addresses)
      | Provider_Request m target hs b \<Rightarrow>
          (\<exists>u now h'. urlsplit (text_at d ''origin'') = Some u
             \<and> h = h' @ [(Now_Utc, A_Int now)] \<and> (Tls_Wrap (hostname u), A_Unit) \<in> set h'
             \<and> (\<exists>issued expires. approval_instant E approval ''issued_at'' = Inr (issued, True)
                  \<and> approval_instant E approval ''expires_at'' = Inr (expires, True)
                  \<and> issued \<le> now \<and> now < expires))
      | _ \<Rightarrow> True) snoc
     (provider_send E d headers body timeout approval)
     (\<lambda>_ _. True) []"
  unfolding provider_send_def
  by (rule history.wp_steps history.wp_bind_liveI | simp add: snoc_def | force)+

end
