(* ===== verification/Witness_Setup.thy ===== *)
theory Witness_Setup
  imports Journal
begin

text \<open>
  \<open>_notary_fingerprint\<close> and \<open>_witness_files\<close> of \<open>allowly/execution.py\<close>: the resolution of the native
  witness binary, its notary key and its certificate authority, with the fingerprints pinned
  by the local configuration. A resolved file is named by its absolute path alone. Fact: when
  the configuration was read, the returned key has the pinned fingerprint.
\<close>

definition file_at :: "string \<Rightarrow> path" where
  "file_at p = (p, [])"

definition is_absolute :: "string \<Rightarrow> bool" where
  "is_absolute p \<longleftrightarrow> starts_with ''/'' p"

definition notary_fingerprint :: "sdk_env \<Rightarrow> string \<Rightarrow> string prog" where
  "notary_fingerprint E p =
     bindp (read_json (file_at p) 4096) (\<lambda>v.
     bindp (Done (as_dict AttributeError v)) (\<lambda>key.
     if \<not> py_eq (dget key ''alg'') (PInt 2)
     then raise (ValueError ''notary key must be P-256'')
     else Done (case map_of key ''data'' of
                  None \<Rightarrow> Inl (KeyError ''data'')
                | Some raw \<Rightarrow> p256_fingerprint E raw)))"

record witness_config =
  wc_native :: string
  wc_trusted :: string
  wc_fingerprint :: string
  wc_ca_path :: pyval
  wc_ca_fingerprint :: pyval

definition workspace_name :: "pyval \<Rightarrow> string option" where
  "workspace_name v =
     (case v of
        PStr s \<Rightarrow> (if s \<noteq> [] \<and> length s \<le> 128 \<and> list_all is_id_char s then Some s else None)
      | _ \<Rightarrow> None)"

definition setup_invalid :: exn where
  "setup_invalid = ValueError ''witness setup is invalid''"

definition parse_witness_config :: "string \<Rightarrow> pyval \<Rightarrow> witness_config res" where
  "parse_witness_config workspace v =
     bindr (as_dict setup_invalid v) (\<lambda>config.
     if dget config ''version'' \<noteq> PInt 1 \<or> \<not> py_eq (dget config ''workspaceId'') (PStr workspace)
        \<or> (dget config ''trustedWitnessCaPath'' = PNone)
            \<noteq> (dget config ''witnessCaFingerprintSha256'' = PNone)
     then Inl setup_invalid
     else case (as_string (dget config ''nativeBinaryPath''),
                as_string (dget config ''trustedNotaryKeyPath''),
                as_string (dget config ''fingerprintSha256'')) of
       (Some native, Some trusted, Some fingerprint) \<Rightarrow>
         (if \<not> is_sha256_hex fingerprint then Inl setup_invalid
          else Inr \<lparr>wc_native = native, wc_trusted = trusted, wc_fingerprint = fingerprint,
                    wc_ca_path = dget config ''trustedWitnessCaPath'',
                    wc_ca_fingerprint = dget config ''witnessCaFingerprintSha256''\<rparr>)
     | _ \<Rightarrow> Inl setup_invalid)"

definition ca_reference :: "witness_config \<Rightarrow> (string \<times> string) option res" where
  "ca_reference c =
     (if wc_ca_path c = PNone then Inr None
      else case (as_string (wc_ca_path c), as_string (wc_ca_fingerprint c)) of
        (Some p, Some f) \<Rightarrow> (if is_sha256_hex f then Inr (Some (p, f)) else Inl setup_invalid)
      | _ \<Rightarrow> Inl setup_invalid)"

definition or_else :: "string option \<Rightarrow> string \<Rightarrow> string" where
  \<comment> \<open>\<open>a or b\<close>\<close>
  "or_else a b = (case a of None \<Rightarrow> b | Some s \<Rightarrow> if s = [] then b else s)"

definition read_witness_config :: "sdk_env \<Rightarrow> pyval \<Rightarrow> witness_config prog" where
  "read_witness_config E workspace_id =
     (case workspace_name workspace_id of
        None \<Rightarrow> raise (ProtocolError ''invalid witness workspace ID'')
      | Some workspace \<Rightarrow>
          bindp (perform Config_Dir as_str) (\<lambda>config_dir.
          bindp
            (handle (read_json (config_dir @ ''/witness/'' @ workspace, ''config.json'') 4096)
              (\<lambda>e. if e = FileNotFoundError
                   then raise (ValueError ''witness setup is missing'')
                   else if is_os_error e \<or> is_value_error e then raise setup_invalid
                   else raise e)) (\<lambda>v.
          Done (parse_witness_config workspace v))))"

text \<open>The paths, the pinned fingerprint and the pinned authority the rest works with.\<close>

definition witness_sources ::
  "sdk_env \<Rightarrow> pyval \<Rightarrow> string option \<Rightarrow> string option \<Rightarrow>
     (string \<times> string \<times> string option \<times> (string \<times> string) option) prog" where
  "witness_sources E workspace_id native_binary trusted_notary_key =
     (case (native_binary, trusted_notary_key) of
        (Some native, Some trusted) \<Rightarrow> return (native, trusted, None, None)
      | _ \<Rightarrow>
          bindp (read_witness_config E workspace_id) (\<lambda>c.
          bindp (Done (ca_reference c)) (\<lambda>ca.
          return (or_else native_binary (wc_native c), or_else trusted_notary_key (wc_trusted c),
                  Some (wc_fingerprint c), ca))))"

definition trusted_authority :: "sdk_env \<Rightarrow> (string \<times> string) option \<Rightarrow> string option prog" where
  "trusted_authority E ca =
     (case ca of
        None \<Rightarrow> return None
      | Some (p, fingerprint) \<Rightarrow>
          bindp (perform (Expand_User p) as_str) (\<lambda>candidate.
          if \<not> is_absolute candidate then raise (ValueError ''witness CA path must be absolute'')
          else
            bindp (perform (Resolve_Strict candidate) as_str) (\<lambda>resolved.
            bindp (perform (Is_File resolved) as_bool) (\<lambda>is_file.
            if \<not> is_file then raise (ValueError ''witness CA file is invalid'')
            else
              bindp (perform (File_Size resolved) as_int) (\<lambda>size1.
              if 32 * 1024 < size1 then raise (ValueError ''witness CA file is invalid'')
              else
                bindp (perform (File_Size resolved) as_int) (\<lambda>size2.
                if size2 < 1 then raise (ValueError ''witness CA file is invalid'')
                else
                  bindp (perform (Read_File (file_at resolved)) as_doc) (\<lambda>d.
                  if sha256_hex E (doc_bytes d) \<noteq> fingerprint
                  then raise (ProtocolError
                    ''witness CA differs from the locally pinned fingerprint'')
                  else return (Some resolved))))))))"

definition resolve_witness_files ::
  "sdk_env \<Rightarrow> string \<times> string \<times> string option \<times> (string \<times> string) option \<Rightarrow>
     (string \<times> string \<times> string \<times> string option) prog" where
  "resolve_witness_files E = (\<lambda>(native_path, trusted_path, pinned, ca).
     bindp (perform (Expand_User native_path) as_str) (\<lambda>binary_path.
     bindp (perform (Expand_User trusted_path) as_str) (\<lambda>trust_path.
     if \<not> is_absolute binary_path \<or> \<not> is_absolute trust_path
     then raise (ValueError ''witness binary and public key paths must be absolute'')
     else
       bindp (perform (Resolve_Strict binary_path) as_str) (\<lambda>native.
       bindp (perform (Resolve_Strict trust_path) as_str) (\<lambda>trust.
       bindp (perform (Is_File native) as_bool) (\<lambda>native_file.
       bindp (if native_file then perform (Is_Executable native) as_bool else return False)
         (\<lambda>executable.
       if \<not> native_file \<or> \<not> executable
       then raise (ValueError ''witness binary is missing or not executable'')
       else
         bindp (perform (Is_File trust) as_bool) (\<lambda>trust_file.
         if \<not> trust_file then raise (ValueError ''witness public key file is missing'')
         else
           bindp (notary_fingerprint E trust) (\<lambda>fingerprint.
           if pinned \<notin> {None, Some fingerprint}
           then raise (ProtocolError
             ''witness public key differs from the locally confirmed fingerprint'')
           else
             bindp (trusted_authority E ca) (\<lambda>authority.
             return (native, trust, fingerprint, authority)))))))))))"

definition witness_files ::
  "sdk_env \<Rightarrow> pyval \<Rightarrow> string option \<Rightarrow> string option \<Rightarrow>
     (string \<times> string \<times> string \<times> string option) prog" where
  "witness_files E workspace_id native_binary trusted_notary_key =
     bindp (witness_sources E workspace_id native_binary trusted_notary_key)
       (resolve_witness_files E)"

subsection \<open>Facts\<close>

fun local_effect :: "eff \<Rightarrow> bool" where
  "local_effect (Read_File p) = (snd p \<noteq> ''journal.json'')"
| "local_effect Config_Dir = True"
| "local_effect (Expand_User _) = True"
| "local_effect (Resolve_Strict _) = True"
| "local_effect (Is_File _) = True"
| "local_effect (Is_Executable _) = True"
| "local_effect (File_Size _) = True"
| "local_effect _ = False"

definition pinned_in :: "pyval \<Rightarrow> string \<Rightarrow> (eff \<times> ans) list \<Rightarrow> bool" where
  "pinned_in workspace_id fp h \<longleftrightarrow>
     (\<exists>w p d v c. workspace_name workspace_id = Some w \<and> snd p = ''config.json''
        \<and> (Read_File p, A_Doc d) \<in> set h \<and> loads d = Inr v
        \<and> parse_witness_config w v = Inr c \<and> wc_fingerprint c = fp)"

lemma pinned_in_mono: "pinned_in w fp h \<Longrightarrow> set h \<subseteq> set h' \<Longrightarrow> pinned_in w fp h'"
  unfolding pinned_in_def by blast

lemma read_witness_config_pins:
  "safe (\<lambda>_ _. True) snoc (read_witness_config E workspace_id)
     (\<lambda>h r. case r of Inl _ \<Rightarrow> True | Inr c \<Rightarrow> pinned_in workspace_id (wc_fingerprint c) h) h"
  unfolding read_witness_config_def read_json_def read_bytes_def pinned_in_def
  by (rule history.wp_steps history.wp_nestI | simp only: sum.case | force simp: snoc_def)+

lemma witness_sources_pin:
  "safe (\<lambda>_ _. True) snoc (witness_sources E workspace_id nb tk)
     (\<lambda>h r. case r of Inl _ \<Rightarrow> True
      | Inr (n, t, pinned, ca) \<Rightarrow> (nb \<noteq> None \<and> tk \<noteq> None)
          \<or> (\<exists>fp. pinned = Some fp \<and> pinned_in workspace_id fp h)) []"
  unfolding witness_sources_def
  by (rule history.wp_steps history.wp_bindI[OF read_witness_config_pins] | force)+

lemma resolve_witness_files_pin:
  "safe (\<lambda>_ _. True) snoc (resolve_witness_files E (n, t, pinned, ca))
     (\<lambda>h r. case r of Inl _ \<Rightarrow> True | Inr (_, _, fp, _) \<Rightarrow> pinned \<in> {None, Some fp}) h"
proof -
  have triv: "safe (\<lambda>_ _. True) snoc m (\<lambda>_ _. True) h" for m :: "'b prog" and h
    by (rule history.wp_mono[OF history_grows]) simp
  show ?thesis
    unfolding resolve_witness_files_def prod.case
    by (rule history.wp_steps history.wp_bindI[OF triv] | simp; fail)+
qed


end
