(* ===== verification/Execution.thy ===== *)
theory Execution
  imports Witness_Setup
begin

text \<open>
  The local execution of \<open>allowly/execution.py\<close>: \<open>execute_http\<close>, \<open>continue_http_execution\<close>,
  \<open>_dispatch_approved\<close> with its nested \<open>claim\<close>, and \<open>flush_execution_outcome\<close>. The journal is a
  dictionary the functions pass on; what \<open>claim\<close> has written to it is returned even when
  \<open>claim\<close> raises, because the caller looks at it afterwards. An \<open>AsyncTimeoutError\<close> answer to an
  effect inside \<open>witnessed_run\<close> is the 150 second limit of \<open>asyncio.wait_for\<close> striking there; the
  polling of the ready file sleeps at least 25 ms a turn, so 6000 turns exhaust that limit.
\<close>

subsection \<open>Data\<close>

record local_result =
  lr_execution :: execution_response
  lr_operation_dir :: string
  lr_response :: "pydict option"
  lr_outcome_pending :: bool
  lr_decision_receipt_verified :: bool

definition local_execution_result ::
  "execution_response \<Rightarrow> string \<Rightarrow> pydict option \<Rightarrow> bool \<Rightarrow> local_result" where
  "local_execution_result r dir response pending =
     \<lparr>lr_execution = r, lr_operation_dir = dir, lr_response = response,
      lr_outcome_pending = pending, lr_decision_receipt_verified = False\<rparr>"

text \<open>The arguments of \<open>_dispatch_approved\<close>, the journal apart.\<close>

record dispatch =
  dp_request :: execution_request
  dp_headers :: "(string \<times> string) list"
  dp_body :: string
  dp_folder :: string
  dp_result :: execution_response
  dp_agent_token :: pyval
  dp_native :: "string option"
  dp_trusted :: "string option"
  dp_timeout :: pyfloat

abbreviation journal_path :: "string \<Rightarrow> path" where
  "journal_path folder \<equiv> (folder, ''journal.json'')"

definition approval_hash :: "dispatch \<Rightarrow> pyval" where
  "approval_hash D = opt_str (er_approval_sha256 (dp_result D))"

definition approved :: "execution_response \<Rightarrow> bool" where
  "approved r \<longleftrightarrow> er_decision r = Allow \<and> er_status r = Exec_Approved"

subsection \<open>Reporting an outcome\<close>

definition flush_execution_outcome ::
  "sdk_env \<Rightarrow> client \<Rightarrow> string \<Rightarrow> pyval \<Rightarrow> execution_response prog" where
  "flush_execution_outcome E C operation_dir agent_token =
     bindp (perform (Resolve_Dir operation_dir) as_str) (\<lambda>folder.
     bindp (read_json (journal_path folder) default_maximum) (\<lambda>v.
     bindp (Done (as_dict AttributeError v)) (\<lambda>state.
     if \<not> hashable (dget state ''version'') then raise (TypeError ''unhashable type'')
     else if \<not> (py_eq (dget state ''version'') (PInt 1) \<or> py_eq (dget state ''version'') (PInt 2))
     then raise (ExecutionRecoveryRequired folder)
     else
       bindp (Done (as_dict (ExecutionRecoveryRequired folder) (dget state ''outcome''))) (\<lambda>report.
       bindp (Done (dict_item state ''operation_id'')) (\<lambda>operation.
       bindp (Done (dict_item report ''body'')) (\<lambda>body.
       bindp (Done (dict_item report ''idempotency_key'')) (\<lambda>key.
       case as_string operation of
         None \<Rightarrow> raise (TypeError ''quote_from_bytes() expected bytes'')
       | Some operation_id \<Rightarrow>
           bindp (report_execution_outcome E C operation_id body key agent_token) (\<lambda>result.
           bindp (save E (journal_path folder)
                    (PDict (merge_items state [(''phase'', PStr ''complete''),
                                               (''final_response'', PDict (asdict_execution result))])))
             (\<lambda>_. return result)))))))))"

subsection \<open>Claiming the dispatch\<close>

definition attempted_state :: "dispatch \<Rightarrow> pydict \<Rightarrow> string \<Rightarrow> pydict" where
  "attempted_state D state started =
     merge_items state
       [(''phase'', PStr ''dispatch_attempted''), (''dispatch_attempted_at'', PStr started),
        (''outcome'', PDict
          [(''idempotency_key'', PStr (xr_operation_id (dp_request D))),
           (''body'', PDict [(''approval_sha256'', approval_hash D), (''target_state'', PStr ''unknown''),
                             (''dispatch_started_at'', PStr started),
                             (''completed_at'', PStr started)])])]"

definition confirm_claim ::
  "sdk_env \<Rightarrow> client \<Rightarrow> dispatch \<Rightarrow> pydict \<Rightarrow> pydict \<Rightarrow> unit prog" where
  "confirm_claim E C D approval state =
     bindp (save E (journal_path (dp_folder D)) (PDict state)) (\<lambda>_.
     bindp (claim_execution_dispatch E C (xr_operation_id (dp_request D)) (approval_hash D)
              (dp_agent_token D)) (\<lambda>claimed.
     if \<not> py_eq (dget claimed ''approval'') (PDict approval)
        \<or> \<not> py_eq (dget claimed ''effective_evidence_mode'')
               (opt_str (er_effective_evidence_mode (dp_result D)))
     then raise (ProtocolError ''dispatch claim differs from approval'')
     else live E approval))"

definition claim ::
  "sdk_env \<Rightarrow> client \<Rightarrow> dispatch \<Rightarrow> pydict \<Rightarrow> pydict \<Rightarrow> (pydict \<times> unit res) prog" where
  "claim E C D approval state =
     bindp (attempt (bindp (live E approval) (\<lambda>_. perform Now_Iso as_str))) (\<lambda>r.
     case r of
       Inl e \<Rightarrow> return (state, Inl e)
     | Inr started \<Rightarrow>
         bindp (attempt (confirm_claim E C D approval (attempted_state D state started))) (\<lambda>c.
         return (attempted_state D state started, c)))"

subsection \<open>The native witness\<close>

definition crlf :: string where
  "crlf = [char_of (13 :: nat), char_of (10 :: nat)]"

definition witness_dir :: "dispatch \<Rightarrow> string" where
  "witness_dir D = dp_folder D @ ''/witness''"

definition origin_host :: "pydict \<Rightarrow> string" where
  "origin_host d =
     (case urlsplit (text_at d ''origin'') of None \<Rightarrow> [] | Some u \<Rightarrow> hostname u)"

definition estimated_request :: "dispatch \<Rightarrow> string" where
  "estimated_request D =
     (let d = xr_http_request (dp_request D) in
      text_at d ''method'' @ '' '' @ request_target d @ '' HTTP/1.1'' @ crlf @ ''Host: '' @
      origin_host d @ crlf @ ''Connection: close'' @ crlf @ ''Accept-Encoding: identity'' @ crlf @
      concat (map (\<lambda>(k, v). k @ '': '' @ v @ crlf) (sort_key fst (dp_headers D))) @
      ''Content-Length: '' @ nat_str (length (utf8 (dp_body D))) @ crlf @ crlf @ dp_body D)"

definition or_empty :: "pyval \<Rightarrow> pyval" where
  "or_empty v = (if truthy v then v else PDict [])"

definition session_keys :: "string list" where
  "session_keys =
     [''session_id'', ''witness_url'', ''trusted_notary_key_fingerprint_sha256'', ''native_profile'']"

definition binding :: "dispatch \<Rightarrow> pydict \<Rightarrow> pydict" where
  "binding D approval = [(''approval_sha256'', approval_hash D), (''approval'', PDict approval)]"

definition str_dict :: "(string \<times> string) list \<Rightarrow> pyval" where
  "str_dict hs = PDict (map (\<lambda>(k, v). (k, PStr v)) hs)"

definition native_input :: "dispatch \<Rightarrow> pydict \<Rightarrow> pydict \<Rightarrow> pyval res" where
  "native_input D approval admission =
     bindr (dict_item admission ''witness_url'') (\<lambda>url.
     bindr (dict_item admission ''session_id'') (\<lambda>session.
     bindr (dict_item admission ''workspace_id'') (\<lambda>workspace.
     bindr (dict_item admission ''admission_token'') (\<lambda>token.
     Inr (PDict (merge_items (binding D approval)
       [(''request'', PDict [(''headers'', str_dict (dp_headers D)), (''body'', PStr (dp_body D))]),
        (''require_dispatch_ack'', PBool True),
        (''witness'', PDict [(''url'', url), (''session_id'', session),
                             (''workspace_id'', workspace), (''admission_token'', token)])]))))))"

definition native_args :: "dispatch \<Rightarrow> string \<Rightarrow> string \<Rightarrow> string option \<Rightarrow> string list" where
  "native_args D native trust ca =
     [native, ''prove-execute'', ''--output'', witness_dir D, ''--trusted-key'', trust] @
     (case ca of None \<Rightarrow> [] | Some p \<Rightarrow> [''--witness-ca-cert'', p])"

primrec wait_ready :: "nat \<Rightarrow> string \<Rightarrow> unit prog" where
  "wait_ready 0 out = raise AsyncTimeoutError"
| "wait_ready (Suc n) out =
     bindp (perform (Exists (out, ''witness.ready.json'')) as_bool) (\<lambda>ready.
     if ready then return ()
     else
       bindp (perform Native_Done as_bool) (\<lambda>ended.
       if ended then raise (ProtocolError ''witness failed before dispatch'')
       else bindp (perform (Sleep (Fin (1 / 40))) as_unit) (\<lambda>_. wait_ready n out)))"

definition ready_turns :: nat where
  "ready_turns = 6000"

definition await_ready :: "dispatch \<Rightarrow> unit prog" where
  "await_ready D =
     bindp (wait_ready ready_turns (witness_dir D)) (\<lambda>_.
     bindp (read_json (witness_dir D, ''witness.ready.json'') 1024) (\<lambda>v.
     if \<not> py_eq v (PDict [(''approval_sha256'', approval_hash D)])
     then raise (ProtocolError ''witness ready gate differs from approval'')
     else return ()))"

definition witnessed_run ::
  "sdk_env \<Rightarrow> client \<Rightarrow> dispatch \<Rightarrow> pydict \<Rightarrow> pydict \<Rightarrow> (pydict \<times> unit res) prog" where
  "witnessed_run E C D approval state =
     bindp (attempt (await_ready D)) (\<lambda>r.
     case r of
       Inl e \<Rightarrow> return (state, Inl e)
     | Inr _ \<Rightarrow>
         bindp (claim E C D approval state) (\<lambda>(state', c).
         case c of
           Inl e \<Rightarrow> return (state', Inl e)
         | Inr _ \<Rightarrow>
             bindp (attempt
               (bindp (save E (witness_dir D, ''dispatch.approved.json'')
                         (PDict [(''approval_sha256'', approval_hash D)])) (\<lambda>_.
                perform Await_Native as_unit))) (\<lambda>r'. return (state', r'))))"

text \<open>
  The admission of the witness: the size limit, the session's keys and the workspace, then the
  native process with its input on the standard input.
\<close>

definition check_admission :: "dispatch \<Rightarrow> pydict \<Rightarrow> pydict \<Rightarrow> pydict \<Rightarrow> unit res" where
  "check_admission D approval session admission =
     (if \<exists>k \<in> set session_keys. \<not> py_eq (dget admission k) (dget session k)
      then Inl (ProtocolError ''witness admission differs from prepared session'')
      else if \<not> py_eq (dget admission ''workspace_id'') (dget approval ''workspace_id'')
      then Inl (ProtocolError ''witness admission workspace differs'')
      else Inr ())"

definition start_native ::
  "sdk_env \<Rightarrow> client \<Rightarrow> dispatch \<Rightarrow> pydict \<Rightarrow> string \<times> string \<times> string \<times> string option \<Rightarrow> unit prog" where
  "start_native E C D approval = (\<lambda>(native, trust, _, ca).
     bindp (Done (as_dict AttributeError (or_empty (er_witness_session (dp_result D))))) (\<lambda>session.
     if 2048 < int (length (utf8 (estimated_request D)))
     then raise (ValueError ''request exceeds the native witness 2 KiB limit'')
     else
       bindp (get_execution_witness_token E C (xr_operation_id (dp_request D)) (approval_hash D)
                (dp_agent_token D)) (\<lambda>admission.
       bindp (Done (check_admission D approval session admission)) (\<lambda>_.
       bindp (Done (native_input D approval admission)) (\<lambda>stdin.
       bindp (perform (Spawn_Native (native_args D native trust ca)) as_unit) (\<lambda>_.
       bindp (Done (json_bytes E stdin)) (\<lambda>text.
       perform (Start_Communicate text) as_unit)))))))"

text \<open>What the native process left behind: a response, an attestation and the bundle's hash.\<close>

definition check_verified ::
  "sdk_env \<Rightarrow> dispatch \<Rightarrow> pydict \<Rightarrow> string \<Rightarrow> document \<Rightarrow> pydict option \<Rightarrow> pyval res" where
  "check_verified E D verified bundle_sha256 attestation response =
     (if dget verified ''verified'' \<noteq> PBool True
         \<or> \<not> py_eq (dget verified ''approval_sha256'') (approval_hash D)
         \<or> \<not> py_eq (dget verified ''request_binding_verification'')
                (PStr ''verified_from_full_presentation'')
         \<or> \<not> py_eq (dget verified ''artifact_sha256'') (PStr bundle_sha256)
         \<or> \<not> py_eq (dget verified ''attestation_sha256'') (PStr (sha E (doc_bytes attestation)))
      then Inl (ProtocolError ''native verification result differs from approval'')
      else case response of
        None \<Rightarrow> Inl (ProtocolError ''native verified response differs from observed response'')
      | Some resp \<Rightarrow>
          bindr (observed_response E (dget verified ''response'') (16 * 1024)) (\<lambda>other.
          if \<not> py_eq (PDict resp) (PDict other)
          then Inl (ProtocolError ''native verified response differs from observed response'')
          else loads attestation))"

definition native_proof ::
  "sdk_env \<Rightarrow> dispatch \<Rightarrow> pydict option \<Rightarrow> (pyval \<times> string) prog" where
  "native_proof E D response =
     bindp (perform Native_Stdout as_doc) (\<lambda>native_stdout.
     if 64 * 1024 < int (length (doc_bytes native_stdout))
     then raise (ProtocolError ''native verification output exceeds its limit'')
     else
       bindp (Done (loads native_stdout)) (\<lambda>v.
       bindp (Done (as_dict (ProtocolError ''native verification output is malformed'') v)) (\<lambda>verified.
       bindp (read_bytes (witness_dir D, ''presentation.json'') (16 * 1024 * 1024)) (\<lambda>presentation.
       bindp (read_bytes (witness_dir D, ''attestation.json'') (1024 * 1024)) (\<lambda>attestation.
       bindp (Done (check_verified E D verified (sha E (doc_bytes presentation)) attestation response))
         (\<lambda>att. return (att, sha E (doc_bytes presentation))))))))"

type_synonym evidence = "pydict option \<times> pyval \<times> string option"

definition native_results :: "sdk_env \<Rightarrow> dispatch \<Rightarrow> evidence prog" where
  "native_results E D =
     handle
       (bindp (perform (Exists (witness_dir D, ''response.json'')) as_bool) (\<lambda>present.
        bindp (if present
               then bindp (read_json (witness_dir D, ''response.json'') default_maximum) (\<lambda>v.
                    bindp (Done (observed_response E v (16 * 1024))) (\<lambda>d. return (Some d)))
               else return None) (\<lambda>response.
        bindp (perform Native_Returncode as_int) (\<lambda>code.
        if code \<noteq> 0 then return (response, PNone, None)
        else
          bindp (native_proof E D response) (\<lambda>(attestation, bundle).
          return (response, attestation, Some bundle))))))
       (\<lambda>e. if is_exception e then return (None, PNone, None) else raise e)"

definition witnessed_dispatch ::
  "sdk_env \<Rightarrow> client \<Rightarrow> dispatch \<Rightarrow> pydict \<Rightarrow> string \<times> string \<times> string \<times> string option \<Rightarrow> pydict \<Rightarrow>
     (pydict \<times> evidence) prog" where
  "witnessed_dispatch E C D approval files state =
     bindp (start_native E C D approval files) (\<lambda>_.
     bindp (witnessed_run E C D approval state) (\<lambda>(state', r).
     bindp (perform Stop_Native as_unit) (\<lambda>_.
     case r of
       Inl e \<Rightarrow>
         (if \<not> is_exception e \<or> \<not> py_eq (dget state' ''phase'') (PStr ''dispatch_attempted'')
          then raise e
          else bindp (native_results E D) (\<lambda>ev. return (state', ev)))
     | Inr _ \<Rightarrow> bindp (native_results E D) (\<lambda>ev. return (state', ev)))))"

subsection \<open>The direct call\<close>

definition receipt_dispatch ::
  "sdk_env \<Rightarrow> client \<Rightarrow> dispatch \<Rightarrow> pydict \<Rightarrow> pydict \<Rightarrow> (pydict \<times> evidence) prog" where
  "receipt_dispatch E C D approval state =
     bindp (claim E C D approval state) (\<lambda>(state', c).
     bindp (Done c) (\<lambda>_.
     bindp (handle
       (bindp (provider_send E (xr_http_request (dp_request D)) (dp_headers D) (dp_body D)
                 (dp_timeout D) approval) (\<lambda>sent.
        bindp (Done (observed_response E (PDict sent) (1024 * 1024))) (\<lambda>d. return (Some d))))
       (\<lambda>e. if is_exception e then return None else raise e)) (\<lambda>response.
     return (state', (response, PNone, None)))))"

subsection \<open>\<open>_dispatch_approved\<close>\<close>

definition outcome_body :: "dispatch \<Rightarrow> pydict \<Rightarrow> evidence \<Rightarrow> string \<Rightarrow> pydict" where
  "outcome_body D state = (\<lambda>(response, attestation, bundle) completed.
     [(''approval_sha256'', approval_hash D),
      (''target_state'', PStr (if response \<noteq> None then ''response_observed'' else ''unknown'')),
      (''dispatch_started_at'', dget state ''dispatch_attempted_at''),
      (''completed_at'', PStr completed)] @
     (case response of None \<Rightarrow> []
      | Some d \<Rightarrow> [(''http_status'', dget d ''status''), (''response_sha256'', dget d ''body_sha256''),
                   (''response_size'', dget d ''body_bytes'')]) @
     (if attestation = PNone then []
      else [(''notary_attestation'', attestation), (''evidence_bundle_sha256'', opt_str bundle)]))"

definition finish_dispatch ::
  "sdk_env \<Rightarrow> client \<Rightarrow> dispatch \<Rightarrow> pydict \<Rightarrow> evidence \<Rightarrow> local_result prog" where
  "finish_dispatch E C D state ev =
     bindp (case fst ev of None \<Rightarrow> return ()
            | Some d \<Rightarrow> save E (dp_folder D, ''response.json'') (PDict d)) (\<lambda>_.
     bindp (perform Now_Iso as_str) (\<lambda>completed.
     bindp (save E (journal_path (dp_folder D))
              (PDict (merge_items state
                 [(''phase'', PStr ''outcome_pending''),
                  (''outcome'', PDict [(''idempotency_key'', PStr (xr_operation_id (dp_request D))),
                                       (''body'', PDict (outcome_body D state ev completed))])]))) (\<lambda>_.
     handle
       (bindp (flush_execution_outcome E C (dp_folder D) (dp_agent_token D)) (\<lambda>final.
        return (local_execution_result final (dp_folder D) (fst ev) False)))
       (\<lambda>e. if is_exception e
            then return (local_execution_result (dp_result D) (dp_folder D) (fst ev) True)
            else raise e))))"

definition select_witness ::
  "sdk_env \<Rightarrow> dispatch \<Rightarrow> pydict \<Rightarrow> (string \<times> string \<times> string \<times> string option) option prog" where
  "select_witness E D approval =
     (if er_effective_evidence_mode (dp_result D) \<noteq> Some ''witnessed'' then return None
      else
        bindp (Done (dict_item approval ''workspace_id'')) (\<lambda>workspace.
        bindp (witness_files E workspace (dp_native D) (dp_trusted D)) (\<lambda>files.
        bindp (Done (as_dict AttributeError (or_empty (er_witness_session (dp_result D))))) (\<lambda>session.
        if \<not> py_eq (PStr (fst (snd (snd files))))
              (dget session ''trusted_notary_key_fingerprint_sha256'')
        then raise (ProtocolError ''configured notary key differs from admitted witness'')
        else return (Some files)))))"

definition dispatch_approved ::
  "sdk_env \<Rightarrow> client \<Rightarrow> dispatch \<Rightarrow> pydict \<Rightarrow> local_result prog" where
  "dispatch_approved E C D state =
     bindp (validate_approval E (dp_result D) (dp_request D)) (\<lambda>approval.
     bindp (select_witness E D approval) (\<lambda>witness.
     bindp (save E (dp_folder D, ''approval.json'') (PDict (binding D approval))) (\<lambda>_.
     bindp (case witness of
              Some files \<Rightarrow> witnessed_dispatch E C D approval files state
            | None \<Rightarrow> receipt_dispatch E C D approval state) (\<lambda>(state', ev).
     finish_dispatch E C D state' ev))))"

subsection \<open>\<open>execute_http\<close>\<close>

definition operation_folder :: "sdk_env \<Rightarrow> string \<Rightarrow> string \<Rightarrow> string" where
  "operation_folder E parent operation_id = parent @ ''/'' @ sha256_hex E (utf8 operation_id)"

definition dispatch_of ::
  "http_call \<Rightarrow> execution_request \<Rightarrow> (string \<times> string) list \<Rightarrow> string \<Rightarrow> execution_response \<Rightarrow> dispatch" where
  "dispatch_of c x private_headers folder r =
     \<lparr>dp_request = x, dp_headers = private_headers,
      dp_body = (case hx_body c of PStr b \<Rightarrow> b | _ \<Rightarrow> []), dp_folder = folder, dp_result = r,
      dp_agent_token = hx_agent_token c, dp_native = hx_native_binary c,
      dp_trusted = hx_trusted_notary_key c, dp_timeout = hx_timeout c\<rparr>"

definition initial_state :: "execution_request \<Rightarrow> string \<Rightarrow> pydict" where
  "initial_state x request_hash =
     [(''version'', PInt 2), (''operation_id'', PStr (xr_operation_id x)),
      (''request_sha256'', PStr (''sha256:'' @ request_hash)),
      (''client_timestamp'', xr_client_timestamp x), (''phase'', PStr ''prepared'')]"

definition decided_phase :: "execution_response \<Rightarrow> string \<Rightarrow> string" where
  "decided_phase r approved_phase =
     (if approved r then approved_phase
      else if er_status r = Exec_Waiting_For_Review then ''waiting_for_review''
      else ''complete'')"

text \<open>
  The end both callers share: store the decision, stop unless it approves, dispatch.
\<close>

definition settle_decision ::
  "sdk_env \<Rightarrow> client \<Rightarrow> dispatch \<Rightarrow> pydict \<Rightarrow> string \<Rightarrow> local_result prog" where
  "settle_decision E C D state approved_phase =
     (let state' = merge_items state
            [(''phase'', PStr (decided_phase (dp_result D) approved_phase)),
             (''authorization'', PDict (journal_authorization (dp_result D)))] in
      bindp (save E (journal_path (dp_folder D)) (PDict state')) (\<lambda>_.
      if \<not> approved (dp_result D)
      then return (local_execution_result (dp_result D) (dp_folder D) None False)
      else dispatch_approved E C D state'))"

definition run_new ::
  "sdk_env \<Rightarrow> client \<Rightarrow> http_call \<Rightarrow> execution_request \<Rightarrow> (string \<times> string) list \<Rightarrow> string \<Rightarrow>
     local_result prog" where
  "run_new E C c x private_headers folder =
     bindp (Done (hash_seal_value E (PDict (request_dict x)))) (\<lambda>request_hash.
     bindp (save E (journal_path folder) (PDict (initial_state x request_hash))) (\<lambda>_.
     operation_lock folder
       (bindp (prepare_execution E C x (hx_operation_id c) (hx_agent_token c)) (\<lambda>r.
        settle_decision E C (dispatch_of c x private_headers folder r) (initial_state x request_hash)
          ''authorized''))))"

definition execute_http :: "sdk_env \<Rightarrow> client \<Rightarrow> http_call \<Rightarrow> local_result prog" where
  "execute_http E C c =
     bindp (Done (http_execution_request E c)) (\<lambda>(x0, private_headers).
     bindp (perform Now_Iso as_str) (\<lambda>now.
     let x = x0\<lparr>xr_client_timestamp := PStr now\<rparr> in
     bindp (perform (Resolve_Dir (hx_storage_dir c)) as_str) (\<lambda>parent.
     let folder = operation_folder E parent (hx_operation_id c) in
     bindp (perform (Dir_Exists folder) as_bool) (\<lambda>exists.
     if exists then raise (ExecutionRecoveryRequired folder)
     else
       bindp (perform (Mkdir_Parents parent) as_unit) (\<lambda>_.
       bindp (handle (perform (Mkdir folder) as_unit)
                (\<lambda>e. if e = FileExistsError then raise (ExecutionRecoveryRequired folder)
                     else raise e)) (\<lambda>_.
       run_new E C c x private_headers folder))))))"

subsection \<open>\<open>continue_http_execution\<close>\<close>

text \<open>The checks on the journal a continuation starts from.\<close>

definition resumable_phase :: "pyval \<Rightarrow> bool" where
  "resumable_phase v \<longleftrightarrow> v = PStr ''waiting_for_review'' \<or> v = PStr ''continuing''"

definition check_resumable :: "string \<Rightarrow> string \<Rightarrow> pydict \<Rightarrow> string res" where
  "check_resumable folder operation_id state =
     (if \<not> py_eq (dget state ''version'') (PInt 2)
         \<or> \<not> py_eq (dget state ''operation_id'') (PStr operation_id)
      then Inl (ExecutionRecoveryRequired folder)
      else if \<not> hashable (dget state ''phase'') then Inl (TypeError ''unhashable type'')
      else if \<not> resumable_phase (dget state ''phase'') then Inl (ExecutionRecoveryRequired folder)
      else case as_string (dget state ''client_timestamp'') of
        None \<Rightarrow> Inl (ExecutionRecoveryRequired folder)
      | Some t \<Rightarrow> Inr t)"

definition continuation_key :: "sdk_env \<Rightarrow> string \<Rightarrow> execution_review \<Rightarrow> string res" where
  "continuation_key E operation_id rv =
     bindr (json_bytes E (PList [PStr operation_id, PStr (rv_id rv), PStr (rv_source_receipt_id rv)]))
       (\<lambda>text. Inr (''continue:'' @ sha256_hex E text))"

definition with_continuation :: "sdk_env \<Rightarrow> string \<Rightarrow> pydict \<Rightarrow> pydict res" where
  "with_continuation E operation_id state =
     (if dget state ''phase'' \<noteq> PStr ''waiting_for_review'' then Inr state
      else
        bindr (parse_execution_response E (dget state ''authorization'')) (\<lambda>previous.
        if er_status previous \<noteq> Exec_Waiting_For_Review
        then Inl (ProtocolError ''saved execution is missing its review binding'')
        else case er_review previous of
          None \<Rightarrow> Inl (ProtocolError ''saved execution is missing its review binding'')
        | Some rv \<Rightarrow>
            bindr (continuation_key E operation_id rv) (\<lambda>key.
            Inr (put_item ''continuation'' (PDict
              [(''review_id'', PStr (rv_id rv)), (''source_receipt_id'', PStr (rv_source_receipt_id rv)),
               (''idempotency_key'', PStr key)]) state))))"

text \<open>The saved intent: review, source receipt and idempotency key, all non-empty strings.\<close>

definition intent_of :: "pydict \<Rightarrow> (string \<times> string \<times> string) res" where
  "intent_of state =
     bindr (as_dict (ProtocolError ''saved execution is missing its continuation intent'')
              (dget state ''continuation'')) (\<lambda>intent.
     if set (keys_of intent) \<noteq> {''review_id'', ''source_receipt_id'', ''idempotency_key''}
     then Inl (ProtocolError ''saved execution is missing its continuation intent'')
     else case (as_string (dget intent ''review_id''), as_string (dget intent ''source_receipt_id''),
                as_string (dget intent ''idempotency_key'')) of
       (Some review, Some source, Some key) \<Rightarrow>
         (if review = [] \<or> source = [] \<or> key = []
          then Inl (ProtocolError ''saved execution is missing its continuation intent'')
          else Inr (review, source, key))
     | _ \<Rightarrow> Inl (ProtocolError ''saved execution is missing its continuation intent''))"

definition run_continuation ::
  "sdk_env \<Rightarrow> client \<Rightarrow> http_call \<Rightarrow> execution_request \<Rightarrow> (string \<times> string) list \<Rightarrow> string \<Rightarrow>
     local_result prog" where
  "run_continuation E C c x0 private_headers folder =
     bindp (read_json (journal_path folder) default_maximum) (\<lambda>v.
     bindp (Done (as_dict AttributeError v)) (\<lambda>state.
     bindp (Done (check_resumable folder (hx_operation_id c) state)) (\<lambda>timestamp.
     let x = x0\<lparr>xr_client_timestamp := PStr timestamp\<rparr> in
     bindp (Done (hash_seal_value E (PDict (request_dict x)))) (\<lambda>request_hash.
     if \<not> py_eq (PStr (''sha256:'' @ request_hash)) (dget state ''request_sha256'')
     then raise (ProtocolError ''continuation request differs from the original execution'')
     else
       bindp (Done (with_continuation E (hx_operation_id c) state)) (\<lambda>state1.
       bindp (Done (intent_of state1)) (\<lambda>(review, source, key).
       let state2 = put_item ''phase'' (PStr ''continuing'') state1 in
       bindp (save E (journal_path folder) (PDict state2)) (\<lambda>_.
       bindp (continue_execution E C (hx_operation_id c) (PDict (request_dict x)) review source key
                (hx_agent_token c)) (\<lambda>r.
       settle_decision E C (dispatch_of c x private_headers folder r) state2 ''continuing''))))))))"

definition continue_http_execution :: "sdk_env \<Rightarrow> client \<Rightarrow> http_call \<Rightarrow> local_result prog" where
  "continue_http_execution E C c =
     bindp (Done (http_execution_request E c)) (\<lambda>(x0, private_headers).
     bindp (perform (Resolve_Dir (hx_storage_dir c)) as_str) (\<lambda>parent.
     let folder = operation_folder E parent (hx_operation_id c) in
     bindp (perform (Is_Dir folder) as_bool) (\<lambda>is_dir.
     if \<not> is_dir then raise (ExecutionRecoveryRequired folder)
     else operation_lock folder (run_continuation E C c x0 private_headers folder))))"

end
