(* ===== verification/Dispatch_Protocol.thy ===== *)
theory Dispatch_Protocol
  imports Execution
begin

text \<open>
  The discipline one process keeps with the operation it serves, as an effect protocol: what it
  may write to the journal and when it may send. A process is \<open>Fresh\<close> when it holds the
  operation's lock and knows that nothing was ever sent: it created the folder itself, or read a
  journal that still waits for its review. Only a fresh process may leave the journal without a
  recorded outcome; only once the recorded outcome is written and synced (\<open>Armed\<close>) may the
  provider's bytes go out, and then once (\<open>Sent\<close>). Every program of \<open>Execution\<close> is shown to keep
  the discipline whatever the environment answers.
\<close>

subsection \<open>Stages\<close>

datatype stage = Outside | Held | Fresh | Unsure | Written | Armed | Sent

fun stage_rank :: "stage \<Rightarrow> nat" where
  "stage_rank Outside = 0"
| "stage_rank Held = 1"
| "stage_rank Fresh = 2"
| "stage_rank Unsure = 3"
| "stage_rank Written = 4"
| "stage_rank Armed = 5"
| "stage_rank Sent = 6"

lemma stage_rank_inject: "stage_rank a = stage_rank b \<longleftrightarrow> a = b"
  by (cases a; cases b) simp_all

instantiation stage :: linorder
begin

definition less_eq_stage :: "stage \<Rightarrow> stage \<Rightarrow> bool" where
  "less_eq_stage a b \<longleftrightarrow> stage_rank a \<le> stage_rank b"

definition less_stage :: "stage \<Rightarrow> stage \<Rightarrow> bool" where
  "less_stage a b \<longleftrightarrow> stage_rank a < stage_rank b"

instance
  by standard (auto simp: less_eq_stage_def less_stage_def stage_rank_inject[symmetric])

end

subsection \<open>Journal values\<close>

fun resumable :: "pyval \<Rightarrow> bool" where
  "resumable (PDict d) = resumable_phase (dget d ''phase'')"
| "resumable _ = False"

text \<open>
  The journal names its operation, and its outcome is a report: a body and an idempotency key that
  \<open>report_execution_outcome\<close> takes. A recorded journal is one that \<open>flush_execution_outcome\<close> can
  report and no continuation resumes.
\<close>

definition identified :: "pydict \<Rightarrow> bool" where
  "identified d \<longleftrightarrow>
     hashable (dget d ''version'')
     \<and> (py_eq (dget d ''version'') (PInt 1) \<or> py_eq (dget d ''version'') (PInt 2))
     \<and> as_string (dget d ''operation_id'') \<noteq> None"

fun is_report :: "pyval \<Rightarrow> bool" where
  "is_report (PDict r) =
     ((case dget r ''body'' of PDict _ \<Rightarrow> True | _ \<Rightarrow> False) \<and> dhas r ''idempotency_key''
      \<and> (dget r ''idempotency_key'' = PNone \<or> as_string (dget r ''idempotency_key'') \<noteq> None))"
| "is_report _ = False"

fun recorded :: "pyval \<Rightarrow> bool" where
  "recorded (PDict d) =
     (\<not> resumable_phase (dget d ''phase'') \<and> identified d \<and> is_report (dget d ''outcome'')
      \<and> json_value (PDict d))"
| "recorded _ = False"

lemma recorded_not_resumable: "recorded v \<Longrightarrow> \<not> resumable v"
  by (cases v) auto

lemma identified_put_item [simp]:
  "k \<noteq> ''version'' \<Longrightarrow> k \<noteq> ''operation_id'' \<Longrightarrow> identified (put_item k v d) = identified d"
  by (simp add: identified_def)

fun read_resumable :: "ans \<Rightarrow> bool" where
  "read_resumable (A_Doc d) = (case doc_json d of None \<Rightarrow> False | Some v \<Rightarrow> resumable v)"
| "read_resumable _ = False"

subsection \<open>The protocol\<close>

record ghost =
  gh_made :: "string option"
  gh_home :: "string option"
  gh_stage :: stage

definition start_ghost :: ghost where
  "start_ghost = \<lparr>gh_made = None, gh_home = None, gh_stage = Outside\<rparr>"

abbreviation is_journal :: "path \<Rightarrow> bool" where
  "is_journal p \<equiv> snd p = ''journal.json''"

abbreviation is_ack :: "path \<Rightarrow> bool" where
  "is_ack p \<equiv> snd p = ''dispatch.approved.json''"

fun may :: "ghost \<Rightarrow> eff \<Rightarrow> bool" where
  "may g (Mkdir f) \<longleftrightarrow> gh_home g = None"
| "may g (Flock f) \<longleftrightarrow> gh_home g = None"
| "may g (Close_Lock f) \<longleftrightarrow> gh_home g = None \<or> gh_home g = Some f"
| "may g (Replace_File t p v) \<longleftrightarrow>
     (if is_journal p
      then recorded v \<or> (gh_made g = Some (fst p) \<and> \<not> resumable v)
           \<or> (gh_home g = Some (fst p) \<and> gh_stage g = Fresh)
      else if is_ack p
      then gh_stage g = Armed \<and> (\<exists>f. gh_home g = Some f \<and> fst p = f @ ''/witness'')
      else True)"
| "may g (Provider_Request m u hs b) \<longleftrightarrow> gh_stage g = Armed"
| "may g _ = True"

fun learn :: "ghost \<Rightarrow> eff \<Rightarrow> ans \<Rightarrow> ghost" where
  "learn g (Mkdir f) a = (if a = A_Unit then g\<lparr>gh_made := Some f\<rparr> else g)"
| "learn g (Flock f) a =
     (if a = A_Unit
      then \<lparr>gh_made = None, gh_home = Some f,
            gh_stage = (if gh_made g = Some f then Fresh else Held)\<rparr>
      else g\<lparr>gh_made := None\<rparr>)"
| "learn g (Close_Lock f) a = g\<lparr>gh_home := None, gh_stage := Outside\<rparr>"
| "learn g (Read_File p) a =
     (if is_journal p \<and> gh_home g = Some (fst p) \<and> gh_stage g = Held \<and> read_resumable a
      then g\<lparr>gh_stage := Fresh\<rparr> else g)"
| "learn g (Replace_File t p v) a =
     (if is_journal p
      then (if gh_home g = Some (fst p) \<and> gh_stage g = Fresh \<and> recorded v
            then g\<lparr>gh_stage := (if a = A_Unit then Written else Unsure)\<rparr> else g)
      else if is_ack p then g\<lparr>gh_stage := Sent\<rparr> else g)"
| "learn g (Sync_Dir d) a =
     (if a = A_Unit \<and> gh_home g = Some d \<and> gh_stage g = Written
      then g\<lparr>gh_stage := Armed\<rparr> else g)"
| "learn g (Provider_Request m u hs b) a = g\<lparr>gh_stage := Sent\<rparr>"
| "learn g _ a = g"

fun unrelated :: "eff \<Rightarrow> bool" where
  "unrelated (Mkdir f) = False"
| "unrelated (Flock f) = False"
| "unrelated (Close_Lock f) = False"
| "unrelated (Read_File p) = (\<not> is_journal p)"
| "unrelated (Replace_File t p v) = (\<not> is_journal p \<and> \<not> is_ack p)"
| "unrelated (Sync_Dir d) = False"
| "unrelated (Provider_Request m u hs b) = False"
| "unrelated _ = True"

interpretation dispatch: file_protocol may learn unrelated
proof
  show "may g e" if "unrelated e" for g e using that by (cases e) auto
  show "learn g e a = g" if "unrelated e" for g e a using that by (cases e) auto
qed simp_all

subsection \<open>Effects allowed at any time\<close>

text \<open>
  A program of \<open>free\<close> effects may run in any state of the protocol and keeps the process where it
  is: reads, saves of recorded journals and of the other files, calls of the API.
\<close>

fun free :: "eff \<Rightarrow> bool" where
  "free (Replace_File t p v) = ((is_journal p \<longrightarrow> recorded v) \<and> \<not> is_ack p)"
| "free (Read_File p) = True"
| "free (Sync_Dir d) = True"
| "free e = unrelated e"

lemma free_step:
  "free e \<Longrightarrow> may g e \<and> gh_home (learn g e a) = gh_home g \<and> gh_made (learn g e a) = gh_made g"
  by (cases e) auto

lemma unrelated_free: "unrelated e \<Longrightarrow> free e"
  by (cases e) auto

lemma wp_free:
  "uses_only free m \<Longrightarrow> (\<And>g' r. gh_home g' = gh_home g \<Longrightarrow> gh_made g' = gh_made g \<Longrightarrow> Q g' r) \<Longrightarrow>
     safe may learn m Q g"
proof (induction m arbitrary: g)
  case (Act e k)
  have "safe may learn (k a) Q (learn g e a)" for a
    using Act.prems free_step[of e g a] by (intro Act.IH) auto
  with Act.prems free_step show ?case by auto
qed auto

lemma uses_only_free: "uses_only unrelated m \<Longrightarrow> uses_only free m"
  by (erule uses_only_mono) (rule unrelated_free)

lemma api_unrelated: "uses_only api_effect m \<Longrightarrow> uses_only unrelated m"
  by (erule uses_only_mono) (case_tac e; simp)

lemma local_unrelated: "uses_only local_effect m \<Longrightarrow> uses_only unrelated m"
  by (erule uses_only_mono) (case_tac e; simp)

subsection \<open>The parts that keep the protocol by themselves\<close>

lemma uses_only_option [intro]:
  "uses_only N m \<Longrightarrow> (\<And>x. uses_only N (f x)) \<Longrightarrow>
     uses_only N (case opt of None \<Rightarrow> m | Some x \<Rightarrow> f x)"
  by (cases opt) simp_all

lemma uses_only_sum [intro]:
  "(\<And>e. uses_only N (h e)) \<Longrightarrow> (\<And>x. uses_only N (f x)) \<Longrightarrow>
     uses_only N (case r of Inl e \<Rightarrow> h e | Inr x \<Rightarrow> f x)"
  by (cases r) simp_all

lemmas uses_only_rules = uses_only_bindp uses_only_handle uses_only_finally uses_only_if
  uses_only_Let uses_only_prod uses_only_option uses_only_sum

lemma live_unrelated: "uses_only unrelated (live E approval)"
  unfolding live_def by ((intro uses_only_rules)+; simp)

lemma validate_approval_unrelated: "uses_only unrelated (validate_approval E r x)"
  unfolding validate_approval_def by (intro uses_only_rules live_unrelated) simp_all

lemma read_json_unrelated: "\<not> is_journal p \<Longrightarrow> uses_only unrelated (read_json p n)"
  unfolding read_json_def read_bytes_def by ((intro uses_only_rules)+; simp)

lemma read_bytes_unrelated: "\<not> is_journal p \<Longrightarrow> uses_only unrelated (read_bytes p n)"
  unfolding read_bytes_def by ((intro uses_only_rules)+; simp)

lemma read_json_free: "uses_only free (read_json p n)"
  unfolding read_json_def read_bytes_def by ((intro uses_only_rules)+; simp)

lemma witness_files_unrelated: "uses_only unrelated (witness_files E w nb tk)"
proof -
  have "uses_only unrelated (read_witness_config E w)"
    unfolding read_witness_config_def
    by ((intro uses_only_rules read_json_unrelated)+; simp)
  then have "uses_only unrelated (witness_sources E w nb tk)"
    unfolding witness_sources_def
    by ((intro uses_only_rules)+; simp)
  moreover have "uses_only unrelated (trusted_authority E ca)" for ca
    unfolding trusted_authority_def by ((intro uses_only_rules)+; simp add: file_at_def)
  moreover have "uses_only unrelated (notary_fingerprint E p)" for p
    unfolding notary_fingerprint_def
    by ((intro uses_only_rules read_json_unrelated)+; simp add: file_at_def)
  ultimately show ?thesis
    unfolding witness_files_def resolve_witness_files_def
    by ((intro uses_only_rules)+; simp)
qed

lemma select_witness_unrelated: "uses_only unrelated (select_witness E D approval)"
  unfolding select_witness_def
  by ((intro uses_only_rules witness_files_unrelated)+; simp)

lemma start_native_unrelated: "uses_only unrelated (start_native E C D approval files)"
  unfolding start_native_def
  by ((intro uses_only_rules api_unrelated[OF execution_endpoints_api(5)])+; simp)

lemma wait_ready_unrelated: "uses_only unrelated (wait_ready n out)"
proof (induction n)
  case (Suc n)
  show ?case unfolding wait_ready.simps by ((intro uses_only_rules Suc)+; simp)
qed simp

lemma await_ready_unrelated: "uses_only unrelated (await_ready D)"
  unfolding await_ready_def
  by ((intro uses_only_rules wait_ready_unrelated read_json_unrelated)+; simp)

lemma native_results_unrelated: "uses_only unrelated (native_results E D)"
  unfolding native_results_def native_proof_def
  by ((intro uses_only_rules read_json_unrelated read_bytes_unrelated)+; simp)

lemma uses_only_bind_Done:
  "(\<And>x. r = Inr x \<Longrightarrow> uses_only N (f x)) \<Longrightarrow> uses_only N (bindp (Done r) f)"
  by (simp split: sum.split)

text \<open>What was saved is a JSON value, and what was reported had a body and a key to report.\<close>

lemma save_free:
  assumes "\<not> is_ack p" and "is_journal p \<Longrightarrow> json_value v \<Longrightarrow> recorded v"
  shows "uses_only free (save E p v)"
  unfolding save_def
  by (rule uses_only_bind_Done uses_only_rules
      | use assms json_bytes_value in \<open>simp; blast\<close> | simp)+

lemma uses_only_bind_outcome:
  "uses_only N m \<Longrightarrow> (\<And>x as. outcome m as = Some (Inr x) \<Longrightarrow> uses_only N (f x)) \<Longrightarrow>
     uses_only N (bindp m f)"
proof (induction m)
  case (Done r)
  then show ?case by (cases r) auto
next
  case (Act e k)
  have "uses_only N (f x)" if "outcome (k a) as = Some (Inr x)" for a x as
    by (rule Act.prems(2)[of "a # as"]) (simp add: that)
  with Act.prems(1) show ?case by (auto intro: Act.IH)
qed

lemma reported_is_report:
  assumes "outcome (report_execution_outcome E C op body key tok) as = Some (Inr r)"
    and "dict_item d ''body'' = Inr body" and "dict_item d ''idempotency_key'' = Inr key"
  shows "is_report (PDict d)"
proof -
  have "\<exists>b. body = PDict b" "key = PNone \<or> as_string key \<noteq> None"
    using assms(1) unfolding report_execution_outcome_def
    by (cases body; auto simp: outcome_bindp_ok simp del: bindp.simps split: if_splits)+
  with assms(2,3) show ?thesis by (auto simp: dget_def dhas_def)
qed

lemma uses_only_ifI:
  "(c \<Longrightarrow> uses_only N m) \<Longrightarrow> (\<not> c \<Longrightarrow> uses_only N m') \<Longrightarrow> uses_only N (if c then m else m')"
  by simp

lemma uses_only_optionI:
  "(opt = None \<Longrightarrow> uses_only N m) \<Longrightarrow> (\<And>x. opt = Some x \<Longrightarrow> uses_only N (f x)) \<Longrightarrow>
     uses_only N (case opt of None \<Rightarrow> m | Some x \<Rightarrow> f x)"
  by (cases opt) simp_all

lemma flushed_recorded:
  assumes "hashable (dget state ''version'')"
    and "py_eq (dget state ''version'') (PInt 1) \<or> py_eq (dget state ''version'') (PInt 2)"
    and "as_dict e (dget state ''outcome'') = Inr report" "dict_item state ''operation_id'' = Inr oper"
    and "dict_item report ''body'' = Inr body" "dict_item report ''idempotency_key'' = Inr key"
    and "as_string oper = Some op"
    and "outcome (report_execution_outcome E C op body key tok) as = Some (Inr r)"
    and "json_value (PDict (merge_items state [(''phase'', PStr ''complete''), (''final_response'', v)]))"
  shows "recorded (PDict (merge_items state [(''phase'', PStr ''complete''), (''final_response'', v)]))"
proof -
  have "is_report (PDict report)" using assms(8,5,6) by (rule reported_is_report)
  moreover have "dget state ''outcome'' = PDict report"
    using assms(3) by (cases "dget state ''outcome''") simp_all
  moreover have "identified state"
    using assms(1,2,4,7) by (simp add: identified_def dget_def)
  ultimately show ?thesis
    using assms(9) by (simp add: resumable_phase_def del: json_value.simps is_report.simps)
qed

lemma flush_free: "uses_only free (flush_execution_outcome E C dir tok)"
  unfolding flush_execution_outcome_def
proof (rule uses_only_bind_outcome uses_only_ifI uses_only_optionI read_json_free
    uses_only_free[OF api_unrelated[OF execution_endpoints_api(6)]] save_free | simp; fail)+
qed ((rule flushed_recorded; simp) | simp)+

lemma finish_dispatch_free:
  "identified state \<Longrightarrow> uses_only free (finish_dispatch E C D state ev)"
  unfolding finish_dispatch_def
  by ((intro uses_only_rules flush_free save_free)+;
      auto simp: resumable_phase_def outcome_body_def simp del: json_value.simps split: prod.split)

subsection \<open>Claiming and sending\<close>

text \<open>At home in \<open>f\<close>, at one of the stages \<open>S\<close>.\<close>

definition at_home :: "string \<Rightarrow> stage set \<Rightarrow> ghost \<Rightarrow> bool" where
  "at_home f S g \<longleftrightarrow> gh_home g = Some f \<and> gh_stage g \<in> S"

lemma at_home_mono: "at_home f S g \<Longrightarrow> S \<subseteq> S' \<Longrightarrow> at_home f S' g"
  by (auto simp: at_home_def)

lemma wp_unrelated:
  "uses_only unrelated m \<Longrightarrow> (\<And>r. Q g r) \<Longrightarrow> safe may learn m Q g"
  by (rule dispatch.wp_neutral)

lemma wp_unrelated_bind:
  "uses_only unrelated m \<Longrightarrow> (\<And>e. Q g (Inl e)) \<Longrightarrow> (\<And>x. safe may learn (f x) Q g) \<Longrightarrow>
     safe may learn (bindp m f) Q g"
  by (rule dispatch.wp_neutral_bindp)

text \<open>Saving a recorded journal arms a fresh process; any failure on the way leaves it unarmed.\<close>

lemma wp_save_recorded:
  assumes "at_home f {Fresh} g" and "json_value v \<Longrightarrow> recorded v"
    and "\<And>g' e. at_home f UNIV g' \<Longrightarrow> Q g' (Inl e)"
    and "\<And>g'. at_home f {Armed} g' \<Longrightarrow> Q g' (Inr ())"
  shows "safe may learn (save E (journal_path f) v) Q g"
  by (rule dispatch.wp_save) (use assms in \<open>auto simp: at_home_def\<close>)

lemma wp_save_fresh:
  assumes "at_home f {Fresh} g" and "\<not> recorded v"
    and "\<And>g' r. at_home f {Fresh} g' \<Longrightarrow> Q g' r"
  shows "safe may learn (save E (journal_path f) v) Q g"
  by (rule dispatch.wp_save) (use assms in \<open>auto simp: at_home_def\<close>)

text \<open>The other files of the operation: a fresh process stays fresh.\<close>

lemma wp_save_other:
  assumes "\<not> is_journal p" "\<not> is_ack p" "at_home f {Fresh} g"
    and "\<And>g' r. at_home f {Fresh} g' \<Longrightarrow> Q g' r"
  shows "safe may learn (save E p v) Q g"
  by (rule dispatch.wp_save) (use assms in \<open>auto simp: at_home_def\<close>)

lemma wp_free_home:
  "uses_only free m \<Longrightarrow> at_home f S g \<Longrightarrow> (\<And>g' r. at_home f UNIV g' \<Longrightarrow> Q g' r) \<Longrightarrow>
     safe may learn m Q g"
  by (rule wp_free) (auto simp: at_home_def)

lemma identified_attempted [simp]: "identified (attempted_state D state started) = identified state"
  by (simp add: attempted_state_def)

lemma attempted_state_recorded:
  "identified state \<Longrightarrow> json_value (PDict (attempted_state D state started)) \<Longrightarrow>
     recorded (PDict (attempted_state D state started))"
  by (simp add: attempted_state_def resumable_phase_def del: json_value.simps)

text \<open>A claim that succeeds leaves the process armed.\<close>

lemma wp_confirm_claim:
  assumes "at_home (dp_folder D) {Fresh} g"
    and "json_value (PDict state) \<Longrightarrow> recorded (PDict state)"
    and "\<And>g' e. at_home (dp_folder D) UNIV g' \<Longrightarrow> Q g' (Inl e)"
    and "\<And>g'. at_home (dp_folder D) {Armed} g' \<Longrightarrow> Q g' (Inr ())"
  shows "safe may learn (confirm_claim E C D approval state) Q g"
  unfolding confirm_claim_def
proof (rule dispatch.wp_nestI, rule wp_save_recorded[OF assms(1,2)], assumption, goal_cases)
  case (1 g' e)
  with assms(3) show ?case by simp
next
  case (2 g')
  then have home: "at_home (dp_folder D) UNIV g'" by (simp add: at_home_def)
  have "safe may learn (live E approval) Q g'"
  proof (rule wp_unrelated[OF live_unrelated])
    fix r :: "unit res"
    show "Q g' r" using assms(3)[OF home] assms(4)[OF 2] by (cases r) simp_all
  qed
  with assms(3)[OF home] show ?case
    by (simp add: wp_unrelated_bind[OF api_unrelated[OF execution_endpoints_api(4)]])
qed

lemma wp_claim:
  assumes "at_home (dp_folder D) {Fresh} g" and id: "identified state"
    and "\<And>g' st e. at_home (dp_folder D) UNIV g' \<Longrightarrow> identified st \<Longrightarrow> Q g' (Inr (st, Inl e))"
    and "\<And>g' st. at_home (dp_folder D) {Armed} g' \<Longrightarrow> identified st \<Longrightarrow> Q g' (Inr (st, Inr ()))"
  shows "safe may learn (claim E C D approval state) Q g"
proof -
  have home: "at_home (dp_folder D) UNIV g" using assms(1) by (simp add: at_home_def)
  have "uses_only unrelated (bindp (live E approval) (\<lambda>_. perform Now_Iso as_str))"
    by (intro uses_only_rules live_unrelated) simp
  then show ?thesis
    unfolding claim_def
  proof (rule dispatch.wp_nestI[OF dispatch.wp_attempt[THEN iffD2, OF wp_unrelated]], goal_cases)
    case (1 r)
    show ?case
    proof (cases r)
      case (Inl e)
      with assms(3)[OF home] id show ?thesis by simp
    next
      case (Inr started)
      show ?thesis
        unfolding Inr sum.case dispatch.wp_bindp dispatch.wp_attempt
        by (rule wp_confirm_claim[OF assms(1) attempted_state_recorded[OF id]])
           (simp_all add: assms del: json_value.simps)
    qed
  qed
qed

subsection \<open>Dispatching\<close>

lemma provider_send_home:
  assumes "at_home f {Armed} g" and "\<And>g' r. at_home f UNIV g' \<Longrightarrow> Q g' r"
  shows "safe may learn (provider_send E d hs b t approval) Q g"
proof -
  have g: "gh_home g = Some f" "gh_stage g = Armed" using assms(1) by (auto simp: at_home_def)
  show ?thesis
    unfolding provider_send_def
    by (rule dispatch.wp_steps dispatch.wp_bind_liveI | simp only: sum.case
        | use assms(2) g in \<open>simp add: at_home_def split: sum.split\<close>; fail)+
qed

text \<open>A dispatch that returns returns a journal that still names the operation.\<close>

fun returns_identified :: "(pydict \<times> 'a) res \<Rightarrow> bool" where
  "returns_identified (Inr (state, _)) = identified state"
| "returns_identified (Inl _) = True"

lemma wp_receipt_dispatch:
  assumes "at_home (dp_folder D) {Fresh} g" and "identified state"
    and "\<And>g' r. at_home (dp_folder D) UNIV g' \<Longrightarrow> returns_identified r \<Longrightarrow> Q g' r"
  shows "safe may learn (receipt_dispatch E C D approval state) Q g"
  unfolding receipt_dispatch_def dispatch.wp_bindp dispatch.wp_handle
  by (rule wp_claim[OF assms(1,2)])
     (auto simp: dispatch.wp_bindp dispatch.wp_handle intro!: provider_send_home assms(3)
        split: sum.split)

lemma wp_ack:
  assumes "at_home f {Armed} g" and "\<And>g' r. at_home f UNIV g' \<Longrightarrow> Q g' r"
  shows "safe may learn (save E (f @ ''/witness'', ''dispatch.approved.json'') v) Q g"
  by (rule dispatch.wp_save) (use assms in \<open>auto simp: at_home_def\<close>)

lemma wp_witnessed_run:
  assumes "at_home (dp_folder D) {Fresh} g" and "identified state"
    and "\<And>g' r. at_home (dp_folder D) UNIV g' \<Longrightarrow> returns_identified r \<Longrightarrow> Q g' r"
  shows "safe may learn (witnessed_run E C D approval state) Q g"
proof -
  have home: "at_home (dp_folder D) UNIV g" using assms(1) by (simp add: at_home_def)
  have ack: "safe may learn (save E (witness_dir D, ''dispatch.approved.json'') v) Q' g'"
    if "at_home (dp_folder D) {Armed} g'" "\<And>g'' r. at_home (dp_folder D) UNIV g'' \<Longrightarrow> Q' g'' r"
    for v Q' g'
    unfolding witness_dir_def using that by (rule wp_ack)
  show ?thesis
    unfolding witnessed_run_def
  proof (rule dispatch.wp_nestI[OF dispatch.wp_attempt[THEN iffD2,
            OF wp_unrelated[OF await_ready_unrelated]]], goal_cases)
    case (1 r)
    show ?case
    proof (cases r)
      case (Inl e)
      with assms(2) assms(3)[OF home] show ?thesis by simp
    next
      case (Inr u)
      show ?thesis
        unfolding Inr sum.case dispatch.wp_bindp
        by (rule wp_claim[OF assms(1,2)])
           (auto simp: assms(3) dispatch.wp_bindp dispatch.wp_attempt dispatch.wp_perform
              intro!: ack split: sum.split)
    qed
  qed
qed

lemma wp_witnessed_dispatch:
  assumes "at_home (dp_folder D) {Fresh} g" and "identified state"
    and "\<And>g' r. at_home (dp_folder D) UNIV g' \<Longrightarrow> returns_identified r \<Longrightarrow> Q g' r"
  shows "safe may learn (witnessed_dispatch E C D approval files state) Q g"
proof -
  have home: "at_home (dp_folder D) UNIV g" using assms(1) by (simp add: at_home_def)
  let ?tail = "\<lambda>(state', r). bindp (perform Stop_Native as_unit) (\<lambda>_.
     case r of
       Inl e \<Rightarrow>
         (if \<not> is_exception e \<or> \<not> py_eq (dget state' ''phase'') (PStr ''dispatch_attempted'')
          then raise e
          else bindp (native_results E D) (\<lambda>ev. return (state', ev)))
     | Inr _ \<Rightarrow> bindp (native_results E D) (\<lambda>ev. return (state', ev)))"
  have ends: "safe may learn (?tail sr) Q g'"
    if "at_home (dp_folder D) UNIV g'" "identified (fst sr)" for sr g'
  proof (cases sr)
    case (Pair st r)
    have "uses_only unrelated (native_results E D)" by (rule native_results_unrelated)
    then show ?thesis
      using that assms(3) unfolding Pair
      by (auto simp: dispatch.wp_bindp dispatch.wp_perform split: sum.split intro!: wp_unrelated)
  qed
  show ?thesis
    unfolding witnessed_dispatch_def
  proof (rule wp_unrelated_bind[OF start_native_unrelated], rule assms(3)[OF home], simp,
      rule dispatch.wp_nestI, rule wp_witnessed_run[OF assms(1,2)], goal_cases)
    case (1 u g' r)
    show ?case
    proof (cases r)
      case (Inl e)
      with assms(3)[OF 1(1)] show ?thesis by simp
    next
      case (Inr sr)
      with 1(2) have "identified (fst sr)" by (cases sr) simp
      from ends[OF 1(1) this] show ?thesis unfolding Inr by (simp only: sum.case)
    qed
  qed
qed

lemma wp_dispatch_approved:
  assumes "at_home (dp_folder D) {Fresh} g" and id: "identified state"
    and "\<And>g' r. at_home (dp_folder D) UNIV g' \<Longrightarrow> Q g' r"
  shows "safe may learn (dispatch_approved E C D state) Q g"
proof -
  have home: "at_home (dp_folder D) UNIV g" using assms(1) by (simp add: at_home_def)
  have finish: "safe may learn (finish_dispatch E C D st ev) Q g'"
    if "at_home (dp_folder D) UNIV g'" "identified st" for st ev g'
    using finish_dispatch_free[OF that(2)] that(1) assms(3) by (rule wp_free_home)
  have send: "safe may learn
      (bindp (case w of Some files \<Rightarrow> witnessed_dispatch E C D approval files state
              | None \<Rightarrow> receipt_dispatch E C D approval state)
        (\<lambda>(st, ev). finish_dispatch E C D st ev)) Q g'"
    if "at_home (dp_folder D) {Fresh} g'" for w approval g'
    unfolding dispatch.wp_bindp using that
    by (cases w)
       (auto intro!: wp_receipt_dispatch[OF _ id] wp_witnessed_dispatch[OF _ id] finish assms(3)
          split: sum.split)
  have "safe may learn (bindp (save E (dp_folder D, ''approval.json'') v) (\<lambda>_. m)) Q g"
    if "\<And>g'. at_home (dp_folder D) {Fresh} g' \<Longrightarrow> safe may learn m Q g'" for v m
    unfolding dispatch.wp_bindp
    by (rule wp_save_other[OF _ _ assms(1)])
       (auto simp: at_home_def split: sum.split intro!: that assms(3))
  with send show ?thesis
    unfolding dispatch_approved_def
    by (intro wp_unrelated_bind[OF validate_approval_unrelated]
          wp_unrelated_bind[OF select_witness_unrelated] assms(3)[OF home]) blast
qed

subsection \<open>The calls\<close>

text \<open>
  A fresh process may store a decision: what it stores is not yet recorded when it goes on to
  dispatch, so it stays fresh.
\<close>

lemma wp_settle_decision:
  assumes "at_home (dp_folder D) {Fresh} g" and id: "identified state"
    and "\<not> resumable_phase (PStr ph) \<Longrightarrow> \<not> dhas state ''outcome''"
    and "\<And>g' r. at_home (dp_folder D) UNIV g' \<Longrightarrow> Q g' r"
  shows "safe may learn (settle_decision E C D state ph) Q g"
proof -
  let ?st = "merge_items state
     [(''phase'', PStr (decided_phase (dp_result D) ph)),
      (''authorization'', PDict (journal_authorization (dp_result D)))]"
  show ?thesis
  proof (cases "recorded (PDict ?st)")
    case True
    then have no: "\<not> approved (dp_result D)"
      using assms(3) by (auto simp: decided_phase_def dget_def dhas_def split: pyval.splits)
    show ?thesis
      unfolding settle_decision_def Let_def dispatch.wp_bindp
      using no assms(4) by (intro wp_save_recorded[OF assms(1) True]) (auto simp: at_home_def)
  next
    case False
    show ?thesis
      unfolding settle_decision_def Let_def dispatch.wp_bindp
      using assms(4)
      by (intro wp_save_fresh[OF assms(1) False])
         (auto simp: at_home_def split: sum.split intro!: wp_dispatch_approved id)
  qed
qed

lemma initial_state_facts:
  "\<not> resumable (PDict (initial_state x h))" "\<not> dhas (initial_state x h) ''outcome''"
  "identified (initial_state x h)"
  by (simp_all add: initial_state_def resumable_phase_def identified_def)

lemma wp_operation_lock:
  assumes "gh_home g = None"
    and "safe may learn body (\<lambda>g' _. at_home f UNIV g')
       \<lparr>gh_made = None, gh_home = Some f,
        gh_stage = (if gh_made g = Some f then Fresh else Held)\<rparr>"
  shows "safe may learn (operation_lock f body) (\<lambda>_ _. True) g"
proof -
  have close: "safe may learn body (\<lambda>g r. safe may learn (perform (Close_Lock f) as_unit)
      (\<lambda>g r'. case r' of Inl e \<Rightarrow> True | Inr _ \<Rightarrow> True) g)
     \<lparr>gh_made = None, gh_home = Some f,
      gh_stage = (if gh_made g = Some f then Fresh else Held)\<rparr>"
    by (rule dispatch.wp_mono[OF assms(2)]) (simp add: dispatch.wp_perform at_home_def split: sum.split)
  show ?thesis
    unfolding operation_lock_def
    by (rule dispatch.wp_steps dispatch.wp_nestI | simp only: sum.case
        | use assms(1) close in \<open>simp add: dispatch.wp_perform split: sum.split\<close>; fail)+
qed

lemma wp_run_new:
  assumes "gh_home g = None" and "gh_made g = Some folder"
  shows "safe may learn (run_new E C c x hs folder) (\<lambda>_ _. True) g"
proof -
  have keep: "safe may learn (save E (journal_path folder) (PDict (initial_state x h)))
      (\<lambda>g' _. gh_home g' = None \<and> gh_made g' = Some folder) g" for h
    by (rule dispatch.wp_save) (use assms initial_state_facts in auto)
  have body: "safe may learn
      (bindp (prepare_execution E C x k t) (\<lambda>r.
         settle_decision E C (dispatch_of c x hs folder r) (initial_state x h) ''authorized''))
      (\<lambda>g' _. at_home folder UNIV g') \<lparr>gh_made = None, gh_home = Some folder, gh_stage = Fresh\<rparr>"
    for k t h
    by (rule wp_unrelated_bind[OF api_unrelated[OF execution_endpoints_api(2)]])
       (auto simp: at_home_def dispatch_of_def initial_state_facts intro!: wp_settle_decision)
  show ?thesis
    unfolding run_new_def
    by (rule dispatch.wp_bind_DoneI, simp, rule dispatch.wp_bindI[OF keep])
       (auto intro!: wp_operation_lock body)
qed

lemma read_journal_home:
  assumes "gh_home g = Some f" and "gh_stage g = Held"
  shows "safe may learn (read_json (journal_path f) n)
    (\<lambda>g' r. gh_home g' = Some f \<and> (\<forall>v. r = Inr v \<longrightarrow> resumable v \<longrightarrow> gh_stage g' = Fresh)) g"
  unfolding read_json_def read_bytes_def
  by (rule dispatch.wp_steps dispatch.wp_nestI | simp only: sum.case
      | use assms in \<open>force simp: loads_def split: option.splits\<close>)+

lemma check_resumable_resumable:
  "check_resumable folder op state = Inr t \<Longrightarrow> resumable (PDict state)"
  by (auto simp: check_resumable_def split: if_splits)

lemma py_eq_PInt_hashable: "py_eq v (PInt i) \<Longrightarrow> hashable v"
  by (cases v) (auto simp: py_eq.simps)

lemma check_resumable_identified:
  "check_resumable folder op state = Inr t \<Longrightarrow> identified state"
  by (auto simp: check_resumable_def identified_def py_eq_PInt_hashable split: if_splits)

lemma with_continuation_identified:
  "with_continuation E op state = Inr state' \<Longrightarrow> identified state' = identified state"
  by (auto simp: with_continuation_def split: if_splits option.splits elim!: result_elims)

lemma wp_run_continuation:
  assumes "gh_home g = Some folder" and "gh_stage g = Held"
  shows "safe may learn (run_continuation E C c x hs folder) (\<lambda>g' _. at_home folder UNIV g') g"
  unfolding run_continuation_def
proof (rule dispatch.wp_bindI[OF read_journal_home[OF assms]], goal_cases)
  case (1 g' e)
  then show ?case by (simp add: at_home_def)
next
  case (2 g' v)
  have home: "at_home folder UNIV g'" using 2 by (simp add: at_home_def)
  have finish: "safe may learn
      (bindp (save E (journal_path folder) (PDict (put_item ''phase'' (PStr ''continuing'') st)))
        (\<lambda>_. bindp (continue_execution E C i er rv src k t) (\<lambda>r.
         settle_decision E C (dispatch_of c y hs folder r)
           (put_item ''phase'' (PStr ''continuing'') st) ''continuing'')))
      (\<lambda>g' _. at_home folder UNIV g') g'"
    if fresh: "at_home folder {Fresh} g'" and id: "identified st" for st i er rv src k t y
  proof -
    have "\<not> recorded (PDict (put_item ''phase'' (PStr ''continuing'') st))"
      by (simp add: resumable_phase_def)
    note save = wp_save_fresh[OF fresh this]
    show ?thesis
      unfolding dispatch.wp_bindp
      by (rule save, auto split: sum.split simp: at_home_def
          intro!: wp_unrelated[OF api_unrelated[OF execution_endpoints_api(3)]])
         (auto simp: at_home_def resumable_phase_def dispatch_of_def id intro!: wp_settle_decision)
  qed
  have fresh: "at_home folder {Fresh} g'" "identified state" if "as_dict AttributeError v = Inr state"
    "check_resumable folder (hx_operation_id c) state = Inr t" for state t
    using 2 that check_resumable_resumable check_resumable_identified by (auto simp: at_home_def)
  show ?case
    by (rule dispatch.wp_bind_DoneI dispatch.wp_ifI dispatch.wp_prodI dispatch.wp_raiseI
        | unfold Let_def | rule home
        | rule finish, rule fresh, assumption, assumption,
          subst with_continuation_identified, assumption, rule fresh, assumption, assumption)+
qed

lemma execute_http_protocol:
  assumes "gh_home g = None"
  shows "safe may learn (execute_http E C c) (\<lambda>_ _. True) g"
  unfolding execute_http_def
  by (rule dispatch.wp_steps dispatch.wp_nestI | simp only: sum.case Let_def
      | rule wp_run_new, use assms in \<open>simp; fail\<close>, use assms in \<open>simp; fail\<close>
      | use assms in \<open>simp; fail\<close>)+

lemma continue_http_protocol:
  assumes "gh_home g = None" and "gh_made g = None"
  shows "safe may learn (continue_http_execution E C c) (\<lambda>_ _. True) g"
  unfolding continue_http_execution_def
  by (rule dispatch.wp_steps | unfold Let_def
      | rule wp_operation_lock, use assms in \<open>simp; fail\<close>
      | rule wp_run_continuation | use assms in \<open>simp; fail\<close>)+

lemma flush_protocol: "safe may learn (flush_execution_outcome E C dir tok) (\<lambda>_ _. True) g"
  by (rule wp_free[OF flush_free]) simp

subsection \<open>Property\<close>

text \<open>
  C5: every entry point keeps the discipline of the journal from its first effect to its last,
  whatever the environment answers: it sends only while it holds the operation's lock, once, and
  after a recorded outcome was written and synced; and it never replaces a journal by one that
  could be resumed unless it knows that nothing was sent.
\<close>

theorem calls_keep_discipline:
  "safe may learn (execute_http E C c) (\<lambda>_ _. True) start_ghost
   \<and> safe may learn (continue_http_execution E C c) (\<lambda>_ _. True) start_ghost
   \<and> safe may learn (flush_execution_outcome E C dir tok) (\<lambda>_ _. True) start_ghost"
  using execute_http_protocol[of start_ghost] continue_http_protocol[of start_ghost]
    flush_protocol[of E C dir tok start_ghost]
  by (simp add: start_ghost_def)

end
