(* ===== verification/Dispatch_Safety.thy ===== *)
theory Dispatch_Safety
  imports Dispatch_Protocol
begin

text \<open>
  The shared world of all processes that execute operations, and every interleaving of their
  effects with crashes of processes and of the machine. The world keeps what the code relies
  on: \<open>mkdir\<close> creates a directory once, a lock has one holder and dies with its process, a file
  is read as it was last replaced, and a machine that loses power comes back with each journal
  as last synced or any later version. Directory entries themselves are taken to survive.
  The main facts: in every reachable state at most one request was sent for an operation, and
  once one was sent the journal on the disk records the attempt and is never resumed.
\<close>

subsection \<open>The world\<close>

record world =
  wd_dirs :: "string set"
  wd_journal :: "string \<Rightarrow> pyval option"
  wd_disk :: "string \<Rightarrow> pyval option"
  wd_locks :: "(string \<times> nat) list"
  wd_sends :: "string list list"

text \<open>
  Each send is logged with the operations whose lock the sender holds. For a witnessed
  operation the send is the acknowledgement file: the native process waits for it.
\<close>

definition held_by :: "nat \<Rightarrow> world \<Rightarrow> string list" where
  "held_by p w = map fst (filter (\<lambda>l. snd l = p) (wd_locks w))"

definition log_send :: "nat \<Rightarrow> world \<Rightarrow> world" where
  "log_send p w = w\<lparr>wd_sends := held_by p w # wd_sends w\<rparr>"

definition put_journal :: "string \<Rightarrow> pyval \<Rightarrow> world \<Rightarrow> world" where
  "put_journal f v w = w\<lparr>wd_journal := (wd_journal w)(f \<mapsto> v)\<rparr>"

definition sync_journal :: "string \<Rightarrow> world \<Rightarrow> world" where
  "sync_journal f w = w\<lparr>wd_disk := (wd_disk w)(f := wd_journal w f)\<rparr>"

definition release_all :: "nat \<Rightarrow> world \<Rightarrow> world" where
  "release_all p w = w\<lparr>wd_locks := filter (\<lambda>l. snd l \<noteq> p) (wd_locks w)\<rparr>"

inductive happens :: "nat \<Rightarrow> eff \<Rightarrow> ans \<Rightarrow> world \<Rightarrow> world \<Rightarrow> bool" where
  mkdir_ok: "f \<notin> wd_dirs w \<Longrightarrow>
    happens p (Mkdir f) A_Unit w (w\<lparr>wd_dirs := insert f (wd_dirs w)\<rparr>)"
| mkdir_fails: "a \<noteq> A_Unit \<Longrightarrow> happens p (Mkdir f) a w w"
| mkdir_parents: "happens p (Mkdir_Parents d) a w (w\<lparr>wd_dirs := wd_dirs w \<union> ds\<rparr>)"
| lock_ok: "map_of (wd_locks w) f = None \<Longrightarrow>
    happens p (Flock f) A_Unit w (w\<lparr>wd_locks := (f, p) # wd_locks w\<rparr>)"
| lock_fails: "a \<noteq> A_Unit \<Longrightarrow> happens p (Flock f) a w w"
| unlock: "happens p (Close_Lock f) a w (w\<lparr>wd_locks := filter (\<lambda>l. l \<noteq> (f, p)) (wd_locks w)\<rparr>)"
| read_ok: "wd_journal w f = Some v \<Longrightarrow> doc_json d = Some v \<Longrightarrow>
    happens p (Read_File (journal_path f)) (A_Doc d) w w"
| read_fails: "(\<And>d. a \<noteq> A_Doc d) \<Longrightarrow> happens p (Read_File (journal_path f)) a w w"
| replace_done: "f \<in> wd_dirs w \<Longrightarrow>
    happens p (Replace_File t (journal_path f) v) a w (put_journal f v w)"
| replace_fails: "a \<noteq> A_Unit \<Longrightarrow> happens p (Replace_File t (journal_path f) v) a w w"
| sync_ok: "happens p (Sync_Dir f) a w (sync_journal f w)"
| sync_fails: "a \<noteq> A_Unit \<Longrightarrow> happens p (Sync_Dir f) a w w"
| request: "happens p (Provider_Request m u hs b) a w (log_send p w)"
| acknowledge: "is_ack q \<Longrightarrow> happens p (Replace_File t q v) a w (log_send p w)"
| other: "unrelated e \<Longrightarrow> happens p e a w w"

subsection \<open>Processes\<close>

definition forget :: "'a prog \<Rightarrow> unit prog" where
  "forget m = bindp m (\<lambda>_. return ())"

inductive is_call :: "unit prog \<Rightarrow> bool" where
  execute: "is_call (forget (execute_http E C c))"
| continue: "is_call (forget (continue_http_execution E C c))"
| flush: "is_call (forget (flush_execution_outcome E C dir tok))"

type_synonym system = "(nat \<Rightarrow> unit prog option) \<times> world"

inductive step :: "system \<Rightarrow> system \<Rightarrow> bool" where
  start: "P p = None \<Longrightarrow> is_call m \<Longrightarrow> step (P, w) (P(p \<mapsto> m), w)"
| act: "P p = Some (Act e k) \<Longrightarrow> happens p e a w w' \<Longrightarrow> step (P, w) (P(p \<mapsto> k a), w')"
| stop: "P p = Some m \<Longrightarrow> step (P, w) (P(p := None), release_all p w)"
| write_back: "step (P, w) (P, sync_journal f w)"
| power_loss: "(\<And>f. j f = wd_journal w f \<or> j f = wd_disk w f) \<Longrightarrow>
    step (P, w) (\<lambda>_. None, w\<lparr>wd_journal := j, wd_disk := j, wd_locks := []\<rparr>)"

text \<open>A process stops when its call has returned or raised, and at any other moment by a crash.\<close>

definition sends_for :: "string \<Rightarrow> world \<Rightarrow> nat" where
  "sends_for f w = length (filter (\<lambda>s. f \<in> set s) (wd_sends w))"

definition recorded_in :: "pyval option \<Rightarrow> bool" where
  "recorded_in j = (case j of None \<Rightarrow> False | Some v \<Rightarrow> recorded v)"

definition resumable_in :: "pyval option \<Rightarrow> bool" where
  "resumable_in j = (case j of None \<Rightarrow> False | Some v \<Rightarrow> resumable v)"

definition sound :: "world \<Rightarrow> bool" where
  "sound w \<longleftrightarrow>
     (\<forall>f. wd_journal w f \<noteq> None \<longrightarrow> f \<in> wd_dirs w) \<and> (\<forall>f. wd_disk w f \<noteq> None \<longrightarrow> f \<in> wd_dirs w)
     \<and> (\<forall>f. sends_for f w \<le> 1)
     \<and> (\<forall>f. 0 < sends_for f w \<longrightarrow> recorded_in (wd_journal w f) \<and> recorded_in (wd_disk w f))
     \<and> (\<forall>s \<in> set (wd_sends w). \<exists>f. s = [f])"

text \<open>Reachable from a machine without running processes, whatever was executed on it before.\<close>

inductive reachable :: "system \<Rightarrow> bool" where
  init: "sound w \<Longrightarrow> wd_locks w = [] \<Longrightarrow> reachable (\<lambda>_. None, w)"
| step: "reachable s \<Longrightarrow> step s s' \<Longrightarrow> reachable s'"

subsection \<open>The invariant\<close>

text \<open>
  What is known of an operation whose folder a process has just made, and of one whose lock a
  process holds.
\<close>

definition made_ok :: "(nat \<Rightarrow> ghost) \<Rightarrow> world \<Rightarrow> nat \<Rightarrow> string \<Rightarrow> bool" where
  "made_ok G w p f \<longleftrightarrow>
     f \<in> wd_dirs w \<and> sends_for f w = 0 \<and> \<not> resumable_in (wd_journal w f)
     \<and> (\<forall>q. q \<noteq> p \<longrightarrow> gh_made (G q) \<noteq> Some f)
     \<and> (\<forall>q. gh_home (G q) = Some f \<longrightarrow> gh_stage (G q) \<le> Held)"

definition home_ok :: "world \<Rightarrow> string \<Rightarrow> stage \<Rightarrow> bool" where
  "home_ok w f st \<longleftrightarrow>
     (Held < st \<longrightarrow> f \<in> wd_dirs w)
     \<and> (st \<in> {Fresh, Unsure, Written, Armed} \<longrightarrow> sends_for f w = 0)
     \<and> (st \<in> {Written, Armed} \<longrightarrow> recorded_in (wd_journal w f))
     \<and> (st = Armed \<longrightarrow> recorded_in (wd_disk w f))"

definition locks_ok :: "(nat \<Rightarrow> ghost) \<Rightarrow> world \<Rightarrow> bool" where
  "locks_ok G w \<longleftrightarrow>
     distinct (map fst (wd_locks w))
     \<and> (\<forall>f p. (f, p) \<in> set (wd_locks w) \<longleftrightarrow> gh_home (G p) = Some f)
     \<and> (\<forall>p. gh_home (G p) = None \<longrightarrow> gh_stage (G p) = Outside)"

definition coherent :: "(nat \<Rightarrow> ghost) \<Rightarrow> world \<Rightarrow> bool" where
  "coherent G w \<longleftrightarrow>
     sound w \<and> locks_ok G w
     \<and> (\<forall>p f. gh_made (G p) = Some f \<longrightarrow> made_ok G w p f)
     \<and> (\<forall>p f. gh_home (G p) = Some f \<longrightarrow> home_ok w f (gh_stage (G p)))"

definition safe_system :: "system \<Rightarrow> bool" where
  "safe_system s \<longleftrightarrow>
     (\<exists>G. coherent G (snd s)
        \<and> (\<forall>p. fst s p = None \<longrightarrow> G p = start_ghost)
        \<and> (\<forall>p m. fst s p = Some m \<longrightarrow> safe may learn m (\<lambda>_ _. True) (G p)))"

lemma stage_order:
  "Held < st \<longleftrightarrow> st \<in> {Fresh, Unsure, Written, Armed, Sent}"
  "st \<le> Held \<longleftrightarrow> st \<in> {Outside, Held}"
  by (cases st; simp add: less_stage_def less_eq_stage_def)+

lemma one_holder:
  "locks_ok G w \<Longrightarrow> gh_home (G p) = Some f \<Longrightarrow> gh_home (G q) = Some f \<Longrightarrow> p = q"
  unfolding locks_ok_def by (metis eq_key_imp_eq_value)

lemma unused_folder:
  assumes "sound w" and "f \<notin> wd_dirs w"
  shows "sends_for f w = 0 \<and> wd_journal w f = None \<and> wd_disk w f = None"
  using assms unfolding sound_def recorded_in_def
  by (metis gr_zeroI option.simps(4))

lemma sends_for_update [simp]:
  "sends_for f (w\<lparr>wd_dirs := ds\<rparr>) = sends_for f w"
  "sends_for f (w\<lparr>wd_locks := ls\<rparr>) = sends_for f w"
  "sends_for f (put_journal g v w) = sends_for f w"
  "sends_for f (sync_journal g w) = sends_for f w"
  by (simp_all add: sends_for_def put_journal_def sync_journal_def)

lemma recorded_in_simps [simp]:
  "recorded_in (Some v) = recorded v" "\<not> recorded_in None"
  "resumable_in (Some v) = resumable v" "\<not> resumable_in None"
  by (simp_all add: recorded_in_def resumable_in_def)

lemma recorded_in_not_resumable: "recorded_in j \<Longrightarrow> \<not> resumable_in j"
  by (cases j) (auto simp: recorded_not_resumable)

lemma home_ok_simps [simp]: "home_ok w f Outside" "home_ok w f Held"
  by (simp_all add: home_ok_def stage_order)

lemma coherent_mkdir:
  assumes "coherent G w" and "f \<notin> wd_dirs w" and "gh_home (G p) = None"
  shows "coherent (G(p := (G p)\<lparr>gh_made := Some f\<rparr>)) (w\<lparr>wd_dirs := insert f (wd_dirs w)\<rparr>)"
proof -
  have w: "sound w" "locks_ok G w"
    and made: "\<And>p f. gh_made (G p) = Some f \<Longrightarrow> made_ok G w p f"
    and home: "\<And>p f. gh_home (G p) = Some f \<Longrightarrow> home_ok w f (gh_stage (G p))"
    using assms(1) by (auto simp: coherent_def)
  note un = unused_folder[OF w(1) assms(2)]
  have "gh_made (G q) \<noteq> Some f" "gh_home (G q) = Some f \<Longrightarrow> gh_stage (G q) \<le> Held" for q
    using made[of q f] home[of q f] assms(2) by (auto simp: made_ok_def home_ok_def not_less)
  then show ?thesis
    using w made home un assms(3)
    by (auto simp: coherent_def sound_def locks_ok_def made_ok_def home_ok_def)
qed

lemma coherent_parts:
  assumes "coherent G w"
  shows "sound w" and "locks_ok G w"
    and "gh_made (G p) = Some f \<Longrightarrow> made_ok G w p f"
    and "gh_home (G p) = Some f \<Longrightarrow> home_ok w f (gh_stage (G p))"
  using assms by (auto simp: coherent_def)

lemma coherent_lock:
  assumes "coherent G w" and "map_of (wd_locks w) f = None" and "gh_home (G p) = None"
  shows "coherent (G(p := \<lparr>gh_made = None, gh_home = Some f,
      gh_stage = (if gh_made (G p) = Some f then Fresh else Held)\<rparr>))
    (w\<lparr>wd_locks := (f, p) # wd_locks w\<rparr>)"
proof -
  note parts = coherent_parts[OF assms(1)]
  have nobody: "gh_home (G q) \<noteq> Some f" for q
  proof
    assume "gh_home (G q) = Some f"
    then have "(f, q) \<in> set (wd_locks w)" using parts(2) by (simp add: locks_ok_def)
    then show False using assms(2) by (force simp: map_of_eq_None_iff)
  qed
  have mine: "f \<in> wd_dirs w \<and> sends_for f w = 0" if "gh_made (G p) = Some f"
    using parts(3)[OF that] by (simp add: made_ok_def)
  have others: "gh_made (G q) \<noteq> Some f" if "gh_made (G p) = Some f" "q \<noteq> p" for q
    using parts(3)[OF that(1)] that(2) by (simp add: made_ok_def)
  let ?G = "G(p := \<lparr>gh_made = None, gh_home = Some f,
      gh_stage = (if gh_made (G p) = Some f then Fresh else Held)\<rparr>)"
  let ?w = "w\<lparr>wd_locks := (f, p) # wd_locks w\<rparr>"
  have "locks_ok ?G ?w"
    using parts(2) assms(2,3) nobody
    by (auto simp: locks_ok_def map_of_eq_None_iff image_iff)
  moreover have "sound ?w" using parts(1) by (simp add: sound_def)
  moreover have "made_ok ?G ?w q f'" if "gh_made (?G q) = Some f'" for q f'
  proof -
    from that have q: "q \<noteq> p" "gh_made (G q) = Some f'" by (auto split: if_splits)
    then have "gh_made (G p) = Some f \<Longrightarrow> f' \<noteq> f" using others by blast
    with parts(3)[OF q(2)] q show ?thesis by (auto simp: made_ok_def)
  qed
  moreover have "home_ok ?w f' (gh_stage (?G q))" if "gh_home (?G q) = Some f'" for q f'
    using that parts(4)[of q f'] mine by (auto simp: home_ok_def split: if_splits)
  ultimately show ?thesis by (simp only: coherent_def) blast
qed

lemma coherent_forget_made:
  "coherent G w \<Longrightarrow> coherent (G(p := (G p)\<lparr>gh_made := None\<rparr>)) w"
  by (auto simp: coherent_def locks_ok_def made_ok_def)

lemma coherent_unlock:
  assumes "coherent G w" and "gh_home (G p) = None \<or> gh_home (G p) = Some f"
  shows "coherent (G(p := (G p)\<lparr>gh_home := None, gh_stage := Outside\<rparr>))
    (w\<lparr>wd_locks := filter (\<lambda>l. l \<noteq> (f, p)) (wd_locks w)\<rparr>)"
proof -
  note parts = coherent_parts[OF assms(1)]
  have "distinct (map fst (filter (\<lambda>l. l \<noteq> (f, p)) (wd_locks w)))"
    using parts(2) by (auto simp: locks_ok_def distinct_map_filter)
  then have "locks_ok (G(p := (G p)\<lparr>gh_home := None, gh_stage := Outside\<rparr>))
    (w\<lparr>wd_locks := filter (\<lambda>l. l \<noteq> (f, p)) (wd_locks w)\<rparr>)"
    using parts(2) assms(2) by (auto simp: locks_ok_def)
  then show ?thesis
    using parts by (auto simp: coherent_def sound_def made_ok_def home_ok_def)
qed

lemma coherent_quit:
  assumes "coherent G w"
  shows "coherent (G(p := start_ghost)) (release_all p w)"
proof -
  note parts = coherent_parts[OF assms]
  have "distinct (map fst (wd_locks (release_all p w)))"
    using parts(2) by (auto simp: locks_ok_def distinct_map_filter release_all_def)
  then have "locks_ok (G(p := start_ghost)) (release_all p w)"
    using parts(2) by (auto simp: locks_ok_def release_all_def start_ghost_def)
  then show ?thesis
    using parts
    by (auto simp: coherent_def sound_def made_ok_def home_ok_def release_all_def start_ghost_def)
qed

text \<open>A change of the holder's stage, when what the new stage claims is true.\<close>

lemma coherent_stage:
  assumes "coherent G w" and "gh_home (G p) = Some f" and "home_ok w f st"
    and "Held < st \<Longrightarrow> Held < gh_stage (G p) \<or> (\<forall>q. gh_made (G q) \<noteq> Some f)"
  shows "coherent (G(p := (G p)\<lparr>gh_stage := st\<rparr>)) w"
proof -
  note parts = coherent_parts[OF assms(1)]
  have "made_ok (G(p := (G p)\<lparr>gh_stage := st\<rparr>)) w q f'" if "made_ok G w q f'" "gh_made (G q) = Some f'"
    for q f'
    using that assms(2,4) by (auto simp: made_ok_def not_less[symmetric])
  then show ?thesis
    using parts assms(2,3) by (auto simp: coherent_def locks_ok_def)
qed

lemma coherent_put:
  assumes "coherent G w" and "f \<in> wd_dirs w"
    and "recorded v \<or> (gh_made (G p) = Some f \<and> \<not> resumable v)
      \<or> (gh_home (G p) = Some f \<and> gh_stage (G p) = Fresh)"
  shows "coherent G (put_journal f v w)"
proof -
  note parts = coherent_parts[OF assms(1)]
  have quiet: "sends_for f w = 0 \<and> (\<forall>q. gh_home (G q) = Some f \<longrightarrow> gh_stage (G q) \<notin> {Written, Armed})"
    if "\<not> recorded v"
  proof -
    from that assms(3) consider "gh_made (G p) = Some f"
      | "gh_home (G p) = Some f" "gh_stage (G p) = Fresh" by blast
    then show ?thesis
    proof cases
      case 1
      have "gh_stage (G q) \<in> {Outside, Held}" if "gh_home (G q) = Some f" for q
        using parts(3)[OF 1] that by (simp only: made_ok_def stage_order)
      with parts(3)[OF 1] show ?thesis by (force simp: made_ok_def)
    next
      case 2
      have "q = p" if "gh_home (G q) = Some f" for q
        using one_holder[OF parts(2) that 2(1)] .
      with parts(4)[OF 2(1)] 2(2) show ?thesis by (force simp: home_ok_def)
    qed
  qed
  have closed: "\<not> resumable v" if "gh_made (G q) = Some f" for q
  proof -
    have "gh_home (G p) = Some f \<Longrightarrow> gh_stage (G p) \<noteq> Fresh"
      using parts(3)[OF that] by (auto simp: made_ok_def stage_order)
    with assms(3) recorded_not_resumable show ?thesis by blast
  qed
  have "sound (put_journal f v w)"
    using parts(1) quiet assms(2) by (auto simp: sound_def put_journal_def sends_for_def)
  moreover have "locks_ok G (put_journal f v w)"
    using parts(2) by (simp add: locks_ok_def put_journal_def)
  moreover have "made_ok G (put_journal f v w) q f'" if "gh_made (G q) = Some f'" for q f'
    using parts(3)[OF that] closed[of q] that by (auto simp: made_ok_def put_journal_def sends_for_def)
  moreover have "home_ok (put_journal f v w) f' (gh_stage (G q))" if "gh_home (G q) = Some f'" for q f'
    using parts(4)[OF that] quiet that
    by (cases "recorded v") (auto simp: home_ok_def put_journal_def sends_for_def)
  ultimately show ?thesis by (simp add: coherent_def)
qed

lemma coherent_sync: "coherent G w \<Longrightarrow> coherent G (sync_journal f w)"
  by (auto simp: coherent_def sound_def locks_ok_def made_ok_def home_ok_def sync_journal_def
      sends_for_def)

lemma held_by_home:
  assumes "locks_ok G w" and "gh_home (G p) = Some f"
  shows "held_by p w = [f]"
proof -
  have mem: "(g, p) \<in> set (wd_locks w) \<longleftrightarrow> g = f" for g
    using assms by (auto simp: locks_ok_def)
  have "distinct (held_by p w)" "set (held_by p w) = {f}"
    using assms(1) mem by (auto simp: held_by_def locks_ok_def distinct_map_filter image_iff)
  then show ?thesis by (metis distinct.simps(2) empty_set insert_eq_iff list.set(2)
        list.set_cases singletonI list.set_sel(1) neq_Nil_conv insert_not_empty insertE emptyE)
qed

lemma log_send_frame [simp]:
  "wd_dirs (log_send p w) = wd_dirs w" "wd_journal (log_send p w) = wd_journal w"
  "wd_disk (log_send p w) = wd_disk w" "wd_locks (log_send p w) = wd_locks w"
  by (simp_all add: log_send_def)

lemma coherent_send:
  assumes "coherent G w" and "gh_home (G p) = Some f" and "gh_stage (G p) = Armed"
  shows "coherent (G(p := (G p)\<lparr>gh_stage := Sent\<rparr>)) (log_send p w)"
proof -
  note parts = coherent_parts[OF assms(1)]
  have only: "q = p" if "gh_home (G q) = Some f" for q
    using one_holder[OF parts(2) that assms(2)] .
  have armed: "sends_for f w = 0" "recorded_in (wd_journal w f)" "recorded_in (wd_disk w f)"
    "f \<in> wd_dirs w"
    using parts(4)[OF assms(2)] assms(3) by (auto simp: home_ok_def stage_order)
  have unmade: "gh_made (G q) \<noteq> Some f" for q
    using parts(3)[of q f] assms(2,3) by (force simp: made_ok_def stage_order)
  have count: "sends_for g (log_send p w) = (if g = f then 1 else sends_for g w)" for g
    using armed(1) by (simp add: sends_for_def log_send_def held_by_home[OF parts(2) assms(2)])
  have "sound (log_send p w)"
    using parts(1) armed
    by (auto simp: sound_def count) (auto simp: log_send_def held_by_home[OF parts(2) assms(2)])
  moreover have "locks_ok (G(p := (G p)\<lparr>gh_stage := Sent\<rparr>)) (log_send p w)"
    using parts(2) assms(2) by (auto simp: locks_ok_def)
  moreover have "made_ok (G(p := (G p)\<lparr>gh_stage := Sent\<rparr>)) (log_send p w) q g"
    if "gh_made (G q) = Some g" for q g
    using parts(3)[OF that] unmade[of q] that assms(2)
    by (auto simp: made_ok_def count)
  moreover have "home_ok (log_send p w) g (gh_stage (G q))"
    if "gh_home (G q) = Some g" "q \<noteq> p" for q g
    using parts(4)[OF that(1)] only[of q] that by (auto simp: home_ok_def count)
  moreover have "home_ok (log_send p w) f Sent"
    using armed by (simp add: home_ok_def)
  ultimately show ?thesis
    using assms(2) by (simp add: coherent_def)
qed

lemma coherent_same: "coherent G w \<Longrightarrow> coherent (G(p := G p)) w"
  by simp

lemma coherent_dirs: "coherent G w \<Longrightarrow> coherent G (w\<lparr>wd_dirs := wd_dirs w \<union> ds\<rparr>)"
  by (auto simp: coherent_def sound_def locks_ok_def made_ok_def home_ok_def)

text \<open>Whatever an allowed effect does to the world, the process's ghost state keeps up with it.\<close>

text \<open>The steps of the holder's stage: its journal read, written, uncertain, and on the disk.\<close>

lemma coherent_resume:
  assumes "coherent G w" and "gh_home (G p) = Some f" and "wd_journal w f = Some v" and "resumable v"
  shows "coherent (G(p := (G p)\<lparr>gh_stage := Fresh\<rparr>)) w"
proof (rule coherent_stage[OF assms(1,2)])
  note parts = coherent_parts[OF assms(1)]
  have "sends_for f w = 0" "f \<in> wd_dirs w"
    using parts(1) assms(3,4) recorded_not_resumable by (auto simp: sound_def)
  then show "home_ok w f Fresh" by (simp add: home_ok_def)
  have "\<not> made_ok G w q f" for q using assms(3,4) by (simp add: made_ok_def)
  with parts(3) show "Held < gh_stage (G p) \<or> (\<forall>q. gh_made (G q) \<noteq> Some f)" by blast
qed

lemma coherent_written:
  assumes "coherent G w" and "gh_home (G p) = Some f" and "gh_stage (G p) = Fresh"
    and "f \<in> wd_dirs w" and "recorded v"
  shows "coherent (G(p := (G p)\<lparr>gh_stage := (if a = A_Unit then Written else Unsure)\<rparr>)) (put_journal f v w)"
proof -
  have put: "coherent G (put_journal f v w)"
    using assms(5) by (intro coherent_put[OF assms(1,4)]) blast
  have "home_ok (put_journal f v w) f (if a = A_Unit then Written else Unsure)"
    using coherent_parts(4)[OF assms(1,2)] assms(3-5) by (simp add: home_ok_def put_journal_def sends_for_def)
  from coherent_stage[OF put assms(2) this] show ?thesis using assms(3) by (simp add: stage_order)
qed

lemma coherent_unsure:
  assumes "coherent G w" and "gh_home (G p) = Some f" and "gh_stage (G p) = Fresh"
  shows "coherent (G(p := (G p)\<lparr>gh_stage := Unsure\<rparr>)) w"
proof (rule coherent_stage[OF assms(1,2)])
  show "home_ok w f Unsure"
    using coherent_parts(4)[OF assms(1,2)] assms(3) by (simp add: home_ok_def stage_order)
qed (simp add: assms(3) stage_order)

lemma coherent_armed:
  assumes "coherent G w" and "gh_home (G p) = Some f" and "gh_stage (G p) = Written"
  shows "coherent (G(p := (G p)\<lparr>gh_stage := Armed\<rparr>)) (sync_journal f w)"
proof (rule coherent_stage[OF coherent_sync[OF assms(1)] assms(2)])
  show "home_ok (sync_journal f w) f Armed"
    using coherent_parts(4)[OF assms(1,2)] assms(3)
    by (simp add: home_ok_def stage_order sync_journal_def sends_for_def)
qed (simp add: assms(3) stage_order)

lemma armed_home:
  assumes "coherent G w" and "gh_stage (G p) = Armed"
  shows "\<exists>f. gh_home (G p) = Some f"
  using coherent_parts(2)[OF assms(1)] assms(2) by (fastforce simp: locks_ok_def)

lemma coherent_happens:
  assumes "happens p e a w w'" and "coherent G w" and "may (G p) e"
  shows "coherent (G(p := learn (G p) e a)) w'"
  using assms(1)
proof (cases rule: happens.cases)
  case (lock_ok f)
  with assms show ?thesis using coherent_lock[of G w f p] by simp
next
  case (read_ok f v d)
  with assms coherent_resume[OF assms(2)] show ?thesis by simp
next
  case (read_fails f)
  then have "\<not> read_resumable a" by (cases a) auto
  with read_fails assms show ?thesis by simp
next
  case (replace_done f t v)
  have "coherent G (put_journal f v w)"
    using replace_done assms by (auto intro!: coherent_put[of G w f v p])
  with replace_done coherent_written[OF assms(2), of p f v a] show ?thesis by simp
next
  case (replace_fails t f v)
  with assms coherent_unsure[OF assms(2)] show ?thesis by simp
next
  case (sync_ok f)
  with coherent_armed[OF assms(2)] coherent_sync[OF assms(2), of f] show ?thesis by simp
next
  case (request m u hs b)
  with assms armed_home[OF assms(2)] obtain f where "gh_home (G p) = Some f" by auto
  with request assms coherent_send[OF assms(2)] show ?thesis by simp
next
  case (acknowledge q t v)
  with assms armed_home[OF assms(2)] obtain f where "gh_home (G p) = Some f" "gh_stage (G p) = Armed" by auto
  then show ?thesis using coherent_send[OF assms(2)] acknowledge by simp
qed (use assms in \<open>simp_all add: coherent_mkdir coherent_dirs coherent_forget_made coherent_unlock
      dispatch.neutral_adv\<close>)

subsection \<open>Reachable states\<close>

lemma call_protocol: "is_call m \<Longrightarrow> safe may learn m (\<lambda>_ _. True) start_ghost"
  by (erule is_call.cases)
     (auto simp: forget_def start_ghost_def split: sum.split
        intro!: dispatch.wp_nestI dispatch.wp_mono[OF execute_http_protocol]
          dispatch.wp_mono[OF continue_http_protocol] dispatch.wp_mono[OF flush_protocol])

lemma safe_systemE:
  assumes "safe_system (P, w)"
  obtains G where "coherent G w" and "\<And>p. P p = None \<Longrightarrow> G p = start_ghost"
    and "\<And>p m. P p = Some m \<Longrightarrow> safe may learn m (\<lambda>_ _. True) (G p)"
  using assms that by (auto simp: safe_system_def)

lemma safe_systemI:
  assumes "coherent G w" and "\<And>p. P p = None \<Longrightarrow> G p = start_ghost"
    and "\<And>p m. P p = Some m \<Longrightarrow> safe may learn m (\<lambda>_ _. True) (G p)"
  shows "safe_system (P, w)"
  using assms unfolding safe_system_def by auto

lemma coherent_power_loss:
  assumes "coherent G w" and "\<And>f. j f = wd_journal w f \<or> j f = wd_disk w f"
  shows "coherent (\<lambda>_. start_ghost) (w\<lparr>wd_journal := j, wd_disk := j, wd_locks := []\<rparr>)"
proof -
  have "sound (w\<lparr>wd_journal := j, wd_disk := j, wd_locks := []\<rparr>)"
    using coherent_parts(1)[OF assms(1)] assms(2) by (auto simp: sound_def sends_for_def) metis+
  then show ?thesis by (simp add: coherent_def locks_ok_def start_ghost_def)
qed

lemma safe_system_step:
  assumes "safe_system s" and "step s s'"
  shows "safe_system s'"
  using assms(2,1)
proof (induction rule: step.induct)
  case (start P p m w)
  from start(3) obtain G where G: "coherent G w" "\<And>q. P q = None \<Longrightarrow> G q = start_ghost"
    "\<And>q m. P q = Some m \<Longrightarrow> safe may learn m (\<lambda>_ _. True) (G q)"
    by (rule safe_systemE) blast
  with start(1) call_protocol[OF start(2)] show ?case
    by (intro safe_systemI[of G]) (auto split: if_splits)
next
  case (act P p e k a w w')
  from act(3) obtain G where G: "coherent G w" "\<And>q. P q = None \<Longrightarrow> G q = start_ghost"
    "\<And>q m. P q = Some m \<Longrightarrow> safe may learn m (\<lambda>_ _. True) (G q)"
    by (rule safe_systemE) blast
  from G(3)[OF act(1)] have "may (G p) e" "safe may learn (k a) (\<lambda>_ _. True) (learn (G p) e a)"
    by auto
  moreover from this act(2) G(1) have "coherent (G(p := learn (G p) e a)) w'"
    by (auto intro: coherent_happens)
  ultimately show ?case
    using G by (intro safe_systemI[of "G(p := learn (G p) e a)"]) (auto split: if_splits)
next
  case (stop P p m w)
  from stop(2) obtain G where "coherent G w" "\<And>q. P q = None \<Longrightarrow> G q = start_ghost"
    "\<And>q m. P q = Some m \<Longrightarrow> safe may learn m (\<lambda>_ _. True) (G q)"
    by (rule safe_systemE) blast
  then show ?case
    by (intro safe_systemI[of "G(p := start_ghost)"] coherent_quit) (auto split: if_splits)
next
  case (write_back P w f)
  with coherent_sync show ?case unfolding safe_system_def by (metis fst_conv snd_conv)
next
  case (power_loss j w P)
  from power_loss(2) show ?case
    by (rule safe_systemE) (auto intro!: safe_systemI[of "\<lambda>_. start_ghost"] coherent_power_loss power_loss(1))
qed

lemma reachable_safe: "reachable s \<Longrightarrow> safe_system s"
proof (induction rule: reachable.induct)
  case (init w)
  then show ?case
    unfolding safe_system_def
    by (auto intro!: exI[of _ "\<lambda>_. start_ghost"] simp: coherent_def locks_ok_def start_ghost_def)
qed (rule safe_system_step)

lemma reachable_sound: "reachable (P, w) \<Longrightarrow> sound w"
  using reachable_safe coherent_parts(1) unfolding safe_system_def by (metis snd_conv)

subsection \<open>Properties\<close>

text \<open>
  C1: at most once. In every state any interleaving of calls, crashes, failures and power losses
  can reach, at most one request was sent for an operation's folder, and every request that was
  sent was sent by a process holding the lock of exactly one operation.
\<close>

theorem at_most_one_send:
  assumes "reachable (P, w)"
  shows "sends_for f w \<le> 1 \<and> (\<forall>s \<in> set (wd_sends w). length s = 1)"
  using reachable_sound[OF assms] by (fastforce simp: sound_def)

text \<open>
  C2: once a request was sent, the journal, both as processes read it and as it is on the disk,
  holds a complete report of the outcome (the operation, a body and an idempotency key, all of it JSON)
  and a phase that no continuation resumes.
\<close>

theorem sent_is_recorded:
  assumes "reachable (P, w)" and "0 < sends_for f w"
  shows "\<exists>v v'. wd_journal w f = Some v \<and> recorded v \<and> \<not> resumable v
    \<and> wd_disk w f = Some v' \<and> recorded v' \<and> \<not> resumable v'"
proof -
  have "recorded_in (wd_journal w f)" "recorded_in (wd_disk w f)"
    using reachable_sound[OF assms(1)] assms(2) by (simp_all add: sound_def)
  then show ?thesis
    by (cases "wd_journal w f"; cases "wd_disk w f") (simp_all add: recorded_not_resumable)
qed

end
