(* ===== verification/Dispatch_Run.thy ===== *)
theory Dispatch_Run
  imports Dispatch_Safety
begin

text \<open>
  A run that goes well, in the world of \<open>Dispatch_Safety\<close>: the sample operation is approved, sent
  and reported. It shows that the states the safety theorems speak of are reached by the code.
\<close>

subsection \<open>Replaying a run\<close>

text \<open>An executable part of \<open>happens\<close>: the answers of a machine on which nothing fails.\<close>

fun replay_step :: "nat \<Rightarrow> eff \<Rightarrow> ans \<Rightarrow> world \<Rightarrow> world option" where
  "replay_step p (Mkdir f) a w =
     (if a = A_Unit \<and> f \<notin> wd_dirs w then Some (w\<lparr>wd_dirs := insert f (wd_dirs w)\<rparr>) else None)"
| "replay_step p (Flock f) a w =
     (if a = A_Unit \<and> map_of (wd_locks w) f = None
      then Some (w\<lparr>wd_locks := (f, p) # wd_locks w\<rparr>) else None)"
| "replay_step p (Close_Lock f) a w =
     Some (w\<lparr>wd_locks := filter (\<lambda>l. l \<noteq> (f, p)) (wd_locks w)\<rparr>)"
| "replay_step p (Replace_File t q v) a w =
     (if is_journal q \<and> fst q \<in> wd_dirs w then Some (put_journal (fst q) v w)
      else if is_journal q then None
      else if is_ack q then Some (log_send p w) else Some w)"
| "replay_step p (Sync_Dir f) a w = Some (sync_journal f w)"
| "replay_step p (Provider_Request m u hs b) a w = Some (log_send p w)"
| "replay_step p (Read_File q) a w =
     (if \<not> is_journal q then Some w
      else case (wd_journal w (fst q), a) of
        (Some v, A_Doc d) \<Rightarrow> if doc_json d = Some v then Some w else None
      | _ \<Rightarrow> None)"
| "replay_step p e a w = (if unrelated e then Some w else None)"

fun replay :: "nat \<Rightarrow> (eff \<times> ans) list \<Rightarrow> world \<Rightarrow> world option" where
  "replay p [] w = Some w"
| "replay p ((e, a) # es) w =
     (case replay_step p e a w of None \<Rightarrow> None | Some w' \<Rightarrow> replay p es w')"

primrec remaining :: "'a prog \<Rightarrow> ans list \<Rightarrow> 'a prog" where
  "remaining (Done r) as = Done r"
| "remaining (Act e k) as = (case as of [] \<Rightarrow> Act e k | a # as' \<Rightarrow> remaining (k a) as')"

lemma replay_step_happens: "replay_step p e a w = Some w' \<Longrightarrow> happens p e a w w'"
proof (induction p e a w rule: replay_step.induct)
  case (4 p t q v a w)
  then show ?case
    by (cases q) (auto intro: replace_done acknowledge other split: if_splits)
next
  case (7 p q a w)
  then show ?case
    by (cases q) (auto intro: read_ok other split: if_splits option.splits ans.splits)
qed (auto intro: happens.intros split: if_splits)

lemma reachable_replay:
  "reachable (P, w) \<Longrightarrow> P p = Some m \<Longrightarrow> replay p (events m as) w = Some w' \<Longrightarrow>
     reachable (P(p \<mapsto> remaining m as), w')"
proof (induction m arbitrary: P w as)
  case (Done r)
  then show ?case by (simp add: map_upd_triv)
next
  case (Act e k)
  show ?case
  proof (cases as)
    case Nil
    with Act.prems show ?thesis by (simp add: map_upd_triv)
  next
    case (Cons a as')
    with Act.prems obtain w1 where w1: "replay_step p e a w = Some w1"
      "replay p (events (k a) as') w1 = Some w'" by (auto split: option.splits)
    then have "step (P, w) (P(p \<mapsto> k a), w1)"
      using Act.prems(2) by (intro step.act replay_step_happens)
    with Act.prems(1) have "reachable (P(p \<mapsto> k a), w1)" by (rule reachable.step)
    from Act.IH[OF _ this _ w1(2)] show ?thesis
      unfolding Cons by (simp only: fun_upd_upd fun_upd_same remaining.simps list.case rangeI)
  qed
qed

lemma events_forget: "events (forget m) as = events m as"
  by (simp add: forget_def events_bindp split: option.split sum.split)

definition fresh_world :: world where
  "fresh_world = \<lparr>wd_dirs = {}, wd_journal = (\<lambda>_. None), wd_disk = (\<lambda>_. None), wd_locks = [],
                  wd_sends = []\<rparr>"

lemma fresh_world_reachable: "reachable (\<lambda>_. None, fresh_world)"
  by (rule reachable.init) (simp_all add: fresh_world_def sound_def sends_for_def)

lemma replay_call_reachable:
  assumes "is_call (forget m)" and "replay p (events m as) fresh_world = Some w"
  shows "\<exists>P. reachable (P, w)"
proof -
  have "step (\<lambda>_. None, fresh_world) ((\<lambda>_. None)(p \<mapsto> forget m), fresh_world)"
    using assms(1) by (intro step.start) simp_all
  with fresh_world_reachable have "reachable ((\<lambda>_. None)(p \<mapsto> forget m), fresh_world)"
    by (rule reachable.step)
  from reachable_replay[OF this, of p "forget m" as w] assms(2) show ?thesis
    by (auto simp: events_forget)
qed


subsection \<open>Runs that go well\<close>

text \<open>
  \<open>can p m w x w'\<close>: from the world \<open>w\<close> the process \<open>p\<close> can run \<open>m\<close> to the result \<open>x\<close>, with answers on
  which nothing fails, and leave the world \<open>w'\<close>.
\<close>

definition can :: "nat \<Rightarrow> 'a prog \<Rightarrow> world \<Rightarrow> 'a \<Rightarrow> world \<Rightarrow> bool" where
  "can p m w x w' \<longleftrightarrow>
     (\<exists>as. outcome m as = Some (Inr x) \<and> leftover m as = [] \<and> replay p (events m as) w = Some w')"

lemma run_append:
  "outcome m as = Some r \<Longrightarrow>
     outcome m (as @ bs) = Some r \<and> leftover m (as @ bs) = leftover m as @ bs
     \<and> events m (as @ bs) = events m as"
  by (induction m arbitrary: as) (auto split: list.splits)

lemma leftover_bindp:
  "leftover (bindp m f) as =
     (case outcome m as of Some (Inr x) \<Rightarrow> leftover (f x) (leftover m as) | _ \<Rightarrow> leftover m as)"
  by (induction m arbitrary: as) (auto split: sum.splits list.splits option.splits)

lemma replay_append:
  "replay p (es @ es') w = (case replay p es w of None \<Rightarrow> None | Some w' \<Rightarrow> replay p es' w')"
  by (induction es arbitrary: w) (auto split: option.splits)

lemma can_bind:
  assumes "can p m w x w1" and "can p (f x) w1 y w'"
  shows "can p (bindp m f) w y w'"
proof -
  from assms obtain as bs where
    as: "outcome m as = Some (Inr x)" "leftover m as = []" "replay p (events m as) w = Some w1"
    and bs: "outcome (f x) bs = Some (Inr y)" "leftover (f x) bs = []"
      "replay p (events (f x) bs) w1 = Some w'"
    by (auto simp: can_def)
  show ?thesis
    unfolding can_def
    by (rule exI[of _ "as @ bs"])
       (simp add: outcome_bindp leftover_bindp events_bindp run_append[OF as(1)] as bs replay_append)
qed

lemma can_Done: "r = Inr x \<Longrightarrow> can p (Done r) w x w"
  by (auto simp: can_def intro: exI[of _ "[]"])

lemma can_return [simp]: "can p (return x) w x w"
  by (rule can_Done) simp

lemma can_perform:
  "dec a = Inr x \<Longrightarrow> (\<And>e. a \<noteq> A_Exn e) \<Longrightarrow> replay_step p e a w = Some w' \<Longrightarrow> can p (perform e dec) w x w'"
  unfolding can_def perform_def
  by (rule exI[of _ "[a]"]) (auto split: ans.splits)

lemma can_attempt: "can p m w x w' \<Longrightarrow> can p (attempt m) w (Inr x) w'"
  by (auto simp: can_def outcome_attempt)

lemma can_handle: "can p m w x w' \<Longrightarrow> can p (handle m h) w x w'"
  unfolding handle_def by (rule can_bind[OF can_attempt], assumption, simp)

lemma can_finally:
  "can p m w x w1 \<Longrightarrow> can p c w1 u w' \<Longrightarrow> can p (finally_do m c) w x w'"
  unfolding finally_do_def by (rule can_bind[OF can_attempt], assumption, rule can_bind, assumption, simp)

lemma can_unit: "replay_step p e A_Unit w = Some w' \<Longrightarrow> can p (perform e as_unit) w () w'"
  by (rule can_perform) simp_all

lemma can_bool: "replay_step p e (A_Bool b) w = Some w' \<Longrightarrow> can p (perform e as_bool) w b w'"
  by (rule can_perform) simp_all

lemma can_int: "replay_step p e (A_Int i) w = Some w' \<Longrightarrow> can p (perform e as_int) w i w'"
  by (rule can_perform) simp_all

lemma can_str: "replay_step p e (A_Str s) w = Some w' \<Longrightarrow> can p (perform e as_str) w s w'"
  by (rule can_perform) simp_all

lemma can_strs: "replay_step p e (A_Strs ss) w = Some w' \<Longrightarrow> can p (perform e as_strs) w ss w'"
  by (rule can_perform) simp_all

text \<open>Saving, reading and checking the lifetime.\<close>

lemma can_save:
  assumes "json_value v" and "replay_step p (Replace_File (fst q, ''tmp'') q v) A_Unit w = Some w1"
  shows "can p (save E q v) w () (sync_journal (fst q) w1)"
proof -
  from assms(1) obtain t where t: "json_bytes E v = Inr t"
    using dumps_ok_iff[of E v] by (auto simp: json_bytes_def is_ok_iff)
  show ?thesis
    unfolding save_def t
    by (rule can_bind[OF can_str[where s = "''tmp''"]], simp,
        rule can_finally[OF _ can_bind[OF can_bool[where b = False]]],
        rule can_bind[OF can_Done[OF refl]], rule can_bind[OF can_unit], simp,
        rule can_bind[OF can_unit[OF assms(2)]], rule can_unit, simp, simp, simp)
qed

lemma can_live:
  assumes "approval_instant E approval ''issued_at'' = Inr (issued, True)"
    and "approval_instant E approval ''expires_at'' = Inr (expires, True)" and "issued < expires"
  shows "can p (live E approval) w () w"
  unfolding can_def live_unfold
  using assms by (auto intro!: exI[of _ "[A_Int issued]"])

lemma can_request:
  assumes "sensitive_values C rq = ss"
    and "rs_status resp \<in> set expected" "is_success resp" "rs_status resp \<noteq> 204" "rs_json resp = Some v"
  shows "can p (request E C rq expected) w v w"
proof -
  have "decode_response E ss expected Json_Response resp = Inr v"
    using assms by (simp add: decode_response_def)
  then have decode: "can p (bindp (Done (decode_response E ss expected Json_Response resp))
      (\<lambda>data. return (data, rs_headers resp))) w (v, rs_headers resp) w"
    by (rule can_bind[OF can_Done]) simp
  have send: "can p (handle (perform (Request rq) as_response) h) w resp w" for h
    by (rule can_handle, rule can_perform[where a = "A_Response resp"]) simp_all
  show ?thesis
    unfolding request_def request_with_headers_def send_request_def assms(1)
    by (rule can_bind, rule can_bind, rule send, rule decode, simp)
qed

subsection \<open>The sample operation\<close>

definition json_response :: "pyval \<Rightarrow> http_response" where
  "json_response v =
     \<lparr>rs_status = 200, rs_headers = [], rs_json = Some v, rs_text = None, rs_redirected = False\<rparr>"

definition sample_folder :: string where
  "sample_folder = operation_folder sample_env ''/d'' ''op''"

definition sample_private_headers :: "(string \<times> string) list" where
  "sample_private_headers = [(''content-type'', ''text/plain'')]"

definition sample_dispatch :: dispatch where
  "sample_dispatch =
     dispatch_of sample_call sample_request sample_private_headers sample_folder sample_approved"

definition sample_claimed :: pydict where
  "sample_claimed =
     [(''operation_id'', PStr ''op''), (''approval_sha256'', PStr digest_b),
      (''dispatch_state'', PStr ''claimed''), (''approval'', PDict sample_approval),
      (''effective_evidence_mode'', PStr ''receipt'')]"

definition sample_sent :: pydict where
  "sample_sent =
     [(''status'', PInt 200), (''headers'', PDict []), (''body'', PStr ''ok''),
      (''body_bytes'', PInt 2), (''body_sha256'', PStr digest_a)]"

lemma can_sample_request:
  "rs_status (json_response v) \<in> set expected \<Longrightarrow>
     can p (request sample_env sample_client rq expected) w v w"
  by (rule can_request[where resp = "json_response v"])
     (simp_all add: json_response_def is_success_def)

lemma can_identity: "can p (identity_headers sample_client PNone k) w
    (case k of None \<Rightarrow> None | Some i \<Rightarrow> Some [(''Idempotency-Key'', i)]) w"
  by (cases k) (simp_all add: identity_headers_def effective_agent_token_def sample_client_def)

lemma sample_approved_parses:
  "parse_execution_response sample_env (PDict (asdict_execution sample_approved)) = Inr sample_approved"
proof (rule parse_carried_response[OF _ carries_asdict])
  show "wf_execution sample_env sample_approved"
    by (simp add: wf_execution_def wf_envelope_def http_methods_def sample_approved_def)
qed

lemma can_sample_prepare:
  "can p (prepare_execution sample_env sample_client sample_request k PNone) w sample_approved w"
proof -
  have "client_timestamp sample_env (Value_Arg (xr_client_timestamp sample_request)) = Inr ''t''"
    by code_simp
  moreover have "\<not> (er_operation_id sample_approved \<noteq> xr_operation_id sample_request
      \<or> er_destination_id sample_approved \<noteq> xr_enabled_executable_id sample_request
      \<or> er_action sample_approved \<noteq> xr_action sample_request
      \<or> rd_authorization_id (er_request_descriptor sample_approved)
          \<noteq> xr_authorization_id sample_request)"
    by (simp add: sample_approved_def sample_request_def)
  ultimately show ?thesis
    unfolding prepare_execution_def
    by (intro can_bind[OF can_identity] can_bind[OF can_Done]
          can_bind[OF can_sample_request[where v = "PDict (asdict_execution sample_approved)"]]
          can_bind[OF can_Done[OF sample_approved_parses]])
       (simp_all add: json_response_def)
qed

lemma can_sample_claim_dispatch:
  "can p (claim_execution_dispatch sample_env sample_client ''op'' (PStr digest_b) PNone) w
     sample_claimed w"
  unfolding claim_execution_dispatch_def
  by (rule can_bind[OF can_identity], rule can_bind[OF can_sample_request[where v = "PDict sample_claimed"]])
     (simp_all add: json_response_def sample_claimed_def)

lemma can_sample_report:
  assumes "dget body ''approval_sha256'' = PStr digest_b"
  shows "can p (report_execution_outcome sample_env sample_client ''op'' (PDict body) (PStr k) PNone) w
     sample_approved w"
  unfolding report_execution_outcome_def
  by (rule can_bind[OF can_identity], simp only: as_string.simps pyval.distinct option.distinct
        simp_thms if_False, rule can_bind[OF can_sample_request[where v = "PDict (asdict_execution sample_approved)"]],
      simp add: json_response_def, rule can_bind[OF can_Done[OF sample_approved_parses]])
     (simp add: sample_approved_def assms)

lemma can_sample_live: "can p (live sample_env sample_approval) w () w"
  by (rule can_live[where issued = 1 and expires = 7]; code_simp)

lemma sample_dispatch_parts:
  "dp_request sample_dispatch = sample_request" "dp_folder sample_dispatch = sample_folder"
  "dp_result sample_dispatch = sample_approved" "dp_agent_token sample_dispatch = PNone"
  "dp_headers sample_dispatch = sample_private_headers" "dp_body sample_dispatch = ''hi''"
  "dp_timeout sample_dispatch = Fin 30" "approval_hash sample_dispatch = PStr digest_b"
  by (simp_all add: sample_dispatch_def dispatch_of_def sample_call_def approval_hash_def
      sample_approved_def)

lemma sample_request_parts:
  "xr_operation_id sample_request = ''op''" "xr_http_request sample_request = sample_http_request"
  by (simp_all add: sample_request_def)

lemma json_value_merge:
  "json_value (PDict d) \<Longrightarrow> json_value (PDict d') \<Longrightarrow> json_value (PDict (merge_items d d'))"
proof (induction d d' rule: merge_items.induct)
  case (2 d k v kvs)
  have "json_value (PDict (put_item k v d))"
    using 2(2,3) by (induction d) auto
  with 2 show ?case by simp
qed simp

lemma sample_values:
  "json_value (PDict (attempted_state sample_dispatch st ''t''))" if "json_value (PDict st)" for st
  unfolding attempted_state_def sample_dispatch_parts sample_request_parts
  by (rule json_value_merge[OF that]) simp

lemma can_save_journal:
  "json_value v \<Longrightarrow> f \<in> wd_dirs w \<Longrightarrow>
     can p (save E (journal_path f) v) w () (sync_journal f (put_journal f v w))"
  using can_save[of v p "journal_path f" w "put_journal f v w" E] by simp

lemma sample_claim_agrees:
  "py_eq (dget sample_claimed ''approval'') (PDict sample_approval)"
  "py_eq (dget sample_claimed ''effective_evidence_mode'')
     (opt_str (er_effective_evidence_mode sample_approved))"
  by code_simp+

lemma can_sample_claim:
  assumes "json_value (PDict st)" and "sample_folder \<in> wd_dirs w"
  shows "can p (claim sample_env sample_client sample_dispatch sample_approval st) w
    (attempted_state sample_dispatch st ''t'', Inr ())
    (sync_journal sample_folder
      (put_journal sample_folder (PDict (attempted_state sample_dispatch st ''t'')) w))"
proof -
  have confirm: "can p (confirm_claim sample_env sample_client sample_dispatch sample_approval
      (attempted_state sample_dispatch st ''t'')) w ()
    (sync_journal sample_folder
      (put_journal sample_folder (PDict (attempted_state sample_dispatch st ''t'')) w))"
    unfolding confirm_claim_def sample_dispatch_parts sample_request_parts
    by (rule can_bind[OF can_save_journal[OF sample_values[OF assms(1)] assms(2)]],
        rule can_bind[OF can_sample_claim_dispatch])
       (use sample_claim_agrees can_sample_live in \<open>simp only: if_False simp_thms\<close>)
  have "can p (bindp (live sample_env sample_approval) (\<lambda>_. perform Now_Iso as_str)) w ''t'' w"
    by (rule can_bind[OF can_sample_live], rule can_str) simp
  from can_attempt[OF this] show ?thesis
    unfolding claim_def
    by (rule can_bind) (simp, rule can_bind[OF can_attempt[OF confirm]], simp)
qed

lemma can_sample_provider:
  "can p (provider_send sample_env sample_http_request sample_private_headers ''hi'' (Fin 30)
      sample_approval) w sample_sent (log_send p w)"
proof -
  have u: "\<exists>u. urlsplit (text_at sample_http_request ''origin'') = Some u"
    by (rule exI[of _ "\<lparr>su_scheme = ''https'', su_netloc = ''a.io'', su_path = [], su_query = [],
          su_fragment = []\<rparr>"]) code_simp
  then obtain u where u: "urlsplit (text_at sample_http_request ''origin'') = Some u" by blast
  have ok: "is_global_ip sample_env ''93.184.216.34''"
    by (simp add: sample_env_def)
  have digest: "sha sample_env ''ok'' = digest_a"
    by (simp add: sha_def digest_a_def sample_env_def)
  have reply: "can p (perform Provider_Response as_provider) w'
      (200, [], ''ok'', Some ''ok'') w'" for w'
    by (rule can_perform[where a = "A_Provider 200 [] ''ok'' (Some ''ok'')"]) simp_all
  show ?thesis
    unfolding provider_send_def u option.case
    by (rule can_bind[OF can_strs[where ss = "[''93.184.216.34'']"]], simp,
        simp only: list.distinct list.pred_inject ok simp_thms if_False list.sel,
        rule can_bind[OF can_unit], simp, rule can_finally[OF _ can_unit],
        rule can_bind[OF can_unit], simp, rule can_bind[OF can_unit], simp,
        rule can_bind[OF can_sample_live], rule can_bind[OF can_unit], simp,
        rule can_bind[OF reply])
       (simp_all add: sample_sent_def digest)
qed

definition sample_evidence :: evidence where
  "sample_evidence = (Some sample_sent, PNone, None)"

lemma can_sample_receipt_dispatch:
  assumes "json_value (PDict st)" and "sample_folder \<in> wd_dirs w"
  shows "\<exists>w'. can p (receipt_dispatch sample_env sample_client sample_dispatch sample_approval st) w
      (attempted_state sample_dispatch st ''t'', sample_evidence) w'
    \<and> wd_dirs w' = wd_dirs w \<and> wd_sends w' = held_by p w # wd_sends w"
proof -
  let ?w1 = "sync_journal sample_folder
      (put_journal sample_folder (PDict (attempted_state sample_dispatch st ''t'')) w)"
  have observed: "observed_response sample_env (PDict sample_sent) (1024 * 1024) = Inr sample_sent"
    by code_simp
  have send: "can p (handle
      (bindp (provider_send sample_env sample_http_request sample_private_headers ''hi'' (Fin 30)
                sample_approval) (\<lambda>sent.
       bindp (Done (observed_response sample_env (PDict sent) (1024 * 1024))) (\<lambda>d. return (Some d)))) h)
      w1 (Some sample_sent) (log_send p w1)" for h w1
    by (rule can_handle, rule can_bind, rule can_sample_provider,
        rule can_bind[OF can_Done[OF observed]]) simp
  have "can p (receipt_dispatch sample_env sample_client sample_dispatch sample_approval st) w
      (attempted_state sample_dispatch st ''t'', sample_evidence) (log_send p ?w1)"
    unfolding receipt_dispatch_def sample_dispatch_parts sample_request_parts sample_evidence_def
    by (rule can_bind[OF can_sample_claim[OF assms]], simp only: prod.case,
        rule can_bind[OF can_Done[OF refl]], rule can_bind, rule send, simp)
  moreover have "wd_dirs (log_send p ?w1) = wd_dirs w"
    "wd_sends (log_send p ?w1) = held_by p w # wd_sends w"
    by (simp_all add: sync_journal_def put_journal_def log_send_def held_by_def)
  ultimately show ?thesis by blast
qed

lemma can_sample_flush:
  assumes "wd_journal w sample_folder = Some (PDict st)" and "json_value (PDict st)"
    and "sample_folder \<in> wd_dirs w"
    and "dget st ''version'' = PInt 2" "map_of st ''operation_id'' = Some (PStr ''op'')"
    and "dget st ''outcome'' = PDict [(''idempotency_key'', PStr ''op''), (''body'', PDict body)]"
    and "dget body ''approval_sha256'' = PStr digest_b"
  shows "\<exists>w'. can p (flush_execution_outcome sample_env sample_client sample_folder PNone) w
      sample_approved w' \<and> wd_sends w' = wd_sends w"
proof -
  have read: "can p (read_json (journal_path sample_folder) default_maximum) w (PDict st) w"
  proof -
    have "can p (perform (Read_File (journal_path sample_folder)) as_doc) w (Doc [] (Some (PDict st))) w"
      by (rule can_perform[where a = "A_Doc (Doc [] (Some (PDict st)))"]) (simp_all add: assms(1))
    then have "can p (read_bytes (journal_path sample_folder) default_maximum) w
        (Doc [] (Some (PDict st))) w"
      unfolding read_bytes_def by (rule can_bind) (simp add: default_maximum_def)
    then show ?thesis
      unfolding read_json_def by (rule can_bind) (simp add: loads_def)
  qed
  let ?st = "merge_items st [(''phase'', PStr ''complete''),
      (''final_response'', PDict (asdict_execution sample_approved))]"
  have j: "json_value (PDict ?st)"
    by (rule json_value_merge[OF assms(2)])
       (simp add: asdict_execution_def sample_approved_def sample_approval_def sample_http_request_def
          asdict_descriptor_def asdict_header_def)
  have version: "hashable (dget st ''version'') = True"
    "(py_eq (dget st ''version'') (PInt 1) \<or> py_eq (dget st ''version'') (PInt 2)) = True"
    by (simp_all add: assms(4))
  have "can p (flush_execution_outcome sample_env sample_client sample_folder PNone) w sample_approved
      (sync_journal sample_folder (put_journal sample_folder (PDict ?st) w))"
    unfolding flush_execution_outcome_def
    by (rule can_bind[OF can_str[where s = sample_folder]], simp, rule can_bind[OF read],
        rule can_bind[OF can_Done[where x = st]], simp,
        simp only: version simp_thms if_False,
        rule can_bind[OF can_Done[where x = "[(''idempotency_key'', PStr ''op''), (''body'', PDict body)]"]],
        simp add: assms(6), rule can_bind[OF can_Done[where x = "PStr ''op''"]], simp add: dict_item_def assms(5),
        rule can_bind[OF can_Done[where x = "PDict body"]], simp add: dict_item_def,
        rule can_bind[OF can_Done[where x = "PStr ''op''"]], simp add: dict_item_def,
        simp only: as_string.simps option.case, rule can_bind[OF can_sample_report[OF assms(7)]],
        rule can_bind[OF can_save_journal[OF j assms(3)]], simp)
  then show ?thesis by (auto simp: sync_journal_def put_journal_def)
qed

lemma can_sample_finish:
  assumes "json_value (PDict st)" and "sample_folder \<in> wd_dirs w"
    and "dget st ''version'' = PInt 2" "map_of st ''operation_id'' = Some (PStr ''op'')"
    and "json_value (dget st ''dispatch_attempted_at'')"
  shows "\<exists>w'. can p (finish_dispatch sample_env sample_client sample_dispatch st sample_evidence) w
      (local_execution_result sample_approved sample_folder (Some sample_sent) False) w'
    \<and> wd_sends w' = wd_sends w"
proof -
  let ?body = "outcome_body sample_dispatch st sample_evidence ''t''"
  let ?st = "merge_items st [(''phase'', PStr ''outcome_pending''),
      (''outcome'', PDict [(''idempotency_key'', PStr ''op''), (''body'', PDict ?body)])]"
  have body: "json_value (PDict ?body)" "dget ?body ''approval_sha256'' = PStr digest_b"
    using assms(5)
    by (simp_all add: outcome_body_def sample_evidence_def sample_sent_def sample_dispatch_parts)
  have js: "json_value (PDict ?st)"
    by (rule json_value_merge[OF assms(1)]) (simp add: body(1)[simplified])
  let ?w1 = "sync_journal sample_folder w"
  let ?w2 = "sync_journal sample_folder (put_journal sample_folder (PDict ?st) ?w1)"
  have response: "can p (save sample_env (sample_folder, ''response.json'') (PDict sample_sent)) w () ?w1"
    using can_save[of "PDict sample_sent" p "(sample_folder, ''response.json'')" w w sample_env]
    by (simp add: sample_sent_def)
  have dirs: "sample_folder \<in> wd_dirs ?w1" using assms(2) by (simp add: sync_journal_def)
  have "\<exists>w'. can p (flush_execution_outcome sample_env sample_client sample_folder PNone) ?w2
      sample_approved w' \<and> wd_sends w' = wd_sends ?w2"
    by (rule can_sample_flush[where st = ?st and body = ?body])
       (use assms dirs js body(2) in \<open>auto simp: put_journal_def sync_journal_def simp del: json_value.simps\<close>)
  then obtain w' where flush: "can p (flush_execution_outcome sample_env sample_client sample_folder PNone)
      ?w2 sample_approved w'" "wd_sends w' = wd_sends w"
    by (auto simp: put_journal_def sync_journal_def)
  have finish: "can p (finish_dispatch sample_env sample_client sample_dispatch st sample_evidence) w
      (local_execution_result sample_approved sample_folder (Some sample_sent) False) w'"
    unfolding finish_dispatch_def sample_dispatch_parts sample_request_parts
    by (rule can_bind[where ?w1.0 = ?w1 and x = "()"], simp add: sample_evidence_def response,
        rule can_bind[OF can_str[where s = "''t''"]], simp,
        rule can_bind[OF can_save_journal[OF js dirs]],
        rule can_handle, rule can_bind[OF flush(1)], simp add: sample_evidence_def)
  show ?thesis by (rule exI[of _ w'], rule conjI, rule finish, rule flush(2))
qed

definition sample_state :: pydict where
  "sample_state =
     merge_items (initial_state sample_request (replicate 64 (CHR ''b'')))
       [(''phase'', PStr ''authorized''), (''authorization'', PDict (journal_authorization sample_approved))]"

lemma sample_state_facts:
  "json_value (PDict sample_state)" "dget sample_state ''version'' = PInt 2"
  "map_of sample_state ''operation_id'' = Some (PStr ''op'')"
  by (simp_all add: sample_state_def initial_state_def sample_request_def journal_authorization_def
      sample_approved_def asdict_execution_def asdict_descriptor_def asdict_header_def
      sample_approval_def sample_http_request_def)

lemma can_sample_dispatch:
  assumes "sample_folder \<in> wd_dirs w"
  shows "\<exists>w'. can p (dispatch_approved sample_env sample_client sample_dispatch sample_state) w
      (local_execution_result sample_approved sample_folder (Some sample_sent) False) w'
    \<and> wd_sends w' = held_by p w # wd_sends w"
proof -
  let ?w1 = "sync_journal sample_folder w"
  have dirs: "sample_folder \<in> wd_dirs ?w1" using assms by (simp add: sync_journal_def)
  have validate: "can p (validate_approval sample_env sample_approved sample_request) w sample_approval w"
  proof -
    have "check_approval sample_env sample_approved sample_request = Inr sample_approval" by code_simp
    from can_Done[OF this] show ?thesis
      unfolding validate_approval_def by (rule can_bind) (rule can_bind[OF can_sample_live], simp)
  qed
  have no_witness: "select_witness sample_env sample_dispatch sample_approval = return None"
    by (simp add: select_witness_def sample_dispatch_parts sample_approved_def)
  have approval: "can p (save sample_env (sample_folder, ''approval.json'')
      (PDict (binding sample_dispatch sample_approval))) w () ?w1"
    using can_save[of "PDict (binding sample_dispatch sample_approval)" p
        "(sample_folder, ''approval.json'')" w w sample_env]
    by (simp add: binding_def sample_dispatch_parts sample_approval_def sample_http_request_def)
  from can_sample_receipt_dispatch[OF sample_state_facts(1) dirs] obtain w2 where
    w2: "can p (receipt_dispatch sample_env sample_client sample_dispatch sample_approval sample_state)
        ?w1 (attempted_state sample_dispatch sample_state ''t'', sample_evidence) w2"
      "wd_dirs w2 = wd_dirs ?w1" "wd_sends w2 = held_by p ?w1 # wd_sends ?w1" by blast
  have "\<exists>w'. can p (finish_dispatch sample_env sample_client sample_dispatch
        (attempted_state sample_dispatch sample_state ''t'') sample_evidence) w2
      (local_execution_result sample_approved sample_folder (Some sample_sent) False) w'
    \<and> wd_sends w' = wd_sends w2"
    by (rule can_sample_finish)
       (use dirs w2(2) sample_values[OF sample_state_facts(1)] sample_state_facts(2,3) in
          \<open>auto simp: attempted_state_def simp del: json_value.simps\<close>, simp)
  then obtain w' where finish: "can p (finish_dispatch sample_env sample_client sample_dispatch
        (attempted_state sample_dispatch sample_state ''t'') sample_evidence) w2
      (local_execution_result sample_approved sample_folder (Some sample_sent) False) w'"
    "wd_sends w' = wd_sends w2" by blast
  have "can p (dispatch_approved sample_env sample_client sample_dispatch sample_state) w
      (local_execution_result sample_approved sample_folder (Some sample_sent) False) w'"
    unfolding dispatch_approved_def sample_dispatch_parts
    by (rule can_bind[OF validate], unfold no_witness, rule can_bind[OF can_return],
        rule can_bind[OF approval], unfold option.case, rule can_bind[OF w2(1)])
       (simp only: prod.case finish(1))
  with finish(2) w2(3) show ?thesis
    by (auto simp: sync_journal_def held_by_def)
qed


text \<open>From the empty world the call sends its request once and returns the reported result.\<close>

lemma can_sample_settle:
  assumes "sample_folder \<in> wd_dirs w"
    and "h = replicate 64 (CHR ''b'')"
  shows "\<exists>w'. can p (settle_decision sample_env sample_client sample_dispatch (initial_state sample_request h)
        ''authorized'') w (local_execution_result sample_approved sample_folder (Some sample_sent) False) w'
    \<and> wd_sends w' = held_by p w # wd_sends w"
proof -
  let ?w1 = "sync_journal sample_folder (put_journal sample_folder (PDict sample_state) w)"
  have phase: "decided_phase sample_approved ''authorized'' = ''authorized''" "approved sample_approved"
    by (simp_all add: decided_phase_def approved_def sample_approved_def)
  have dirs: "sample_folder \<in> wd_dirs ?w1"
    using assms(1) by (simp add: sync_journal_def put_journal_def)
  have state: "merge_items (initial_state sample_request h) [(''phase'', PStr ''authorized''),
      (''authorization'', PDict (journal_authorization sample_approved))] = sample_state"
    by (simp only: assms(2) sample_state_def)
  obtain w' where run: "can p (dispatch_approved sample_env sample_client sample_dispatch sample_state) ?w1
      (local_execution_result sample_approved sample_folder (Some sample_sent) False) w'"
    and sends: "wd_sends w' = held_by p ?w1 # wd_sends ?w1"
    using can_sample_dispatch[OF dirs] by blast
  have "can p (settle_decision sample_env sample_client sample_dispatch (initial_state sample_request h)
        ''authorized'') w (local_execution_result sample_approved sample_folder (Some sample_sent) False) w'"
    unfolding settle_decision_def Let_def sample_dispatch_parts phase(1) state
    by (rule can_bind[OF can_save_journal[OF sample_state_facts(1) assms(1)]]) (simp add: phase(2) run)
  with sends show ?thesis by (auto simp: sync_journal_def put_journal_def held_by_def)
qed

lemma sample_request_hash:
  "hash_seal_value sample_env (PDict (request_dict sample_request)) = Inr (replicate 64 (CHR ''b''))"
  by code_simp

lemma can_lock:
  assumes "map_of (wd_locks w) f = None"
    and "can p body (w\<lparr>wd_locks := (f, p) # wd_locks w\<rparr>) x w1"
  shows "can p (operation_lock f body) w x (w1\<lparr>wd_locks := filter (\<lambda>l. l \<noteq> (f, p)) (wd_locks w1)\<rparr>)"
  unfolding operation_lock_def
  by (rule can_bind[OF can_unit], simp, rule can_finally[OF _ can_unit],
      rule can_bind[OF can_handle[OF can_unit]], simp add: assms(1), rule assms(2), simp)

lemma can_sample_new:
  assumes "map_of (wd_locks w) sample_folder = None" and "sample_folder \<in> wd_dirs w"
  shows "\<exists>w'. can p (run_new sample_env sample_client sample_call sample_request sample_private_headers
        sample_folder) w (local_execution_result sample_approved sample_folder (Some sample_sent) False) w'
    \<and> wd_sends w' = (sample_folder # held_by p w) # wd_sends w"
proof -
  let ?h = "replicate 64 (CHR ''b'')"
  let ?w1 = "sync_journal sample_folder
      (put_journal sample_folder (PDict (initial_state sample_request ?h)) w)"
  let ?w2 = "?w1\<lparr>wd_locks := (sample_folder, p) # wd_locks ?w1\<rparr>"
  have call: "hx_operation_id sample_call = ''op''" "hx_agent_token sample_call = PNone"
    by (simp_all add: sample_call_def)
  have initial: "json_value (PDict (initial_state sample_request ?h))"
    by (simp add: initial_state_def sample_request_def)
  obtain w' where settle: "can p (settle_decision sample_env sample_client sample_dispatch
        (initial_state sample_request ?h) ''authorized'') ?w2
      (local_execution_result sample_approved sample_folder (Some sample_sent) False) w'"
    and sends: "wd_sends w' = held_by p ?w2 # wd_sends ?w2"
    using can_sample_settle[of ?w2 ?h p] assms(2) by (auto simp: sync_journal_def put_journal_def)
  have lock: "can p (operation_lock sample_folder
      (bindp (prepare_execution sample_env sample_client sample_request ''op'' PNone) (\<lambda>r.
        settle_decision sample_env sample_client
          (dispatch_of sample_call sample_request sample_private_headers sample_folder r)
          (initial_state sample_request ?h) ''authorized''))) ?w1
      (local_execution_result sample_approved sample_folder (Some sample_sent) False)
      (w'\<lparr>wd_locks := filter (\<lambda>l. l \<noteq> (sample_folder, p)) (wd_locks w')\<rparr>)"
    by (rule can_lock, use assms(1) in \<open>simp add: sync_journal_def put_journal_def\<close>,
        rule can_bind[OF can_sample_prepare], fold sample_dispatch_def, rule settle)
  have "can p (run_new sample_env sample_client sample_call sample_request sample_private_headers
        sample_folder) w (local_execution_result sample_approved sample_folder (Some sample_sent) False)
      (w'\<lparr>wd_locks := filter (\<lambda>l. l \<noteq> (sample_folder, p)) (wd_locks w')\<rparr>)"
    unfolding run_new_def call
    by (rule can_bind[OF can_Done[OF sample_request_hash]],
        rule can_bind[OF can_save_journal[OF initial assms(2)]], rule lock)
  with sends show ?thesis by (auto simp: held_by_def sync_journal_def put_journal_def)
qed

lemma can_sample_run:
  "\<exists>w'. can p (execute_http sample_env sample_client sample_call) fresh_world
      (local_execution_result sample_approved sample_folder (Some sample_sent) False) w'
    \<and> wd_sends w' = [[sample_folder]]"
proof -
  let ?x = "sample_request\<lparr>xr_client_timestamp := PNone\<rparr>\<lparr>xr_client_timestamp := PStr ''t''\<rparr>"
  let ?w0 = "fresh_world\<lparr>wd_dirs := insert sample_folder (wd_dirs fresh_world)\<rparr>"
  have x: "?x = sample_request" by (simp add: sample_request_def)
  have call: "hx_operation_id sample_call = ''op''" by (simp add: sample_call_def)
  have mkdir: "replay_step p (Mkdir sample_folder) A_Unit fresh_world = Some ?w0"
    by (simp add: fresh_world_def)
  obtain w' where run: "can p (run_new sample_env sample_client sample_call sample_request
        sample_private_headers sample_folder) ?w0
      (local_execution_result sample_approved sample_folder (Some sample_sent) False) w'"
    and sends: "wd_sends w' = [[sample_folder]]"
    using can_sample_new[of ?w0 p] by (auto simp: fresh_world_def held_by_def)
  have "can p (execute_http sample_env sample_client sample_call) fresh_world
      (local_execution_result sample_approved sample_folder (Some sample_sent) False) w'"
    unfolding execute_http_def call
    by (rule can_bind[OF can_Done[OF sample_call_accepted]], simp only: prod.case,
        rule can_bind[OF can_str[where s = "''t''"]], simp, simp only: Let_def,
        rule can_bind[OF can_str[where s = "''/d''"]], simp, fold sample_folder_def, simp only: x,
        rule can_bind[OF can_bool[where b = False]], simp, simp only: if_False,
        rule can_bind[OF can_unit], simp,
        rule can_bind[OF can_handle[OF can_unit[OF mkdir]]],
        fold sample_private_headers_def, rule run)
  with sends show ?thesis by blast
qed

lemma sample_run_reachable:
  "\<exists>P w. reachable (P, w) \<and> sends_for sample_folder w = 1"
proof -
  obtain w as where "replay 0 (events (execute_http sample_env sample_client sample_call) as) fresh_world
      = Some w" and "wd_sends w = [[sample_folder]]"
    using can_sample_run[of 0] by (auto simp: can_def)
  with replay_call_reachable[OF is_call.execute] show ?thesis
    by (metis (no_types) filter.simps length_Cons list.size(3) One_nat_def list.set_intros(1) sends_for_def)
qed

theorem at_most_one_send_witness:
  "\<exists>P w. reachable (P, w) \<and> sends_for sample_folder w = 1 \<and> sends_for ''other'' w \<le> 1
     \<and> (\<forall>s \<in> set (wd_sends w). length s = 1)"
  using sample_run_reachable at_most_one_send by blast

theorem sent_is_recorded_witness:
  "\<exists>P w v. reachable (P, w) \<and> wd_disk w sample_folder = Some v \<and> recorded v \<and> \<not> resumable v"
proof -
  obtain P w where "reachable (P, w)" "sends_for sample_folder w = 1"
    using sample_run_reachable by blast
  with sent_is_recorded[of P w sample_folder] show ?thesis by fastforce
qed

end
