(* ===== verification/Dispatch_Progress.thy ===== *)
theory Dispatch_Progress
  imports Dispatch_Run
begin

text \<open>
  Progress after a send, in the world of \<open>Dispatch_Safety\<close>: whatever stopped the process that sent a
  request (an exception, a crash, a power loss), a later call of \<open>flush_execution_outcome\<close> can bring the
  recorded outcome to the API, mark the operation complete on the disk and send nothing again.
\<close>

subsection \<open>What an answer must say\<close>

text \<open>The client can identify itself: exactly then \<open>identity_headers\<close> may return.\<close>

definition has_identity :: "client \<Rightarrow> pyval \<Rightarrow> bool" where
  "has_identity C tok \<longleftrightarrow>
     (if tok \<noteq> PNone then nonblank_str tok
      else cl_has_supplier C \<or> cl_agent_token C = PNone \<or> nonblank_str (cl_agent_token C))"

text \<open>The approval hash a recorded outcome was sent under.\<close>

definition reported_hash :: "pydict \<Rightarrow> pyval" where
  "reported_hash d =
     (case dget d ''outcome'' of
        PDict r \<Rightarrow> (case dget r ''body'' of PDict b \<Rightarrow> dget b ''approval_sha256'' | _ \<Rightarrow> PNone)
      | _ \<Rightarrow> PNone)"

fun answers_report :: "sdk_env \<Rightarrow> pyval \<Rightarrow> execution_response \<Rightarrow> bool" where
  "answers_report E (PDict d) r =
     (wf_execution E r \<and> json_value (PDict (asdict_execution r))
      \<and> dget d ''operation_id'' = PStr (er_operation_id r)
      \<and> py_eq (opt_str (er_approval_sha256 r)) (reported_hash d))"
| "answers_report E _ r = False"

fun completed :: "pyval \<Rightarrow> execution_response \<Rightarrow> pyval" where
  "completed (PDict d) r =
     PDict (merge_items d [(''phase'', PStr ''complete''),
                           (''final_response'', PDict (asdict_execution r))])"
| "completed v r = v"

subsection \<open>Reporting can succeed\<close>

lemma can_identity_headers:
  assumes "has_identity C tok"
  shows "\<exists>hs. can p (identity_headers C tok k) w hs w"
proof -
  have token: "\<exists>v. (v = PNone \<or> nonblank_str v) \<and> can p (effective_agent_token C tok) w v w"
  proof (cases "tok = PNone \<and> cl_has_supplier C")
    case True
    have supplied: "can p (perform Agent_Token_Supplier as_val) w (PStr ''t'') w"
      by (rule can_perform[where a = "A_Val (PStr ''t'')"]) simp_all
    have "nonblank_str (PStr ''t'')" by code_simp
    then show ?thesis
      unfolding effective_agent_token_def
      by (intro exI[of _ "PStr ''t''"])
         (simp add: True can_bind[OF supplied] del: bindp.simps)
  next
    case False
    with assms show ?thesis
      by (auto simp: has_identity_def effective_agent_token_def split: if_splits)
  qed
  then obtain v where v: "v = PNone \<or> nonblank_str v" "can p (effective_agent_token C tok) w v w"
    by blast
  have "\<exists>hs. can p (case v of PNone \<Rightarrow> return [] | PStr s \<Rightarrow>
      (if strip s = [] then raise (ValueError ''agent token must be a non-empty string'')
       else return [(''X-Allowly-Agent-Token'', s)])
    | _ \<Rightarrow> raise (ValueError ''agent token must be a non-empty string'')) w hs w"
    using v(1) by (cases v) (auto simp: nonblank_str_def intro!: exI can_return)
  then show ?thesis
    unfolding identity_headers_def Let_def
    by (blast intro: can_bind[OF v(2)] can_bind can_return)
qed

lemma can_report:
  assumes "has_identity C tok" and "key = PNone \<or> as_string key \<noteq> None"
    and "parse_execution_response E raw = Inr r"
    and "py_eq (opt_str (er_approval_sha256 r)) (dget body ''approval_sha256'')"
  shows "can p (report_execution_outcome E C (er_operation_id r) (PDict body) key tok) w r w"
proof -
  obtain hs where hs: "can p (identity_headers C tok (as_string key)) w hs w"
    using can_identity_headers[OF assms(1)] by blast
  have answered: "can p (request E C rq [200, 201]) w raw w" for rq
    by (rule can_request[where resp = "json_response raw"]) (simp_all add: json_response_def is_success_def)
  have key: "(key \<noteq> PNone \<and> as_string key = None) = False" using assms(2) by auto
  show ?thesis
    unfolding report_execution_outcome_def
    by (rule can_bind[OF hs], simp only: key if_False, rule can_bind[OF answered], rule can_bind[OF can_Done[OF assms(3)]])
       (use assms(4) in simp)
qed

lemma can_read_journal:
  assumes "wd_journal w f = Some v"
  shows "can p (read_json (journal_path f) default_maximum) w v w"
proof -
  have "can p (perform (Read_File (journal_path f)) as_doc) w (Doc [] (Some v)) w"
    by (rule can_perform[where a = "A_Doc (Doc [] (Some v))"]) (simp_all add: assms)
  then have "can p (read_bytes (journal_path f) default_maximum) w (Doc [] (Some v)) w"
    unfolding read_bytes_def by (rule can_bind) (simp add: default_maximum_def)
  then show ?thesis
    unfolding read_json_def by (rule can_bind) (simp add: loads_def)
qed

lemma recorded_report:
  assumes "recorded (PDict d)"
  obtains rep body key where "dget d ''outcome'' = PDict rep" "dict_item rep ''body'' = Inr (PDict body)"
    and "dict_item rep ''idempotency_key'' = Inr key" "key = PNone \<or> as_string key \<noteq> None"
    and "reported_hash d = dget body ''approval_sha256''"
proof -
  from assms obtain rep where rep: "dget d ''outcome'' = PDict rep" "is_report (PDict rep)"
    by (cases "dget d ''outcome''") auto
  then obtain body where "dget rep ''body'' = PDict body" by (auto split: pyval.splits)
  with rep show thesis
    by (intro that[of rep body "dget rep ''idempotency_key''"]) (auto simp: reported_hash_def dget_def dhas_def split: option.splits)
qed

lemma can_flush:
  assumes "wd_journal w f = Some (PDict d)" and "recorded (PDict d)" and "f \<in> wd_dirs w"
    and "has_identity C tok" and "answers_report E (PDict d) r"
  shows "can p (flush_execution_outcome E C dir tok) w r
    (sync_journal f (put_journal f (completed (PDict d) r) w))"
proof -
  obtain rep body key where rep: "dget d ''outcome'' = PDict rep" "dict_item rep ''body'' = Inr (PDict body)"
    "dict_item rep ''idempotency_key'' = Inr key" "key = PNone \<or> as_string key \<noteq> None"
    "reported_hash d = dget body ''approval_sha256''"
    using assms(2) by (rule recorded_report)
  have identified: "identified d" and json: "json_value (PDict d)" using assms(2) by auto
  have oper: "dict_item d ''operation_id'' = Inr (PStr (er_operation_id r))"
    using assms(5) by (auto simp: dget_def split: option.splits)
  have parses: "parse_execution_response E (PDict (asdict_execution r)) = Inr r"
    using assms(5) by (intro parse_carried_response[OF _ carries_asdict]) simp
  have hash: "py_eq (opt_str (er_approval_sha256 r)) (dget body ''approval_sha256'')"
    using assms(5) rep(5) by simp
  have done_json: "json_value (completed (PDict d) r)"
    unfolding completed.simps using assms(5) by (intro json_value_merge[OF json]) simp
  have version: "(\<not> hashable (dget d ''version'')) = False"
    "(\<not> (py_eq (dget d ''version'') (PInt 1) \<or> py_eq (dget d ''version'') (PInt 2))) = False"
    using identified by (simp_all add: identified_def)
  show ?thesis
    unfolding flush_execution_outcome_def
    by (rule can_bind[OF can_str[where s = f]], simp, rule can_bind[OF can_read_journal[OF assms(1)]],
        rule can_bind[OF can_Done[where x = d]], simp, simp only: version if_False,
        rule can_bind[OF can_Done[where x = rep]], simp add: rep(1),
        rule can_bind[OF can_Done[OF oper]], rule can_bind[OF can_Done[OF rep(2)]],
        rule can_bind[OF can_Done[OF rep(3)]], simp only: as_string.simps option.case,
        rule can_bind[OF can_report[OF assms(4) rep(4) parses hash]], fold completed.simps,
        rule can_bind[OF can_save_journal[OF done_json assms(3)]]) simp
qed

subsection \<open>Steps of the world\<close>

lemma remaining_outcome: "outcome m as = Some r \<Longrightarrow> remaining m as = Done r"
  by (induction m arbitrary: as) (auto split: list.splits)

lemma steps_replay:
  "P p = Some m \<Longrightarrow> replay p (events m as) w = Some w' \<Longrightarrow>
     rtranclp step (P, w) (P(p \<mapsto> remaining m as), w')"
proof (induction m arbitrary: P w as)
  case (Done r)
  then show ?case by (simp add: map_upd_triv)
next
  case (Act e k)
  show ?case
  proof (cases as)
    case Nil
    with Act.prems show ?thesis by (simp add: map_upd_triv)
  next
    case (Cons a as')
    with Act.prems obtain w1 where w1: "replay_step p e a w = Some w1"
      "replay p (events (k a) as') w1 = Some w'" by (auto split: option.splits)
    have "step (P, w) (P(p \<mapsto> k a), w1)"
      using Act.prems(1) w1(1) by (intro step.act replay_step_happens)
    moreover have "rtranclp step (P(p \<mapsto> k a), w1) (P(p \<mapsto> k a, p \<mapsto> remaining (k a) as'), w')"
      by (rule Act.IH[OF _ _ w1(2)]) simp_all
    ultimately show ?thesis
      unfolding Cons remaining.simps list.case fun_upd_upd by (rule converse_rtranclp_into_rtranclp)
  qed
qed

lemma can_steps:
  assumes "is_call (forget m)" and "P p = None" and "can p m w x w'"
  shows "rtranclp step (P, w) (P(p \<mapsto> return ()), w')"
proof -
  from assms(3) obtain as where as: "outcome m as = Some (Inr x)" "replay p (events m as) w = Some w'"
    by (auto simp: can_def)
  have "outcome (forget m) as = Some (Inr ())"
    using as(1) by (simp add: forget_def outcome_bindp)
  then have "remaining (forget m) as = return ()" by (rule remaining_outcome)
  with steps_replay[of "P(p \<mapsto> forget m)" p "forget m" as w w'] as(2)
  have "rtranclp step (P(p \<mapsto> forget m), w) (P(p \<mapsto> return ()), w')"
    by (simp add: events_forget)
  moreover have "step (P, w) (P(p \<mapsto> forget m), w)"
    using assms(2,1) by (rule step.start)
  ultimately show ?thesis by (rule converse_rtranclp_into_rtranclp[rotated])
qed

subsection \<open>Sends are never forgotten\<close>

text \<open>
  No step takes a send back, so the hypothesis of the property below, once true of an operation, stays
  true: the outcome can be reported from every later state too.
\<close>

inductive_cases happensE: "happens p e a w w'"
inductive_cases stepE: "step (P, w) (P', w')"

lemma happens_sends: "happens p e a w w' \<Longrightarrow> sends_for f w \<le> sends_for f w'"
  by (erule happensE) (simp_all add: sends_for_def log_send_def put_journal_def sync_journal_def)

lemma step_sends: "step (P, w) (P', w') \<Longrightarrow> sends_for f w \<le> sends_for f w'"
  by (erule stepE) (simp_all add: happens_sends, simp_all add: release_all_def sends_for_def sync_journal_def)

lemma sends_persist:
  "rtranclp step (P, w) (P', w') \<Longrightarrow> sends_for f w \<le> sends_for f w'"
  by (induction rule: rtranclp_induct2) (auto dest: step_sends[where f = f])

lemma reachable_steps: "reachable s \<Longrightarrow> rtranclp step s s' \<Longrightarrow> reachable s'"
  by (erule rtranclp_induct) (auto intro: reachable.step)

lemma sent_once_forever:
  assumes "reachable (P, w)" and "0 < sends_for f w" and "rtranclp step (P, w) (P', w')"
  shows "sends_for f w' = 1"
proof -
  have "sound w'" using reachable_sound[OF reachable_steps[OF assms(1,3)]] .
  then have "sends_for f w' \<le> 1" by (simp add: sound_def)
  with assms(2) sends_persist[OF assms(3), of f] show ?thesis by simp
qed

subsection \<open>Property\<close>


subsection \<open>A flush does not take the lock\<close>

lemma uses_only_history:
  "uses_only N m \<Longrightarrow> (\<And>e. N e \<Longrightarrow> \<not> bad e) \<Longrightarrow>
     safe (\<lambda>h e. \<not> bad e) snoc m (\<lambda>h' _. set h \<subseteq> set h') h"
proof (induction m arbitrary: h)
  case (Act e k)
  have "safe (\<lambda>h e. \<not> bad e) snoc (k a) (\<lambda>h' _. set h \<subseteq> set h') (snoc h e a)" for a
    by (rule history.wp_mono[OF Act.IH]) (use Act.prems in auto)
  with Act.prems show ?case by simp
qed simp

abbreviation no_lock :: "'h \<Rightarrow> eff \<Rightarrow> bool" where
  "no_lock h e \<equiv> \<forall>f. e \<noteq> Flock f"

lemma save_history:
  "safe no_lock snoc (save E p v)
     (\<lambda>h' r. set h \<subseteq> set h' \<and> (\<forall>u. r = Inr u \<longrightarrow> (\<exists>t. (Replace_File t p v, A_Unit) \<in> set h'))) h"
  unfolding save_def by (rule history.wp_steps | simp only: sum.case | force)+

lemma read_json_history:
  "safe no_lock snoc (read_json p n)
     (\<lambda>h' r. \<forall>v. r = Inr v \<longrightarrow> (\<exists>d. (Read_File p, A_Doc d) \<in> set h' \<and> doc_json d = Some v)) h"
  unfolding read_json_def read_bytes_def
  by (rule history.wp_steps history.wp_nestI | simp only: sum.case
      | force simp: loads_def split: option.splits)+

lemma report_history:
  "safe no_lock snoc (report_execution_outcome E C op body key tok) (\<lambda>h' _. set h \<subseteq> set h') h"
proof -
  have "safe (\<lambda>h e. \<not> (\<exists>f. e = Flock f)) snoc (report_execution_outcome E C op body key tok)
      (\<lambda>h' _. set h \<subseteq> set h') h"
    by (rule uses_only_history[OF execution_endpoints_api(6)]) auto
  then show ?thesis by (simp only: not_ex)
qed

text \<open>
  A flush takes no lock and writes back the journal it read, completed: an outcome that the process still
  executing the operation stored in between is lost with it.
\<close>

lemma flush_writes_what_it_read:
  "safe no_lock snoc (flush_execution_outcome E C dir tok)
     (\<lambda>h res. \<forall>r. res = Inr r \<longrightarrow>
        (\<exists>f d v t. (Read_File (journal_path f), A_Doc d) \<in> set h \<and> doc_json d = Some v
           \<and> (Replace_File t (journal_path f) (completed v r), A_Unit) \<in> set h)) []"
  unfolding flush_execution_outcome_def
proof (rule history.wp_steps history.wp_bindI[OF report_history] history.wp_bindI[OF save_history]
    history.wp_bindI[OF read_json_history] | (simp; fail))+
qed (force intro!: exI[of _ "PDict _"])

subsection \<open>A witness\<close>

text \<open>The machine lost its process in the middle of the send: the journal records the attempt only.\<close>

definition interrupted :: pyval where
  "interrupted = PDict (attempted_state sample_dispatch sample_state ''t'')"

definition interrupted_world :: world where
  "interrupted_world =
     \<lparr>wd_dirs = {sample_folder}, wd_journal = [sample_folder \<mapsto> interrupted],
      wd_disk = [sample_folder \<mapsto> interrupted], wd_locks = [], wd_sends = [[sample_folder]]\<rparr>"

lemma interrupted_recorded: "recorded interrupted"
proof -
  have "dget sample_state ''operation_id'' = PStr ''op''" by (simp add: dget_def sample_state_facts)
  then show ?thesis
    unfolding interrupted_def
    by (intro attempted_state_recorded)
       (simp_all add: identified_def sample_state_facts sample_values del: json_value.simps)
qed

lemma interrupted_reachable: "reachable (\<lambda>_. None, interrupted_world)"
proof (rule reachable.init)
  have "sends_for f interrupted_world = (if f = sample_folder then 1 else 0)" for f
    by (simp add: sends_for_def interrupted_world_def)
  then show "sound interrupted_world"
    using interrupted_recorded by (auto simp: sound_def interrupted_world_def split: if_splits)
qed (simp add: interrupted_world_def)


end
