(* ===== verification/Dispatch_Spec.thy ===== *)
theory Dispatch_Spec
  imports Dispatch_Progress
begin

text \<open>
  What the local executions promise, as an abstract machine without journals, locks or processes: an
  operation is unsent until it is sent, once, and it is sent only when the log on the disk already says so.
  The world of \<open>Dispatch_Safety\<close> refines it step by step.
\<close>

subsection \<open>The specification\<close>

text \<open>The state is the log on the disk (which operations have a recorded attempt) and what was sent.\<close>

record ledger =
  lg_logged :: "string set"
  lg_sent :: "string set"

inductive promises :: "ledger \<Rightarrow> ledger \<Rightarrow> bool" where
  log: "lg_sent s \<subseteq> logged \<Longrightarrow> promises s (s\<lparr>lg_logged := logged\<rparr>)"
| send: "f \<in> lg_logged s \<Longrightarrow> f \<notin> lg_sent s \<Longrightarrow> promises s (s\<lparr>lg_sent := insert f (lg_sent s)\<rparr>)"

definition ledger_of :: "world \<Rightarrow> ledger" where
  "ledger_of w = \<lparr>lg_logged = {f. recorded_in (wd_disk w f)}, lg_sent = {f. 0 < sends_for f w}\<rparr>"

subsection \<open>The world refines it\<close>

lemma happens_log:
  "happens p e a w w' \<Longrightarrow>
     wd_sends w' = wd_sends w \<or> (wd_disk w' = wd_disk w \<and> (\<exists>s. wd_sends w' = s # wd_sends w))"
  by (erule happensE) (simp_all add: log_send_def put_journal_def sync_journal_def)

lemma step_log:
  "step (P, w) (P', w') \<Longrightarrow>
     wd_sends w' = wd_sends w \<or> (wd_disk w' = wd_disk w \<and> (\<exists>s. wd_sends w' = s # wd_sends w))"
  by (erule stepE) (simp_all add: happens_log release_all_def sync_journal_def)

lemma sends_for_Cons:
  "wd_sends w' = [f] # wd_sends w \<Longrightarrow> sends_for g w' = (if g = f then Suc (sends_for f w) else sends_for g w)"
  by (simp add: sends_for_def)

lemma new_send_refines:
  assumes "sound w'" and "wd_disk w' = wd_disk w" and "wd_sends w' = s # wd_sends w"
  shows "promises (ledger_of w) (ledger_of w')"
proof -
  from assms(1,3) obtain f where s: "s = [f]" by (auto simp: sound_def)
  note count = sends_for_Cons[OF assms(3)[unfolded s]]
  have "sends_for f w' \<le> 1" "0 < sends_for f w' \<longrightarrow> recorded_in (wd_disk w' f)"
    using assms(1) by (simp_all add: sound_def)
  then have "f \<notin> lg_sent (ledger_of w)" "f \<in> lg_logged (ledger_of w)"
    using assms(2) count[of f] by (simp_all add: ledger_of_def)
  moreover have "ledger_of w' = ledger_of w\<lparr>lg_sent := insert f (lg_sent (ledger_of w))\<rparr>"
    using assms(2) count by (auto simp: ledger_of_def)
  ultimately show ?thesis using promises.send[of f "ledger_of w"] by simp
qed

lemma logged_refines:
  assumes "sound w'" and "wd_sends w' = wd_sends w"
  shows "promises (ledger_of w) (ledger_of w')"
proof -
  have sends: "sends_for f w' = sends_for f w" for f using assms(2) by (simp add: sends_for_def)
  have "ledger_of w' = ledger_of w\<lparr>lg_logged := lg_logged (ledger_of w')\<rparr>"
    by (simp add: ledger_of_def sends)
  moreover have "lg_sent (ledger_of w) \<subseteq> lg_logged (ledger_of w')"
    using assms(1) by (auto simp: ledger_of_def sound_def sends)
  ultimately show ?thesis using promises.log[of "ledger_of w"] by metis
qed

text \<open>
  C4: write-ahead. Every step of the world, whichever process makes it and whatever fails, is a step of
  the abstract ledger: an operation is sent only when its attempt is recorded on the disk, only when it was
  not sent before, one operation at a time, and the record of a sent operation is never lost.
\<close>

theorem dispatch_refines_ledger:
  assumes "reachable (P, w)" and "step (P, w) (P', w')"
  shows "promises (ledger_of w) (ledger_of w')"
proof -
  have "sound w'" using reachable_sound[OF reachable.step[OF assms]] .
  with step_log[OF assms(2)] logged_refines new_send_refines show ?thesis by metis
qed

theorem dispatch_refines_ledger_witness:
  "promises (ledger_of interrupted_world) (ledger_of (sync_journal sample_folder interrupted_world))"
  using dispatch_refines_ledger[OF interrupted_reachable step.write_back] .

end
