(* ===== verification/Client_Methods.thy ===== *)
theory Client_Methods
  imports Execution
begin

text \<open>
  The methods of \<open>Allowly\<close> that hand their arguments to \<open>allowly/execution.py\<close>, with the defaults of their
  keyword arguments. A call with the defaults is a \<open>GET\<close> without headers or body, with a decision receipt
  and thirty seconds for the provider.
\<close>

definition http_call_defaults ::
  "string \<Rightarrow> string \<Rightarrow> string \<Rightarrow> string \<Rightarrow> string \<Rightarrow> string \<Rightarrow> http_call" where
  "http_call_defaults url operation_id authorization_id enabled_executable_id catalog_operation_id action =
     \<lparr>hx_url = url, hx_operation_id = operation_id, hx_authorization_id = authorization_id,
      hx_enabled_executable_id = enabled_executable_id, hx_catalog_operation_id = catalog_operation_id,
      hx_action = action, hx_method = ''GET'', hx_headers = [], hx_body = PStr [],
      hx_evidence_mode = ''receipt'', hx_policy_input = [], hx_storage_dir = ''.allowly/executions'',
      hx_agent_token = PNone, hx_native_binary = None, hx_trusted_notary_key = None, hx_timeout = Fin 30\<rparr>"

definition client_execute_http :: "sdk_env \<Rightarrow> client \<Rightarrow> http_call \<Rightarrow> local_result prog" where
  "client_execute_http E C c = execute_http E C c"

definition client_continue_http_execution :: "sdk_env \<Rightarrow> client \<Rightarrow> http_call \<Rightarrow> local_result prog" where
  "client_continue_http_execution E C c = continue_http_execution E C c"

definition client_flush_execution_outcome ::
  "sdk_env \<Rightarrow> client \<Rightarrow> string \<Rightarrow> pyval \<Rightarrow> execution_response prog" where
  "client_flush_execution_outcome E C operation_dir agent_token =
     flush_execution_outcome E C operation_dir agent_token"

lemma default_call_request:
  assumes "http_execution_request E (http_call_defaults url op auth executable catalog act) = Inr (x, hs)"
  shows "hs = [] \<and> xr_operation_id x = op \<and> xr_authorization_id x = auth \<and> xr_evidence_mode x = ''receipt''
    \<and> dget (xr_http_request x) ''method'' = PStr ''GET'' \<and> dget (xr_http_request x) ''headers'' = PList []
    \<and> dget (xr_http_request x) ''body_size'' = PInt 0"
proof -
  have get: "str_upper ''GET'' = ''GET''" by code_simp
  from assms show ?thesis
    unfolding http_execution_request_def http_call_defaults_def http_request_of_def
    by (auto simp: get request_descriptor_of_def utf8_def Let_def split: if_splits option.splits elim!: result_elims)
qed

end
