(* ===== verification/Receipt_Verify.thy ===== *)
theory Receipt_Verify
  imports Sdk_Effects
begin

text \<open>
  The functions of \<open>allowly/verify.py\<close> that hand their arguments to the package \<open>allowly-receipt-format\<close>:
  \<open>decode_receipt\<close>, \<open>verify_receipt\<close>, \<open>verify_seal_json\<close> and \<open>verify_seal_value\<close>. The package is a
  parameter; its verification may read the clock, so it is a program. The types of the two seal functions
  differ in the record: JSON text or bytes, or a value.
\<close>

record verification =
  vf_expected_workspace_id :: string
  vf_trusted_key_fingerprints :: "string list option"
  vf_now :: "int option"

record receipt_format =
  rf_decode_receipt :: "pyval \<Rightarrow> pydict res"
  rf_verify_receipt :: "pyval \<Rightarrow> pyval list \<Rightarrow> verification \<Rightarrow> pydict prog"
  rf_verify_seal_json :: "string \<Rightarrow> pyval \<Rightarrow> pyval list \<Rightarrow> verification \<Rightarrow> pyval prog"
  rf_verify_seal_value :: "pyval \<Rightarrow> pyval \<Rightarrow> pyval list \<Rightarrow> verification \<Rightarrow> pyval prog"

text \<open>The keyword arguments with their defaults.\<close>

definition verification_of :: "string \<Rightarrow> verification" where
  "verification_of expected_workspace_id =
     \<lparr>vf_expected_workspace_id = expected_workspace_id, vf_trusted_key_fingerprints = None, vf_now = None\<rparr>"

definition read_receipt_claims :: "receipt_format \<Rightarrow> pyval \<Rightarrow> pydict res" where
  "read_receipt_claims R receipt = rf_decode_receipt R receipt"

definition verify_receipt ::
  "receipt_format \<Rightarrow> pyval \<Rightarrow> pyval list \<Rightarrow> verification \<Rightarrow> pydict prog" where
  "verify_receipt R receipt public_keys vf = rf_verify_receipt R receipt public_keys vf"

definition verify_seal_json ::
  "receipt_format \<Rightarrow> string \<Rightarrow> pyval \<Rightarrow> pyval list \<Rightarrow> verification \<Rightarrow> pyval prog" where
  "verify_seal_json R raw_json receipt public_keys vf = rf_verify_seal_json R raw_json receipt public_keys vf"

definition verify_seal_value ::
  "receipt_format \<Rightarrow> pyval \<Rightarrow> pyval \<Rightarrow> pyval list \<Rightarrow> verification \<Rightarrow> pyval prog" where
  "verify_seal_value R value receipt public_keys vf = rf_verify_seal_value R value receipt public_keys vf"

end
