(* ===== verification/Json_Text.thy ===== *)
theory Json_Text
  imports Sdk_Effects
begin

text \<open>
  What the SDK does with the tree \<open>json.loads\<close> builds from a text: without hooks the last of
  several members with one name wins (\<open>collapse\<close>); with \<open>_unique_object\<close> and \<open>_invalid_constant\<close>
  of \<open>allowly/resolution_webhook.py\<close> a repeated name, \<open>NaN\<close> and the infinities are refused.
\<close>

fun collapse :: "pyval \<Rightarrow> pyval" where
  "collapse (PList xs) = PList (map collapse xs)"
| "collapse (PDict kvs) = PDict (merge_items [] (map (\<lambda>(k, v). (k, collapse v)) kvs))"
| "collapse v = v"

definition loads_text :: "sdk_env \<Rightarrow> string \<Rightarrow> pyval option" where
  "loads_text E text = map_option collapse (json_tree E text)"

fun unique_object :: "pyval \<Rightarrow> bool" where
  "unique_object (PList xs) = (\<forall>x \<in> set xs. unique_object x)"
| "unique_object (PDict kvs) =
     (distinct (map fst kvs) \<and> (\<forall>(k, v) \<in> set kvs. unique_object v))"
| "unique_object _ = True"

fun invalid_constant :: "pyval \<Rightarrow> bool" where
  "invalid_constant (PFloat x) = (x = Nan \<or> x = Pos_Inf \<or> x = Neg_Inf)"
| "invalid_constant (PList xs) = (\<exists>x \<in> set xs. invalid_constant x)"
| "invalid_constant (PDict kvs) = (\<exists>(k, v) \<in> set kvs. invalid_constant v)"
| "invalid_constant _ = False"

definition loads_strict :: "sdk_env \<Rightarrow> string \<Rightarrow> pyval option" where
  "loads_strict E text =
     (case json_tree E text of
        None \<Rightarrow> None
      | Some t \<Rightarrow> if unique_object t \<and> \<not> invalid_constant t then Some t else None)"

lemma merge_items_Nil_distinct: "distinct (map fst d) \<Longrightarrow> merge_items [] d = d"
  using merge_items_disjoint[of d "[]"] by simp

lemma collapse_unique: "unique_object t \<Longrightarrow> collapse t = t"
proof (induction t rule: collapse.induct)
  case (1 xs)
  then show ?case by (auto intro: map_idI)
next
  case (2 kvs)
  then have "map (\<lambda>(k, v). (k, collapse v)) kvs = kvs" by (auto intro!: map_idI)
  with 2 show ?case by (simp add: merge_items_Nil_distinct)
qed auto

text \<open>A strict parse is an ordinary parse of a text that says each thing once.\<close>

lemma loads_strict_text: "loads_strict E text = Some v \<Longrightarrow> loads_text E text = Some v"
  by (auto simp: loads_strict_def loads_text_def collapse_unique split: option.splits if_splits)

end
