(* ===== verification/Policies.thy ===== *)
theory Policies
  imports Json_Text Execution_Api
begin

text \<open>
  \<open>allowly/policies.py\<close>: the strict readers of policy documents, \<open>parse_policy_reference\<close>,
  \<open>validate_policy_definition\<close>, \<open>parse_policy_evaluation\<close>, and the policies resource of the client.
  A document is what its canonical JSON text reads back as; a policy is only accepted with the
  SHA-256 of the canonical text of its definition.
\<close>

subsection \<open>Bounded readers\<close>

definition max_safe_integer :: int where
  "max_safe_integer = 2 ^ 53 - 1"

fun document_error :: "exn \<Rightarrow> bool" where
  \<comment> \<open>\<open>except (VerificationError, ValueError, TypeError, UnicodeError, RecursionError)\<close>\<close>
  "document_error (VerificationError _) = True"
| "document_error (TypeError _) = True"
| "document_error RecursionError = True"
| "document_error e = is_value_error e"

definition document_refused :: "string \<Rightarrow> exn" where
  "document_refused name =
     ProtocolError (name @ '' must be bounded canonical JSON with safe integers'')"

definition policy_document :: "sdk_env \<Rightarrow> pyval \<Rightarrow> string \<Rightarrow> int \<Rightarrow> pyval res" where
  "policy_document E v name limit =
     (case v of
        PDict _ \<Rightarrow>
          (case canonicalize E v of
             Inl e \<Rightarrow> Inl (if document_error e then document_refused name else e)
           | Inr encoded \<Rightarrow>
               (if limit < int (length encoded) then Inl (document_refused name)
                else case loads_text E encoded of
                  None \<Rightarrow> Inl (document_refused name)
                | Some w \<Rightarrow> Inr w))
      | _ \<Rightarrow> Inl (ProtocolError (name @ '' must be an object'')))"

definition definition_limit :: int where
  "definition_limit = 65536"

definition policy_keys ::
  "pyval \<Rightarrow> string list \<Rightarrow> string \<Rightarrow> string list \<Rightarrow> pydict res" where
  "policy_keys v required name optional =
     (case v of
        PDict d \<Rightarrow>
          (if set required \<subseteq> set (keys_of d) \<and> set (keys_of d) \<subseteq> set required \<union> set optional
           then Inr d
           else Inl (ProtocolError (name @ '' has missing or unknown fields'')))
      | _ \<Rightarrow> Inl (ProtocolError (name @ '' has missing or unknown fields'')))"

definition policy_text :: "pyval \<Rightarrow> string \<Rightarrow> nat \<Rightarrow> string res" where
  "policy_text v name maximum =
     (case v of
        PStr s \<Rightarrow>
          (if 1 \<le> length s \<and> length s \<le> maximum then Inr s
           else Inl (ProtocolError (name @ '' must be a nonempty bounded string'')))
      | _ \<Rightarrow> Inl (ProtocolError (name @ '' must be a nonempty bounded string'')))"

definition optional_text :: "pyval \<Rightarrow> string \<Rightarrow> nat \<Rightarrow> string option res" where
  \<comment> \<open>\<open>if v is not None: _text(v, name, maximum)\<close>\<close>
  "optional_text v name maximum =
     (if v = PNone then Inr None else bindr (policy_text v name maximum) (\<lambda>s. Inr (Some s)))"

definition policy_integer :: "pyval \<Rightarrow> string \<Rightarrow> int \<Rightarrow> int \<Rightarrow> int res" where
  "policy_integer v name minimum maximum =
     (case v of
        PInt i \<Rightarrow>
          (if minimum \<le> i \<and> i \<le> maximum then Inr i
           else Inl (ProtocolError (name @ '' must be a bounded safe integer'')))
      | _ \<Rightarrow> Inl (ProtocolError (name @ '' must be a bounded safe integer'')))"

definition policy_strings :: "pyval \<Rightarrow> string \<Rightarrow> nat \<Rightarrow> nat \<Rightarrow> string list res" where
  "policy_strings v name maximum each =
     (case v of
        PList xs \<Rightarrow>
          (if \<not> (1 \<le> length xs \<and> length xs \<le> maximum)
           then Inl (ProtocolError (name @ '' must be a nonempty bounded string array''))
           else
             bindr (mapr (\<lambda>x. policy_text x name each) xs) (\<lambda>ss.
             if \<not> distinct ss then Inl (ProtocolError (name @ '' must contain unique strings''))
             else Inr ss))
      | _ \<Rightarrow> Inl (ProtocolError (name @ '' must be a nonempty bounded string array'')))"

text \<open>\<open>_target\<close>: the decision together with who is asked.\<close>

definition member_target :: "pyval \<Rightarrow> bool" where
  "member_target target =
     (case target of
        PStr t \<Rightarrow> starts_with ''member:'' t \<and> strip (drop 7 t) \<noteq> [] \<and> length (drop 7 t) \<le> 128
      | _ \<Rightarrow> False)"

definition policy_target :: "pyval \<Rightarrow> pyval \<Rightarrow> decision res" where
  "policy_target decision target =
     (case (case decision of PStr s \<Rightarrow> decision_of s | _ \<Rightarrow> None) of
        None \<Rightarrow> Inl (ProtocolError ''policy decision is unsupported'')
      | Some Allow \<Rightarrow>
          (if target \<noteq> PNone then Inl (ProtocolError ''allow and deny require a null target'')
           else Inr Allow)
      | Some Deny \<Rightarrow>
          (if target \<noteq> PNone then Inl (ProtocolError ''allow and deny require a null target'')
           else Inr Deny)
      | Some Confirm \<Rightarrow>
          (if target \<noteq> PStr ''agent_owner'' then Inl (ProtocolError ''confirm target must be agent_owner'')
           else Inr Confirm)
      | Some Escalate \<Rightarrow>
          (if \<not> member_target target
           then Inl (ProtocolError ''escalate target must be member:<account_user_id>'')
           else Inr Escalate))"

subsection \<open>References and definitions\<close>

text \<open>\<open>PolicyReference\<close>: a dictionary with exactly these fields.\<close>

definition is_policy_reference :: "pydict \<Rightarrow> bool" where
  "is_policy_reference d \<longleftrightarrow>
     set (keys_of d) = {''policy_id'', ''policy_version'', ''definition_sha256''}
     \<and> (case dget d ''policy_id'' of PStr s \<Rightarrow> 1 \<le> length s \<and> length s \<le> 128 | _ \<Rightarrow> False)
     \<and> (case dget d ''policy_version'' of PInt i \<Rightarrow> 1 \<le> i \<and> i \<le> max_safe_integer | _ \<Rightarrow> False)
     \<and> (case dget d ''definition_sha256'' of PStr s \<Rightarrow> is_sha256_hex s | _ \<Rightarrow> False)"

definition hex_digest :: "pyval \<Rightarrow> string \<Rightarrow> string res" where
  "hex_digest v message =
     (case v of PStr s \<Rightarrow> if is_sha256_hex s then Inr s else Inl (ProtocolError message)
      | _ \<Rightarrow> Inl (ProtocolError message))"

definition parse_policy_reference :: "sdk_env \<Rightarrow> pyval \<Rightarrow> pydict res" where
  "parse_policy_reference E v =
     bindr (policy_document E v ''policy_ref'' definition_limit) (\<lambda>doc.
     bindr (policy_keys doc [''policy_id'', ''policy_version'', ''definition_sha256''] ''policy_ref'' [])
       (\<lambda>raw.
     bindr (policy_text (dget raw ''policy_id'') ''policy_ref.policy_id'' 128) (\<lambda>_.
     bindr (policy_integer (dget raw ''policy_version'') ''policy_ref.policy_version'' 1 max_safe_integer)
       (\<lambda>_.
     bindr (hex_digest (dget raw ''definition_sha256'')
              ''policy_ref.definition_sha256 must be lowercase hex SHA-256'') (\<lambda>_.
     Inr raw)))))"

fun definition_error :: "exn \<Rightarrow> bool" where
  \<comment> \<open>\<open>except (ValueError, TypeError, KeyError)\<close>\<close>
  "definition_error (TypeError _) = True"
| "definition_error (KeyError _) = True"
| "definition_error e = is_value_error e"

definition validate_policy_definition :: "sdk_env \<Rightarrow> pyval \<Rightarrow> pyval res" where
  "validate_policy_definition E v =
     bindr (policy_document E v ''definition'' definition_limit) (\<lambda>raw.
     case validate_definition E raw of
       Inl e \<Rightarrow> Inl (if definition_error e
                     then ProtocolError ''definition has invalid policy or evidence fields'' else e)
     | Inr _ \<Rightarrow> Inr raw)"

definition definition_digest :: "sdk_env \<Rightarrow> pyval \<Rightarrow> string res" where
  "definition_digest E v = bindr (canonicalize E v) (\<lambda>text. Inr (sha256_hex E text))"

subsection \<open>Evaluations\<close>

definition evaluated_keys :: "pydict \<Rightarrow> unit res" where
  "evaluated_keys d =
     bindr (mapr (\<lambda>k. policy_text (PStr k) ''evaluated field'' 128) (keys_of d)) (\<lambda>_. Inr ())"

definition parse_policy_evaluation :: "sdk_env \<Rightarrow> pyval \<Rightarrow> policy_eval_info res" where
  "parse_policy_evaluation E v =
     bindr (policy_document E v ''policy_eval'' 32768) (\<lambda>doc.
     bindr (policy_keys doc [''input_sha256'', ''result''] ''policy_eval'' []) (\<lambda>raw.
     bindr (hex_digest (dget raw ''input_sha256'')
              ''policy_eval.input_sha256 must be lowercase hex SHA-256'') (\<lambda>digest.
     bindr (policy_keys (dget raw ''result'')
              [''profile'', ''status'', ''decision'', ''target'', ''matched_rule_id'', ''evaluated_fields'']
              ''policy_eval.result'' []) (\<lambda>result.
     if \<not> py_eq (dget result ''profile'') (PStr ''allowly.basic.v1'')
        \<or> \<not> py_eq (dget result ''status'') (PStr ''ok'')
     then Inl (ProtocolError ''policy_eval result profile or status is unsupported'')
     else
     bindr (policy_target (dget result ''decision'') (dget result ''target'')) (\<lambda>decision.
     bindr (optional_text (dget result ''matched_rule_id'') ''matched_rule_id'' 128) (\<lambda>matched.
     bindr (as_dict (ProtocolError ''evaluated_fields must be an object'')
              (dget result ''evaluated_fields'')) (\<lambda>evaluated.
     bindr (evaluated_keys evaluated) (\<lambda>_.
     if matched = None \<and> evaluated \<noteq> []
     then Inl (ProtocolError ''action-level result must have empty evaluated_fields'')
     else Inr \<lparr>pe_input_sha256 = digest,
               pe_result = \<lparr>pp_decision = decision, pp_target = as_string (dget result ''target''),
                            pp_matched_rule_id = matched, pp_evaluated_fields = evaluated\<rparr>\<rparr>))))))))"

subsection \<open>What the readers accept\<close>

lemma policy_text_iff [simp]:
  "policy_text v name maximum = Inr s \<longleftrightarrow> v = PStr s \<and> 1 \<le> length s \<and> length s \<le> maximum"
  by (cases v) (auto simp: policy_text_def)

lemma optional_text_iff [simp]:
  "optional_text v name maximum = Inr m \<longleftrightarrow>
     v = opt_str m \<and> (\<forall>s. m = Some s \<longrightarrow> 1 \<le> length s \<and> length s \<le> maximum)"
  by (cases m) (auto simp: optional_text_def)

lemma policy_integer_iff [simp]:
  "policy_integer v name lo hi = Inr i \<longleftrightarrow> v = PInt i \<and> lo \<le> i \<and> i \<le> hi"
  by (cases v) (auto simp: policy_integer_def)

lemma policy_keys_iff:
  "policy_keys v required name optional = Inr d \<longleftrightarrow>
     v = PDict d \<and> set required \<subseteq> set (keys_of d) \<and> set (keys_of d) \<subseteq> set required \<union> set optional"
  by (cases v) (auto simp: policy_keys_def)

lemma hex_digest_iff [simp]: "hex_digest v m = Inr s \<longleftrightarrow> v = PStr s \<and> is_sha256_hex s"
  by (cases v) (auto simp: hex_digest_def)

lemma policy_strings_iff:
  "policy_strings v name maximum each = Inr ss \<longleftrightarrow>
     v = str_list ss \<and> 1 \<le> length ss \<and> length ss \<le> maximum \<and> distinct ss
     \<and> (\<forall>s \<in> set ss. 1 \<le> length s \<and> length s \<le> each)"
proof (cases v)
  case (PList xs)
  have "mapr (\<lambda>x. policy_text x name each) xs = Inr ss \<longleftrightarrow>
      xs = map PStr ss \<and> (\<forall>s \<in> set ss. 1 \<le> length s \<and> length s \<le> each)"
    by (induction xs arbitrary: ss) (auto simp: Cons_eq_map_conv)
  with PList show ?thesis by (auto simp: policy_strings_def str_list_def)
qed (auto simp: policy_strings_def str_list_def)

definition target_fits :: "decision \<Rightarrow> pyval \<Rightarrow> bool" where
  "target_fits d target =
     (case d of Allow \<Rightarrow> target = PNone | Deny \<Rightarrow> target = PNone
      | Confirm \<Rightarrow> target = PStr ''agent_owner'' | Escalate \<Rightarrow> member_target target)"

lemma policy_target_iff:
  "policy_target decision target = Inr d \<longleftrightarrow> decision = PStr (decision_str d) \<and> target_fits d target"
proof (cases decision)
  case (PStr s)
  show ?thesis
  proof (cases "decision_of s")
    case None
    then have "s \<noteq> decision_str d" by auto
    with None PStr show ?thesis by (simp add: policy_target_def)
  next
    case (Some d')
    then have "s = decision_str d'" by (simp add: decision.of_str_iff)
    with PStr show ?thesis
      by (cases d'; cases d) (auto simp: policy_target_def target_fits_def decision_of_def)
  qed
qed (auto simp: policy_target_def)

lemma evaluated_keys_iff [simp]:
  "evaluated_keys d = Inr () \<longleftrightarrow> (\<forall>k \<in> set (keys_of d). 1 \<le> length k \<and> length k \<le> 128)"
proof -
  have "(\<exists>ys. mapr (\<lambda>k. policy_text (PStr k) ''evaluated field'' 128) ks = Inr ys) \<longleftrightarrow>
      (\<forall>k \<in> set ks. 1 \<le> length k \<and> length k \<le> 128)" for ks
    by (induction ks) auto
  then show ?thesis by (simp add: evaluated_keys_def)
qed

lemma policy_document_PDict:
  "policy_document E v name limit = Inr w \<Longrightarrow>
     \<exists>d text. v = PDict d \<and> canonicalize E v = Inr text \<and> int (length text) \<le> limit \<and> loads_text E text = Some w"
  by (cases v) (auto simp: policy_document_def split: sum.splits option.splits if_splits)

lemma policy_reference_fields:
  "is_policy_reference raw \<longleftrightarrow>
     set (keys_of raw) = {''policy_id'', ''policy_version'', ''definition_sha256''}
     \<and> (\<exists>s. dget raw ''policy_id'' = PStr s \<and> 1 \<le> length s \<and> length s \<le> 128)
     \<and> (\<exists>i. dget raw ''policy_version'' = PInt i \<and> 1 \<le> i \<and> i \<le> max_safe_integer)
     \<and> (\<exists>s. dget raw ''definition_sha256'' = PStr s \<and> is_sha256_hex s)"
  unfolding is_policy_reference_def by (simp split: pyval.split)

lemma policy_reference_keys:
  "policy_keys (PDict raw) [''policy_id'', ''policy_version'', ''definition_sha256''] ''policy_ref'' [] = Inr raw' \<longleftrightarrow>
     raw' = raw \<and> set (keys_of raw) = {''policy_id'', ''policy_version'', ''definition_sha256''}"
  unfolding policy_keys_iff by auto

lemma parse_policy_reference_iff:
  "parse_policy_reference E v = Inr d \<longleftrightarrow>
     policy_document E v ''policy_ref'' definition_limit = Inr (PDict d) \<and> is_policy_reference d"
proof
  assume "parse_policy_reference E v = Inr d"
  then obtain doc i n h where doc: "policy_document E v ''policy_ref'' definition_limit = Inr doc"
    and d: "policy_keys doc [''policy_id'', ''policy_version'', ''definition_sha256''] ''policy_ref'' [] = Inr d"
      "policy_text (dget d ''policy_id'') ''policy_ref.policy_id'' 128 = Inr i"
      "policy_integer (dget d ''policy_version'') ''policy_ref.policy_version'' 1 max_safe_integer = Inr n"
      "hex_digest (dget d ''definition_sha256'') ''policy_ref.definition_sha256 must be lowercase hex SHA-256''
         = Inr h"
    unfolding parse_policy_reference_def by (elim result_elims) (simp add: that)
  have "doc = PDict d" using d(1) by (simp only: policy_keys_iff)
  moreover from this d(1) have "set (keys_of d) = {''policy_id'', ''policy_version'', ''definition_sha256''}"
    using policy_reference_keys by blast
  ultimately show "policy_document E v ''policy_ref'' definition_limit = Inr (PDict d)
      \<and> is_policy_reference d"
    using doc d(2-4) by (simp add: policy_reference_fields)
next
  assume "policy_document E v ''policy_ref'' definition_limit = Inr (PDict d) \<and> is_policy_reference d"
  then have doc: "policy_document E v ''policy_ref'' definition_limit = Inr (PDict d)"
    and d: "is_policy_reference d" by blast+
  from d obtain i n h where d: "dget d ''policy_id'' = PStr i" "1 \<le> length i" "length i \<le> 128"
      "dget d ''policy_version'' = PInt n" "1 \<le> n" "n \<le> max_safe_integer"
      "dget d ''definition_sha256'' = PStr h" "is_sha256_hex h"
    and k: "set (keys_of d) = {''policy_id'', ''policy_version'', ''definition_sha256''}"
    unfolding policy_reference_fields by (elim conjE exE) (rule that)
  from k have
    "policy_keys (PDict d) [''policy_id'', ''policy_version'', ''definition_sha256''] ''policy_ref'' [] = Inr d"
    by (simp only: policy_reference_keys)
  moreover have "policy_text (dget d ''policy_id'') ''policy_ref.policy_id'' 128 = Inr i"
    "policy_integer (dget d ''policy_version'') ''policy_ref.policy_version'' 1 max_safe_integer = Inr n"
    "hex_digest (dget d ''definition_sha256'') ''policy_ref.definition_sha256 must be lowercase hex SHA-256''
       = Inr h"
    using d by (simp_all only: policy_text_iff policy_integer_iff hex_digest_iff)
  ultimately show "parse_policy_reference E v = Inr d"
    using doc by (simp only: parse_policy_reference_def bindr_simps)
qed

text \<open>
  A policy reference is accepted exactly when its canonical text reads back as an object with
  the three fields of a reference and no other: a non-empty identifier of at most 128 characters,
  a version from 1 to the largest safe integer, and a lowercase hexadecimal SHA-256.
\<close>

theorem policy_reference_iff:
  "parse_policy_reference E v = Inr d \<longleftrightarrow>
     policy_document E v ''policy_ref'' definition_limit = Inr (PDict d) \<and> is_policy_reference d"
  by (rule parse_policy_reference_iff)

text \<open>
  An accepted evaluation says who decides. Its result has the supported profile and status,
  its decision goes with its target (nobody for allow and deny, the agent's owner for confirm, a
  named member for escalate), its rule and its evaluated fields are bounded, and a result without
  a rule evaluated nothing.
\<close>

theorem policy_evaluation_ok:
  assumes "parse_policy_evaluation E v = Inr info"
  shows "is_sha256_hex (pe_input_sha256 info)
    \<and> (\<exists>raw result. policy_document E v ''policy_eval'' 32768 = Inr (PDict raw)
        \<and> dget raw ''input_sha256'' = PStr (pe_input_sha256 info) \<and> dget raw ''result'' = PDict result
        \<and> dget result ''profile'' = PStr ''allowly.basic.v1'' \<and> dget result ''status'' = PStr ''ok''
        \<and> dget result ''decision'' = PStr (decision_str (pp_decision (pe_result info)))
        \<and> target_fits (pp_decision (pe_result info)) (dget result ''target'')
        \<and> dget result ''target'' = opt_str (pp_target (pe_result info))
        \<and> dget result ''matched_rule_id'' = opt_str (pp_matched_rule_id (pe_result info))
        \<and> dget result ''evaluated_fields'' = PDict (pp_evaluated_fields (pe_result info)))
    \<and> (pp_matched_rule_id (pe_result info) = None \<longrightarrow> pp_evaluated_fields (pe_result info) = [])"
proof -
  have target: "t = opt_str (as_string t)" if "target_fits d t" for d t
    using that by (cases d; cases t) (auto simp: target_fits_def member_target_def)
  from assms obtain doc raw digest result decision matched evaluated where
    doc: "policy_document E v ''policy_eval'' 32768 = Inr doc"
    and raw: "policy_keys doc [''input_sha256'', ''result''] ''policy_eval'' [] = Inr raw"
      "hex_digest (dget raw ''input_sha256'') ''policy_eval.input_sha256 must be lowercase hex SHA-256'' = Inr digest"
      "policy_keys (dget raw ''result'') [''profile'', ''status'', ''decision'', ''target'',
         ''matched_rule_id'', ''evaluated_fields''] ''policy_eval.result'' [] = Inr result"
    and result: "\<not> (\<not> py_eq (dget result ''profile'') (PStr ''allowly.basic.v1'')
        \<or> \<not> py_eq (dget result ''status'') (PStr ''ok''))"
      "policy_target (dget result ''decision'') (dget result ''target'') = Inr decision"
      "optional_text (dget result ''matched_rule_id'') ''matched_rule_id'' 128 = Inr matched"
      "as_dict (ProtocolError ''evaluated_fields must be an object'') (dget result ''evaluated_fields'')
         = Inr evaluated"
      "\<not> (matched = None \<and> evaluated \<noteq> [])"
    and info: "Inr \<lparr>pe_input_sha256 = digest,
       pe_result = \<lparr>pp_decision = decision, pp_target = as_string (dget result ''target''),
                    pp_matched_rule_id = matched, pp_evaluated_fields = evaluated\<rparr>\<rparr> = (Inr info :: _ res)"
    unfolding parse_policy_evaluation_def by (elim result_elims) (rule that)
  from raw have keys: "doc = PDict raw" "dget raw ''input_sha256'' = PStr digest" "is_sha256_hex digest"
    "dget raw ''result'' = PDict result"
    by (simp_all only: policy_keys_iff hex_digest_iff)
  from result have "dget result ''profile'' = PStr ''allowly.basic.v1''" "dget result ''status'' = PStr ''ok''"
    "dget result ''decision'' = PStr (decision_str decision)" "target_fits decision (dget result ''target'')"
    "dget result ''matched_rule_id'' = opt_str matched" "dget result ''evaluated_fields'' = PDict evaluated"
    "matched = None \<longrightarrow> evaluated = []"
    by (auto simp: policy_target_iff)
  moreover from this(4) have "dget result ''target'' = opt_str (as_string (dget result ''target''))"
    by (rule target)
  ultimately show ?thesis
    using doc keys info by (intro conjI exI[of _ raw] exI[of _ result]) auto
qed

end
