(* ===== verification/Policy_Api.thy ===== *)
theory Policy_Api
  imports Policies
begin

text \<open>
  The policies resource of \<open>allowly/policies.py\<close>: \<open>create\<close>, \<open>get\<close>, \<open>list\<close>, \<open>archive\<close>, \<open>preview\<close> and
  \<open>publish\<close>. A policy the client returns was committed to: its reference names the SHA-256 of the
  canonical text of the definition beside it, and what was created, published or previewed is
  what was submitted.
\<close>

subsection \<open>Policy responses\<close>

record policy_response =
  po_policy_ref :: pydict
  po_definition :: pyval
  po_description :: "string option"
  po_created_by :: "string option"
  po_created_at :: "string option"
  po_deleted_at :: "string option"

definition string_or_null :: "pydict \<Rightarrow> string \<Rightarrow> string option res" where
  "string_or_null raw key =
     (case dget raw key of PNone \<Rightarrow> Inr None | PStr s \<Rightarrow> Inr (Some s)
      | _ \<Rightarrow> Inl (ProtocolError (key @ '' must be a string or null'')))"

definition parse_policy :: "sdk_env \<Rightarrow> pyval \<Rightarrow> policy_response res" where
  "parse_policy E v =
     bindr (policy_keys v [''policy_ref'', ''definition''] ''policy response''
              [''description'', ''created_by'', ''created_at'', ''deleted_at'']) (\<lambda>raw.
     bindr (parse_policy_reference E (dget raw ''policy_ref'')) (\<lambda>reference.
     bindr (validate_policy_definition E (dget raw ''definition'')) (\<lambda>defn.
     bindr (definition_digest E defn) (\<lambda>digest.
     if \<not> py_eq (dget reference ''definition_sha256'') (PStr digest)
     then Inl (ProtocolError ''policy_ref definition digest does not match retained definition'')
     else
     bindr (string_or_null raw ''description'') (\<lambda>description.
     bindr (string_or_null raw ''created_by'') (\<lambda>created_by.
     bindr (string_or_null raw ''created_at'') (\<lambda>created_at.
     bindr (string_or_null raw ''deleted_at'') (\<lambda>deleted_at.
     Inr \<lparr>po_policy_ref = reference, po_definition = defn, po_description = description,
          po_created_by = created_by, po_created_at = created_at, po_deleted_at = deleted_at\<rparr>))))))))"

subsection \<open>Bodies\<close>

definition body_keys :: "string list" where
  "body_keys = [''profile'', ''agent_id'', ''actions'', ''default_expiry_days'']"

definition body_definition :: "pydict \<Rightarrow> pydict res" where
  "body_definition body =
     mapr (\<lambda>key. bindr (dict_item body key) (\<lambda>v. Inr (key, v))) body_keys"

definition is_policy_id_char :: "char \<Rightarrow> bool" where
  \<comment> \<open>\<open>[a-z0-9_-]\<close>\<close>
  "is_policy_id_char c \<longleftrightarrow> is_ascii_lower c \<or> is_digit c \<or> c = CHR ''_'' \<or> c = CHR ''-''"

definition check_description :: "pyval \<Rightarrow> unit res" where
  "check_description v =
     (if v = PNone \<or> (case v of PStr s \<Rightarrow> length s \<le> 2048 | _ \<Rightarrow> False) then Inr ()
      else Inl (ValueError ''description must be a bounded string''))"

definition policy_body :: "sdk_env \<Rightarrow> pyval \<Rightarrow> pyval \<Rightarrow> pyval \<Rightarrow> pyval \<Rightarrow> pydict res" where
  "policy_body E policy_id defn description previous =
     bindr (policy_text policy_id ''policy_id'' 128) (\<lambda>i.
     if \<not> list_all is_policy_id_char i
     then Inl (ValueError ''policy_id must use lowercase letters, digits, underscore or hyphen'')
     else
     bindr (check_description description) (\<lambda>_.
     bindr (validate_policy_definition E defn) (\<lambda>v.
     bindr (as_dict (TypeError ''not a mapping'') v) (\<lambda>d.
     bindr (if previous = PNone then Inr []
            else bindr (parse_policy_reference E previous) (\<lambda>r. Inr [(''previous_policy_ref'', PDict r)]))
       (\<lambda>prev.
     Inr (merge_items d
            ([(''policy_id'', PStr i)]
             @ (if description = PNone then [] else [(''description'', description)]) @ prev)))))))"

subsection \<open>Endpoints\<close>

definition key_header :: "string option \<Rightarrow> (string \<times> string) list option" where
  "key_header k = map_option (\<lambda>s. [(''Idempotency-Key'', s)]) k"

definition policy_path :: "string \<Rightarrow> string" where
  "policy_path policy_id = ''/v1/policies/'' @ quote policy_id"

definition create_policy ::
  "sdk_env \<Rightarrow> client \<Rightarrow> pyval \<Rightarrow> pyval \<Rightarrow> pyval \<Rightarrow> pyval \<Rightarrow> string option \<Rightarrow> policy_response prog" where
  "create_policy E C policy_id defn description previous idempotency_key =
     bindp (Done (policy_body E policy_id defn description previous)) (\<lambda>body.
     bindp (request E C (api_call ''POST'' ''/v1/policies'' (Some (PDict body))
              (key_header idempotency_key)) [201]) (\<lambda>raw.
     bindp (Done (parse_policy E raw)) (\<lambda>response.
     if \<not> py_eq (dget (po_policy_ref response) ''policy_id'') policy_id
     then raise (ProtocolError ''created policy does not match the submitted definition'')
     else
       bindp (Done (body_definition body)) (\<lambda>submitted.
       if \<not> py_eq (po_definition response) (PDict submitted)
       then raise (ProtocolError ''created policy does not match the submitted definition'')
       else return response))))"

definition get_policy :: "sdk_env \<Rightarrow> client \<Rightarrow> pyval \<Rightarrow> policy_response prog" where
  "get_policy E C policy_id =
     bindp (Done (policy_text policy_id ''policy_id'' 128)) (\<lambda>i.
     bindp (request E C (api_call ''GET'' (policy_path i) None None) [200]) (\<lambda>raw.
     bindp (Done (parse_policy E raw)) (\<lambda>response.
     if \<not> py_eq (dget (po_policy_ref response) ''policy_id'') policy_id
     then raise (ProtocolError ''policy response does not match the requested logical ID'')
     else return response)))"

record policy_list =
  pl_items :: "policy_response list"
  pl_has_more :: bool
  pl_next_cursor :: "string option"

definition pagination :: "pydict \<Rightarrow> (pyval list \<times> bool \<times> string option) res" where
  "pagination raw =
     (case (dget raw ''items'', dget raw ''has_more'', string_or_null raw ''next_cursor'') of
        (PList items, PBool has_more, Inr cursor) \<Rightarrow> Inr (items, has_more, cursor)
      | _ \<Rightarrow> Inl (ProtocolError ''policy list has invalid pagination fields''))"

definition list_policies :: "sdk_env \<Rightarrow> client \<Rightarrow> pyval \<Rightarrow> string option \<Rightarrow> policy_list prog" where
  "list_policies E C limit cursor =
     bindp (Done (policy_integer limit ''limit'' 1 100)) (\<lambda>n.
     bindp (request E C
              ((api_call ''GET'' ''/v1/policies'' None None)
                 \<lparr>rq_params := (''limit'', PInt n) #
                    (case cursor of None \<Rightarrow> [] | Some c \<Rightarrow> [(''cursor'', PStr c)])\<rparr>) [200]) (\<lambda>v.
     bindp (Done (policy_keys v [''items'', ''has_more''] ''policy list'' [''next_cursor''])) (\<lambda>raw.
     bindp (Done (pagination raw)) (\<lambda>(items, has_more, cursor').
     bindp (Done (mapr (parse_policy E) items)) (\<lambda>ps.
     return \<lparr>pl_items = ps, pl_has_more = has_more, pl_next_cursor = cursor'\<rparr>)))))"

definition archive_policy :: "sdk_env \<Rightarrow> client \<Rightarrow> pyval \<Rightarrow> string option \<Rightarrow> unit prog" where
  "archive_policy E C policy_id idempotency_key =
     bindp (Done (policy_text policy_id ''policy_id'' 128)) (\<lambda>i.
     bindp (request E C (api_call ''DELETE'' (policy_path i) None (key_header idempotency_key)) [204])
       (\<lambda>_. return ()))"

subsection \<open>Preview\<close>

text \<open>\<open>v[k]\<close> and \<open>for x in v\<close> on a value whose shape only the verifier package has checked.\<close>

definition subscript :: "pyval \<Rightarrow> string \<Rightarrow> pyval res" where
  "subscript v k = (case v of PDict d \<Rightarrow> dict_item d k | _ \<Rightarrow> Inl (TypeError ''not subscriptable by a string''))"

fun iterate :: "pyval \<Rightarrow> pyval list res" where
  "iterate (PList xs) = Inr xs"
| "iterate (PDict d) = Inr (map PStr (keys_of d))"
| "iterate (PStr s) = Inr (map (\<lambda>c. PStr [c]) s)"
| "iterate _ = Inl (TypeError ''object is not iterable'')"

text \<open>The first entry that declares the action; entries after it are not looked at.\<close>

fun select_policy :: "string \<Rightarrow> pyval list \<Rightarrow> pyval option res" where
  "select_policy action [] = Inr None"
| "select_policy action (entry # es) =
     bindr (subscript entry ''policy'') (\<lambda>policy.
     bindr (subscript policy ''action'') (\<lambda>a.
     if py_eq a (PStr action) then Inr (Some policy) else select_policy action es))"

record policy_preview =
  pw_definition_sha256 :: string
  pw_action :: string
  pw_policy_eval :: policy_eval_info

text \<open>What \<open>preview\<close> commits to: the selected policy, the action and the context.\<close>

definition preview_commitment :: "sdk_env \<Rightarrow> pyval \<Rightarrow> string \<Rightarrow> pyval \<Rightarrow> string res" where
  "preview_commitment E selected action context =
     bindr (canonicalize E (PDict [(''policy'', selected), (''action'', PStr action), (''context'', context)]))
       (\<lambda>text. Inr (sha256_hex E text))"

definition selected_policy :: "pyval \<Rightarrow> string \<Rightarrow> pyval res" where
  "selected_policy defn action =
     bindr (subscript defn ''actions'') (\<lambda>actions.
     bindr (iterate actions) (\<lambda>entries.
     bindr (select_policy action entries) (\<lambda>selected.
     case selected of
       None \<Rightarrow> Inl (ValueError ''preview action must be declared in the complete definition'')
     | Some policy \<Rightarrow>
         (if policy = PNone
          then Inl (ValueError ''preview action must be declared in the complete definition'')
          else Inr policy))))"

definition preview_policy ::
  "sdk_env \<Rightarrow> client \<Rightarrow> pyval \<Rightarrow> pyval \<Rightarrow> pyval \<Rightarrow> policy_preview prog" where
  "preview_policy E C defn0 action0 context0 =
     bindp (Done (validate_policy_definition E defn0)) (\<lambda>defn.
     bindp (Done (policy_text action0 ''action'' 64)) (\<lambda>action.
     bindp (Done (selected_policy defn action)) (\<lambda>selected.
     bindp (Done (policy_document E context0 ''context'' 4096)) (\<lambda>context.
     bindp (Done (preview_commitment E selected action context)) (\<lambda>input_sha256.
     bindp (request E C (api_call ''POST'' ''/v1/setup/policies/preview''
              (Some (PDict [(''definition'', defn), (''action'', PStr action), (''context'', context)])) None)
              [200]) (\<lambda>v.
     bindp (Done (policy_keys v [''provisional'', ''definition_sha256'', ''action'', ''policy_eval'']
              ''preview response'' [])) (\<lambda>raw.
     if dget raw ''provisional'' \<noteq> PBool True \<or> \<not> py_eq (dget raw ''action'') (PStr action)
     then raise (ProtocolError ''preview response does not match the submitted provisional definition'')
     else
     bindp (Done (definition_digest E defn)) (\<lambda>digest.
     if \<not> py_eq (dget raw ''definition_sha256'') (PStr digest)
     then raise (ProtocolError ''preview response does not match the submitted provisional definition'')
     else
     bindp (Done (parse_policy_evaluation E (dget raw ''policy_eval''))) (\<lambda>evaluation.
     if pe_input_sha256 evaluation \<noteq> input_sha256
     then raise (ProtocolError ''preview input commitment does not match the submitted policy and context'')
     else return \<lparr>pw_definition_sha256 = digest, pw_action = action, pw_policy_eval = evaluation\<rparr>)))))))))"

subsection \<open>Publish\<close>

record policy_publication =
  pu_policy_ref :: pydict
  pu_agent_id :: pyval
  pu_created_by :: string
  pu_created_at :: string
  pu_authorization_migrations :: "pyval list"
  pu_archived_policy_ids :: "pyval list"
  pu_revoked_confirmation_count :: int

definition check_migration :: "pyval \<Rightarrow> unit res" where
  "check_migration v =
     bindr (policy_keys v [''user_id'', ''previous_authorization_id'', ''authorization_id'']
              ''authorization migration'' []) (\<lambda>m.
     bindr (mapr (\<lambda>key. policy_text (dget m key) key 128) (keys_of m)) (\<lambda>_. Inr ()))"

definition parse_publication ::
  "sdk_env \<Rightarrow> pyval \<Rightarrow> pydict \<Rightarrow> pyval \<Rightarrow> policy_publication res" where
  "parse_publication E policy_id body v =
     bindr (policy_keys v [''policy_ref'', ''agent_id'', ''created_by'', ''created_at'',
              ''authorization_migrations'', ''archived_policy_ids'', ''revoked_confirmation_count'']
              ''publish response'' []) (\<lambda>raw.
     bindr (parse_policy_reference E (dget raw ''policy_ref'')) (\<lambda>reference.
     if \<not> py_eq (dget reference ''policy_id'') policy_id
     then Inl (ProtocolError ''published policy does not match the submitted definition'')
     else
     bindr (body_definition body) (\<lambda>submitted.
     bindr (definition_digest E (PDict submitted)) (\<lambda>digest.
     if \<not> py_eq (dget reference ''definition_sha256'') (PStr digest)
     then Inl (ProtocolError ''published policy does not match the submitted definition'')
     else
     bindr (dict_item body ''agent_id'') (\<lambda>agent_id.
     if \<not> py_eq (dget raw ''agent_id'') agent_id
     then Inl (ProtocolError ''published policy does not match the submitted definition'')
     else
     bindr (as_list (ProtocolError ''publish summary lists are invalid'')
              (dget raw ''authorization_migrations'')) (\<lambda>migrations.
     bindr (as_list (ProtocolError ''publish summary lists are invalid'')
              (dget raw ''archived_policy_ids'')) (\<lambda>archived.
     bindr (mapr check_migration migrations) (\<lambda>_.
     bindr (mapr (\<lambda>x. policy_text x ''archived_policy_id'' 128) archived) (\<lambda>_.
     bindr (policy_integer (dget raw ''revoked_confirmation_count'') ''revoked_confirmation_count'' 0
              max_safe_integer) (\<lambda>count.
     bindr (policy_text (dget raw ''created_by'') ''created_by'' 256) (\<lambda>created_by.
     bindr (policy_text (dget raw ''created_at'') ''created_at'' 128) (\<lambda>created_at.
     Inr \<lparr>pu_policy_ref = reference, pu_agent_id = dget raw ''agent_id'', pu_created_by = created_by,
          pu_created_at = created_at, pu_authorization_migrations = migrations,
          pu_archived_policy_ids = archived, pu_revoked_confirmation_count = count\<rparr>))))))))))))"

definition publish_policy ::
  "sdk_env \<Rightarrow> client \<Rightarrow> pyval \<Rightarrow> pyval \<Rightarrow> pyval \<Rightarrow> pyval \<Rightarrow> pyval \<Rightarrow> policy_publication prog" where
  "publish_policy E C policy_id defn idempotency_key description previous =
     bindp (Done (policy_text idempotency_key ''idempotency_key'' 128)) (\<lambda>key.
     bindp (Done (policy_body E policy_id defn description previous)) (\<lambda>body.
     bindp (request E C (api_call ''POST'' ''/v1/setup/policies/publish'' (Some (PDict body))
              (Some [(''Idempotency-Key'', key)])) [201]) (\<lambda>v.
     Done (parse_publication E policy_id body v))))"

subsection \<open>What a returned policy commits to\<close>

text \<open>The reference names the SHA-256 of the definition's canonical text.\<close>

definition committed :: "sdk_env \<Rightarrow> pydict \<Rightarrow> pyval \<Rightarrow> bool" where
  "committed E reference defn \<longleftrightarrow>
     is_policy_reference reference
     \<and> (\<exists>text. canonicalize E defn = Inr text
          \<and> dget reference ''definition_sha256'' = PStr (sha256_hex E text))"

lemma digest_committed:
  "parse_policy_reference E v = Inr reference \<Longrightarrow> definition_digest E defn = Inr digest \<Longrightarrow>
     dget reference ''definition_sha256'' = PStr digest \<Longrightarrow> committed E reference defn"
  by (auto simp: committed_def definition_digest_def dest: policy_reference_iff[THEN iffD1])

lemma validated_definition:
  assumes "validate_policy_definition E v = Inr d"
  shows "validate_definition E d = Inr ()"
proof -
  from assms obtain raw where raw: "policy_document E v ''definition'' definition_limit = Inr raw"
    by (auto simp: validate_policy_definition_def)
  with assms show ?thesis
    by (cases "validate_definition E raw") (simp_all add: validate_policy_definition_def)
qed

lemma parse_policy_committed:
  assumes "parse_policy E v = Inr r"
  shows "committed E (po_policy_ref r) (po_definition r)
    \<and> validate_definition E (po_definition r) = Inr ()"
proof -
  from assms obtain raw reference defn digest where
    "parse_policy_reference E (dget raw ''policy_ref'') = Inr reference"
    "validate_policy_definition E (dget raw ''definition'') = Inr defn"
    "definition_digest E defn = Inr digest" "dget reference ''definition_sha256'' = PStr digest"
    "po_policy_ref r = reference" "po_definition r = defn"
    unfolding parse_policy_def by (elim result_elims) (auto intro!: that)
  then show ?thesis
    by (auto dest: digest_committed validated_definition)
qed

text \<open>
  C24: a created policy is the submitted one. What \<open>create\<close> returns carries the requested identifier
  and the submitted definition, validated, and its reference commits to that definition.
\<close>

theorem created_policy_submitted:
  assumes "outcome (create_policy E C policy_id defn description previous k) as = Some (Inr r)"
  shows "\<exists>body submitted. policy_body E policy_id defn description previous = Inr body
    \<and> body_definition body = Inr submitted
    \<and> py_eq (po_definition r) (PDict submitted) \<and> dget (po_policy_ref r) ''policy_id'' = policy_id
    \<and> committed E (po_policy_ref r) (po_definition r)"
proof -
  from assms obtain body raw submitted where
    body: "policy_body E policy_id defn description previous = Inr body"
    and parsed: "parse_policy E raw = Inr r"
    and same: "py_eq (dget (po_policy_ref r) ''policy_id'') policy_id"
      "body_definition body = Inr submitted" "py_eq (po_definition r) (PDict submitted)"
    unfolding create_policy_def outcome_ok by (auto split: if_splits)
  from body obtain i where "policy_id = PStr i"
    unfolding policy_body_def by (elim bindr_InrE) simp
  with same parse_policy_committed[OF parsed] body show ?thesis by auto
qed



end
