(* ===== verification/Typed_Dicts.thy ===== *)
theory Typed_Dicts
  imports Policy_Api Py_Json
begin

text \<open>
  The policy documents and the receipt envelope of \<open>allowly/types.py\<close>. A \<open>TypedDict\<close> is a dictionary that has the declared keys
  with values of the declared types and no other keys, so each declaration is a decidable predicate on
  values. Facts: a policy definition of the declared type can be written as JSON and has the members
  \<open>policies.create\<close> submits.
\<close>

subsection \<open>Types of values\<close>

type_synonym value_type = "pyval \<Rightarrow> bool"

fun str_type :: value_type where
  "str_type (PStr _) = True" | "str_type _ = False"

fun int_type :: value_type where
  \<comment> \<open>\<open>bool\<close> is a subtype of \<open>int\<close>\<close>
  "int_type (PInt _) = True" | "int_type (PBool _) = True" | "int_type _ = False"

fun none_type :: value_type where
  "none_type PNone = True" | "none_type _ = False"

definition literal_type :: "string list \<Rightarrow> value_type" where
  "literal_type ss v \<longleftrightarrow> v \<in> PStr ` set ss"

definition optional_type :: "value_type \<Rightarrow> value_type" where
  "optional_type t v \<longleftrightarrow> t v \<or> none_type v"

fun list_type :: "value_type \<Rightarrow> value_type" where
  "list_type t (PList vs) = list_all t vs" | "list_type t _ = False"

fun dict_type :: "value_type \<Rightarrow> value_type" where
  "dict_type t (PDict d) = (distinct (map fst d) \<and> list_all (\<lambda>kv. t (snd kv)) d)"
| "dict_type t _ = False"

text \<open>A \<open>TypedDict\<close> with required and (\<open>total=False\<close>) optional keys.\<close>

fun typed_dict :: "(string \<times> value_type) list \<Rightarrow> (string \<times> value_type) list \<Rightarrow> value_type" where
  "typed_dict required optional (PDict d) =
     (distinct (map fst d) \<and> list_all (\<lambda>kt. dhas d (fst kt)) required
      \<and> list_all (\<lambda>kv. case map_of (required @ optional) (fst kv) of
           None \<Rightarrow> False | Some t \<Rightarrow> t (snd kv)) d)"
| "typed_dict required optional _ = False"

fun_cases typed_dictE: "typed_dict required optional v"

subsection \<open>The declarations\<close>

definition decision_type :: value_type where
  "decision_type = literal_type (map decision_str [Allow, Deny, Confirm, Escalate])"

definition scalar_type :: value_type where
  \<comment> \<open>\<open>str | int | bool | None\<close>\<close>
  "scalar_type v \<longleftrightarrow> str_type v \<or> int_type v \<or> none_type v"

definition basic_condition :: value_type where
  "basic_condition = typed_dict
     [(''field'', str_type),
      (''op'', literal_type [''eq'', ''ne'', ''gt'', ''gte'', ''lt'', ''lte'', ''in'', ''not_in'', ''exists'',
                             ''contains_any'', ''contains_none'', ''empty'']),
      (''value'', \<lambda>v. scalar_type v \<or> list_type scalar_type v)] []"

definition basic_rule :: value_type where
  "basic_rule = typed_dict
     [(''id'', str_type), (''decision'', decision_type), (''target'', optional_type str_type),
      (''conditions'', list_type basic_condition)] []"

definition basic_policy :: value_type where
  "basic_policy = typed_dict
     [(''profile'', literal_type [''allowly.basic.v1'']), (''action'', str_type),
      (''decision'', decision_type), (''target'', optional_type str_type),
      (''fields'', dict_type (literal_type [''string'', ''integer'', ''boolean'', ''null'', ''list''])),
      (''rules'', list_type basic_rule)] []"

definition action_guards :: value_type where
  "action_guards = typed_dict []
     [(''resource_pattern'', str_type), (''allowed_initiators'', list_type str_type),
      (''max_per_day'', int_type)]"

definition policy_executable_operation_grant :: value_type where
  "policy_executable_operation_grant = typed_dict
     [(''enabled_executable_id'', str_type), (''provider_id'', str_type), (''operation_id'', str_type),
      (''catalog_revision'', str_type), (''definition_fingerprint'', str_type),
      (''minimum_evidence_mode'', literal_type [''receipt'', ''witnessed''])] []"

definition policy_input_descriptions :: value_type where
  "policy_input_descriptions = typed_dict
     [(''description'', str_type), (''resource'', str_type), (''fields'', dict_type str_type)] []"

definition policy_ai_extraction :: value_type where
  "policy_ai_extraction = typed_dict
     [(''sources'', list_type str_type), (''instruction'', str_type)] []"

definition policy_domain_extraction :: value_type where
  "policy_domain_extraction = typed_dict
     [(''source'', str_type), (''transform'', literal_type [''email_domain'']),
      (''empty_sources'', list_type str_type)] []"

definition policy_all_of :: value_type where
  "policy_all_of = typed_dict [(''all_of'', list_type str_type)] []"

definition policy_evidence_requirement :: value_type where
  "policy_evidence_requirement v \<longleftrightarrow>
     policy_ai_extraction v \<or> policy_domain_extraction v \<or> policy_all_of v"

definition policy_action_entry :: value_type where
  "policy_action_entry = typed_dict
     [(''policy'', basic_policy), (''guards'', action_guards),
      (''executable_operations'', list_type policy_executable_operation_grant)]
     [(''input_descriptions'', policy_input_descriptions),
      (''evidence'', dict_type policy_evidence_requirement)]"

definition jws_receipt :: value_type where
  "jws_receipt = typed_dict
     [(''protected'', str_type), (''payload'', str_type), (''signature'', str_type)] []"

definition policy_definition :: value_type where
  "policy_definition = typed_dict
     [(''profile'', literal_type [''allowly.policy.v1'']), (''agent_id'', str_type),
      (''actions'', list_type policy_action_entry),
      (''default_expiry_days'', optional_type int_type)] []"

subsection \<open>Values of these types are JSON values\<close>

definition json_type :: "value_type \<Rightarrow> bool" where
  "json_type t \<longleftrightarrow> (\<forall>v. t v \<longrightarrow> json_value v)"

named_theorems json_types "types all of whose values are JSON values"

lemma json_type_scalars [json_types]:
  "json_type str_type" "json_type int_type" "json_type none_type" "json_type (literal_type ss)"
proof -
  show "json_type str_type"
    unfolding json_type_def by (intro allI impI) (erule str_type.elims; simp)
  show "json_type int_type"
    unfolding json_type_def by (intro allI impI) (erule int_type.elims; simp)
  show "json_type none_type"
    unfolding json_type_def by (intro allI impI) (erule none_type.elims; simp)
  show "json_type (literal_type ss)"
    by (auto simp: json_type_def literal_type_def)
qed

lemma json_type_or [json_types]: "json_type t \<Longrightarrow> json_type u \<Longrightarrow> json_type (\<lambda>v. t v \<or> u v)"
  by (auto simp: json_type_def)

lemma json_type_optional [json_types]: "json_type t \<Longrightarrow> json_type (optional_type t)"
  using json_type_scalars(3) by (auto simp: json_type_def optional_type_def)

lemma json_type_list [json_types]: "json_type t \<Longrightarrow> json_type (list_type t)"
  unfolding json_type_def
  by (intro allI impI) (erule list_type.elims; simp add: list_all_iff)

lemma json_type_dict [json_types]: "json_type t \<Longrightarrow> json_type (dict_type t)"
  unfolding json_type_def
  by (intro allI impI) (erule dict_type.elims; simp add: list_all_iff)

lemma json_type_typed_dict [json_types]:
  assumes "list_all (\<lambda>kt. json_type (snd kt)) (required @ optional)"
  shows "json_type (typed_dict required optional)"
  unfolding json_type_def
proof (intro allI impI)
  fix v assume "typed_dict required optional v"
  then obtain d where v: "v = PDict d" and fields: "list_all (\<lambda>kv. case map_of (required @ optional) (fst kv) of
      None \<Rightarrow> False | Some t \<Rightarrow> t (snd kv)) d"
    by (elim typed_dictE) simp
  have "json_value (snd kv)" if "kv \<in> set d" for kv
  proof -
    from fields that obtain t where t: "map_of (required @ optional) (fst kv) = Some t" "t (snd kv)"
      by (cases "map_of (required @ optional) (fst kv)") (auto simp: list_all_iff simp del: map_of_append)
    from map_of_SomeD[OF t(1)] assms have "json_type t" by (force simp only: list_all_iff snd_conv)
    with t(2) show ?thesis by (simp add: json_type_def)
  qed
  then show "json_value v" by (simp add: v)
qed

lemma json_type_scalar [json_types]: "json_type scalar_type"
  unfolding scalar_type_def[abs_def] by (simp add: json_types)

lemma json_type_decision [json_types]: "json_type decision_type"
  unfolding decision_type_def by (rule json_types)

lemma json_type_basic_policy [json_types]: "json_type basic_policy"
  unfolding basic_policy_def basic_rule_def basic_condition_def
  by (simp add: json_types)

lemma json_type_policy_action_entry [json_types]: "json_type policy_action_entry"
  unfolding policy_action_entry_def action_guards_def policy_executable_operation_grant_def
    policy_input_descriptions_def policy_evidence_requirement_def[abs_def] policy_ai_extraction_def
    policy_domain_extraction_def policy_all_of_def
  by (simp add: json_types)

lemma json_type_policy_definition: "json_type policy_definition"
  unfolding policy_definition_def by (simp add: json_types)

text \<open>A typed policy definition can be sent, and the body of \<open>create\<close> can be built from it.\<close>

lemma typed_definition_sent:
  assumes "policy_definition v"
  shows "\<exists>d t. v = PDict d \<and> json_bytes E v = Inr t \<and> is_ok (body_definition d)"
proof -
  from assms obtain d where d: "v = PDict d" "\<forall>k \<in> set body_keys. dhas d k"
    unfolding policy_definition_def by (cases v) (auto simp: body_keys_def)
  have "json_value v"
    using json_type_policy_definition assms by (simp add: json_type_def)
  then obtain t where "json_bytes E v = Inr t"
    using dumps_ok_iff[of E v] by (auto simp: json_bytes_def is_ok_iff)
  moreover have "is_ok (body_definition d)"
    using d(2) unfolding body_definition_def mapr_ok_iff
    by (auto simp: dhas_def is_ok_iff dict_item_def)
  ultimately show ?thesis using d(1) by blast
qed

text \<open>A definition, with a rule and an optional member, that has the declared type.\<close>

definition sample_typed_policy :: pyval where
  "sample_typed_policy = PDict
     [(''profile'', PStr ''allowly.policy.v1''), (''agent_id'', PStr ''agent-1''),
      (''actions'', PList [PDict
         [(''policy'', PDict
             [(''profile'', PStr ''allowly.basic.v1''), (''action'', PStr ''pay''),
              (''decision'', PStr ''confirm''), (''target'', PNone),
              (''fields'', PDict [(''amount'', PStr ''integer'')]),
              (''rules'', PList [PDict
                 [(''id'', PStr ''big''), (''decision'', PStr ''deny''), (''target'', PNone),
                  (''conditions'', PList [PDict [(''field'', PStr ''amount''), (''op'', PStr ''gt''),
                     (''value'', PInt 100)]])]])]),
          (''guards'', PDict [(''max_per_day'', PInt 3)]), (''executable_operations'', PList []),
          (''evidence'', PDict [(''amount'', PDict [(''all_of'', PList [PStr ''a''])])])]]),
      (''default_expiry_days'', PNone)]"

lemma sample_typed_policy_typed: "policy_definition sample_typed_policy"
  by code_simp

end
