(* ===== verification/Transport_Facts.thy ===== *)
theory Transport_Facts
  imports Samples
begin

text \<open>What every call of the API does to the wire and how it can fail, whatever the request.\<close>

subsection \<open>Sending once, failing in known ways\<close>

lemma handle_send_events:
  assumes "\<not> b (OtherBaseException 0)"
  shows "events (handle (send_request rq) (\<lambda>e. if b e then send_request rq else raise e)) as =
     (case as of [] \<Rightarrow> []
      | A_Exn e # as' \<Rightarrow> (Request rq, A_Exn e) # (if b e then map (Pair (Request rq)) (take 1 as') else [])
      | a # _ \<Rightarrow> [(Request rq, a)])"
proof (cases as)
  case (Cons a as')
  with assms show ?thesis
    by (cases a; cases as') (auto simp: handle_def send_request_def perform_def ill_typed_def)
qed (simp add: handle_def send_request_def perform_def)

lemma handle_send_failure:
  assumes "outcome (handle (send_request rq) (\<lambda>e. if b e then send_request rq else raise e)) as = Some (Inl e)"
    and "\<not> b (OtherBaseException 0)"
  shows "\<exists>a. (Request rq, a) \<in> set (events (handle (send_request rq)
        (\<lambda>e. if b e then send_request rq else raise e)) as)
    \<and> (case a of A_Exn x \<Rightarrow> e = x | A_Response resp \<Rightarrow> False | _ \<Rightarrow> e = OtherBaseException 0)"
proof (cases as)
  case (Cons a as')
  have one: "(case c of A_Exn x \<Rightarrow> e = x | A_Response resp \<Rightarrow> False | _ \<Rightarrow> e = OtherBaseException 0)"
    if "(case c of A_Exn x \<Rightarrow> Inl x | _ \<Rightarrow> as_response c) = Inl e" for c
    using that by (cases c) (auto simp: ill_typed_def)
  show ?thesis
  proof (cases "\<exists>x. a = A_Exn x \<and> b x")
    case True
    then obtain x where x: "a = A_Exn x" "b x" by blast
    with assms Cons obtain c as'' where "as' = c # as''" "(case c of A_Exn x \<Rightarrow> Inl x | _ \<Rightarrow> as_response c) = Inl e"
      by (cases as') (auto simp: handle_def send_request_def perform_def)
    with one x Cons show ?thesis unfolding handle_send_events[of b, OF assms(2)] by auto
  next
    case False
    with assms Cons have "(case a of A_Exn x \<Rightarrow> Inl x | _ \<Rightarrow> as_response a) = Inl e"
      by (cases a) (auto simp: handle_def send_request_def perform_def ill_typed_def)
    with Cons False show ?thesis unfolding handle_send_events[of b, OF assms(2)]
      by (cases a) (auto simp: ill_typed_def)
  qed
qed (use assms in \<open>simp add: handle_def send_request_def perform_def\<close>)

lemma request_events:
  "events (request E C rq expected) as =
     events (handle (send_request rq) (\<lambda>e.
        if e = HttpxError RemoteProtocolError \<and> str_upper (rq_method rq) = ''GET''
        then send_request rq else raise e)) as"
  unfolding request_def request_with_headers_def bindp_assoc events_bindp
  by (auto split: option.splits sum.splits)

lemma decode_response_failure:
  "decode_response E secrets expected Json_Response resp = Inl e \<Longrightarrow>
     (if is_success resp then \<exists>m. e = ProtocolError m else \<exists>x. e = ApiError x \<and> ae_status x = rs_status resp)"
  by (auto simp: decode_response_def response_error_def allowly_api_error_def Let_def split: if_splits option.splits)

text \<open>
  C35: a request is sent once. Every exchange of an API call is the call's own request, there are at most
  two, and a second one follows only on a GET whose connection the server closed without an answer; a
  request that changes state is never sent twice.
\<close>

theorem request_sent_once:
  "set (map fst (events (request E C rq expected) as)) \<subseteq> {Request rq}
   \<and> length (events (request E C rq expected) as) \<le> 2
   \<and> (1 < length (events (request E C rq expected) as) \<longrightarrow>
        str_upper (rq_method rq) = ''GET''
        \<and> snd (hd (events (request E C rq expected) as)) = A_Exn (HttpxError RemoteProtocolError))"
  unfolding request_events
  by (subst (1 2 3 4) handle_send_events; auto split: list.splits ans.splits if_splits)

text \<open>
  C36: how an API call fails. A failed call re-raises what the HTTP client raised, or raises
  AllowlyProtocolError on a success status, or AllowlyAPIError with the status of an answer that is
  no success.
\<close>

theorem request_failures:
  assumes "outcome (request E C rq expected) as = Some (Inl e)"
  shows "\<exists>a. (Request rq, a) \<in> set (events (request E C rq expected) as)
    \<and> (case a of
         A_Exn x \<Rightarrow> e = x
       | A_Response resp \<Rightarrow>
           (if is_success resp then \<exists>m. e = ProtocolError m
            else \<exists>x. e = ApiError x \<and> ae_status x = rs_status resp)
       | _ \<Rightarrow> e = OtherBaseException 0)"
proof -
  let ?b = "\<lambda>e. e = HttpxError RemoteProtocolError \<and> str_upper (rq_method rq) = ''GET''"
  let ?send = "handle (send_request rq) (\<lambda>e. if ?b e then send_request rq else raise e)"
  from assms consider "outcome ?send as = Some (Inl e)"
    | resp where "outcome ?send as = Some (Inr resp)"
        "decode_response E (sensitive_values C rq) expected Json_Response resp = Inl e"
    unfolding request_def request_with_headers_def bindp_assoc
    by (auto simp: outcome_bindp split: option.splits sum.splits)
  then show ?thesis
  proof cases
    case 1
    have "\<not> ?b (OtherBaseException 0)" by simp
    from handle_send_failure[OF 1 this] obtain a where "(Request rq, a) \<in> set (events ?send as)"
      "case a of A_Exn x \<Rightarrow> e = x | A_Response resp \<Rightarrow> False | _ \<Rightarrow> e = OtherBaseException 0" by blast
    then show ?thesis unfolding request_events by (intro exI[of _ a]) (auto split: ans.splits)
  next
    case 2
    from send_request_answered[OF 2(1)] decode_response_failure[OF 2(2)] show ?thesis
      unfolding request_events by (intro exI[of _ "A_Response resp"]) auto
  qed
qed

lemma sample_request_retried:
  "1 < length (events (request sample_env sample_client (api_call ''GET'' ''/v1/x'' None None) [200])
     [A_Exn (HttpxError RemoteProtocolError), sample_reply 200 PNone])"
  unfolding request_events by (subst handle_send_events) (simp_all add: api_call_def str_upper_def upper_char_def char_class_defs)

lemma request_sent_once_witness:
  "str_upper ''GET'' = ''GET'' \<and> snd (hd (events
     (request sample_env sample_client (api_call ''GET'' ''/v1/x'' None None) [200])
     [A_Exn (HttpxError RemoteProtocolError), sample_reply 200 PNone])) = A_Exn (HttpxError RemoteProtocolError)"
  using request_sent_once[of sample_env sample_client "api_call ''GET'' ''/v1/x'' None None" "[200]"
      "[A_Exn (HttpxError RemoteProtocolError), sample_reply 200 PNone]"] sample_request_retried
  by (simp add: api_call_def)

lemma sample_request_fails:
  "outcome (request sample_env sample_client (api_call ''POST'' ''/v1/x'' None None) [200])
     [A_Exn (HttpxError TimeoutException)] = Some (Inl (HttpxError TimeoutException))"
  by (simp add: request_def request_with_headers_def handle_def send_request_def perform_def)

lemma request_failures_witness:
  "\<exists>a. (Request (api_call ''POST'' ''/v1/x'' None None), a) \<in> set (events
     (request sample_env sample_client (api_call ''POST'' ''/v1/x'' None None) [200])
     [A_Exn (HttpxError TimeoutException)])"
  using request_failures[OF sample_request_fails] by blast

end
