(* ===== verification/Check.thy ===== *)
theory Check
  imports Policies
begin

text \<open>
  The authorization check of the \<open>Allowly\<close> client: \<open>check\<close> with its availability fallback,
  \<open>check_by_agent\<close> without one, and \<open>_parse_check_response\<close>. The main fact is where an allow can
  come from: from a response of the API for exactly this authorization and these actions, or, when
  the API could not be reached and no agent identity was used, from an action the application
  itself configured to fail open.
\<close>

subsection \<open>Parsing\<close>

definition parse_budget_info :: "pyval \<Rightarrow> budget_info option res" where
  "parse_budget_info v =
     (if v = PNone then Inr None
      else
        bindr (require_dict v ''budget'') (\<lambda>raw.
        bindr (require_int raw ''limit_micros'') (\<lambda>limit.
        bindr (require_int raw ''spent_micros'') (\<lambda>spent.
        bindr (require_int raw ''estimated_cost_micros'') (\<lambda>estimated.
        bindr (if dget raw ''spent_after_micros'' = PNone then Inr None
               else bindr (require_int raw ''spent_after_micros'') (\<lambda>i. Inr (Some i))) (\<lambda>after.
        Inr (Some \<lparr>bi_limit_micros = limit, bi_spent_micros = spent,
                   bi_estimated_cost_micros = estimated, bi_spent_after_micros = after\<rparr>)))))))"

definition parse_policy_eval :: "sdk_env \<Rightarrow> pyval \<Rightarrow> policy_eval_info option res" where
  "parse_policy_eval E v =
     (if v = PNone then Inr None else bindr (parse_policy_evaluation E v) (\<lambda>i. Inr (Some i)))"

definition is_confirmation_id :: "string \<Rightarrow> bool" where
  \<comment> \<open>\<open>cnf_[A-Za-z0-9_-]+\<close>\<close>
  "is_confirmation_id s \<longleftrightarrow> starts_with ''cnf_'' s \<and> drop 4 s \<noteq> [] \<and> list_all is_id_char (drop 4 s)"

definition optional_confirmation_id :: "pydict \<Rightarrow> string option res" where
  "optional_confirmation_id raw =
     bindr (optional_str raw ''confirmation_id'') (\<lambda>v.
     if (case v of None \<Rightarrow> False | Some s \<Rightarrow> \<not> is_confirmation_id s)
     then Inl (ProtocolError ''confirmation_id must be an opaque cnf_ ID'') else Inr v)"

definition parse_result_base :: "sdk_env \<Rightarrow> pydict \<Rightarrow> check_result_base res" where
  "parse_result_base E item =
     bindr (require_str item ''reason'') (\<lambda>reason.
     bindr (parse_receipt_envelope E (dget item ''receipt'')) (\<lambda>receipt.
     bindr (parse_budget_info (dget item ''budget'')) (\<lambda>budget.
     bindr (parse_escalation_info (dget item ''escalation'')) (\<lambda>escalation.
     bindr (parse_policy_eval E (dget item ''policy_eval'')) (\<lambda>policy.
     Inr \<lparr>cr_reason = reason, cr_receipt = Some receipt, cr_is_fallback = False,
          cr_fallback_mode = None, cr_budget = budget, cr_escalation = escalation,
          cr_policy_eval = policy\<rparr>)))))"

definition parse_confirm_details :: "pydict \<Rightarrow> confirm_details res" where
  "parse_confirm_details item =
     bindr (require_str item ''confirm_nonce'') (\<lambda>nonce.
     bindr (require_str item ''confirm_expires_at'') (\<lambda>expires.
     bindr (require_str item ''confirm_prompt_hint'') (\<lambda>hint.
     bindr (optional_confirmation_id item) (\<lambda>i.
     Inr \<lparr>cd_nonce = nonce, cd_expires_at = expires, cd_prompt_hint = hint, cd_confirmation_id = i\<rparr>))))"

definition parse_escalate_details :: "pydict \<Rightarrow> escalate_details res" where
  "parse_escalate_details item =
     bindr (require_str item ''escalation_id'') (\<lambda>i.
     bindr (optional_str item ''escalation_to'') (\<lambda>t.
     bindr (optional_str item ''escalation_expires_at'') (\<lambda>x.
     Inr \<lparr>xd_escalation_id = i, xd_escalation_to = t, xd_escalation_expires_at = x\<rparr>)))"

definition parse_action_result :: "sdk_env \<Rightarrow> string \<times> pyval \<Rightarrow> (string \<times> action_check_result) res" where
  "parse_action_result E = (\<lambda>(action, raw_item).
     bindr (require_dict raw_item (''check result '' @ repr_str action)) (\<lambda>item.
     bindr (require_str item ''decision'') (\<lambda>decision.
     case decision_of decision of
       None \<Rightarrow> Inl (ProtocolError (''unknown check decision: '' @ repr_str decision))
     | Some d \<Rightarrow>
         bindr (parse_result_base E item) (\<lambda>base.
         case d of
           Allow \<Rightarrow> Inr (action, Result_Allow base)
         | Deny \<Rightarrow> Inr (action, Result_Deny base (dget item ''superseded_by''))
         | Confirm \<Rightarrow> bindr (parse_confirm_details item) (\<lambda>c. Inr (action, Result_Confirm base c))
         | Escalate \<Rightarrow> bindr (parse_escalate_details item) (\<lambda>x. Inr (action, Result_Escalate base x))))))"

definition parse_check_response ::
  "sdk_env \<Rightarrow> pyval \<Rightarrow> string \<Rightarrow> string list \<Rightarrow> check_response res" where
  "parse_check_response E v expected_authorization_id expected_actions =
     bindr (require_dict v ''check response'') (\<lambda>raw.
     bindr (require_str raw ''authorization_id'') (\<lambda>authorization_id.
     if authorization_id \<noteq> expected_authorization_id
     then Inl (ProtocolError ''check response authorization_id does not match the request'')
     else
     bindr (require_dict (dget raw ''results'') ''check results'') (\<lambda>items.
     if set (keys_of items) \<noteq> set expected_actions
     then Inl (ProtocolError ''check response result actions do not match the request'')
     else
     bindr (mapr (parse_action_result E) items) (\<lambda>results.
     bindr (require_str raw ''engine_version'') (\<lambda>engine_version.
     if \<not> is_sha256_tag engine_version
     then Inl (ProtocolError ''engine_version must identify the full engine manifest by SHA-256'')
     else
     bindr (optional_str raw ''user_id'') (\<lambda>user_id.
     bindr (optional_str raw ''agent_id'') (\<lambda>agent_id.
     bindr (optional_str raw ''authorization_expires_at'') (\<lambda>expires.
     Inr \<lparr>ck_authorization_id = authorization_id, ck_user_id = user_id, ck_agent_id = agent_id,
          ck_authorization_expires_at = expires, ck_engine_version = engine_version,
          ck_results = results, ck_billing_warning = None\<rparr>))))))))"

subsection \<open>Fallback\<close>

definition fallback_result :: "client \<Rightarrow> string \<Rightarrow> bool \<Rightarrow> string \<Rightarrow> action_check_result" where
  "fallback_result C failure force_fail_closed action =
     (let mode = (if force_fail_closed then Fail_Closed
                  else case map_of (cl_fallback_by_action C) action of
                         None \<Rightarrow> Fail_Closed | Some m \<Rightarrow> m);
          base = \<lparr>cr_reason = (case mode of Fail_Open \<Rightarrow> ''fallback_open_'' | Fail_Closed \<Rightarrow> ''fallback_closed_'')
                               @ failure,
                  cr_receipt = None, cr_is_fallback = True, cr_fallback_mode = Some mode,
                  cr_budget = None, cr_escalation = None, cr_policy_eval = None\<rparr>
      in case mode of Fail_Open \<Rightarrow> Result_Allow base | Fail_Closed \<Rightarrow> Result_Deny base PNone)"

definition fallback_check_response ::
  "client \<Rightarrow> string \<Rightarrow> string list \<Rightarrow> string \<Rightarrow> bool \<Rightarrow> check_response" where
  "fallback_check_response C authorization_id actions failure force_fail_closed =
     \<lparr>ck_authorization_id = authorization_id, ck_user_id = None, ck_agent_id = None,
      ck_authorization_expires_at = None, ck_engine_version = ''sdk_fallback'',
      ck_results = fold (\<lambda>a d. put_item a (fallback_result C failure force_fail_closed a) d) actions [],
      ck_billing_warning = None\<rparr>"

subsection \<open>\<open>check\<close>\<close>

record check_call =
  cc_authorization_id :: string
  cc_actions :: "string list"
  cc_resource :: pyval
  cc_session_id :: pyval
  cc_estimated_cost_micros :: pyval
  cc_context :: "pydict option"
  cc_wait :: bool
  cc_idempotency_key :: "string option"
  cc_client_timestamp :: "timestamp_arg option"
  cc_agent_token :: pyval

definition optional_timestamp :: "sdk_env \<Rightarrow> timestamp_arg option \<Rightarrow> pydict res" where
  "optional_timestamp E t =
     (case t of None \<Rightarrow> Inr []
      | Some arg \<Rightarrow> bindr (client_timestamp E arg) (\<lambda>s. Inr [(''client_timestamp'', PStr s)]))"

definition check_body :: "check_call \<Rightarrow> pydict" where
  "check_body c =
     [(''authorization_id'', PStr (cc_authorization_id c)), (''actions'', str_list (cc_actions c)),
      (''resource'', cc_resource c), (''session_id'', cc_session_id c),
      (''estimated_cost_micros'', cc_estimated_cost_micros c),
      (''context'', PDict (case cc_context c of None \<Rightarrow> [] | Some d \<Rightarrow> d))]"

definition check_timeout :: "client \<Rightarrow> bool \<Rightarrow> pyfloat" where
  "check_timeout C wait = Fin (if wait then max (cl_check_timeout C) 6 else cl_check_timeout C)"

definition wait_path :: "string \<Rightarrow> bool \<Rightarrow> string" where
  "wait_path path wait = path @ (if wait then ''?wait=true'' else [])"

text \<open>
  \<open>asyncio.wait_for\<close> interrupts the request by answering one of its effects with a timeout.
  \<open>check_failure\<close> says which errors count as the API being unavailable, and how. From Python 3.11 on
  \<open>asyncio.TimeoutError\<close> is the built-in \<open>TimeoutError\<close>, which nothing here raises otherwise.
\<close>

fun check_failure :: "exn \<Rightarrow> string option" where
  "check_failure AsyncTimeoutError = Some ''timeout''"
| "check_failure (HttpxError k) =
     (if k = TimeoutException then Some ''timeout''
      else if k = DecodingError \<or> is_transport_error (HttpxError k) then Some ''unreachable''
      else None)"
| "check_failure (ApiError e) =
     (if ae_code e = PStr ''identity_verification_unavailable'' then None
      else if ae_status e = 408 then Some ''timeout''
      else if ae_status e \<ge> 500 then Some ''unreachable''
      else None)"
| "check_failure _ = None"

definition identity_enabled :: "(string \<times> string) list option \<Rightarrow> bool" where
  "identity_enabled headers =
     (case headers of None \<Rightarrow> False | Some hs \<Rightarrow> map_of hs ''X-Allowly-Agent-Token'' \<noteq> None)"

definition check_request :: "client \<Rightarrow> string \<Rightarrow> bool \<Rightarrow> pydict \<Rightarrow> (string \<times> string) list option \<Rightarrow> http_request" where
  "check_request C path wait body headers =
     (api_call ''POST'' (wait_path path wait) (Some (PDict body)) headers)
       \<lparr>rq_timeout := Some (check_timeout C wait)\<rparr>"

definition check :: "sdk_env \<Rightarrow> client \<Rightarrow> check_call \<Rightarrow> check_response prog" where
  "check E C c =
     bindp (Done (optional_timestamp E (cc_client_timestamp c))) (\<lambda>timestamp.
     bindp (identity_headers C (cc_agent_token c) (cc_idempotency_key c)) (\<lambda>headers.
     bindp (attempt (request_with_headers E C
              (check_request C ''/v1/check'' (cc_wait c) (check_body c @ timestamp) headers) [200]
              Json_Response)) (\<lambda>answer.
     case answer of
       Inl e \<Rightarrow>
         (case check_failure e of
            None \<Rightarrow> raise e
          | Some failure \<Rightarrow>
              return (fallback_check_response C (cc_authorization_id c) (cc_actions c) failure
                        (identity_enabled headers)))
     | Inr (raw, response_headers) \<Rightarrow>
         bindp (Done (parse_check_response E raw (cc_authorization_id c) (cc_actions c))) (\<lambda>response.
         return (response\<lparr>ck_billing_warning := header_get response_headers ''X-Allowly-Billing-Warning''\<rparr>)))))"

subsection \<open>\<open>check_by_agent\<close>\<close>

definition agent_check_body :: "string \<Rightarrow> pydict \<Rightarrow> check_call \<Rightarrow> pydict" where
  "agent_check_body agent_name reference c =
     [(''agent_name'', PStr agent_name), (''expected_policy_ref'', PDict reference),
      (''actions'', str_list (cc_actions c)), (''resource'', cc_resource c),
      (''session_id'', cc_session_id c), (''estimated_cost_micros'', cc_estimated_cost_micros c),
      (''context'', PDict (case cc_context c of None \<Rightarrow> [] | Some d \<Rightarrow> d))]"

definition resolved_authorization :: "pyval \<Rightarrow> string res" where
  "resolved_authorization v =
     bindr (require_dict v ''check response'') (\<lambda>raw.
     bindr (require_str raw ''authorization_id'') (\<lambda>i.
     if i = [] \<or> i \<noteq> strip i \<or> 128 < length i
     then Inl (ProtocolError ''resolved authorization_id must be a nonempty bounded ID'')
     else Inr i))"

text \<open>The authorization and the token of the call are not used: the name decides.\<close>

definition check_by_agent ::
  "sdk_env \<Rightarrow> client \<Rightarrow> string \<Rightarrow> pyval \<Rightarrow> check_call \<Rightarrow> check_response prog" where
  "check_by_agent E C agent_name expected_policy_ref c =
     (if cl_agent_token C \<noteq> PNone \<or> cl_has_supplier C
      then raise (ValueError ''name-routed checks cannot use configured agent identity'')
      else if (case cc_context c of None \<Rightarrow> False | Some d \<Rightarrow> dhas d ''agent_label'')
      then raise (ValueError ''context.agent_label is reserved for the server'')
      else
        bindp (Done (parse_policy_reference E expected_policy_ref)) (\<lambda>reference.
        bindp (Done (optional_timestamp E (cc_client_timestamp c))) (\<lambda>timestamp.
        bindp (request_with_headers E C
                 (check_request C ''/v1/agent-check'' (cc_wait c)
                    (agent_check_body agent_name reference c @ timestamp)
                    (map_option (\<lambda>k. [(''Idempotency-Key'', k)]) (cc_idempotency_key c))) [200]
                 Json_Response) (\<lambda>(raw, response_headers).
        bindp (Done (resolved_authorization raw)) (\<lambda>authorization_id.
        bindp (Done (parse_check_response E raw authorization_id (cc_actions c))) (\<lambda>response.
        return (response\<lparr>ck_billing_warning := header_get response_headers ''X-Allowly-Billing-Warning''\<rparr>)))))))"

subsection \<open>Where a result comes from\<close>

lemma parse_action_result_ok:
  assumes "parse_action_result E (a, v) = Inr (b, x)"
  shows "b = a \<and> \<not> cr_is_fallback (result_base x)
    \<and> (\<exists>item. v = PDict item \<and> dget item ''decision'' = PStr (decision_str (result_decision x)))"
proof -
  from assms obtain item d base where item: "v = PDict item" "dget item ''decision'' = PStr (decision_str d)"
    and base: "parse_result_base E item = Inr base"
    and x: "(case d of
           Allow \<Rightarrow> Inr (a, Result_Allow base)
         | Deny \<Rightarrow> Inr (a, Result_Deny base (dget item ''superseded_by''))
         | Confirm \<Rightarrow> bindr (parse_confirm_details item) (\<lambda>c. Inr (a, Result_Confirm base c))
         | Escalate \<Rightarrow> bindr (parse_escalate_details item) (\<lambda>x. Inr (a, Result_Escalate base x)))
         = (Inr (b, x) :: _ res)"
    unfolding parse_action_result_def prod.case
    by (elim result_elims) (auto simp: decision.of_str_iff reader_iffs)
  from base have "\<not> cr_is_fallback base"
    unfolding parse_result_base_def by (elim bindr_InrE) auto
  with item x show ?thesis by (cases d) auto
qed

lemma parse_results_lookup:
  "mapr (parse_action_result E) items = Inr rs \<Longrightarrow>
     map fst rs = map fst items
     \<and> (map_of rs a = Some x \<longrightarrow> (\<exists>v. map_of items a = Some v \<and> parse_action_result E (a, v) = Inr (a, x)))"
proof (induction items arbitrary: rs)
  case (Cons p items)
  obtain k v where p: "p = (k, v)" by (cases p)
  from Cons.prems p obtain k' y rs' where
    y: "parse_action_result E (k, v) = Inr (k', y)" and rs: "rs = (k', y) # rs'"
    and tail: "mapr (parse_action_result E) items = Inr rs'" by auto
  from parse_action_result_ok[OF y] have "k' = k" by blast
  with Cons.IH[OF tail] rs y p show ?case by auto
qed simp

lemma parse_check_response_ok:
  assumes "parse_check_response E v i actions = Inr r"
  shows "\<exists>raw items. v = PDict raw \<and> dget raw ''authorization_id'' = PStr i \<and> ck_authorization_id r = i
    \<and> dget raw ''results'' = PDict items \<and> mapr (parse_action_result E) items = Inr (ck_results r)
    \<and> set (map fst (ck_results r)) = set actions \<and> is_sha256_tag (ck_engine_version r)"
proof -
  from assms obtain raw items results version where
    "v = PDict raw" "dget raw ''authorization_id'' = PStr i" "dget raw ''results'' = PDict items"
    "set (keys_of items) = set actions" "is_sha256_tag version" "ck_engine_version r = version"
    "ck_authorization_id r = i" "ck_results r = results"
    and results: "mapr (parse_action_result E) items = Inr results"
    unfolding parse_check_response_def by (elim result_elims) (auto simp: reader_iffs)
  moreover have "map fst results = keys_of items"
    using parse_results_lookup[OF results] by (simp add: keys_of_def)
  ultimately show ?thesis by auto
qed

lemma identity_headers_off:
  assumes "outcome (identity_headers C token k) as = Some (Inr headers)" and "\<not> identity_enabled headers"
  shows "token = PNone \<and> \<not> cl_has_supplier C \<and> cl_agent_token C = PNone"
proof -
  from assms(1) obtain t where t: "outcome (effective_agent_token C token) as = Some (Inr t)"
    and rest: "outcome (bindp (case t of
              PNone \<Rightarrow> return []
            | PStr s \<Rightarrow>
                (if strip s = [] then raise (ValueError ''agent token must be a non-empty string'')
                 else return [(''X-Allowly-Agent-Token'', s)])
            | _ \<Rightarrow> raise (ValueError ''agent token must be a non-empty string'')) (\<lambda>hs.
          let headers = hs @ (case k of None \<Rightarrow> [] | Some k \<Rightarrow> [(''Idempotency-Key'', k)])
          in return (if headers = [] then None else Some headers)))
        (leftover (effective_agent_token C token) as) = Some (Inr headers)"
    unfolding identity_headers_def outcome_bindp_ok by blast
  from rest assms(2) have "t = PNone"
    by (cases t) (auto simp: identity_enabled_def Let_def split: if_splits)
  with t show ?thesis
    by (auto simp: effective_agent_token_def nonblank_str_def outcome_ok split: if_splits)
qed

lemma fold_fallback_lookup:
  "map_of (fold (\<lambda>a d. put_item a (f a) d) actions d0) a =
     (if a \<in> set actions then Some (f a) else map_of d0 a)"
  by (induction actions arbitrary: d0) auto

lemma fallback_results:
  "map_of (ck_results (fallback_check_response C i actions failure force)) a =
     (if a \<in> set actions then Some (fallback_result C failure force a) else None)"
  by (simp add: fallback_check_response_def fold_fallback_lookup)

lemma fallback_allow:
  "result_decision (fallback_result C failure force a) = Allow \<longleftrightarrow>
     \<not> force \<and> map_of (cl_fallback_by_action C) a = Some Fail_Open"
  by (auto simp: fallback_result_def Let_def split: fallback_mode.splits option.splits if_splits)

text \<open>The request a check sends.\<close>

definition sent_check :: "sdk_env \<Rightarrow> client \<Rightarrow> check_call \<Rightarrow> http_request \<Rightarrow> bool" where
  "sent_check E C c rq \<longleftrightarrow>
     (\<exists>timestamp headers. optional_timestamp E (cc_client_timestamp c) = Inr timestamp
        \<and> rq = check_request C ''/v1/check'' (cc_wait c) (check_body c @ timestamp) headers)"

lemma check_outcomeE:
  assumes "outcome (check E C c) as = Some (Inr r)"
  obtains timestamp headers answer as1 as2 where
    "optional_timestamp E (cc_client_timestamp c) = Inr timestamp"
    and "outcome (identity_headers C (cc_agent_token c) (cc_idempotency_key c)) as = Some (Inr headers)"
    and "outcome (request_with_headers E C
        (check_request C ''/v1/check'' (cc_wait c) (check_body c @ timestamp) headers) [200] Json_Response) as1
      = Some answer"
    and "set (events (request_with_headers E C
        (check_request C ''/v1/check'' (cc_wait c) (check_body c @ timestamp) headers) [200] Json_Response) as1)
      \<subseteq> set (events (check E C c) as)"
    and "outcome (case answer of
       Inl e \<Rightarrow>
         (case check_failure e of
            None \<Rightarrow> raise e
          | Some failure \<Rightarrow>
              return (fallback_check_response C (cc_authorization_id c) (cc_actions c) failure
                        (identity_enabled headers)))
     | Inr (raw, response_headers) \<Rightarrow>
         bindp (Done (parse_check_response E raw (cc_authorization_id c) (cc_actions c))) (\<lambda>response.
         return (response\<lparr>ck_billing_warning := header_get response_headers ''X-Allowly-Billing-Warning''\<rparr>)))
      as2 = Some (Inr r)"
  using assms unfolding check_def outcome_bindp_ok outcome_Done_ok leftover.simps outcome_attempt
  by (elim exE conjE) (rule that, assumption+, auto simp: check_def events_bindp)

lemma check_answer_cases:
  assumes "outcome (check E C c) as = Some (Inr r)"
  shows "(\<exists>rq resp raw response. sent_check E C c rq
      \<and> (Request rq, A_Response resp) \<in> set (events (check E C c) as) \<and> rs_status resp = 200
      \<and> rs_json resp = Some raw
      \<and> parse_check_response E raw (cc_authorization_id c) (cc_actions c) = Inr response
      \<and> r = response\<lparr>ck_billing_warning := header_get (rs_headers resp) ''X-Allowly-Billing-Warning''\<rparr>)
    \<or> (\<exists>failure headers as'.
      r = fallback_check_response C (cc_authorization_id c) (cc_actions c) failure (identity_enabled headers)
      \<and> outcome (identity_headers C (cc_agent_token c) (cc_idempotency_key c)) as' = Some (Inr headers))"
  using assms
proof (rule check_outcomeE, goal_cases)
  case (1 timestamp headers answer as1 as2)
  show ?case
  proof (cases answer)
    case (Inl e)
    with 1(2,5) show ?thesis by (auto split: option.splits)
  next
    case (Inr p)
    obtain raw hs where p: "p = (raw, hs)" by (cases p)
    let ?rq = "check_request C ''/v1/check'' (cc_wait c) (check_body c @ timestamp) headers"
    from request_with_headers_ok[of E C ?rq "[200]" as1 raw hs] 1(3,4) obtain resp where
      resp: "(Request ?rq, A_Response resp) \<in> set (events (check E C c) as)"
        "rs_status resp = 200" "rs_json resp = Some raw" "rs_headers resp = hs"
      unfolding Inr p by auto
    moreover have "sent_check E C c ?rq" using 1(1) by (auto simp: sent_check_def)
    moreover from 1(5) obtain response where
      "parse_check_response E raw (cc_authorization_id c) (cc_actions c) = Inr response"
      "r = response\<lparr>ck_billing_warning := header_get hs ''X-Allowly-Billing-Warning''\<rparr>"
      unfolding Inr p by (auto split: sum.splits)
    ultimately show ?thesis by blast
  qed
qed

lemma allow_sources:
  assumes "outcome (check E C c) as = Some (Inr r)" and "map_of (ck_results r) a = Some x"
    and "result_decision x = Allow"
  shows "(\<not> cr_is_fallback (result_base x)
      \<and> (\<exists>rq resp raw items item. sent_check E C c rq
           \<and> (Request rq, A_Response resp) \<in> set (events (check E C c) as) \<and> rs_status resp = 200
           \<and> rs_json resp = Some (PDict raw)
           \<and> dget raw ''authorization_id'' = PStr (cc_authorization_id c)
           \<and> dget raw ''results'' = PDict items \<and> map_of items a = Some (PDict item)
           \<and> dget item ''decision'' = PStr ''allow''))
    \<or> (cr_is_fallback (result_base x) \<and> map_of (cl_fallback_by_action C) a = Some Fail_Open
      \<and> cc_agent_token c = PNone \<and> \<not> cl_has_supplier C \<and> cl_agent_token C = PNone)"
  using check_answer_cases[OF assms(1)]
proof (elim disjE exE conjE)
  fix rq resp v response
  assume sent: "sent_check E C c rq" "(Request rq, A_Response resp) \<in> set (events (check E C c) as)"
    "rs_status resp = 200" "rs_json resp = Some v"
    and parsed: "parse_check_response E v (cc_authorization_id c) (cc_actions c) = Inr response"
    and r: "r = response\<lparr>ck_billing_warning := header_get (rs_headers resp) ''X-Allowly-Billing-Warning''\<rparr>"
  from parse_check_response_ok[OF parsed] obtain raw items where
    raw: "v = PDict raw" "dget raw ''authorization_id'' = PStr (cc_authorization_id c)"
      "dget raw ''results'' = PDict items"
    and items: "mapr (parse_action_result E) items = Inr (ck_results response)" by blast
  from parse_results_lookup[OF items, of a x] assms(2) r obtain u where
    u: "map_of items a = Some u" "parse_action_result E (a, u) = Inr (a, x)" by auto
  from parse_action_result_ok[OF u(2)] assms(3) sent raw u(1) show ?thesis by fastforce
next
  fix failure headers as'
  assume r: "r = fallback_check_response C (cc_authorization_id c) (cc_actions c) failure
      (identity_enabled headers)"
    and headers: "outcome (identity_headers C (cc_agent_token c) (cc_idempotency_key c)) as' = Some (Inr headers)"
  with assms(2) have x: "x = fallback_result C failure (identity_enabled headers) a"
    by (auto simp: fallback_results split: if_splits)
  with assms(3) have "\<not> identity_enabled headers" "map_of (cl_fallback_by_action C) a = Some Fail_Open"
    by (simp_all add: fallback_allow)
  moreover have "cr_is_fallback (result_base x)"
    by (simp add: x fallback_result_def Let_def split: fallback_mode.split)
  ultimately show ?thesis using identity_headers_off[OF headers] by blast
qed

subsection \<open>Properties\<close>

text \<open>
  C17: where an allow comes from. When \<open>check\<close> returns an allow for an action, then either the API
  answered this check with status 200, for this authorization, and its result for the action says
  allow; or it is marked as a fallback, the application configured this action to fail open, and
  no agent token was given, configured or supplied.
\<close>

theorem allow_is_answered_or_configured:
  assumes "outcome (check E C c) as = Some (Inr r)" and "map_of (ck_results r) a = Some x"
    and "result_decision x = Allow"
  shows "(\<not> cr_is_fallback (result_base x)
      \<and> (\<exists>rq resp raw items item. sent_check E C c rq
           \<and> (Request rq, A_Response resp) \<in> set (events (check E C c) as) \<and> rs_status resp = 200
           \<and> rs_json resp = Some (PDict raw)
           \<and> dget raw ''authorization_id'' = PStr (cc_authorization_id c)
           \<and> dget raw ''results'' = PDict items \<and> map_of items a = Some (PDict item)
           \<and> dget item ''decision'' = PStr ''allow''))
    \<or> (cr_is_fallback (result_base x) \<and> map_of (cl_fallback_by_action C) a = Some Fail_Open
      \<and> cc_agent_token c = PNone \<and> \<not> cl_has_supplier C \<and> cl_agent_token C = PNone)"
  using allow_sources[OF assms] .

text \<open>
  C22: every requested action gets a result and nothing else does, in answers and in fallbacks, and
  the response is for the requested authorization.
\<close>

theorem check_covers_actions:
  assumes "outcome (check E C c) as = Some (Inr r)"
  shows "set (map fst (ck_results r)) = set (cc_actions c)
    \<and> ck_authorization_id r = cc_authorization_id c"
  using check_answer_cases[OF assms]
proof (elim disjE exE conjE)
  fix failure headers as'
  assume r: "r = fallback_check_response C (cc_authorization_id c) (cc_actions c) failure
      (identity_enabled headers)"
  have "a \<in> fst ` set (ck_results r) \<longleftrightarrow> a \<in> set (cc_actions c)" for a
    using map_of_eq_None_iff[of "ck_results r" a] unfolding r fallback_results by (simp split: if_splits)
  with r show ?thesis by (auto simp: fallback_check_response_def)
qed (use parse_check_response_ok in fastforce)

text \<open>
  C23: a check routed by an agent name never falls back and never uses an agent's identity. Its
  results all come from a response with status 200, cover exactly the requested actions, and the
  caller cannot have set the label the server reserves.
\<close>

theorem agent_check_never_falls_back:
  assumes "outcome (check_by_agent E C agent_name ref c) as = Some (Inr r)"
  shows "cl_agent_token C = PNone \<and> \<not> cl_has_supplier C
    \<and> (\<forall>d. cc_context c = Some d \<longrightarrow> \<not> dhas d ''agent_label'')
    \<and> set (map fst (ck_results r)) = set (cc_actions c)
    \<and> (\<forall>(a, x) \<in> set (ck_results r). \<not> cr_is_fallback (result_base x))
    \<and> (\<exists>raw. resolved_authorization (PDict raw) = Inr (ck_authorization_id r))"
proof -
  from assms obtain raw hs i response where
    off: "cl_agent_token C = PNone" "\<not> cl_has_supplier C"
      "\<not> (case cc_context c of None \<Rightarrow> False | Some d \<Rightarrow> dhas d ''agent_label'')"
    and i: "resolved_authorization raw = Inr i"
    and parsed: "parse_check_response E raw i (cc_actions c) = Inr response"
    and r: "r = response\<lparr>ck_billing_warning := header_get hs ''X-Allowly-Billing-Warning''\<rparr>"
    unfolding check_by_agent_def split_def outcome_ok by auto
  from parse_check_response_ok[OF parsed] obtain d items where
    d: "raw = PDict d" "ck_authorization_id response = i" "set (map fst (ck_results response)) = set (cc_actions c)"
    and items: "mapr (parse_action_result E) items = Inr (ck_results response)" by blast
  have "\<not> cr_is_fallback (result_base x)" if "(a, x) \<in> set (ck_results response)" for a x
    using mapr_mem[OF items that] parse_action_result_ok by fast
  with off i d r show ?thesis by (auto split: option.splits)
qed

end
