(* ===== verification/Policy_Samples.thy ===== *)
theory Policy_Samples
  imports Policy_Api Samples
begin

text \<open>
  The policy properties on concrete documents: an environment whose canonical text of an object is
  the name of its first member and which reads these texts back as the sample documents.
\<close>

definition sample_digest :: string where
  "sample_digest = replicate 64 (CHR ''a'')"

definition sample_reference :: pydict where
  "sample_reference =
     [(''definition_sha256'', PStr sample_digest), (''policy_id'', PStr ''p''), (''policy_version'', PInt 1)]"

definition sample_definition :: pydict where
  "sample_definition =
     [(''actions'', PList [PDict [(''policy'', PDict [(''action'', PStr ''pay'')])]]),
      (''agent_id'', PStr ''ag''), (''default_expiry_days'', PNone),
      (''profile'', PStr ''allowly.policy.v1'')]"

definition sample_evaluation :: pydict where
  "sample_evaluation =
     [(''input_sha256'', PStr sample_digest),
      (''result'', PDict [(''profile'', PStr ''allowly.basic.v1''), (''status'', PStr ''ok''),
                          (''decision'', PStr ''escalate''), (''target'', PStr ''member:m''),
                          (''matched_rule_id'', PNone), (''evaluated_fields'', PDict [])])]"

definition policy_env :: sdk_env where
  "policy_env = sample_env
     \<lparr>canonicalize := (\<lambda>v. Inr (case v of PDict ((k, _) # _) \<Rightarrow> k | _ \<Rightarrow> ''{}'')),
      json_tree := (\<lambda>s. Some (PDict
        (if s = ''definition_sha256'' then sample_reference
         else if s = ''actions'' then sample_definition
         else if s = ''input_sha256'' then sample_evaluation else [])))\<rparr>"

definition sample_policy :: pyval where
  "sample_policy = PDict [(''policy_ref'', PDict sample_reference), (''definition'', PDict sample_definition)]"

definition sample_eval_info :: policy_eval_info where
  "sample_eval_info =
     \<lparr>pe_input_sha256 = sample_digest,
      pe_result = \<lparr>pp_decision = Escalate, pp_target = Some ''member:m'', pp_matched_rule_id = None,
                   pp_evaluated_fields = []\<rparr>\<rparr>"

definition sample_policy_response :: policy_response where
  "sample_policy_response =
     \<lparr>po_policy_ref = sample_reference, po_definition = PDict sample_definition, po_description = None,
      po_created_by = None, po_created_at = None, po_deleted_at = None\<rparr>"

lemma sample_evaluation_parses:
  "parse_policy_evaluation policy_env (PDict sample_evaluation) = Inr sample_eval_info"
  by code_simp

lemma run_request:
  "c \<in> set expected \<Longrightarrow> 200 \<le> c \<Longrightarrow> c \<le> 299 \<Longrightarrow> c \<noteq> 204 \<Longrightarrow>
     outcome (bindp (request E C rq expected) f) [sample_reply c v] = outcome (f v) []"
  by (simp add: request_def request_with_headers_def send_request_def sample_reply_def perform_def
      handle_def decode_response_def is_success_def)

definition sample_body :: pydict where
  "sample_body = sample_definition @ [(''policy_id'', PStr ''p'')]"

lemma sample_parts:
  "policy_body policy_env (PStr ''p'') (PDict sample_definition) PNone PNone = Inr sample_body"
  "parse_policy policy_env sample_policy = Inr sample_policy_response"
  "validate_policy_definition policy_env (PDict sample_definition) = Inr (PDict sample_definition)"
  "selected_policy (PDict sample_definition) ''pay'' = Inr (PDict [(''action'', PStr ''pay'')])"
  "policy_document policy_env (PDict []) ''context'' 4096 = Inr (PDict [])"
  "preview_commitment policy_env (PDict [(''action'', PStr ''pay'')]) ''pay'' (PDict []) = Inr sample_digest"
  "definition_digest policy_env (PDict sample_definition) = Inr sample_digest"
  by code_simp+

lemma sample_submission:
  "body_definition sample_body =
     Inr [(''profile'', PStr ''allowly.policy.v1''), (''agent_id'', PStr ''ag''),
          (''actions'', PList [PDict [(''policy'', PDict [(''action'', PStr ''pay'')])]]),
          (''default_expiry_days'', PNone)]"
  by (simp add: body_definition_def body_keys_def sample_body_def sample_definition_def dict_item_def)

lemma sample_create:
  "outcome (create_policy policy_env sample_client (PStr ''p'') (PDict sample_definition) PNone PNone None)
     [sample_reply 201 sample_policy] = Some (Inr sample_policy_response)"
  by (simp add: create_policy_def sample_parts run_request sample_submission)
     (simp add: sample_policy_response_def sample_reference_def sample_definition_def)

lemma sample_list:
  "outcome (list_policies policy_env sample_client (PInt 5) None)
     [sample_reply 200 (PDict [(''items'', PList [sample_policy]), (''has_more'', PBool False)])]
   = Some (Inr \<lparr>pl_items = [sample_policy_response], pl_has_more = False, pl_next_cursor = None\<rparr>)"
  by (simp add: list_policies_def run_request policy_integer_def policy_keys_def keys_of_def
      pagination_def string_or_null_def sample_parts)

lemma sample_preview:
  "outcome (preview_policy policy_env sample_client (PDict sample_definition) (PStr ''pay'') (PDict []))
     [sample_reply 200 (PDict [(''provisional'', PBool True), (''definition_sha256'', PStr sample_digest),
        (''action'', PStr ''pay''), (''policy_eval'', PDict sample_evaluation)])]
   = Some (Inr \<lparr>pw_definition_sha256 = sample_digest, pw_action = ''pay'', pw_policy_eval = sample_eval_info\<rparr>)"
  by (simp add: preview_policy_def sample_parts run_request policy_text_def policy_keys_def keys_of_def
      sample_evaluation_parses sample_eval_info_def)

lemma policy_evaluation_ok_witness:
  "pp_evaluated_fields (pe_result sample_eval_info) = [] \<and> is_sha256_hex (pe_input_sha256 sample_eval_info)"
  using policy_evaluation_ok[OF sample_evaluation_parses] by (simp add: sample_eval_info_def)

lemma created_policy_submitted_witness:
  "committed policy_env sample_reference (PDict sample_definition)"
  using created_policy_submitted[OF sample_create] by (auto simp: sample_policy_response_def)



end
