(* ===== verification/Check_Samples.thy ===== *)
theory Check_Samples
  imports Check Policy_Samples
begin

text \<open>The check properties on concrete calls: one answered by the API, one that times out.\<close>

definition sample_check_call :: check_call where
  "sample_check_call =
     \<lparr>cc_authorization_id = ''az'', cc_actions = [''pay'', ''refund''], cc_resource = PNone,
      cc_session_id = PNone, cc_estimated_cost_micros = PNone, cc_context = None, cc_wait = False,
      cc_idempotency_key = None, cc_client_timestamp = None, cc_agent_token = PNone\<rparr>"

definition sample_receipt :: pyval where
  "sample_receipt =
     PDict [(''status'', PStr ''pending''), (''receipt_id'', PStr ''r1''), (''url'', PStr ''u'')]"

definition sample_check_body :: pyval where
  "sample_check_body =
     PDict [(''authorization_id'', PStr ''az''), (''engine_version'', PStr digest_a),
            (''results'', PDict
              [(''refund'', PDict [(''decision'', PStr ''deny''), (''reason'', PStr ''no''),
                                   (''receipt'', sample_receipt)]),
               (''pay'', PDict [(''decision'', PStr ''allow''), (''reason'', PStr ''ok''),
                                (''receipt'', sample_receipt)])])]"

definition sample_base :: "string \<Rightarrow> check_result_base" where
  "sample_base reason =
     \<lparr>cr_reason = reason,
      cr_receipt = Some (Env_Pending \<lparr>rcp_receipt_id = ''r1'', rcp_ready_at_estimate = None, rcp_url = ''u''\<rparr>),
      cr_is_fallback = False, cr_fallback_mode = None, cr_budget = None, cr_escalation = None,
      cr_policy_eval = None\<rparr>"

definition sample_check_response :: check_response where
  "sample_check_response =
     \<lparr>ck_authorization_id = ''az'', ck_user_id = None, ck_agent_id = None,
      ck_authorization_expires_at = None, ck_engine_version = digest_a,
      ck_results = [(''refund'', Result_Deny (sample_base ''no'') PNone),
                    (''pay'', Result_Allow (sample_base ''ok''))],
      ck_billing_warning = None\<rparr>"

lemma sample_check_parses:
  "parse_check_response sample_env sample_check_body ''az'' [''pay'', ''refund''] = Inr sample_check_response"
  by code_simp

lemma sample_headers: "identity_headers sample_client PNone None = return None"
  by (simp add: identity_headers_def effective_agent_token_def sample_client_def)

lemma sample_check_answered:
  "outcome (check sample_env sample_client sample_check_call) [sample_reply 200 sample_check_body]
     = Some (Inr sample_check_response)"
proof -
  have parsed: "parse_check_response sample_env sample_check_body (cc_authorization_id sample_check_call)
      (cc_actions sample_check_call) = Inr sample_check_response"
    using sample_check_parses by (simp add: sample_check_call_def)
  have call: "cc_agent_token sample_check_call = PNone" "cc_idempotency_key sample_check_call = None"
    "cc_client_timestamp sample_check_call = None"
    by (simp_all add: sample_check_call_def)
  have response: "sample_check_response\<lparr>ck_billing_warning := None\<rparr> = sample_check_response"
    by (simp add: sample_check_response_def)
  show ?thesis
    by (simp add: check_def call sample_headers optional_timestamp_def request_with_headers_def
        send_request_def perform_def handle_def sample_reply_def decode_response_def is_success_def parsed
        response)
qed

definition open_client :: client where
  "open_client = sample_client\<lparr>cl_fallback_by_action := [(''pay'', Fail_Open)]\<rparr>"

lemma sample_check_timeout:
  "outcome (check sample_env open_client sample_check_call) [A_Exn AsyncTimeoutError]
     = Some (Inr (fallback_check_response open_client ''az'' [''pay'', ''refund''] ''timeout'' False))"
proof -
  have "identity_headers open_client PNone None = return None"
    by (simp add: identity_headers_def effective_agent_token_def open_client_def sample_client_def)
  then show ?thesis
    by (simp add: check_def sample_check_call_def optional_timestamp_def request_with_headers_def
        send_request_def perform_def handle_def identity_enabled_def)
qed

lemma allow_is_answered_or_configured_witness:
  "cl_fallback_by_action open_client = [(''pay'', Fail_Open)]
   \<and> map_of (cl_fallback_by_action open_client) ''pay'' = Some Fail_Open"
proof -
  have "map_of (ck_results (fallback_check_response open_client ''az'' [''pay'', ''refund''] ''timeout'' False))
      ''pay'' = Some (fallback_result open_client ''timeout'' False ''pay'')"
    by (simp add: fallback_results)
  moreover have "result_decision (fallback_result open_client ''timeout'' False ''pay'') = Allow"
    "cr_is_fallback (result_base (fallback_result open_client ''timeout'' False ''pay''))"
    by (simp_all add: fallback_result_def open_client_def)
  ultimately show ?thesis
    using allow_is_answered_or_configured[OF sample_check_timeout] by (auto simp: open_client_def)
qed

lemma check_covers_actions_witness:
  "set (map fst (ck_results sample_check_response)) = {''pay'', ''refund''}"
  using check_covers_actions[OF sample_check_answered] by (simp add: sample_check_call_def)

lemma sample_agent_check:
  "outcome (check_by_agent policy_env sample_client ''agent'' (PDict sample_reference) sample_check_call)
     [sample_reply 200 sample_check_body] = Some (Inr sample_check_response)"
proof -
  have parts: "parse_policy_reference policy_env (PDict sample_reference) = Inr sample_reference"
    "resolved_authorization sample_check_body = Inr ''az''"
    "parse_check_response policy_env sample_check_body ''az'' (cc_actions sample_check_call)
       = Inr sample_check_response"
    by code_simp+
  have call: "cc_idempotency_key sample_check_call = None" "cc_context sample_check_call = None"
    "cc_client_timestamp sample_check_call = None" "cl_agent_token sample_client = PNone"
    "\<not> cl_has_supplier sample_client"
    by (simp_all add: sample_check_call_def sample_client_def)
  have response: "sample_check_response\<lparr>ck_billing_warning := None\<rparr> = sample_check_response"
    by (simp add: sample_check_response_def)
  show ?thesis
    by (simp add: check_by_agent_def call parts optional_timestamp_def request_with_headers_def
        send_request_def perform_def handle_def sample_reply_def decode_response_def is_success_def response)
qed

lemma agent_check_never_falls_back_witness:
  "\<exists>raw. resolved_authorization (PDict raw) = Inr (ck_authorization_id sample_check_response)"
  using agent_check_never_falls_back[OF sample_agent_check] by blast

end
