(* ===== verification/Prompts.thy ===== *)
theory Prompts
  imports Execution_Api
begin

text \<open>
  Confirmations and escalations of the \<open>Allowly\<close> client: \<open>_parse_prompt_status\<close>,
  \<open>_parse_confirmation_status\<close>, \<open>_parse_escalation_status\<close> and the two resources. The readers
  refuse a status that claims more authority than its choice gives.
\<close>

subsection \<open>Statuses\<close>

datatype prompt_status = Prompt_Pending | Prompt_Approved | Prompt_Rejected | Prompt_Expired | Prompt_Unknown

fun prompt_status_str :: "prompt_status \<Rightarrow> string" where
  "prompt_status_str Prompt_Pending = ''pending''"
| "prompt_status_str Prompt_Approved = ''approved''"
| "prompt_status_str Prompt_Rejected = ''rejected''"
| "prompt_status_str Prompt_Expired = ''expired''"
| "prompt_status_str Prompt_Unknown = ''unknown''"

definition prompt_status_of :: "string \<Rightarrow> prompt_status option" where
  "prompt_status_of s =
     find (\<lambda>k. prompt_status_str k = s)
       [Prompt_Pending, Prompt_Approved, Prompt_Rejected, Prompt_Expired, Prompt_Unknown]"

datatype authority_status =
  Auth_None | Auth_Available | Auth_Expired | Auth_Revoked | Auth_Consumed | Auth_Unknown

fun authority_status_str :: "authority_status \<Rightarrow> string" where
  "authority_status_str Auth_None = ''none''"
| "authority_status_str Auth_Available = ''available''"
| "authority_status_str Auth_Expired = ''expired''"
| "authority_status_str Auth_Revoked = ''revoked''"
| "authority_status_str Auth_Consumed = ''consumed''"
| "authority_status_str Auth_Unknown = ''unknown''"

definition confirmation_authority :: "authority_status list" where
  "confirmation_authority = [Auth_None, Auth_Available, Auth_Expired, Auth_Revoked, Auth_Unknown]"

definition escalation_authority :: "authority_status list" where
  "escalation_authority =
     [Auth_None, Auth_Available, Auth_Expired, Auth_Revoked, Auth_Consumed, Auth_Unknown]"

definition authority_status_of :: "authority_status list \<Rightarrow> string \<Rightarrow> authority_status option" where
  "authority_status_of allowed s = find (\<lambda>k. authority_status_str k = s) allowed"

record prompt_status_response =
  ps_authorization_id :: string
  ps_action :: string
  ps_resource :: "string option"
  ps_status :: prompt_status
  ps_expires_at :: string
  ps_resolved_at :: "string option"
  ps_source_receipt_id :: "string option"
  ps_resolution_receipt_id :: "string option"

record confirmation_status =
  cs_base :: prompt_status_response
  cs_confirmation_id :: string
  cs_child_authorization_id :: "string option"
  cs_authority_status :: authority_status
  cs_authority_expires_at :: "string option"

record escalation_status =
  es_base :: prompt_status_response
  es_escalation_id :: string
  es_authority_status :: authority_status
  es_consumed_at :: "string option"

subsection \<open>Readers\<close>

definition status_nullable_str :: "pydict \<Rightarrow> string \<Rightarrow> string option res" where
  "status_nullable_str raw key =
     (if \<not> dhas raw key
      then Inl (ProtocolError (key @ '' must be present as a string or null''))
      else
        bindr (optional_str raw key) (\<lambda>v.
        if v = Some [] \<and> key \<noteq> ''resource''
        then Inl (ProtocolError (key @ '' must be non-empty or null''))
        else Inr v))"

definition zoned_timestamp :: "sdk_env \<Rightarrow> string \<Rightarrow> string \<Rightarrow> string res" where
  "zoned_timestamp E key s =
     (if \<not> zoned s
      then Inl (ProtocolError (key @ '' must be a valid timezone-aware timestamp''))
      else
        map_exn (\<lambda>e. if is_value_error e
                     then ProtocolError (key @ '' must be a valid timezone-aware timestamp'') else e)
          (client_timestamp E (Value_Arg (PStr s))))"

definition status_timestamp :: "sdk_env \<Rightarrow> pydict \<Rightarrow> string \<Rightarrow> string res" where
  "status_timestamp E raw key = bindr (require_str raw key) (zoned_timestamp E key)"

definition nullable_timestamp :: "sdk_env \<Rightarrow> pydict \<Rightarrow> string \<Rightarrow> string option res" where
  "nullable_timestamp E raw key =
     bindr (status_nullable_str raw key) (\<lambda>v.
     case v of None \<Rightarrow> Inr None | Some s \<Rightarrow> bindr (zoned_timestamp E key s) (\<lambda>t. Inr (Some t)))"

definition parse_prompt_status :: "sdk_env \<Rightarrow> pydict \<Rightarrow> prompt_status_response res" where
  "parse_prompt_status E raw =
     bindr (require_str raw ''status'') (\<lambda>status_str.
     case prompt_status_of status_str of
       None \<Rightarrow> Inl (ProtocolError (''unknown prompt status: '' @ repr_str status_str))
     | Some status \<Rightarrow>
     bindr (require_str raw ''authorization_id'') (\<lambda>authorization_id.
     bindr (require_str raw ''action'') (\<lambda>action.
     if authorization_id = [] \<or> action = []
     then Inl (ProtocolError ''status authorization_id and action must be non-empty'')
     else
     bindr (nullable_timestamp E raw ''resolved_at'') (\<lambda>resolved_at.
     if status \<in> {Prompt_Pending, Prompt_Expired} \<and> resolved_at \<noteq> None
     then Inl (ProtocolError ''unresolved prompt resolved_at must be null'')
     else
     bindr (status_nullable_str raw ''resource'') (\<lambda>resource.
     bindr (status_timestamp E raw ''expires_at'') (\<lambda>expires_at.
     bindr (status_nullable_str raw ''source_receipt_id'') (\<lambda>source.
     bindr (status_nullable_str raw ''resolution_receipt_id'') (\<lambda>resolution.
     Inr \<lparr>ps_authorization_id = authorization_id, ps_action = action, ps_resource = resource,
          ps_status = status, ps_expires_at = expires_at, ps_resolved_at = resolved_at,
          ps_source_receipt_id = source, ps_resolution_receipt_id = resolution\<rparr>))))))))"

definition parse_confirmation_status :: "sdk_env \<Rightarrow> pyval \<Rightarrow> string \<Rightarrow> confirmation_status res" where
  "parse_confirmation_status E v expected_id =
     bindr (require_dict v ''confirmation status'') (\<lambda>raw.
     bindr (require_str raw ''confirmation_id'') (\<lambda>confirmation_id.
     if confirmation_id \<noteq> expected_id
     then Inl (ProtocolError ''confirmation_id does not match the request'')
     else
     bindr (parse_prompt_status E raw) (\<lambda>base.
     bindr (require_str raw ''authority_status'') (\<lambda>authority_str.
     case authority_status_of confirmation_authority authority_str of
       None \<Rightarrow> Inl (ProtocolError (''unknown confirmation authority_status: '' @ repr_str authority_str))
     | Some authority \<Rightarrow>
     bindr (status_nullable_str raw ''child_authorization_id'') (\<lambda>child_id.
     bindr (nullable_timestamp E raw ''authority_expires_at'') (\<lambda>authority_expiry.
     if authority = Auth_Available
        \<and> (ps_status base \<noteq> Prompt_Approved \<or> child_id = None \<or> authority_expiry = None)
     then Inl (ProtocolError
       ''available confirmation authority requires an approved choice and child grant'')
     else if ps_status base = Prompt_Rejected \<and> authority \<noteq> Auth_None
     then Inl (ProtocolError ''rejected confirmation authority_status must be none'')
     else Inr \<lparr>cs_base = base, cs_confirmation_id = confirmation_id, cs_child_authorization_id = child_id,
               cs_authority_status = authority, cs_authority_expires_at = authority_expiry\<rparr>))))))"

definition parse_escalation_status :: "sdk_env \<Rightarrow> pyval \<Rightarrow> string \<Rightarrow> escalation_status res" where
  "parse_escalation_status E v expected_id =
     bindr (require_dict v ''escalation status'') (\<lambda>raw.
     bindr (require_str raw ''escalation_id'') (\<lambda>escalation_id.
     if escalation_id \<noteq> expected_id
     then Inl (ProtocolError ''escalation_id does not match the request'')
     else
     bindr (parse_prompt_status E raw) (\<lambda>base.
     bindr (require_str raw ''authority_status'') (\<lambda>authority_str.
     case authority_status_of escalation_authority authority_str of
       None \<Rightarrow> Inl (ProtocolError (''unknown escalation authority_status: '' @ repr_str authority_str))
     | Some authority \<Rightarrow>
     if authority = Auth_Available \<and> ps_status base \<noteq> Prompt_Approved
     then Inl (ProtocolError ''available escalation authority requires an approved choice'')
     else if ps_status base = Prompt_Rejected \<and> authority \<noteq> Auth_None
     then Inl (ProtocolError ''rejected escalation authority_status must be none'')
     else
     bindr (nullable_timestamp E raw ''consumed_at'') (\<lambda>consumed_at.
     Inr \<lparr>es_base = base, es_escalation_id = escalation_id, es_authority_status = authority,
          es_consumed_at = consumed_at\<rparr>)))))"

subsection \<open>Resources\<close>

definition validate_prompt_id :: "pyval \<Rightarrow> string \<Rightarrow> string res" where
  \<comment> \<open>\<open>prefix[A-Za-z0-9_-]{1,256}\<close>\<close>
  "validate_prompt_id v pre =
     (case v of
        PStr s \<Rightarrow>
          (let rest = drop (length pre) s in
           if starts_with pre s \<and> rest \<noteq> [] \<and> length rest \<le> 256 \<and> list_all is_id_char rest
           then Inr s else Inl (ValueError (''prompt ID must be an opaque '' @ pre @ '' monitor ID'')))
      | _ \<Rightarrow> Inl (ValueError (''prompt ID must be an opaque '' @ pre @ '' monitor ID'')))"

definition confirmation_get_status :: "sdk_env \<Rightarrow> client \<Rightarrow> pyval \<Rightarrow> confirmation_status prog" where
  "confirmation_get_status E C confirmation_id =
     bindp (Done (validate_prompt_id confirmation_id ''cnf_'')) (\<lambda>i.
     bindp (request E C (api_call ''GET'' (''/v1/confirmations/'' @ quote i @ ''/status'') None None) [200])
       (\<lambda>raw. Done (parse_confirmation_status E raw i)))"

definition escalation_get_status :: "sdk_env \<Rightarrow> client \<Rightarrow> pyval \<Rightarrow> escalation_status prog" where
  "escalation_get_status E C escalation_id =
     bindp (Done (validate_prompt_id escalation_id ''esc_'')) (\<lambda>i.
     bindp (request E C (api_call ''GET'' (''/v1/escalations/'' @ quote i) None None) [200])
       (\<lambda>raw. Done (parse_escalation_status E raw i)))"

record confirmation_approve_response =
  ca_approved :: bool
  ca_authorization_id :: "string option"
  ca_expires_at :: "string option"
  ca_receipt :: "pending_receipt option"

definition optional_pending :: "pyval \<Rightarrow> pending_receipt option res" where
  "optional_pending v =
     (if v = PNone then Inr None else bindr (parse_pending_envelope v) (\<lambda>p. Inr (Some p)))"

text \<open>A response body that is no object has no \<open>get\<close>: \<open>AttributeError\<close>.\<close>

definition parse_confirmation_approval :: "pyval \<Rightarrow> confirmation_approve_response res" where
  "parse_confirmation_approval v =
     bindr (as_dict AttributeError v) (\<lambda>raw.
     bindr (require_str raw ''decision'') (\<lambda>decision.
     if decision \<notin> {''approved'', ''not_approved''}
     then Inl (ProtocolError (''unknown confirmation decision: '' @ repr_str decision))
     else
     bindr (if decision = ''approved''
            then bindr (require_str raw ''authorization_id'') (\<lambda>i.
                 bindr (require_str raw ''expires_at'') (\<lambda>x. Inr (Some i, Some x)))
            else bindr (require_null raw ''authorization_id'') (\<lambda>_.
                 bindr (require_null raw ''expires_at'') (\<lambda>_. Inr (None, None)))) (\<lambda>(i, x).
     bindr (optional_pending (dget raw ''receipt'')) (\<lambda>receipt.
     Inr \<lparr>ca_approved = (decision = ''approved''), ca_authorization_id = i, ca_expires_at = x,
          ca_receipt = receipt\<rparr>))))"

definition confirmation_approve ::
  "sdk_env \<Rightarrow> client \<Rightarrow> string \<Rightarrow> bool \<Rightarrow> int \<Rightarrow> string option \<Rightarrow> confirmation_approve_response prog" where
  "confirmation_approve E C nonce approved ttl_seconds idempotency_key =
     bindp (request E C
              (api_call ''POST'' (''/v1/confirmations/'' @ quote nonce)
                 (Some (PDict [(''approved'', PBool approved), (''ttl_seconds'', PInt ttl_seconds)]))
                 (map_option (\<lambda>k. [(''Idempotency-Key'', k)]) idempotency_key)) [200])
       (\<lambda>raw. Done (parse_confirmation_approval raw))"

record escalation_resolve_response =
  rr_escalation_id :: pyval
  rr_approved :: bool
  rr_resolved_by :: pyval
  rr_resolved_at :: pyval
  rr_receipt :: "pending_receipt option"

definition parse_escalation_resolution :: "pyval \<Rightarrow> escalation_resolve_response res" where
  "parse_escalation_resolution v =
     bindr (as_dict AttributeError v) (\<lambda>raw.
     bindr (require_str raw ''status'') (\<lambda>status.
     if status \<notin> {''approved'', ''rejected''}
     then Inl (ProtocolError (''unknown escalation status: '' @ repr_str status))
     else
     bindr (dict_item raw ''escalation_id'') (\<lambda>i.
     bindr (optional_pending (dget raw ''receipt'')) (\<lambda>receipt.
     Inr \<lparr>rr_escalation_id = i, rr_approved = (status = ''approved''),
          rr_resolved_by = dget raw ''resolved_by'', rr_resolved_at = dget raw ''resolved_at'',
          rr_receipt = receipt\<rparr>))))"

definition escalation_resolve ::
  "sdk_env \<Rightarrow> client \<Rightarrow> string \<Rightarrow> string \<Rightarrow> string \<Rightarrow> string option \<Rightarrow> escalation_resolve_response prog" where
  "escalation_resolve E C escalation_id resolution resolved_by note =
     bindp (request E C
              (api_call ''POST'' (''/v1/escalations/'' @ quote escalation_id @ ''/resolve'')
                 (Some (PDict [(''resolution'', PStr resolution), (''resolved_by'', PStr resolved_by),
                               (''note'', opt_str note)])) None) [200])
       (\<lambda>raw. Done (parse_escalation_resolution raw))"

definition escalation_approve ::
  "sdk_env \<Rightarrow> client \<Rightarrow> string \<Rightarrow> string \<Rightarrow> string option \<Rightarrow> escalation_resolve_response prog" where
  "escalation_approve E C i by_whom note = escalation_resolve E C i ''approved'' by_whom note"

definition escalation_reject ::
  "sdk_env \<Rightarrow> client \<Rightarrow> string \<Rightarrow> string \<Rightarrow> string option \<Rightarrow> escalation_resolve_response prog" where
  "escalation_reject E C i by_whom note = escalation_resolve E C i ''rejected'' by_whom note"

subsection \<open>Facts\<close>

interpretation prompt_status: wire_literal prompt_status_str prompt_status_of
proof
  show "prompt_status_of s = Some k \<longleftrightarrow> s = prompt_status_str k" for s k
    by (cases k) (auto simp: prompt_status_of_def)
qed

lemma authority_status_of_mem:
  "authority_status_of allowed s = Some k \<Longrightarrow> k \<in> set allowed \<and> s = authority_status_str k"
  by (auto simp: authority_status_of_def find_Some_iff)

lemma client_timestamp_same: "client_timestamp E (Value_Arg (PStr s)) = Inr t \<Longrightarrow> t = s"
  by (auto split: if_splits option.splits)

lemma zoned_timestamp_ok: "zoned_timestamp E key s = Inr t \<Longrightarrow> t = s \<and> zoned s"
  by (auto simp: zoned_timestamp_def simp del: client_timestamp.simps dest: client_timestamp_same split: if_splits)

lemma nullable_timestamp_ok:
  "nullable_timestamp E raw key = Inr v \<Longrightarrow>
     dhas raw key \<and> dget raw key = opt_str v \<and> (\<forall>s. v = Some s \<longrightarrow> zoned s)"
  unfolding nullable_timestamp_def status_nullable_str_def
  by (elim result_elims) (auto simp: reader_iffs dest: zoned_timestamp_ok split: option.splits)

lemma parse_prompt_status_ok:
  assumes "parse_prompt_status E raw = Inr p"
  shows "dget raw ''status'' = PStr (prompt_status_str (ps_status p))
    \<and> ps_authorization_id p \<noteq> [] \<and> ps_action p \<noteq> [] \<and> zoned (ps_expires_at p)
    \<and> (\<forall>t. ps_resolved_at p = Some t \<longrightarrow> zoned t)
    \<and> (ps_status p \<in> {Prompt_Pending, Prompt_Expired} \<longrightarrow> ps_resolved_at p = None)"
proof -
  have "nullable_timestamp E raw ''resolved_at'' = Inr (ps_resolved_at p)
    \<and> status_timestamp E raw ''expires_at'' = Inr (ps_expires_at p)
    \<and> require_str raw ''status'' = Inr (prompt_status_str (ps_status p))
    \<and> ps_authorization_id p \<noteq> [] \<and> ps_action p \<noteq> []
    \<and> \<not> (ps_status p \<in> {Prompt_Pending, Prompt_Expired} \<and> ps_resolved_at p \<noteq> None)"
    using assms unfolding parse_prompt_status_def prompt_status.of_str_iff
    by (elim result_elims) (simp only: sum.inject prompt_status.of_str_iff, hypsubst, simp)
  then have facts: "nullable_timestamp E raw ''resolved_at'' = Inr (ps_resolved_at p)"
    "status_timestamp E raw ''expires_at'' = Inr (ps_expires_at p)"
    "dget raw ''status'' = PStr (prompt_status_str (ps_status p))"
    "ps_authorization_id p \<noteq> []" "ps_action p \<noteq> []"
    "ps_status p \<in> {Prompt_Pending, Prompt_Expired} \<longrightarrow> ps_resolved_at p = None"
    by (auto simp: reader_iffs)
  from facts(2) have "zoned (ps_expires_at p)"
    unfolding status_timestamp_def by (elim bindr_InrE) (auto dest: zoned_timestamp_ok)
  with facts nullable_timestamp_ok[OF facts(1)] show ?thesis by blast
qed

subsection \<open>Properties\<close>

text \<open>
  An accepted confirmation status is the requested one and never claims authority its choice does
  not give: authority is available only for an approved choice with a child grant and an expiry,
  a rejected choice gives none, an unresolved one has no resolution time, and every timestamp is
  complete and carries an offset.
\<close>

lemma confirmation_status_ok:
  assumes "parse_confirmation_status E v i = Inr s"
  shows "cs_confirmation_id s = i \<and> cs_authority_status s \<noteq> Auth_Consumed
    \<and> (cs_authority_status s = Auth_Available \<longrightarrow>
         ps_status (cs_base s) = Prompt_Approved \<and> cs_child_authorization_id s \<noteq> None
         \<and> cs_authority_expires_at s \<noteq> None)
    \<and> (ps_status (cs_base s) = Prompt_Rejected \<longrightarrow> cs_authority_status s = Auth_None)
    \<and> (ps_status (cs_base s) \<in> {Prompt_Pending, Prompt_Expired} \<longrightarrow> ps_resolved_at (cs_base s) = None)
    \<and> zoned (ps_expires_at (cs_base s)) \<and> (\<forall>t. cs_authority_expires_at s = Some t \<longrightarrow> zoned t)"
proof -
  from assms obtain raw a where base: "parse_prompt_status E raw = Inr (cs_base s)"
    and authority: "authority_status_of confirmation_authority a = Some (cs_authority_status s)"
    and expiry: "nullable_timestamp E raw ''authority_expires_at'' = Inr (cs_authority_expires_at s)"
    and checks: "cs_confirmation_id s = i"
      "\<not> (cs_authority_status s = Auth_Available
          \<and> (ps_status (cs_base s) \<noteq> Prompt_Approved \<or> cs_child_authorization_id s = None
             \<or> cs_authority_expires_at s = None))"
      "\<not> (ps_status (cs_base s) = Prompt_Rejected \<and> cs_authority_status s \<noteq> Auth_None)"
    unfolding parse_confirmation_status_def by (elim result_elims) (auto intro!: that)
  from authority have "cs_authority_status s \<noteq> Auth_Consumed"
    using authority_status_of_mem by (fastforce simp: confirmation_authority_def)
  with parse_prompt_status_ok[OF base] nullable_timestamp_ok[OF expiry] checks show ?thesis by auto
qed

text \<open>The same for escalations, whose one-use grant may also have been consumed.\<close>

lemma escalation_status_ok:
  assumes "parse_escalation_status E v i = Inr s"
  shows "es_escalation_id s = i
    \<and> (es_authority_status s = Auth_Available \<longrightarrow> ps_status (es_base s) = Prompt_Approved)
    \<and> (ps_status (es_base s) = Prompt_Rejected \<longrightarrow> es_authority_status s = Auth_None)
    \<and> (ps_status (es_base s) \<in> {Prompt_Pending, Prompt_Expired} \<longrightarrow> ps_resolved_at (es_base s) = None)
    \<and> zoned (ps_expires_at (es_base s)) \<and> (\<forall>t. es_consumed_at s = Some t \<longrightarrow> zoned t)"
proof -
  from assms obtain raw where base: "parse_prompt_status E raw = Inr (es_base s)"
    and consumed: "nullable_timestamp E raw ''consumed_at'' = Inr (es_consumed_at s)"
    and checks: "es_escalation_id s = i"
      "\<not> (es_authority_status s = Auth_Available \<and> ps_status (es_base s) \<noteq> Prompt_Approved)"
      "\<not> (ps_status (es_base s) = Prompt_Rejected \<and> es_authority_status s \<noteq> Auth_None)"
    unfolding parse_escalation_status_def by (elim result_elims) (auto intro!: that)
  with parse_prompt_status_ok[OF base] nullable_timestamp_ok[OF consumed] checks show ?thesis by auto
qed

text \<open>
  C27: an accepted confirmation or escalation status is the requested one and never claims authority
  its choice does not give: authority is available only for an approved choice (for a confirmation with
  a child grant and an expiry, and it is never consumed), a rejected choice gives none, an unresolved
  one has no resolution time, and every timestamp is complete and carries an offset.
\<close>

theorem prompt_status_consistent:
  "(parse_confirmation_status E v i = Inr s \<longrightarrow>
      cs_confirmation_id s = i \<and> cs_authority_status s \<noteq> Auth_Consumed
      \<and> (cs_authority_status s = Auth_Available \<longrightarrow>
           ps_status (cs_base s) = Prompt_Approved \<and> cs_child_authorization_id s \<noteq> None
           \<and> cs_authority_expires_at s \<noteq> None)
      \<and> (ps_status (cs_base s) = Prompt_Rejected \<longrightarrow> cs_authority_status s = Auth_None)
      \<and> (ps_status (cs_base s) \<in> {Prompt_Pending, Prompt_Expired} \<longrightarrow> ps_resolved_at (cs_base s) = None)
      \<and> zoned (ps_expires_at (cs_base s)) \<and> (\<forall>t. cs_authority_expires_at s = Some t \<longrightarrow> zoned t))
   \<and> (parse_escalation_status E v i = Inr e \<longrightarrow>
      es_escalation_id e = i
      \<and> (es_authority_status e = Auth_Available \<longrightarrow> ps_status (es_base e) = Prompt_Approved)
      \<and> (ps_status (es_base e) = Prompt_Rejected \<longrightarrow> es_authority_status e = Auth_None)
      \<and> (ps_status (es_base e) \<in> {Prompt_Pending, Prompt_Expired} \<longrightarrow> ps_resolved_at (es_base e) = None)
      \<and> zoned (ps_expires_at (es_base e)) \<and> (\<forall>t. es_consumed_at e = Some t \<longrightarrow> zoned t))"
  using confirmation_status_ok[of E v i s] escalation_status_ok[of E v i e] by blast

subsection \<open>Concrete statuses\<close>

definition sample_time :: pyval where
  "sample_time = PStr ''2026-01-02T03:04:05.6+01:00''"

definition sample_prompt :: pydict where
  "sample_prompt =
     [(''status'', PStr ''approved''), (''authorization_id'', PStr ''az''), (''action'', PStr ''pay''),
      (''resource'', PNone), (''expires_at'', sample_time), (''resolved_at'', sample_time),
      (''source_receipt_id'', PNone), (''resolution_receipt_id'', PStr ''rcp_1''),
      (''authority_status'', PStr ''available'')]"

lemma sample_confirmation:
  "is_ok (parse_confirmation_status sample_env (PDict (sample_prompt @
     [(''confirmation_id'', PStr ''cnf_1''), (''child_authorization_id'', PStr ''az2''),
      (''authority_expires_at'', sample_time)])) ''cnf_1'')"
  by code_simp

lemma sample_escalation:
  "is_ok (parse_escalation_status sample_env (PDict (sample_prompt @
     [(''escalation_id'', PStr ''esc_1''), (''consumed_at'', PNone)])) ''esc_1'')"
  by code_simp

lemma prompt_status_consistent_witness:
  "\<exists>v s w e. parse_confirmation_status sample_env v ''cnf_1'' = Inr s \<and> cs_confirmation_id s = ''cnf_1''
     \<and> parse_escalation_status sample_env w ''esc_1'' = Inr e \<and> es_escalation_id e = ''esc_1''"
  using sample_confirmation sample_escalation prompt_status_consistent unfolding is_ok_iff by blast

end
