(* ===== verification/Receipts.thy ===== *)
theory Receipts
  imports Execution_Api
begin

text \<open>
  Receipts of the \<open>Allowly\<close> client: \<open>settle_budget\<close>, \<open>acknowledge_receipt\<close>,
  \<open>get_receipt_acknowledgment\<close>, the receipts resource with its polling \<open>fetch_signed\<close>, and \<open>seal\<close>,
  \<open>seal_value\<close> with \<open>_seal_digest\<close> and \<open>_validate_seal_receipt\<close>. The polling loop takes fuel, one
  unit per turn; running out of it is the result \<open>None\<close>, and a bound on the fuel that suffices is
  proved from the clock. Times are rationals: the rounding of floats is not modelled.
\<close>

subsection \<open>Settlement and acknowledgment\<close>

definition parse_budget_settlement_response :: "sdk_env \<Rightarrow> pyval \<Rightarrow> budget_settlement res" where
  "parse_budget_settlement_response E v =
     bindr (require_dict v ''budget settlement response'') (\<lambda>raw.
     bindr (require_str raw ''check_receipt_id'') (\<lambda>check_receipt_id.
     bindr (require_str raw ''authorization_id'') (\<lambda>authorization_id.
     bindr (require_int raw ''estimated_cost_micros'') (\<lambda>estimated.
     bindr (require_int raw ''actual_cost_micros'') (\<lambda>actual.
     bindr (require_int raw ''delta_micros'') (\<lambda>delta.
     bindr (require_int raw ''spent_before_micros'') (\<lambda>before.
     bindr (require_int raw ''spent_after_micros'') (\<lambda>after.
     bindr (parse_receipt_envelope E (dget raw ''receipt'')) (\<lambda>receipt.
     Inr \<lparr>bs_check_receipt_id = check_receipt_id, bs_authorization_id = authorization_id,
          bs_estimated_cost_micros = estimated, bs_actual_cost_micros = actual,
          bs_delta_micros = delta, bs_spent_before_micros = before, bs_spent_after_micros = after,
          bs_receipt = receipt\<rparr>)))))))))"

definition settle_budget ::
  "sdk_env \<Rightarrow> client \<Rightarrow> string \<Rightarrow> int \<Rightarrow> string option \<Rightarrow> budget_settlement prog" where
  "settle_budget E C check_receipt_id actual_cost_micros idempotency_key =
     bindp (request E C
              (api_call ''POST'' ''/v1/budget-settlements''
                 (Some (PDict [(''check_receipt_id'', PStr check_receipt_id),
                               (''actual_cost_micros'', PInt actual_cost_micros)]))
                 (map_option (\<lambda>k. [(''Idempotency-Key'', k)]) idempotency_key)) [200])
       (\<lambda>raw. Done (parse_budget_settlement_response E raw))"

record receipt_acknowledgment =
  ra_acknowledgment_id :: string
  ra_receipt_id :: string
  ra_receipt_sha256 :: string
  ra_client_timestamp :: string
  ra_received_at :: string
  ra_api_key_id :: string
  ra_agent_identity :: "pydict option"
  ra_evidence :: outcome_evidence

definition parse_receipt_acknowledgment_response :: "sdk_env \<Rightarrow> pyval \<Rightarrow> receipt_acknowledgment res" where
  "parse_receipt_acknowledgment_response E v =
     bindr (require_dict v ''receipt acknowledgment response'') (\<lambda>body.
     bindr (require_dict (dget body ''caller'') ''receipt acknowledgment caller'') (\<lambda>caller.
     bindr (require_str caller ''kind'') (\<lambda>kind.
     if kind \<noteq> ''workspace_runtime_key''
     then Inl (ProtocolError (''invalid receipt acknowledgment caller kind: '' @ repr_str kind))
     else
     bindr (require_str body ''acknowledgment_id'') (\<lambda>acknowledgment_id.
     bindr (require_str body ''receipt_id'') (\<lambda>receipt_id.
     bindr (require_str body ''receipt_sha256'') (\<lambda>receipt_sha256.
     bindr (require_str body ''client_timestamp'') (\<lambda>timestamp.
     bindr (require_str body ''received_at'') (\<lambda>received_at.
     bindr (require_str caller ''api_key_id'') (\<lambda>api_key_id.
     bindr (if dget caller ''agent_identity'' = PNone then Inr None
            else bindr (require_dict (dget caller ''agent_identity'')
                          ''receipt acknowledgment agent identity'') (\<lambda>d. Inr (Some d))) (\<lambda>identity.
     bindr (parse_outcome_evidence E (dget body ''evidence'')) (\<lambda>evidence.
     Inr \<lparr>ra_acknowledgment_id = acknowledgment_id, ra_receipt_id = receipt_id,
          ra_receipt_sha256 = receipt_sha256, ra_client_timestamp = timestamp,
          ra_received_at = received_at, ra_api_key_id = api_key_id, ra_agent_identity = identity,
          ra_evidence = evidence\<rparr>)))))))))))"

definition receipt_path :: "string \<Rightarrow> string" where
  "receipt_path receipt_id = ''/v1/receipts/'' @ quote receipt_id"

definition acknowledge_receipt ::
  "sdk_env \<Rightarrow> client \<Rightarrow> string \<Rightarrow> string \<Rightarrow> timestamp_arg \<Rightarrow> string \<Rightarrow> pyval \<Rightarrow>
     receipt_acknowledgment prog" where
  "acknowledge_receipt E C receipt_id receipt_sha256 timestamp idempotency_key agent_token =
     bindp (Done (client_timestamp E timestamp)) (\<lambda>t.
     bindp (identity_headers C agent_token (Some idempotency_key)) (\<lambda>headers.
     bindp (request E C
              (api_call ''POST'' (receipt_path receipt_id @ ''/acknowledgments'')
                 (Some (PDict [(''receipt_sha256'', PStr receipt_sha256), (''client_timestamp'', PStr t)]))
                 headers) [200, 201]) (\<lambda>raw.
     bindp (Done (parse_receipt_acknowledgment_response E raw)) (\<lambda>response.
     if ra_receipt_id response \<noteq> receipt_id
     then raise (ProtocolError ''receipt acknowledgment response does not match the requested receipt'')
     else return response))))"

definition get_receipt_acknowledgment ::
  "sdk_env \<Rightarrow> client \<Rightarrow> string \<Rightarrow> string \<Rightarrow> pyval \<Rightarrow> receipt_acknowledgment prog" where
  "get_receipt_acknowledgment E C receipt_id acknowledgment_id agent_token =
     bindp (identity_headers C agent_token None) (\<lambda>headers.
     bindp (request E C
              (api_call ''GET'' (receipt_path receipt_id @ ''/acknowledgments/'' @ quote acknowledgment_id)
                 None headers) [200]) (\<lambda>raw.
     bindp (Done (parse_receipt_acknowledgment_response E raw)) (\<lambda>response.
     if ra_receipt_id response \<noteq> receipt_id \<or> ra_acknowledgment_id response \<noteq> acknowledgment_id
     then raise (ProtocolError ''receipt acknowledgment response does not match the requested acknowledgment'')
     else return response)))"

subsection \<open>Fetching receipts\<close>

definition get_receipt :: "sdk_env \<Rightarrow> client \<Rightarrow> string \<Rightarrow> receipt_envelope prog" where
  "get_receipt E C receipt_id =
     bindp (request E C (api_call ''GET'' (receipt_path receipt_id) None None) [200])
       (\<lambda>raw. Done (parse_receipt_envelope E raw))"

fun as_clock :: "ans \<Rightarrow> rat res" where
  "as_clock (A_Float (Fin t)) = Inr t" | "as_clock _ = ill_typed"

definition loop_time :: "rat prog" where
  "loop_time = perform Loop_Time as_clock"

definition py_min :: "pyfloat \<Rightarrow> pyfloat \<Rightarrow> pyfloat" where
  \<comment> \<open>\<open>min(a, b)\<close>: \<open>b\<close> only if it is less\<close>
  "py_min a b = (if float_le b a \<and> \<not> float_le a b then b else a)"

text \<open>What one answer to \<open>get\<close> means: a delay before the next turn, or the end.\<close>

datatype turn = Again pyfloat | Signed pydict

definition api_error_delay :: "rat \<Rightarrow> api_error \<Rightarrow> turn res" where
  "api_error_delay poll_interval e =
     (if ae_status e \<notin> {408, 429} \<and> \<not> (500 \<le> ae_status e \<and> ae_status e \<le> 599)
      then Inl (ApiError e)
      else Inr (Again (case ae_retry_after e of None \<Rightarrow> Fin poll_interval | Some s \<Rightarrow> s)))"

definition not_signed :: "sdk_env \<Rightarrow> string \<Rightarrow> rat \<Rightarrow> exn" where
  "not_signed E receipt_id timeout =
     TimeoutError (''Receipt '' @ receipt_id @ '' not signed after '' @ float_repr E timeout @ ''s'')"

definition read_turn ::
  "sdk_env \<Rightarrow> string \<Rightarrow> rat \<Rightarrow> rat \<Rightarrow> receipt_envelope res \<Rightarrow> turn res" where
  "read_turn E receipt_id poll_interval timeout answer =
     (case answer of
        Inl e \<Rightarrow>
          (if e = AsyncTimeoutError then Inl (not_signed E receipt_id timeout)
           else if is_transport_error e then Inr (Again (Fin poll_interval))
           else case e of ApiError a \<Rightarrow> api_error_delay poll_interval a | _ \<Rightarrow> Inl e)
      | Inr (Env_Pending _) \<Rightarrow> Inr (Again (Fin poll_interval))
      | Inr (Env_Signed receipt) \<Rightarrow>
          bindr (decode_receipt E (PDict receipt)) (\<lambda>claims.
          bindr (dict_item claims ''receipt_id'') (\<lambda>i.
          if \<not> py_eq i (PStr receipt_id)
          then Inl (ProtocolError ''signed receipt_id does not match the requested receipt'')
          else Inr (Signed receipt))))"

primrec fetch_loop ::
  "nat \<Rightarrow> sdk_env \<Rightarrow> client \<Rightarrow> string \<Rightarrow> rat \<Rightarrow> rat \<Rightarrow> rat \<Rightarrow> pydict option prog" where
  "fetch_loop 0 E C receipt_id poll_interval timeout deadline = return None"
| "fetch_loop (Suc fuel) E C receipt_id poll_interval timeout deadline =
     bindp loop_time (\<lambda>now.
     if deadline - now \<le> 0 then raise (not_signed E receipt_id timeout)
     else
     bindp (attempt (get_receipt E C receipt_id)) (\<lambda>answer.
     bindp (Done (read_turn E receipt_id poll_interval timeout answer)) (\<lambda>t.
     case t of
       Signed receipt \<Rightarrow> return (Some receipt)
     | Again delay \<Rightarrow>
         bindp loop_time (\<lambda>now'.
         bindp (perform (Sleep (py_min delay (Fin (max 0 (deadline - now'))))) as_unit) (\<lambda>_.
         fetch_loop fuel E C receipt_id poll_interval timeout deadline)))))"

definition fetch_signed ::
  "nat \<Rightarrow> sdk_env \<Rightarrow> client \<Rightarrow> string \<Rightarrow> rat \<Rightarrow> rat \<Rightarrow> pydict option prog" where
  "fetch_signed fuel E C receipt_id poll_interval timeout =
     (if poll_interval \<le> 0 then raise (ValueError ''poll_interval must be positive'')
      else if timeout \<le> 0 then raise (ValueError ''timeout must be positive'')
      else
        bindp loop_time (\<lambda>now.
        fetch_loop fuel E C receipt_id poll_interval timeout (now + timeout)))"

subsection \<open>Seals\<close>

record seal_response =
  sl_request_id :: string
  sl_workspace_id :: string
  sl_profile :: string
  sl_record_sha256 :: string
  sl_reason :: string
  sl_receipt :: pydict

definition validate_seal_metadata :: "pyval \<Rightarrow> pyval res" where
  "validate_seal_metadata v =
     (case v of
        PNone \<Rightarrow> Inr PNone
      | PDict d \<Rightarrow>
          (if list_all (\<lambda>(k, x). as_string x \<noteq> None) d then Inr (PDict d)
           else Inl (ValueError ''metadata must be an object of string values''))
      | _ \<Rightarrow> Inl (ValueError ''metadata must be an object of string values''))"

definition seal_fields :: "sdk_env \<Rightarrow> (string \<times> string) list" where
  "seal_fields E =
     [(''schema_version'', ''5''), (''action'', seal_action E), (''decision'', ''allow''),
      (''agent_id'', seal_agent_id E), (''user_id'', seal_user_id E)]"

definition check_seal_field :: "pydict \<Rightarrow> string \<times> string \<Rightarrow> unit res" where
  "check_seal_field receipt = (\<lambda>(key, expected).
     bindr (require_str receipt key) (\<lambda>v.
     if v \<noteq> expected
     then Inl (ProtocolError (''seal receipt '' @ key @ '' does not match the request''))
     else Inr ()))"

definition validate_seal_receipt ::
  "sdk_env \<Rightarrow> pydict \<Rightarrow> string \<Rightarrow> string \<Rightarrow> string option \<Rightarrow> unit res" where
  "validate_seal_receipt E signed record_sha256 workspace_id expected_receipt_id =
     bindr (map_exn (verification_to_protocol ''invalid SEAL receipt: '') (decode_receipt E (PDict signed)))
       (\<lambda>receipt.
     bindr (require_str receipt ''receipt_id'') (\<lambda>receipt_id.
     if receipt_id = [] then Inl (ProtocolError ''seal receipt_id must be non-empty'')
     else if expected_receipt_id \<noteq> None \<and> expected_receipt_id \<noteq> Some receipt_id
     then Inl (ProtocolError ''seal receipt_id does not match the pending receipt'')
     else
     bindr (mapr (check_seal_field receipt) (seal_fields E)) (\<lambda>_.
     bindr (require_str receipt ''workspace_id'') (\<lambda>w.
     if w \<noteq> workspace_id
     then Inl (ProtocolError ''seal receipt workspace_id does not match the response'')
     else
     bindr (require_dict (dget receipt ''context'') ''seal receipt context'') (\<lambda>context.
     bindr (require_str context ''seal_profile'') (\<lambda>profile.
     if profile \<noteq> seal_profile E
     then Inl (ProtocolError ''seal receipt profile does not match the request'')
     else
     bindr (require_str context ''record_sha256'') (\<lambda>h.
     if h \<noteq> record_sha256
     then Inl (ProtocolError ''seal receipt record_sha256 does not match the request'')
     else Inr ())))))))"

definition seal_body :: "sdk_env \<Rightarrow> string \<Rightarrow> string \<Rightarrow> pyval \<Rightarrow> pydict" where
  "seal_body E request_id record_sha256 metadata =
     [(''request_id'', PStr request_id), (''profile'', PStr (seal_profile E)),
      (''record_sha256'', PStr record_sha256)] @
     (if metadata = PNone then [] else [(''metadata'', metadata)])"

text \<open>The response to a seal: its binding to the request, the workspace, the reason, the envelope.\<close>

definition parse_seal_response ::
  "sdk_env \<Rightarrow> string \<Rightarrow> string \<Rightarrow> pyval \<Rightarrow> (string \<times> string \<times> receipt_envelope) res" where
  "parse_seal_response E request_id record_sha256 v =
     bindr (require_dict v ''seal response'') (\<lambda>raw.
     bindr (require_str raw ''request_id'') (\<lambda>i.
     if i \<noteq> request_id then Inl (ProtocolError ''seal response request_id does not match the request'')
     else
     bindr (require_str raw ''profile'') (\<lambda>profile.
     if profile \<noteq> seal_profile E
     then Inl (ProtocolError ''seal response profile does not match the request'')
     else
     bindr (require_str raw ''record_sha256'') (\<lambda>h.
     if h \<noteq> record_sha256
     then Inl (ProtocolError ''seal response record_sha256 does not match the request'')
     else
     bindr (require_str raw ''workspace_id'') (\<lambda>workspace_id.
     if workspace_id = [] then Inl (ProtocolError ''seal response workspace_id must be non-empty'')
     else
     bindr (require_str raw ''decision'') (\<lambda>decision.
     if decision \<noteq> ''allow''
     then Inl (ProtocolError (''seal response decision must be '' @ repr_str ''allow''))
     else
     bindr (require_str raw ''reason'') (\<lambda>reason.
     bindr (parse_receipt_envelope E (dget raw ''receipt'')) (\<lambda>envelope.
     Inr (workspace_id, reason, envelope)))))))))"

definition seal_digest ::
  "nat \<Rightarrow> sdk_env \<Rightarrow> client \<Rightarrow> string \<Rightarrow> pyval \<Rightarrow> pyval \<Rightarrow> rat \<Rightarrow> rat \<Rightarrow> seal_response option prog" where
  "seal_digest fuel E C record_sha256 request_id metadata poll_interval timeout =
     (case request_id of
        PStr (x # xs) \<Rightarrow>
          (if poll_interval \<le> 0 then raise (ValueError ''poll_interval must be positive'')
           else if timeout \<le> 0 then raise (ValueError ''timeout must be positive'')
           else
           bindp (Done (validate_seal_metadata metadata)) (\<lambda>clean.
           bindp (request E C (api_call ''POST'' ''/v1/seal''
                    (Some (PDict (seal_body E (x # xs) record_sha256 clean))) None) [200]) (\<lambda>raw.
           bindp (Done (parse_seal_response E (x # xs) record_sha256 raw)) (\<lambda>(workspace_id, reason, envelope).
           bindp (case envelope of
                    Env_Signed receipt \<Rightarrow> return (Some receipt)
                  | Env_Pending p \<Rightarrow> fetch_signed fuel E C (rcp_receipt_id p) poll_interval timeout) (\<lambda>got.
           case got of
             None \<Rightarrow> return None
           | Some receipt \<Rightarrow>
               bindp (Done (validate_seal_receipt E receipt record_sha256 workspace_id
                        (case envelope of Env_Signed _ \<Rightarrow> None | Env_Pending p \<Rightarrow> Some (rcp_receipt_id p))))
                 (\<lambda>_. return (Some \<lparr>sl_request_id = x # xs, sl_workspace_id = workspace_id,
                                    sl_profile = seal_profile E, sl_record_sha256 = record_sha256,
                                    sl_reason = reason, sl_receipt = receipt\<rparr>)))))))
      | _ \<Rightarrow> raise (ValueError ''request_id must be a non-empty string''))"

definition seal ::
  "nat \<Rightarrow> sdk_env \<Rightarrow> client \<Rightarrow> pyval \<Rightarrow> pyval \<Rightarrow> pyval \<Rightarrow> rat \<Rightarrow> rat \<Rightarrow> seal_response option prog" where
  "seal fuel E C record_json request_id metadata poll_interval timeout =
     bindp (Done (hash_seal_json E record_json)) (\<lambda>h.
     seal_digest fuel E C h request_id metadata poll_interval timeout)"

definition seal_value ::
  "nat \<Rightarrow> sdk_env \<Rightarrow> client \<Rightarrow> pyval \<Rightarrow> pyval \<Rightarrow> pyval \<Rightarrow> rat \<Rightarrow> rat \<Rightarrow> seal_response option prog" where
  "seal_value fuel E C record request_id metadata poll_interval timeout =
     bindp (Done (hash_seal_value E record)) (\<lambda>h.
     seal_digest fuel E C h request_id metadata poll_interval timeout)"

end
