(* ===== verification/Quote_Facts.thy ===== *)
theory Quote_Facts
  imports Policy_Api Receipts Py_Url
begin

text \<open>
  Identifiers in request paths: what \<open>quote(s, safe='')\<close> makes of any text stays inside one path
  segment, and decodes back to the text's UTF-8 bytes.
\<close>

lemma ord_parts: "ord c div 16 < (16 :: nat)" "ord c mod 16 < (16 :: nat)" "ord c div 64 < (4 :: nat)"
  using nat_of_char_less_256[of c] by (simp_all add: less_mult_imp_div_less)

lemma ord_char_of: "n < 256 \<Longrightarrow> ord (char_of n :: char) = (n :: nat)"
  by simp

lemma hex_value_hex_upper: "n < 16 \<Longrightarrow> hex_value (hex_upper n) = Some n"
  by (simp add: hex_value_def hex_upper_def char_class_defs ord_char_of)

lemma hex_pair_upper: "hex_pair (hex_upper (ord c div 16)) (hex_upper (ord c mod 16)) = Some c"
proof -
  have "hex_value (hex_upper (ord c div 16)) = Some (ord c div 16)"
    "hex_value (hex_upper (ord c mod 16)) = Some (ord c mod 16)"
    by (simp_all add: hex_value_hex_upper ord_parts)
  then show ?thesis by (simp add: hex_pair_def)
qed

lemma percent_decode_other: "c \<noteq> CHR ''%'' \<Longrightarrow> percent_decode (c # r) = c # percent_decode r"
  by (cases r; cases "tl r") auto

lemma percent_decode_quote_char: "percent_decode (quote_char c @ r) = c # percent_decode r"
proof (cases "is_unreserved c")
  case True
  then have "c \<noteq> CHR ''%''" by (auto simp: is_unreserved_def char_class_defs)
  with True show ?thesis by (simp add: quote_char_def percent_decode_other)
next
  case False
  then show ?thesis by (simp add: quote_char_def hex_pair_upper)
qed

lemma percent_decode_quote: "percent_decode (quote s) = utf8 s"
proof -
  have "percent_decode (concat (map quote_char bs)) = bs" for bs
    by (induction bs) (simp_all add: percent_decode_quote_char)
  then show ?thesis by (simp add: quote_def)
qed

lemma hex_upper_unreserved: "n < 16 \<Longrightarrow> is_unreserved (hex_upper n)"
  by (simp add: is_unreserved_def hex_upper_def char_class_defs ord_char_of)

lemma quote_char_chars: "x \<in> set (quote_char c) \<Longrightarrow> is_unreserved x \<or> x = CHR ''%''"
proof -
  have "is_unreserved (hex_upper (ord c div 16))" "is_unreserved (hex_upper (ord c mod 16))"
    by (simp_all add: hex_upper_unreserved ord_parts)
  then show "x \<in> set (quote_char c) \<Longrightarrow> is_unreserved x \<or> x = CHR ''%''"
    by (auto simp: quote_char_def split: if_splits)
qed

lemma utf8_char_cases: "utf8 (c # s) = utf8 [c] @ utf8 s"
  by (simp add: utf8_def)

lemma utf8_char_inject:
  assumes "utf8 [c] @ s' = utf8 [d] @ t'"
  shows "c = d \<and> s' = t'"
proof -
  have small: "ord c div 64 < 4" "ord d div 64 < 4" by (rule ord_parts)+
  show ?thesis
  proof (cases "ord c < 128"; cases "ord d < 128")
    assume "\<not> ord c < 128" "\<not> ord d < 128"
    with assms have chars: "(char_of (192 + ord c div 64) :: char) = char_of (192 + ord d div 64)"
      "(char_of (128 + ord c mod 64) :: char) = char_of (128 + ord d mod 64)" "s' = t'"
      by (simp_all add: utf8_def)
    from arg_cong[OF chars(1), of ord] small have "ord c div 64 = ord d div 64"
      by (simp add: of_char_of)
    moreover from arg_cong[OF chars(2), of ord] have "ord c mod 64 = ord d mod 64"
      by (simp add: of_char_of)
    ultimately have "ord c = ord d" by (metis div_mult_mod_eq)
    with chars(3) show ?thesis by (simp add: of_char_eq_iff)
  next
    assume c: "ord c < 128" and d: "\<not> ord d < 128"
    with assms have "c = char_of (192 + ord d div 64)" by (simp add: utf8_def)
    with c small show ?thesis by (simp add: of_char_of)
  next
    assume c: "\<not> ord c < 128" and d: "ord d < 128"
    with assms have "char_of (192 + ord c div 64) = d" by (simp add: utf8_def)
    with d small show ?thesis by (auto simp: of_char_of)
  qed (use assms in \<open>simp add: utf8_def\<close>)
qed

lemma utf8_inject: "utf8 s = utf8 t \<longleftrightarrow> s = t"
proof (induction s arbitrary: t)
  case Nil
  then show ?case by (cases t) (auto simp: utf8_def split: if_splits)
next
  case (Cons c s)
  show ?case
  proof (cases t)
    case Nil
    then show ?thesis by (auto simp: utf8_def split: if_splits)
  next
    case (Cons d t')
    show ?thesis
      using utf8_char_inject[of c "utf8 s" d "utf8 t'"] Cons.IH[of t']
      unfolding Cons utf8_char_cases[of c s] utf8_char_cases[of d t'] by auto
  qed
qed

lemma quote_inject: "quote s = quote t \<longleftrightarrow> s = t"
  using percent_decode_quote utf8_inject by metis

lemma quote_plain: "c \<in> set (quote s) \<Longrightarrow> is_unreserved c \<or> c = CHR ''%''"
  using quote_char_chars by (fastforce simp: quote_def)

subsection \<open>Request paths\<close>

text \<open>The segment a server finds after a fixed start of the path.\<close>

definition segment_after :: "string \<Rightarrow> string \<Rightarrow> string" where
  "segment_after start p = takeWhile (\<lambda>c. c \<notin> set ''/?#'') (drop (length start) p)"

lemma segment_after_quote:
  assumes "rest = [] \<or> hd rest = CHR ''/''"
  shows "segment_after start (start @ quote i @ rest) = quote i"
proof -
  have "c \<notin> set ''/?#''" if "c \<in> set (quote i)" for c
    using quote_plain[OF that] by (auto simp: is_unreserved_def char_class_defs)
  then have "takeWhile (\<lambda>c. c \<notin> set ''/?#'') (quote i @ rest) = quote i @ takeWhile (\<lambda>c. c \<notin> set ''/?#'') rest"
    by (intro takeWhile_append2) auto
  moreover have "takeWhile (\<lambda>c. c \<notin> set ''/?#'') rest = []"
    using assms by (cases rest) auto
  ultimately show ?thesis by (simp add: segment_after_def)
qed


end
