(* ===== verification/Receipt_Facts.thy ===== *)
theory Receipt_Facts
  imports Receipts
begin

text \<open>
  Correctness of the receipt operations: what a fetched receipt is, when the polling loop sleeps and
  that it ends, and what a returned seal is bound to.
\<close>

subsection \<open>What a fetched receipt is\<close>

text \<open>The receipt came, signed, in an answer with status 200 to the request for it, and says so.\<close>

definition signed_answer :: "sdk_env \<Rightarrow> string \<Rightarrow> (eff \<times> ans) list \<Rightarrow> pydict \<Rightarrow> bool" where
  "signed_answer E receipt_id es receipt \<longleftrightarrow>
     (\<exists>resp v claims.
        (Request (api_call ''GET'' (receipt_path receipt_id) None None), A_Response resp) \<in> set es
        \<and> rs_status resp = 200 \<and> rs_json resp = Some v \<and> parse_receipt_envelope E v = Inr (Env_Signed receipt)
        \<and> decode_receipt E (PDict receipt) = Inr claims \<and> dget claims ''receipt_id'' = PStr receipt_id)"

lemma signed_answer_mono: "signed_answer E i es r \<Longrightarrow> set es \<subseteq> set es' \<Longrightarrow> signed_answer E i es' r"
  unfolding signed_answer_def by blast

lemma read_turn_signed:
  assumes "read_turn E i p t answer = Inr (Signed receipt)"
  shows "answer = Inr (Env_Signed receipt)
    \<and> (\<exists>claims. decode_receipt E (PDict receipt) = Inr claims \<and> dget claims ''receipt_id'' = PStr i)"
proof (cases answer)
  case (Inl e)
  with assms show ?thesis
    by (auto simp: read_turn_def api_error_delay_def split: exn.splits if_splits)
next
  case (Inr envelope)
  with assms show ?thesis
    by (auto simp: read_turn_def dict_item_def dget_def elim!: bindr_InrE
        split: receipt_envelope.splits if_splits)
qed

lemma get_receipt_ok:
  assumes "outcome (get_receipt E C i) as = Some (Inr envelope)"
  shows "\<exists>resp v. (Request (api_call ''GET'' (receipt_path i) None None), A_Response resp)
      \<in> set (events (get_receipt E C i) as)
    \<and> rs_status resp = 200 \<and> rs_json resp = Some v \<and> parse_receipt_envelope E v = Inr envelope"
proof -
  let ?rq = "api_call ''GET'' (receipt_path i) None None"
  from assms obtain raw where ok: "outcome (request E C ?rq [200]) as = Some (Inr raw)"
    and parsed: "parse_receipt_envelope E raw = Inr envelope"
    unfolding get_receipt_def outcome_ok by auto
  from request_ok[OF ok] parsed show ?thesis by (auto simp: get_receipt_def events_bindp)
qed

lemma fetch_loop_SucE:
  assumes "outcome (fetch_loop (Suc n) E C i p t deadline) as = Some (Inr (Some receipt))"
  obtains answer turn as1 where "outcome (attempt (get_receipt E C i)) as1 = Some (Inr answer)"
    and "set (events (get_receipt E C i) as1) \<subseteq> set (events (fetch_loop (Suc n) E C i p t deadline) as)"
    and "read_turn E i p t answer = Inr turn"
    and "case turn of Signed r \<Rightarrow> r = receipt
      | Again _ \<Rightarrow> \<exists>as'. outcome (fetch_loop n E C i p t deadline) as' = Some (Inr (Some receipt))
          \<and> set (events (fetch_loop n E C i p t deadline) as')
              \<subseteq> set (events (fetch_loop (Suc n) E C i p t deadline) as)"
proof -
  let ?get = "attempt (get_receipt E C i)"
  let ?as = "leftover loop_time as"
  let ?next = "\<lambda>turn. case turn of Signed receipt \<Rightarrow> return (Some receipt)
        | Again delay \<Rightarrow> bindp loop_time (\<lambda>now'.
            bindp (perform (Sleep (py_min delay (Fin (max 0 (deadline - now'))))) as_unit) (\<lambda>_.
            fetch_loop n E C i p t deadline))"
  from assms obtain now answer turn where
    now: "outcome loop_time as = Some (Inr now)" "\<not> deadline - now \<le> 0"
    and answer: "outcome ?get ?as = Some (Inr answer)"
    and turn: "read_turn E i p t answer = Inr turn"
    and rest: "outcome (?next turn) (leftover ?get ?as) = Some (Inr (Some receipt))"
    unfolding fetch_loop.simps outcome_ok by auto
  have evs: "events (fetch_loop (Suc n) E C i p t deadline) as =
      events loop_time as @ events ?get ?as @ events (?next turn) (leftover ?get ?as)"
    using now answer turn by (simp add: events_bindp)
  have "case turn of Signed r \<Rightarrow> r = receipt
      | Again _ \<Rightarrow> \<exists>as'. outcome (fetch_loop n E C i p t deadline) as' = Some (Inr (Some receipt))
          \<and> set (events (fetch_loop n E C i p t deadline) as') \<subseteq> set (events (?next turn) (leftover ?get ?as))"
    using rest by (cases turn) (fastforce dest!: outcome_bindp_tail, simp)
  with answer turn evs show thesis by (intro that[of ?as]) (auto split: turn.splits)
qed

lemma fetch_loop_signed:
  "outcome (fetch_loop n E C i p t deadline) as = Some (Inr (Some receipt)) \<Longrightarrow>
     signed_answer E i (events (fetch_loop n E C i p t deadline) as) receipt"
proof (induction n arbitrary: as)
  case (Suc n)
  from Suc.prems show ?case
  proof (rule fetch_loop_SucE, goal_cases)
    case (1 answer turn as1)
    show ?case
    proof (cases turn)
      case (Signed r)
      with 1(3,4) have turn: "read_turn E i p t answer = Inr (Signed receipt)" by simp
      from read_turn_signed[OF this] 1(1) have "outcome (get_receipt E C i) as1 = Some (Inr (Env_Signed receipt))"
        by (simp add: outcome_attempt)
      from get_receipt_ok[OF this] read_turn_signed[OF turn] 1(2) show ?thesis
        unfolding signed_answer_def by blast
    next
      case (Again delay)
      with 1(4) Suc.IH signed_answer_mono show ?thesis by fastforce
    qed
  qed
qed simp

lemma fetch_signed_run:
  assumes "outcome (fetch_signed n E C i p t) as = Some (Inr got)"
  obtains now where "outcome loop_time as = Some (Inr now)" "0 < p" "0 < t"
    "outcome (fetch_loop n E C i p t (now + t)) (leftover loop_time as) = Some (Inr got)"
    "events (fetch_signed n E C i p t) as =
       events loop_time as @ events (fetch_loop n E C i p t (now + t)) (leftover loop_time as)"
  using assms unfolding fetch_signed_def outcome_ok by (auto simp: events_bindp)

text \<open>
  C21: the receipt \<open>fetch_signed\<close> returns is the one asked for. It came as a signed envelope in an
  answer with status 200 to the request for this identifier, and its decoded claims carry the
  identifier, however many turns the polling took.
\<close>

theorem fetched_receipt_is_requested:
  assumes "outcome (fetch_signed n E C i p t) as = Some (Inr (Some receipt))"
  shows "signed_answer E i (events (fetch_signed n E C i p t) as) receipt"
proof -
  from assms obtain now where
    "outcome (fetch_loop n E C i p t (now + t)) (leftover loop_time as) = Some (Inr (Some receipt))"
    and events: "events (fetch_signed n E C i p t) as =
       events loop_time as @ events (fetch_loop n E C i p t (now + t)) (leftover loop_time as)"
    by (rule fetch_signed_run)
  from fetch_loop_signed[OF this(1)] show ?thesis
    unfolding events by (rule signed_answer_mono) auto
qed

subsection \<open>The clock\<close>

text \<open>
  The ghost state is the list of clock readings. The first sets the deadline; a sleep must not end
  after it, as far as the last reading tells.
\<close>

fun clock_adv :: "rat list \<Rightarrow> eff \<Rightarrow> ans \<Rightarrow> rat list" where
  "clock_adv ts Loop_Time (A_Float (Fin t)) = ts @ [t]"
| "clock_adv ts _ _ = ts"

definition readings :: "(eff \<times> ans) list \<Rightarrow> rat list" where
  "readings = advance clock_adv []"

definition sleep_fits :: "rat \<Rightarrow> pyfloat \<Rightarrow> bool" where
  \<comment> \<open>not longer than \<open>bound\<close>; \<open>asyncio.sleep\<close> refuses a NaN\<close>
  "sleep_fits bound d \<longleftrightarrow> (case d of Fin x \<Rightarrow> x \<le> bound | Pos_Inf \<Rightarrow> False | _ \<Rightarrow> True)"

definition clock_allowed :: "rat \<Rightarrow> rat list \<Rightarrow> eff \<Rightarrow> bool" where
  "clock_allowed timeout ts e =
     (case e of
        Sleep d \<Rightarrow> ts \<noteq> [] \<and> sleep_fits (max 0 (hd ts + timeout - last ts)) d
      | _ \<Rightarrow> True)"

definition keeps_clock :: "eff \<Rightarrow> bool" where
  "keeps_clock e \<longleftrightarrow> (case e of Sleep _ \<Rightarrow> False | Loop_Time \<Rightarrow> False | _ \<Rightarrow> True)"

interpretation clock: effect_protocol "clock_allowed timeout" clock_adv keeps_clock for timeout
  by unfold_locales (auto simp: clock_allowed_def keeps_clock_def split: eff.splits)

lemma get_receipt_keeps_clock: "uses_only keeps_clock (get_receipt E C i)"
  unfolding get_receipt_def
  by (intro uses_only_bindp uses_only_mono[OF request_uses_request]) (auto simp: keeps_clock_def)

lemma py_min_fits: "sleep_fits b (py_min d (Fin b))"
  by (cases d) (auto simp: sleep_fits_def py_min_def)

lemma wp_loop_time:
  "(\<And>e. Q ts (Inl e)) \<Longrightarrow> (\<And>now. clock.wp timeout (f now) Q (ts @ [now])) \<Longrightarrow>
     clock.wp timeout (bindp loop_time f) Q ts"
  unfolding loop_time_def
  apply (auto simp: clock.wp_simps clock_allowed_def ill_typed_def split: ans.splits)
  subgoal for x by (cases x) (simp_all add: ill_typed_def)
  done

lemma wp_clock_sleep:
  "ts \<noteq> [] \<Longrightarrow> sleep_fits (max 0 (hd ts + timeout - last ts)) d \<Longrightarrow> (\<And>e. Q ts (Inl e)) \<Longrightarrow>
     (\<And>u. clock.wp timeout (f u) Q ts) \<Longrightarrow> clock.wp timeout (bindp (perform (Sleep d) as_unit) f) Q ts"
  by (auto simp: clock.wp_simps clock_allowed_def split: ans.splits sum.splits)

text \<open>Out of fuel, every turn started before the deadline; a turn takes two readings.\<close>

definition turns_before :: "rat \<Rightarrow> nat \<Rightarrow> rat list \<Rightarrow> bool" where
  "turns_before timeout n ts \<longleftrightarrow>
     length ts = 2 * n + 1 \<and> (\<forall>k < n. ts ! (2 * k + 1) < hd ts + timeout)"

lemma turns_before_Suc:
  "turns_before timeout n ts \<Longrightarrow> now < hd ts + timeout \<Longrightarrow> turns_before timeout (Suc n) (ts @ [now, now'])"
  by (cases ts) (auto simp: turns_before_def nth_append less_Suc_eq)

lemma wp_fetch_loop:
  "turns_before timeout m ts \<Longrightarrow>
     clock.wp timeout (fetch_loop n E C i p t (hd ts + timeout))
       (\<lambda>ts' r. hd ts' = hd ts \<and> (r = Inr None \<longrightarrow> turns_before timeout (m + n) ts')) ts"
proof (induction n arbitrary: m ts)
  case (Suc n)
  then have ts: "ts \<noteq> []" by (auto simp: turns_before_def)
  have loop: "clock.wp timeout (fetch_loop n E C i p t (hd ts + timeout))
      (\<lambda>ts' r. hd ts' = hd ts \<and> (r = Inr None \<longrightarrow> turns_before timeout (m + Suc n) ts')) (ts @ [now, now'])"
    if "now < hd ts + timeout" for now now'
    using Suc.IH[OF turns_before_Suc[OF Suc.prems that]] ts by simp
  show ?case
    unfolding fetch_loop.simps
  proof (rule wp_loop_time, goal_cases)
    case (2 now)
    show ?case
    proof (rule clock.wp_ifI, goal_cases)
      case 2
      then have now: "now < hd ts + timeout" by simp
      show ?case
      proof (rule clock.wp_neutral_bindp, goal_cases)
        case (3 answer)
        show ?case
        proof (rule clock.wp_bind_DoneI, goal_cases)
          case (2 turn)
          show ?case
          proof (cases turn)
            case (Again delay)
            have "clock.wp timeout (bindp loop_time (\<lambda>now'.
                bindp (perform (Sleep (py_min delay (Fin (max 0 (hd ts + timeout - now'))))) as_unit) (\<lambda>_.
                fetch_loop n E C i p t (hd ts + timeout))))
              (\<lambda>ts' r. hd ts' = hd ts \<and> (r = Inr None \<longrightarrow> turns_before timeout (m + Suc n) ts')) (ts @ [now])"
              using ts loop[OF now] by (intro wp_loop_time wp_clock_sleep) (simp_all add: py_min_fits)
            with Again show ?thesis by simp
          qed (use ts in simp)
        qed (use ts in simp)
      qed (use ts in \<open>simp_all add: get_receipt_keeps_clock\<close>)
    qed (use ts in simp)
  qed simp
qed simp

lemma wp_fetch_signed:
  "clock.wp t (fetch_signed n E C i p t) (\<lambda>ts r. r = Inr None \<longrightarrow> turns_before t n ts) []"
  unfolding fetch_signed_def
proof (intro clock.wp_ifI wp_loop_time, goal_cases)
  case (4 now)
  have "turns_before t 0 [now]" by (simp add: turns_before_def)
  from wp_fetch_loop[OF this, of n E C i p t] show ?case by (auto elim: clock.wp_mono)
qed simp_all

text \<open>
  C20: polling never sleeps past its deadline. Whatever delay the API asks for, every sleep is at most
  the time that was left at the last reading of the clock, where the deadline is the first reading
  plus the timeout.
\<close>

theorem polling_sleeps_within_deadline:
  assumes "events (fetch_signed n E C i p timeout) as = es @ (Sleep d, a) # es'"
  shows "readings es \<noteq> [] \<and> sleep_fits (max 0 (hd (readings es) + timeout - last (readings es))) d"
  using safe_event[OF wp_fetch_signed assms] by (simp add: clock_allowed_def readings_def)

text \<open>
  C19: polling ends. If the clock never goes back before the first turn and every turn but the last
  lets at least \<open>\<delta>\<close> pass, then any fuel above \<open>timeout / \<delta>\<close> is enough: the call returns a receipt or
  raises, whatever the API answers.
\<close>

theorem polling_ends:
  assumes "0 < \<delta>" and "timeout \<le> of_nat n * \<delta>"
    and "outcome (fetch_signed (Suc n) E C i p timeout) as = Some r"
    and "ts = readings (events (fetch_signed (Suc n) E C i p timeout) as)"
    and "1 < length ts \<Longrightarrow> ts ! 0 \<le> ts ! 1"
    and "\<And>k. 2 * k + 3 < length ts \<Longrightarrow> ts ! (2 * k + 1) + \<delta> \<le> ts ! (2 * k + 3)"
  shows "(\<exists>e. r = Inl e) \<or> (\<exists>receipt. r = Inr (Some receipt))"
proof (rule ccontr)
  assume "\<not> ?thesis"
  then have "r = Inr None" by (cases r) auto
  then have turns: "turns_before timeout (Suc n) ts"
    using safe_outcome[OF wp_fetch_signed assms(3)] by (simp add: assms(4) readings_def)
  then have "length ts = 2 * n + 3" by (simp add: turns_before_def)
  have "ts ! 0 + of_nat k * \<delta> \<le> ts ! (2 * k + 1)" if "k \<le> n" for k
    using that
  proof (induction k)
    case (Suc k)
    with assms(6)[of k] \<open>length ts = 2 * n + 3\<close> have "ts ! (2 * k + 1) + \<delta> \<le> ts ! (2 * k + 3)" by simp
    with Suc show ?case by (simp add: algebra_simps numeral_3_eq_3)
  qed (use assms(5) \<open>length ts = 2 * n + 3\<close> in simp)
  from this[of n] have "ts ! 0 + timeout \<le> ts ! (2 * n + 1)" using assms(2) by simp
  moreover have "hd ts = ts ! 0" using \<open>length ts = 2 * n + 3\<close> by (cases ts) auto
  ultimately show False using turns by (auto simp: turns_before_def)
qed

subsection \<open>Seals\<close>

text \<open>The claims of a seal's receipt: the request, the workspace, the profile and the record's hash.\<close>

definition seal_claims :: "sdk_env \<Rightarrow> string \<Rightarrow> seal_response \<Rightarrow> bool" where
  "seal_claims E h r \<longleftrightarrow>
     (\<exists>claims context.
        decode_receipt E (PDict (sl_receipt r)) = Inr claims
        \<and> (\<forall>(k, x) \<in> set (seal_fields E). dget claims k = PStr x)
        \<and> dget claims ''workspace_id'' = PStr (sl_workspace_id r) \<and> dget claims ''context'' = PDict context
        \<and> dget context ''seal_profile'' = PStr (seal_profile E) \<and> dget context ''record_sha256'' = PStr h)"

lemma validate_seal_receipt_ok:
  assumes "validate_seal_receipt E receipt h w expected = Inr u"
  shows "\<exists>claims context.
      decode_receipt E (PDict receipt) = Inr claims
      \<and> (\<forall>(k, x) \<in> set (seal_fields E). dget claims k = PStr x)
      \<and> dget claims ''workspace_id'' = PStr w \<and> dget claims ''context'' = PDict context
      \<and> dget context ''seal_profile'' = PStr (seal_profile E) \<and> dget context ''record_sha256'' = PStr h
      \<and> (\<forall>i. expected = Some i \<longrightarrow> dget claims ''receipt_id'' = PStr i)"
proof -
  from assms obtain claims us ctx i where
    "decode_receipt E (PDict receipt) = Inr claims" "mapr (check_seal_field claims) (seal_fields E) = Inr us"
    "require_str claims ''workspace_id'' = Inr w" "require_dict (dget claims ''context'') ''seal receipt context'' = Inr ctx"
    "require_str ctx ''seal_profile'' = Inr (seal_profile E)" "require_str ctx ''record_sha256'' = Inr h"
    "require_str claims ''receipt_id'' = Inr i" "\<not> (expected \<noteq> None \<and> expected \<noteq> Some i)"
    unfolding validate_seal_receipt_def map_exn_def by (elim result_elims) (auto intro!: that split: sum.splits)
  moreover from this(2) have "\<forall>f \<in> set (seal_fields E). check_seal_field claims f = Inr ()"
    by (intro ballI, rule mapr_all_ok)
  then have "\<forall>(k, x) \<in> set (seal_fields E). dget claims k = PStr x"
    by (auto simp: check_seal_field_def reader_iffs elim!: bindr_InrE split: if_splits)
  ultimately show ?thesis by (auto simp: reader_iffs)
qed

text \<open>A returned seal is bound to its request: the answer was to this request, the claims are its.\<close>

definition seal_bound :: "sdk_env \<Rightarrow> (eff \<times> ans) list \<Rightarrow> string \<Rightarrow> pyval \<Rightarrow> seal_response \<Rightarrow> bool" where
  "seal_bound E es h request_id r \<longleftrightarrow>
     request_id = PStr (sl_request_id r) \<and> sl_request_id r \<noteq> [] \<and> sl_record_sha256 r = h
     \<and> sl_workspace_id r \<noteq> [] \<and> seal_claims E h r
     \<and> (\<exists>metadata resp raw.
          (Request (api_call ''POST'' ''/v1/seal'' (Some (PDict (seal_body E (sl_request_id r) h metadata))) None),
           A_Response resp) \<in> set es
          \<and> rs_status resp = 200 \<and> rs_json resp = Some (PDict raw)
          \<and> dget raw ''request_id'' = request_id \<and> dget raw ''record_sha256'' = PStr h
          \<and> dget raw ''decision'' = PStr ''allow'' \<and> dget raw ''workspace_id'' = PStr (sl_workspace_id r))"

lemma parse_seal_response_ok:
  assumes "parse_seal_response E i h v = Inr (w, reason, envelope)"
  shows "w \<noteq> [] \<and> (\<exists>raw. v = PDict raw \<and> dget raw ''request_id'' = PStr i \<and> dget raw ''record_sha256'' = PStr h
    \<and> dget raw ''decision'' = PStr ''allow'' \<and> dget raw ''workspace_id'' = PStr w)"
proof -
  from assms obtain raw where "v = PDict raw" "require_str raw ''request_id'' = Inr i"
    "require_str raw ''record_sha256'' = Inr h" "require_str raw ''decision'' = Inr ''allow''"
    "require_str raw ''workspace_id'' = Inr w" "w \<noteq> []"
    unfolding parse_seal_response_def by (elim result_elims) (auto intro!: that)
  then show ?thesis by (simp add: reader_iffs)
qed

lemma seal_digest_bound:
  assumes "outcome (seal_digest n E C h request_id metadata p t) as = Some (Inr (Some r))"
  shows "seal_bound E (events (seal_digest n E C h request_id metadata p t) as) h request_id r"
proof -
  from assms obtain x xs where i: "request_id = PStr (x # xs)"
    unfolding seal_digest_def by (auto split: pyval.splits list.splits)
  let ?rq = "\<lambda>clean. api_call ''POST'' ''/v1/seal'' (Some (PDict (seal_body E (x # xs) h clean))) None"
  let ?finish = "\<lambda>w reason envelope got. case got of
      None \<Rightarrow> return None
    | Some receipt \<Rightarrow>
        bindp (Done (validate_seal_receipt E receipt h w
                 (case envelope of Env_Signed _ \<Rightarrow> None | Env_Pending p \<Rightarrow> Some (rcp_receipt_id p))))
          (\<lambda>_. return (Some \<lparr>sl_request_id = x # xs, sl_workspace_id = w, sl_profile = seal_profile E,
                             sl_record_sha256 = h, sl_reason = reason, sl_receipt = receipt\<rparr>))"
  from assms obtain clean raw q got as' where
    clean: "validate_seal_metadata metadata = Inr clean"
    and raw: "outcome (request E C (?rq clean) [200]) as = Some (Inr raw)"
    and q: "parse_seal_response E (x # xs) h raw = Inr q"
      "outcome (?finish (fst q) (fst (snd q)) (snd (snd q)) got) as' = Some (Inr (Some r))"
    unfolding seal_digest_def i pyval.case list.case split_def outcome_ok by (elim conjE exE) (rule that, simp_all)
  obtain w reason envelope where split: "q = (w, reason, envelope)" by (cases q)
  from q(1) have parsed: "parse_seal_response E (x # xs) h raw = Inr (w, reason, envelope)"
    by (simp only: split)
  from q(2) have rest: "outcome (?finish w reason envelope got) as' = Some (Inr (Some r))"
    by (simp only: split fst_conv snd_conv)
  from rest obtain receipt u where
    "validate_seal_receipt E receipt h w
       (case envelope of Env_Signed _ \<Rightarrow> None | Env_Pending p \<Rightarrow> Some (rcp_receipt_id p)) = Inr u"
    and r: "r = \<lparr>sl_request_id = x # xs, sl_workspace_id = w, sl_profile = seal_profile E,
      sl_record_sha256 = h, sl_reason = reason, sl_receipt = receipt\<rparr>"
    by (auto split: option.splits sum.splits)
  from validate_seal_receipt_ok[OF this(1)] have claims: "seal_claims E h r"
    by (auto simp: seal_claims_def r)
  from request_ok[OF raw] obtain resp where
    "(Request (?rq clean), A_Response resp) \<in> set (events (request E C (?rq clean) [200]) as)"
    and resp: "rs_status resp = 200" "rs_json resp = Some raw" by auto
  then have "(Request (?rq clean), A_Response resp)
      \<in> set (events (seal_digest n E C h request_id metadata p t) as)"
    using assms clean unfolding seal_digest_def i by (auto simp: events_bindp outcome_bindp split: if_splits)
  with claims resp parse_seal_response_ok[OF parsed] show ?thesis
    unfolding seal_bound_def r i by fastforce
qed

text \<open>
  C18: a seal is a seal of the record. What \<open>seal\<close> and \<open>seal_value\<close> return comes from an answer with status
  200 that allowed exactly this request, for this record's hash, and the claims of its receipt name
  the record's hash, the workspace of the answer and the fixed seal identity.
\<close>

theorem returned_seal_bound:
  assumes "(run, hash) \<in> {(seal, hash_seal_json E), (seal_value, hash_seal_value E)}"
    and "outcome (run n E C v request_id metadata p t) as = Some (Inr (Some r))"
  shows "\<exists>h. hash v = Inr h \<and> seal_bound E (events (run n E C v request_id metadata p t) as) h request_id r"
  using assms seal_digest_bound by (auto simp: seal_def seal_value_def events_bindp split: sum.splits)

end
