(* ===== verification/Receipt_Samples.thy ===== *)
theory Receipt_Samples
  imports Receipt_Facts Policy_Samples
begin

text \<open>The receipt properties on concrete runs: a poll answered twice, one that times out, a seal.\<close>

definition signed_claims :: pydict where
  "signed_claims =
     [(''receipt_id'', PStr ''r1''), (''schema_version'', PStr ''5''), (''action'', PStr ''seal''),
      (''decision'', PStr ''allow''), (''agent_id'', PStr ''seal-agent''), (''user_id'', PStr ''seal-user''),
      (''workspace_id'', PStr ''w''),
      (''context'', PDict [(''seal_profile'', PStr ''seal.v1''), (''record_sha256'', PStr digest_b)])]"

definition pending_reply :: ans where
  "pending_reply = sample_reply 200
     (PDict [(''status'', PStr ''pending''), (''receipt_id'', PStr ''r1''), (''url'', PStr ''u'')])"

definition signed_reply :: ans where
  "signed_reply = sample_reply 200
     (PDict [(''status'', PStr ''signed''), (''receipt'', PDict signed_claims)])"

definition clock_at :: "int \<Rightarrow> ans" where
  "clock_at t = A_Float (Fin (of_int t))"

lemmas run_simps = fetch_signed_def loop_time_def get_receipt_def request_def request_with_headers_def
  send_request_def perform_def handle_def decode_response_def is_success_def clock_at_def pending_reply_def
  signed_reply_def sample_reply_def

lemma sample_envelopes:
  "parse_receipt_envelope sample_env
     (PDict [(''status'', PStr ''pending''), (''receipt_id'', PStr ''r1''), (''url'', PStr ''u'')])
   = Inr (Env_Pending \<lparr>rcp_receipt_id = ''r1'', rcp_ready_at_estimate = None, rcp_url = ''u''\<rparr>)"
  "parse_receipt_envelope sample_env (PDict [(''status'', PStr ''signed''), (''receipt'', PDict signed_claims)])
   = Inr (Env_Signed signed_claims)"
  "read_turn sample_env ''r1'' 1 1 (Inr (Env_Signed signed_claims)) = Inr (Signed signed_claims)"
  "read_turn sample_env ''r1'' 1 5 (Inr (Env_Signed signed_claims)) = Inr (Signed signed_claims)"
  by code_simp+

lemma sample_poll:
  "outcome (fetch_signed 2 sample_env sample_client ''r1'' 1 5)
     [clock_at 0, clock_at 0, pending_reply, clock_at 1, A_Unit, clock_at 2, signed_reply]
   = Some (Inr (Some signed_claims))"
  by (simp add: run_simps sample_envelopes numeral_2_eq_2 read_turn_def[of _ _ _ _ "Inr (Env_Pending _)"])

lemma fetched_receipt_is_requested_witness:
  "\<exists>es. signed_answer sample_env ''r1'' es signed_claims"
  using fetched_receipt_is_requested[OF sample_poll] by blast

lemma sample_poll_events:
  "\<exists>rq. events (fetch_signed 2 sample_env sample_client ''r1'' 1 5)
     [clock_at 0, clock_at 0, pending_reply, clock_at 1, A_Unit, clock_at 2, signed_reply]
   = [(Loop_Time, clock_at 0), (Loop_Time, clock_at 0), (rq, pending_reply), (Loop_Time, clock_at 1)]
     @ (Sleep (Fin 1), A_Unit) # [(Loop_Time, clock_at 2), (rq, signed_reply)]"
  by (simp add: run_simps sample_envelopes numeral_2_eq_2 read_turn_def[of _ _ _ _ "Inr (Env_Pending _)"]
      py_min_def)

lemma polling_sleeps_within_deadline_witness:
  "\<exists>es. readings es \<noteq> [] \<and> sleep_fits (max 0 (hd (readings es) + 5 - last (readings es))) (Fin 1)"
  using sample_poll_events polling_sleeps_within_deadline by blast

lemma sample_poll_timeout:
  "outcome (fetch_signed (Suc 1) sample_env sample_client ''r1'' 1 1)
     [clock_at 0, clock_at 0, pending_reply, clock_at 0, A_Unit, clock_at 1]
   = Some (Inl (not_signed sample_env ''r1'' 1))"
  "readings (events (fetch_signed (Suc 1) sample_env sample_client ''r1'' 1 1)
     [clock_at 0, clock_at 0, pending_reply, clock_at 0, A_Unit, clock_at 1]) = [0, 0, 0, 1]"
  by (simp_all add: run_simps sample_envelopes read_turn_def[of _ _ _ _ "Inr (Env_Pending _)"]
      readings_def)

lemma polling_ends_witness:
  "\<exists>r. outcome (fetch_signed (Suc 1) sample_env sample_client ''r1'' 1 1)
      [clock_at 0, clock_at 0, pending_reply, clock_at 0, A_Unit, clock_at 1] = Some r
    \<and> ((\<exists>e. r = Inl e) \<or> (\<exists>receipt. r = Inr (Some receipt)))"
  using sample_poll_timeout polling_ends[OF _ _ sample_poll_timeout(1) refl, of 1]
  by (auto simp: less_Suc_eq)

definition sample_seal_answer :: pyval where
  "sample_seal_answer =
     PDict [(''request_id'', PStr ''q''), (''profile'', PStr ''seal.v1''), (''record_sha256'', PStr digest_b),
            (''workspace_id'', PStr ''w''), (''decision'', PStr ''allow''), (''reason'', PStr ''ok''),
            (''receipt'', PDict [(''status'', PStr ''signed''), (''receipt'', PDict signed_claims)])]"

definition sample_seal :: seal_response where
  "sample_seal =
     \<lparr>sl_request_id = ''q'', sl_workspace_id = ''w'', sl_profile = ''seal.v1'', sl_record_sha256 = digest_b,
      sl_reason = ''ok'', sl_receipt = signed_claims\<rparr>"

definition seal_env :: sdk_env where
  "seal_env = sample_env\<lparr>hash_seal_value := (\<lambda>v. Inr digest_b)\<rparr>"

lemma sample_seal_parts:
  "parse_seal_response seal_env ''q'' digest_b sample_seal_answer = Inr (''w'', ''ok'', Env_Signed signed_claims)"
  "validate_seal_receipt seal_env signed_claims digest_b ''w'' None = Inr ()"
  "validate_seal_metadata PNone = Inr PNone" "hash_seal_value seal_env (PDict []) = Inr digest_b"
  "seal_profile seal_env = ''seal.v1''"
  by code_simp+

lemma sample_seal_run:
  "outcome (seal_value 1 seal_env sample_client (PDict []) (PStr ''q'') PNone 1 5)
     [sample_reply 200 sample_seal_answer] = Some (Inr (Some sample_seal))"
  by (simp add: seal_value_def seal_digest_def sample_seal_parts run_request sample_seal_def)

lemma returned_seal_bound_witness:
  "\<exists>es. seal_bound seal_env es digest_b (PStr ''q'') sample_seal"
  using returned_seal_bound[where run = seal_value and hash = "hash_seal_value seal_env", OF _ sample_seal_run]
  by (auto simp: sample_seal_parts)

end
