(* ===== verification/Base64.thy ===== *)
theory Base64
  imports Sdk_Prelude
begin

text \<open>
  The base64 of the standard library as the SDK uses it: the standard alphabet with padding for
  webhook keys and signatures, the URL-safe alphabet without padding for agent credentials and
  email identifiers. Strings of bytes are strings. A decoder ignores the unused bits of the last digit, which is
  why the callers encode again and compare.
\<close>

subsection \<open>Groups of bits\<close>

fun sextets :: "nat list \<Rightarrow> nat list" where
  "sextets [] = []"
| "sextets [a] = [a div 4, a mod 4 * 16]"
| "sextets [a, b] = [a div 4, a mod 4 * 16 + b div 16, b mod 16 * 4]"
| "sextets (a # b # c # r) =
     [a div 4, a mod 4 * 16 + b div 16, b mod 16 * 4 + c div 64, c mod 64] @ sextets r"

fun octets :: "nat list \<Rightarrow> nat list option" where
  "octets [] = Some []"
| "octets [x] = None"
| "octets [x, y] = Some [x * 4 + y div 16]"
| "octets [x, y, z] = Some [x * 4 + y div 16, y mod 16 * 16 + z div 4]"
| "octets (x # y # z # w # r) =
     (case octets r of
        None \<Rightarrow> None
      | Some bs \<Rightarrow> Some ([x * 4 + y div 16, y mod 16 * 16 + z div 4, z mod 4 * 64 + w] @ bs))"

lemma div_parts:
  fixes a b :: nat
  assumes "b < 256"
  shows "b div 16 < 16" "b div 64 < 4" "b div 4 < 64"
  using assms by (simp_all add: less_mult_imp_div_less)

lemma octets_sextets: "list_all (\<lambda>b. b < 256) bs \<Longrightarrow> octets (sextets bs) = Some bs"
  by (induction bs rule: sextets.induct) (simp_all add: div_parts div_add1_eq)

lemma sextets_bound: "list_all (\<lambda>b. b < 256) bs \<Longrightarrow> n \<in> set (sextets bs) \<Longrightarrow> n < 64"
proof (induction bs rule: sextets.induct)
  case (4 a b c r)
  have "b div 16 < 16" "c div 64 < 4" "a div 4 < 64" "a mod 4 < 4" "b mod 16 < 16" "c mod 64 < 64"
    using 4(2) div_parts by auto
  moreover from this have "a mod 4 * 16 + b div 16 < 64" "b mod 16 * 4 + c div 64 < 64" by linarith+
  ultimately show ?case using 4 by auto
next
  case (2 a)
  then show ?case using div_parts[of a] by auto
next
  case (3 a b)
  have "b div 16 < 16" "a div 4 < 64" "a mod 4 < 4" "b mod 16 < 16"
    using 3(1) div_parts by auto
  moreover from this have "a mod 4 * 16 + b div 16 < 64" "b mod 16 * 4 < 64" by linarith+
  ultimately show ?case using 3 by auto
qed simp

lemma length_sextets: "length (sextets bs) = (4 * length bs + 2) div 3"
  by (induction bs rule: sextets.induct) simp_all

lemma octets_bound:
  "octets ns = Some bs \<Longrightarrow> list_all (\<lambda>n. n < 64) ns \<Longrightarrow> list_all (\<lambda>b. b < 256) bs"
  by (induction ns arbitrary: bs rule: octets.induct) (auto split: option.splits)

subsection \<open>Alphabets\<close>

text \<open>Both alphabets are letters and digits with two more characters.\<close>

definition b64_digit :: "char \<Rightarrow> char \<Rightarrow> nat \<Rightarrow> char" where
  "b64_digit x y n =
     (if n < 26 then char_of (65 + n) else if n < 52 then char_of (71 + n)
      else if n < 62 then char_of (n - 4) else if n = 62 then x else y)"

definition b64_index :: "char \<Rightarrow> char \<Rightarrow> char \<Rightarrow> nat option" where
  "b64_index x y c =
     (if is_ascii_upper c then Some (ord c - 65) else if is_ascii_lower c then Some (ord c - 71)
      else if is_digit c then Some (ord c + 4)
      else if c = x then Some 62 else if c = y then Some 63 else None)"

definition encode_with :: "(nat \<Rightarrow> char) \<Rightarrow> string \<Rightarrow> string" where
  "encode_with digit s = map digit (sextets (map ord s))"

definition decode_with :: "(char \<Rightarrow> nat option) \<Rightarrow> string \<Rightarrow> string option" where
  "decode_with index s =
     (if list_all (\<lambda>c. index c \<noteq> None) s
      then map_option (map char_of) (octets (map (the \<circ> index) s)) else None)"

text \<open>\<open>base64.b64encode\<close>, and \<open>base64.urlsafe_b64encode\<close> with its padding stripped.\<close>

definition b64encode :: "string \<Rightarrow> string" where
  "b64encode s =
     encode_with (b64_digit (CHR ''+'') (CHR ''/'')) s @ replicate ((3 - length s mod 3) mod 3) (CHR ''='')"

definition b64url :: "string \<Rightarrow> string" where
  "b64url s = encode_with (b64_digit (CHR ''-'') (CHR ''_'')) s"

abbreviation std_index :: "char \<Rightarrow> nat option" where
  "std_index \<equiv> b64_index (CHR ''+'') (CHR ''/'')"

abbreviation url_index :: "char \<Rightarrow> nat option" where
  "url_index \<equiv> b64_index (CHR ''-'') (CHR ''_'')"

subsection \<open>Decoding what was encoded\<close>

locale base64_alphabet =
  fixes digit :: "nat \<Rightarrow> char" and index :: "char \<Rightarrow> nat option"
  assumes index_digit: "n < 64 \<Longrightarrow> index (digit n) = Some n"
    and index_bound: "index c = Some n \<Longrightarrow> n < 64"
begin

lemma sextets_of_bytes: "n \<in> set (sextets (map ord (s :: string))) \<Longrightarrow> n < 64"
  using sextets_bound[of "map ord s" n] by (simp add: list_all_iff)

lemma encoded_digits: "c \<in> set (encode_with digit s) \<Longrightarrow> index c \<noteq> None"
  using sextets_of_bytes by (auto simp: encode_with_def index_digit)

lemma decode_encode: "decode_with index (encode_with digit s) = Some s"
proof -
  have "map (the \<circ> index) (encode_with digit s) = sextets (map ord s)"
    using sextets_of_bytes by (auto simp: encode_with_def index_digit intro!: map_idI)
  moreover have "octets (sextets (map ord s)) = Some (map ord s)"
    by (rule octets_sextets) (simp add: list_all_iff)
  ultimately show ?thesis
    using encoded_digits by (auto simp: decode_with_def list_all_iff intro!: map_idI)
qed

text \<open>Encoding again and comparing accepts exactly the encodings.\<close>

lemma canonical_iff: "decode_with index t = Some s \<and> encode_with digit s = t \<longleftrightarrow> t = encode_with digit s"
  using decode_encode by auto

lemma encode_inject: "encode_with digit s = encode_with digit t \<longleftrightarrow> s = t"
  using decode_encode by (metis option.inject)

end

lemma b64_alphabet:
  assumes "\<not> is_alnum x" "\<not> is_alnum y" "x \<noteq> y"
  shows "base64_alphabet (b64_digit x y) (b64_index x y)"
proof
  fix n :: nat assume n: "n < 64"
  have ord: "ord (char_of m :: char) = m" if "m < 128" for m :: nat using that by simp
  consider "n < 26" | "26 \<le> n" "n < 52" | "52 \<le> n" "n < 62" | "n = 62" | "n = 63" using n by linarith
  then show "b64_index x y (b64_digit x y n) = Some n"
  proof cases
    case 1
    then show ?thesis by (simp add: b64_index_def b64_digit_def char_class_defs ord)
  next
    case 2
    then show ?thesis by (simp add: b64_index_def b64_digit_def char_class_defs ord)
  next
    case 3
    then have digit: "b64_digit x y n = char_of (n - 4)" by (simp add: b64_digit_def)
    from 3 obtain m where m: "n - 4 = m" "n = m + 4" "48 \<le> m" "m \<le> 57" by fastforce
    show ?thesis unfolding digit m(1) using m(2-4) by (simp add: b64_index_def char_class_defs ord)
  qed (use assms in \<open>auto simp: b64_index_def b64_digit_def is_alnum_def\<close>)
next
  fix c n assume "b64_index x y c = Some n"
  then show "n < 64" by (auto simp: b64_index_def char_class_defs split: if_splits)
qed

interpretation std: base64_alphabet "b64_digit (CHR ''+'') (CHR ''/'')" std_index
  by (rule b64_alphabet) (simp_all add: char_class_defs)

interpretation url: base64_alphabet "b64_digit (CHR ''-'') (CHR ''_'')" url_index
  by (rule b64_alphabet) (simp_all add: char_class_defs)

end
