(* ===== verification/Resolution_Webhook.thy ===== *)
theory Resolution_Webhook
  imports Sdk_Transport Json_Text Base64 Py_Url
begin

text \<open>
  \<open>allowly/resolution_webhook.py\<close>: the authentication of a resolution notification, its field readers,
  and the setup resource with the parsers of its answers. A headers argument is the list of its
  items, or nothing when it is no mapping. Times are rationals.
\<close>

subsection \<open>Keys and signatures\<close>

definition webhook_error :: "string \<Rightarrow> exn" where
  "webhook_error m = ProtocolError (''webhook '' @ m)"

definition base64_32 :: "pyval \<Rightarrow> string res" where
  "base64_32 v =
     (case v of
        PStr s \<Rightarrow>
          (if length s = 44 \<and> list_all (\<lambda>c. std_index c \<noteq> None) (take 43 s) \<and> drop 43 s = ''=''
           then
             (case decode_with std_index (take 43 s) of
                None \<Rightarrow> Inl (ProtocolError ''invalid webhook base64'')
              | Some decoded \<Rightarrow>
                  (if length decoded \<noteq> 32 \<or> b64encode decoded \<noteq> s
                   then Inl (webhook_error ''key or signature must be canonical 32-byte base64'')
                   else Inr decoded))
           else Inl (webhook_error ''key or signature must be canonical 32-byte base64''))
      | _ \<Rightarrow> Inl (webhook_error ''key or signature must be canonical 32-byte base64''))"

definition signing_key :: "pyval \<Rightarrow> string res" where
  "signing_key secret =
     (case secret of
        PStr s \<Rightarrow>
          (if starts_with ''whsec_'' s then base64_32 (PStr (drop 6 s))
           else Inl (ProtocolError ''signing_secret must use the whsec_ profile''))
      | _ \<Rightarrow> Inl (ProtocolError ''signing_secret must use the whsec_ profile''))"

subsection \<open>Readers\<close>

definition webhook_record :: "pyval \<Rightarrow> string list \<Rightarrow> pydict res" where
  "webhook_record v ks =
     (case v of
        PDict d \<Rightarrow>
          (if set (keys_of d) = set ks then Inr d
           else Inl (webhook_error ''object fields do not match the contract''))
      | _ \<Rightarrow> Inl (webhook_error ''object fields do not match the contract''))"

definition webhook_string :: "pydict \<Rightarrow> string \<Rightarrow> string res" where
  "webhook_string raw key =
     (case dget raw key of
        PStr s \<Rightarrow>
          (if s \<noteq> [] \<and> int (length s) \<le> 2048 then Inr s
           else Inl (webhook_error (key @ '' must be a bounded non-empty string'')))
      | _ \<Rightarrow> Inl (webhook_error (key @ '' must be a bounded non-empty string'')))"

definition webhook_nullable_string :: "pydict \<Rightarrow> string \<Rightarrow> string option res" where
  "webhook_nullable_string raw key =
     (if \<not> dhas raw key then Inl (webhook_error (key @ '' must be present''))
      else if dget raw key = PNone then Inr None
      else bindr (webhook_string raw key) (\<lambda>s. Inr (Some s)))"

definition is_prefixed_id :: "string \<Rightarrow> string \<Rightarrow> bool" where
  \<comment> \<open>the prefix followed by \<open>[A-Za-z0-9_-]+\<close>\<close>
  "is_prefixed_id pre s \<longleftrightarrow>
     starts_with pre s \<and> drop (length pre) s \<noteq> [] \<and> list_all is_id_char (drop (length pre) s)"

definition webhook_identifier :: "pydict \<Rightarrow> string \<Rightarrow> string \<Rightarrow> string res" where
  "webhook_identifier raw key pre =
     bindr (webhook_string raw key) (\<lambda>s.
     if 128 < length s \<or> \<not> is_prefixed_id pre s
     then Inl (webhook_error (key @ '' has an invalid ID prefix or format''))
     else Inr s)"

definition webhook_timestamp :: "sdk_env \<Rightarrow> pydict \<Rightarrow> string \<Rightarrow> string res" where
  "webhook_timestamp E raw key =
     bindr (webhook_string raw key) (\<lambda>s.
     if \<not> zoned s \<or> fromisoformat E (if ends_with ''Z'' s then butlast s @ ''+00:00'' else s) = None
     then Inl (webhook_error (key @ '' must be a valid timezone-aware timestamp''))
     else Inr s)"

definition webhook_nullable_timestamp :: "sdk_env \<Rightarrow> pydict \<Rightarrow> string \<Rightarrow> string option res" where
  "webhook_nullable_timestamp E raw key =
     bindr (webhook_nullable_string raw key) (\<lambda>v.
     case v of None \<Rightarrow> Inr None | Some _ \<Rightarrow> bindr (webhook_timestamp E raw key) (\<lambda>t. Inr (Some t)))"

datatype event_type = Confirmation_Resolved | Escalation_Resolved

definition event_type_of :: "string \<Rightarrow> event_type option" where
  "event_type_of s =
     (if s = ''confirmation.resolved'' then Some Confirmation_Resolved
      else if s = ''escalation.resolved'' then Some Escalation_Resolved else None)"

fun prompt_prefix :: "event_type \<Rightarrow> string" where
  "prompt_prefix Confirmation_Resolved = ''cnf_''"
| "prompt_prefix Escalation_Resolved = ''esc_''"

definition webhook_event_type :: "pydict \<Rightarrow> string \<Rightarrow> event_type res" where
  "webhook_event_type raw key =
     bindr (webhook_string raw key) (\<lambda>s.
     case event_type_of s of
       None \<Rightarrow> Inl (ProtocolError ''unknown resolution webhook event type'')
     | Some t \<Rightarrow> Inr t)"

subsection \<open>The signed headers\<close>

definition signed_header_names :: "string list" where
  "signed_header_names = [''webhook-id'', ''webhook-timestamp'', ''webhook-signature'']"

definition header_limit :: "string \<Rightarrow> int" where
  "header_limit name = (if name = ''webhook-signature'' then 1024 else 128)"

fun signed_headers ::
  "(pyval \<times> pyval) list \<Rightarrow> (string \<times> string) list \<Rightarrow> (string \<times> string) list res" where
  "signed_headers [] acc = Inr acc"
| "signed_headers ((name, v) # items) acc =
     (let normalized = (case name of PStr s \<Rightarrow> str_lower s | _ \<Rightarrow> []) in
      if normalized \<notin> set signed_header_names then signed_headers items acc
      else case v of
        PStr (c # s) \<Rightarrow>
          (if map_of acc normalized \<noteq> None
           then Inl (webhook_error ''headers must be unique non-empty strings'')
           else if header_limit normalized < int (length (c # s)) \<or> \<not> list_all is_printable (c # s)
           then Inl (webhook_error ''header exceeds its bounds or contains invalid characters'')
           else signed_headers items (acc @ [(normalized, c # s)]))
      | _ \<Rightarrow> Inl (webhook_error ''headers must be unique non-empty strings''))"

text \<open>\<open>0|[1-9][0-9]{0,11}\<close>.\<close>

definition is_unix_seconds :: "string \<Rightarrow> bool" where
  "is_unix_seconds s \<longleftrightarrow>
     s = ''0'' \<or> (s \<noteq> [] \<and> length s \<le> 12 \<and> list_all is_digit s \<and> hd s \<noteq> CHR ''0'')"

text \<open>\<open>s.split()\<close> of printable ASCII, whose only white space is the blank.\<close>

definition split_words :: "string \<Rightarrow> string list" where
  "split_words s = filter (\<lambda>w. w \<noteq> []) (split_on (CHR '' '') s)"

primrec verify_signatures :: "string \<Rightarrow> string list \<Rightarrow> bool \<Rightarrow> bool res" where
  "verify_signatures expected [] verified = Inr verified"
| "verify_signatures expected (signature # rest) verified =
     (case partition_on (CHR '','') signature of (scheme, found, encoded) \<Rightarrow>
        if \<not> found \<or> encoded = [] \<or> CHR '','' \<in> set encoded \<or> scheme = [] \<or> \<not> list_all is_alnum scheme
        then Inl (ProtocolError ''malformed webhook signature header'')
        else if scheme = ''v1''
        then bindr (base64_32 (PStr encoded)) (\<lambda>signed.
               verify_signatures expected rest (verified \<or> expected = signed))
        else verify_signatures expected rest verified)"

subsection \<open>Authentication\<close>

record webhook_data =
  wd_prompt_id :: string
  wd_status :: string
  wd_source_receipt_id :: "string option"
  wd_resolution_receipt_id :: string

record webhook_event =
  we_id :: string
  we_type :: event_type
  we_timestamp :: string
  we_workspace_id :: string
  we_data :: webhook_data

text \<open>\<open>math.isfinite\<close> raises \<open>OverflowError\<close> on an integer no double can round.\<close>

definition finite_seconds :: "pyval \<Rightarrow> rat res" where
  "finite_seconds now =
     (case now of
        PInt i \<Rightarrow> if 2 ^ 1024 - 2 ^ 970 \<le> \<bar>i\<bar> then Inl (OtherException 1) else Inr (of_int i)
      | PFloat (Fin t) \<Rightarrow> Inr t
      | _ \<Rightarrow> Inl (ProtocolError ''now must be finite Unix seconds''))"

definition read_webhook_headers ::
  "(pyval \<times> pyval) list option \<Rightarrow> (string \<times> string \<times> string) res" where
  "read_webhook_headers headers =
     (case headers of
        None \<Rightarrow> Inl (webhook_error ''headers must be a mapping'')
      | Some items \<Rightarrow>
          bindr (signed_headers items []) (\<lambda>signed.
          case (map_of signed ''webhook-id'', map_of signed ''webhook-timestamp'', map_of signed ''webhook-signature'') of
            (Some event_id, Some timestamp, Some signature) \<Rightarrow>
              (if \<not> is_prefixed_id ''evt_'' event_id \<or> \<not> is_unix_seconds timestamp
               then Inl (ProtocolError ''invalid webhook ID or timestamp'')
               else Inr (event_id, timestamp, signature))
          | _ \<Rightarrow> Inl (ProtocolError ''missing webhook signature headers'')))"

definition check_webhook_signature ::
  "sdk_env \<Rightarrow> string \<Rightarrow> string \<Rightarrow> string \<Rightarrow> string \<Rightarrow> string \<Rightarrow> unit res" where
  "check_webhook_signature E key event_id timestamp signature raw_body =
     (let signatures = split_words signature in
      if \<not> (1 \<le> length signatures \<and> length signatures \<le> 8)
      then Inl (webhook_error ''signature count exceeds its bounds'')
      else
        bindr (verify_signatures
                 (hmac_sha256 E key (event_id @ ''.'' @ timestamp @ ''.'' @ raw_body)) signatures False)
          (\<lambda>verified. if verified then Inr () else Inl (webhook_error ''signature did not verify'')))"

definition parse_webhook_event ::
  "sdk_env \<Rightarrow> string \<Rightarrow> string \<Rightarrow> string \<Rightarrow> webhook_event res" where
  "parse_webhook_event E raw_body event_id workspace_id =
     (case loads_strict E raw_body of
        None \<Rightarrow> Inl (webhook_error ''payload must be valid UTF-8 JSON with unique fields'')
      | Some raw \<Rightarrow>
     bindr (webhook_record raw [''id'', ''type'', ''timestamp'', ''workspace_id'', ''data'']) (\<lambda>body.
     if dget body ''id'' \<noteq> PStr event_id \<or> dget body ''workspace_id'' \<noteq> PStr workspace_id
     then Inl (webhook_error ''event or workspace ID does not match'')
     else
     bindr (webhook_event_type body ''type'') (\<lambda>event_type.
     bindr (webhook_record (dget body ''data'')
              [''prompt_id'', ''status'', ''source_receipt_id'', ''resolution_receipt_id'']) (\<lambda>data.
     bindr (webhook_identifier data ''prompt_id'' (prompt_prefix event_type)) (\<lambda>prompt_id.
     bindr (webhook_string data ''status'') (\<lambda>status.
     if status \<notin> {''approved'', ''rejected''}
     then Inl (webhook_error ''status must be approved or rejected'')
     else
     bindr (webhook_nullable_string data ''source_receipt_id'') (\<lambda>source.
     bindr (case source of None \<Rightarrow> Inr []
            | Some _ \<Rightarrow> webhook_identifier data ''source_receipt_id'' ''rcp_'') (\<lambda>_.
     bindr (webhook_timestamp E body ''timestamp'') (\<lambda>timestamp.
     bindr (webhook_identifier data ''resolution_receipt_id'' ''rcp_'') (\<lambda>resolution.
     Inr \<lparr>we_id = event_id, we_type = event_type, we_timestamp = timestamp,
          we_workspace_id = workspace_id,
          we_data = \<lparr>wd_prompt_id = prompt_id, wd_status = status, wd_source_receipt_id = source,
                     wd_resolution_receipt_id = resolution\<rparr>\<rparr>))))))))))"

definition body_bytes :: "pyval \<Rightarrow> string res" where
  "body_bytes v =
     (case v of
        PBytes raw \<Rightarrow>
          (if 0 < length raw \<and> int (length raw) \<le> 16384 then Inr raw
           else Inl (ProtocolError ''raw_body must be bytes of at most 16 KiB''))
      | _ \<Rightarrow> Inl (ProtocolError ''raw_body must be bytes of at most 16 KiB''))"

definition trusted_workspace :: "pyval \<Rightarrow> string res" where
  "trusted_workspace v =
     (case v of
        PStr (c # s) \<Rightarrow> Inr (c # s)
      | _ \<Rightarrow> Inl (ProtocolError ''expected_workspace_id must come from trusted configuration''))"

definition verify_resolution_webhook ::
  "sdk_env \<Rightarrow> pyval \<Rightarrow> (pyval \<times> pyval) list option \<Rightarrow> pyval \<Rightarrow> pyval \<Rightarrow> pyval \<Rightarrow> webhook_event prog" where
  "verify_resolution_webhook E raw_body headers signing_secret expected_workspace_id now =
     bindp (Done (body_bytes raw_body)) (\<lambda>raw.
     bindp (Done (trusted_workspace expected_workspace_id)) (\<lambda>workspace_id.
     bindp (Done (signing_key signing_secret)) (\<lambda>key.
     bindp (Done (read_webhook_headers headers)) (\<lambda>(event_id, timestamp, signature).
     bindp (if now = PNone then bindp (perform Unix_Time as_float) (\<lambda>t. return (PFloat t))
            else return now) (\<lambda>current.
     bindp (Done (finite_seconds current)) (\<lambda>seconds.
     if 300 < \<bar>seconds - of_int (digits_value timestamp 0)\<bar>
     then raise (webhook_error ''timestamp is outside the 300-second tolerance'')
     else
     bindp (Done (check_webhook_signature E key event_id timestamp signature raw)) (\<lambda>_.
     Done (parse_webhook_event E raw event_id workspace_id))))))))"

subsection \<open>The setup resource\<close>

record webhook_config =
  wc_workspace_id :: string
  wc_endpoint_id :: "string option"
  wc_url :: "string option"
  wc_enabled :: bool
  wc_credential_version :: "int option"
  wc_created_at :: "string option"
  wc_updated_at :: "string option"

record webhook_secret = webhook_config +
  ws_signing_secret :: string

definition config_keys :: "string list" where
  "config_keys = [''workspace_id'', ''endpoint_id'', ''url'', ''enabled'', ''credential_version'',
     ''created_at'', ''updated_at'']"

definition positive_version :: "pyval \<Rightarrow> int option res" where
  "positive_version v =
     (case v of
        PNone \<Rightarrow> Inr None
      | PInt i \<Rightarrow>
          (if 1 \<le> i then Inr (Some i)
           else Inl (webhook_error ''credential_version must be a positive integer or null''))
      | _ \<Rightarrow> Inl (webhook_error ''credential_version must be a positive integer or null''))"

definition webhook_flag :: "pyval \<Rightarrow> bool res" where
  "webhook_flag v =
     (case v of PBool b \<Rightarrow> Inr b | _ \<Rightarrow> Inl (webhook_error ''enabled must be a boolean''))"

definition parse_webhook_config :: "sdk_env \<Rightarrow> pyval \<Rightarrow> webhook_config res" where
  "parse_webhook_config E v =
     bindr (webhook_record v config_keys) (\<lambda>raw.
     bindr (webhook_flag (dget raw ''enabled'')) (\<lambda>enabled.
     bindr (positive_version (dget raw ''credential_version'')) (\<lambda>version.
     bindr (webhook_string raw ''workspace_id'') (\<lambda>workspace_id.
     bindr (webhook_nullable_string raw ''endpoint_id'') (\<lambda>endpoint_id.
     bindr (webhook_nullable_string raw ''url'') (\<lambda>url.
     bindr (webhook_nullable_timestamp E raw ''created_at'') (\<lambda>created_at.
     bindr (webhook_nullable_timestamp E raw ''updated_at'') (\<lambda>updated_at.
     if endpoint_id = None
        \<and> (enabled \<or> url \<noteq> None \<or> version \<noteq> None \<or> created_at \<noteq> None \<or> updated_at \<noteq> None)
     then Inl (ProtocolError ''missing webhook endpoint must have a disabled null configuration'')
     else if endpoint_id \<noteq> None \<and> (url = None \<or> version = None \<or> created_at = None \<or> updated_at = None)
     then Inl (ProtocolError ''configured webhook endpoint must include its URL, version and timestamps'')
     else Inr \<lparr>wc_workspace_id = workspace_id, wc_endpoint_id = endpoint_id, wc_url = url,
               wc_enabled = enabled, wc_credential_version = version, wc_created_at = created_at,
               wc_updated_at = updated_at\<rparr>))))))))"

definition parse_webhook_secret :: "sdk_env \<Rightarrow> pyval \<Rightarrow> webhook_secret res" where
  "parse_webhook_secret E v =
     (case v of
        PDict d \<Rightarrow>
          (if \<not> dhas d ''signing_secret'' then Inl (webhook_error ''signing_secret must be present'')
           else
           bindr (webhook_string d ''signing_secret'') (\<lambda>secret.
           bindr (signing_key (PStr secret)) (\<lambda>_.
           bindr (parse_webhook_config E (PDict (filter (\<lambda>(k, _). k \<noteq> ''signing_secret'') d))) (\<lambda>config.
           if wc_endpoint_id config = None
           then Inl (webhook_error ''signing_secret requires a configured endpoint'')
           else Inr (webhook_config.extend config (webhook_secret.fields secret))))))
      | _ \<Rightarrow> Inl (webhook_error ''signing_secret must be present''))"

datatype delivery_status = Delivery_Pending | Delivered | Delivery_Failed | Delivery_Cancelled

definition delivery_status_of :: "string \<Rightarrow> delivery_status option" where
  "delivery_status_of s =
     (if s = ''pending'' then Some Delivery_Pending else if s = ''delivered'' then Some Delivered
      else if s = ''failed'' then Some Delivery_Failed
      else if s = ''cancelled'' then Some Delivery_Cancelled else None)"

record webhook_delivery =
  wl_event_id :: string
  wl_event_type :: event_type
  wl_status :: delivery_status
  wl_attempts :: int
  wl_created_at :: string
  wl_delivered_at :: "string option"
  wl_last_error :: "string option"

definition delivery_error_codes :: "string list" where
  "delivery_error_codes =
     [''unsafe_url'', ''dns_error'', ''timeout'', ''transport_error'', ''request_too_large'',
      ''response_too_large'', ''invalid_headers'', ''http_error'', ''expired'', ''attempts_exhausted'',
      ''endpoint_disabled'', ''endpoint_changed'', ''endpoint_gone'', ''workspace_closed'']"

definition nonnegative_attempts :: "pyval \<Rightarrow> int res" where
  "nonnegative_attempts v =
     (case v of
        PInt i \<Rightarrow>
          (if 0 \<le> i then Inr i else Inl (webhook_error ''attempts must be a non-negative integer''))
      | _ \<Rightarrow> Inl (webhook_error ''attempts must be a non-negative integer''))"

definition parse_webhook_delivery :: "sdk_env \<Rightarrow> pyval \<Rightarrow> webhook_delivery res" where
  "parse_webhook_delivery E v =
     bindr (webhook_record v [''event_id'', ''event_type'', ''status'', ''attempts'', ''created_at'',
              ''delivered_at'', ''last_error'']) (\<lambda>raw.
     bindr (webhook_string raw ''status'') (\<lambda>status_str.
     case delivery_status_of status_str of
       None \<Rightarrow> Inl (ProtocolError ''unknown webhook delivery status'')
     | Some status \<Rightarrow>
     bindr (nonnegative_attempts (dget raw ''attempts'')) (\<lambda>attempts.
     bindr (webhook_nullable_string raw ''last_error'') (\<lambda>last_error.
     if last_error \<noteq> None \<and> the last_error \<notin> set delivery_error_codes
     then Inl (ProtocolError ''unknown webhook delivery error code'')
     else
     bindr (webhook_nullable_timestamp E raw ''delivered_at'') (\<lambda>delivered_at.
     if (status = Delivered) \<noteq> (delivered_at \<noteq> None)
     then Inl (webhook_error ''delivered_at does not match delivery status'')
     else
     bindr (webhook_identifier raw ''event_id'' ''evt_'') (\<lambda>event_id.
     bindr (webhook_event_type raw ''event_type'') (\<lambda>event_type.
     bindr (webhook_timestamp E raw ''created_at'') (\<lambda>created_at.
     Inr \<lparr>wl_event_id = event_id, wl_event_type = event_type, wl_status = status,
          wl_attempts = attempts, wl_created_at = created_at, wl_delivered_at = delivered_at,
          wl_last_error = last_error\<rparr>))))))))"

definition webhook_path :: string where
  "webhook_path = ''/v1/setup/resolution-webhook''"

definition get_webhook :: "sdk_env \<Rightarrow> client \<Rightarrow> webhook_config prog" where
  "get_webhook E C =
     bindp (request E C (api_call ''GET'' webhook_path None None) [200])
       (\<lambda>raw. Done (parse_webhook_config E raw))"

definition configure_webhook :: "sdk_env \<Rightarrow> client \<Rightarrow> string \<Rightarrow> webhook_secret prog" where
  "configure_webhook E C url =
     bindp (request E C (api_call ''PUT'' webhook_path (Some (PDict [(''url'', PStr url)])) None) [200])
       (\<lambda>raw. Done (parse_webhook_secret E raw))"

definition rotate_webhook :: "sdk_env \<Rightarrow> client \<Rightarrow> webhook_secret prog" where
  "rotate_webhook E C =
     bindp (request E C (api_call ''POST'' (webhook_path @ ''/rotate'') None None) [200])
       (\<lambda>raw. Done (parse_webhook_secret E raw))"

definition disable_webhook :: "sdk_env \<Rightarrow> client \<Rightarrow> webhook_config prog" where
  "disable_webhook E C =
     bindp (request E C (api_call ''DELETE'' webhook_path None None) [200])
       (\<lambda>raw. Done (parse_webhook_config E raw))"

definition webhook_deliveries :: "sdk_env \<Rightarrow> client \<Rightarrow> webhook_delivery list prog" where
  "webhook_deliveries E C =
     bindp (request E C (api_call ''GET'' (webhook_path @ ''/deliveries'') None None) [200]) (\<lambda>raw.
     Done (bindr (webhook_record raw [''items'']) (\<lambda>d.
       case dget d ''items'' of
         PList items \<Rightarrow>
           (if 20 < length items then Inl (webhook_error ''deliveries must contain at most 20 items'')
            else mapr (parse_webhook_delivery E) items)
       | _ \<Rightarrow> Inl (webhook_error ''deliveries must contain at most 20 items''))))"

subsection \<open>Base64 keys\<close>

lemma length_b64encode_32: "length k = 32 \<Longrightarrow> length (encode_with digit k) = 43"
  by (simp add: encode_with_def length_sextets)

text \<open>A 32-byte key or signature is accepted exactly in its canonical base64.\<close>

lemma base64_32_iff: "base64_32 v = Inr k \<longleftrightarrow> length k = 32 \<and> v = PStr (b64encode k)"
proof
  assume "base64_32 v = Inr k"
  then show "length k = 32 \<and> v = PStr (b64encode k)"
    by (auto simp: base64_32_def split: pyval.splits option.splits if_splits)
next
  assume k: "length k = 32 \<and> v = PStr (b64encode k)"
  let ?e = "encode_with (b64_digit (CHR ''+'') (CHR ''/'')) k"
  from k have b64: "b64encode k = ?e @ ''=''" "length ?e = 43"
    by (simp_all add: b64encode_def length_b64encode_32)
  have "list_all (\<lambda>c. std_index c \<noteq> None) ?e"
    using std.encoded_digits by (auto simp: list_all_iff)
  with b64 k std.decode_encode[of k] show "base64_32 v = Inr k"
    by (simp add: base64_32_def)
qed

lemma signing_key_iff: "signing_key v = Inr k \<longleftrightarrow> length k = 32 \<and> v = PStr (''whsec_'' @ b64encode k)"
proof -
  have "starts_with ''whsec_'' s \<and> drop 6 s = t \<longleftrightarrow> s = ''whsec_'' @ t" for s t
    unfolding starts_with_iff by auto
  from this[of _ "b64encode k"] show ?thesis
    by (cases v) (auto simp: signing_key_def base64_32_iff)
qed

subsection \<open>Authentic notifications\<close>

lemma partition_on_found: "partition_on c s = (a, True, r) \<Longrightarrow> s = a @ c # r"
  by (induction s arbitrary: a) (auto split: if_splits prod.splits)

lemma verify_signatures_ok:
  "verify_signatures expected ss verified = Inr True \<Longrightarrow>
     verified \<or> (\<exists>s \<in> set ss. length expected = 32 \<and> s = ''v1,'' @ b64encode expected)"
proof (induction ss arbitrary: verified)
  case (Cons s ss)
  obtain scheme found encoded where p: "partition_on (CHR '','') s = (scheme, found, encoded)"
    by (cases "partition_on (CHR '','') s")
  have split: "found \<Longrightarrow> s = scheme @ CHR '','' # encoded"
    using p partition_on_found by fastforce
  show ?case
  proof (cases "scheme = ''v1''")
    case True
    with Cons.prems p obtain signed where "found" and signed: "base64_32 (PStr encoded) = Inr signed"
      and rest: "verify_signatures expected ss (verified \<or> expected = signed) = Inr True"
      by (auto split: if_splits)
    from Cons.IH[OF rest] signed split[OF \<open>found\<close>] True show ?thesis
      by (auto simp: base64_32_iff)
  next
    case False
    with Cons p show ?thesis by (auto split: if_splits)
  qed
qed simp

text \<open>The items of the headers that count: names compare without case.\<close>

fun signed_item :: "pyval \<times> pyval \<Rightarrow> (string \<times> string) list" where
  "signed_item (PStr name, PStr v) =
     (if str_lower name \<in> set signed_header_names then [(str_lower name, v)] else [])"
| "signed_item _ = []"

lemma signed_headers_items:
  "signed_headers items acc = Inr hs \<Longrightarrow>
     hs = acc @ concat (map signed_item items) \<and> (distinct (map fst acc) \<longrightarrow> distinct (map fst hs))"
proof (induction items acc rule: signed_headers.induct)
  case (2 name v items acc)
  let ?n = "case name of PStr s \<Rightarrow> str_lower s | _ \<Rightarrow> []"
  show ?case
  proof (cases "?n \<in> set signed_header_names")
    case False
    then have none: "signed_item (name, v) = []" by (cases name; cases v) auto
    from 2(3) False have "signed_headers items acc = Inr hs" by (simp add: Let_def)
    from 2(1)[OF refl False this] show ?thesis
      unfolding list.map concat.simps none append_Nil .
  next
    case True
    then obtain s where name: "name = PStr s" by (cases name) (auto simp: signed_header_names_def)
    from 2(3) True obtain c t where v: "v = PStr (c # t)" and new: "map_of acc ?n = None"
      and ok: "\<not> (header_limit ?n < int (length (c # t)) \<or> \<not> list_all is_printable (c # t))"
      and rest: "signed_headers items (acc @ [(?n, c # t)]) = Inr hs"
      by (auto simp: Let_def split: pyval.splits list.splits if_splits)
    have "\<exists>s'. v = PStr (c # t) \<and> name = PStr s'" using v name by simp
    with 2(2) True v new ok rest name show ?thesis
      by (auto simp: Let_def map_of_eq_None_iff split: if_splits)
  qed
qed simp

lemma read_webhook_headers_ok:
  assumes "read_webhook_headers headers = Inr (i, t, signature)"
  shows "\<exists>items. headers = Some items \<and> distinct (map fst (concat (map signed_item items)))
    \<and> {(''webhook-id'', i), (''webhook-timestamp'', t), (''webhook-signature'', signature)}
       \<subseteq> set (concat (map signed_item items))
    \<and> is_unix_seconds t"
proof -
  from assms obtain items hs where items: "headers = Some items" "signed_headers items [] = Inr hs"
    and lookup: "map_of hs ''webhook-id'' = Some i" "map_of hs ''webhook-timestamp'' = Some t"
      "map_of hs ''webhook-signature'' = Some signature" "is_unix_seconds t"
    unfolding read_webhook_headers_def by (auto split: option.splits)
  with signed_headers_items[OF items(2)] show ?thesis by (auto dest: map_of_SomeD)
qed

lemma float_answered: "outcome (perform e as_float) as = Some (Inr x) \<Longrightarrow> \<exists>as'. as = A_Float x # as'"
  using performed_ok by fastforce

lemma parse_webhook_event_ok:
  assumes "parse_webhook_event E raw i w = Inr ev"
  shows "we_id ev = i \<and> we_workspace_id ev = w
    \<and> (\<exists>d. loads_strict E raw = Some (PDict d) \<and> dget d ''id'' = PStr i \<and> dget d ''workspace_id'' = PStr w)
    \<and> is_prefixed_id (prompt_prefix (we_type ev)) (wd_prompt_id (we_data ev))
    \<and> is_prefixed_id ''rcp_'' (wd_resolution_receipt_id (we_data ev))
    \<and> wd_status (we_data ev) \<in> {''approved'', ''rejected''}"
proof -
  have fields: "webhook_record v ks = Inr d \<longleftrightarrow> v = PDict d \<and> set (keys_of d) = set ks" for v ks d
    by (auto simp: webhook_record_def split: pyval.splits)
  have ident: "webhook_identifier d k pre = Inr x \<Longrightarrow> is_prefixed_id pre x" for d k pre x
    by (auto simp: webhook_identifier_def)
  from assms obtain v body type data prompt status source u timestamp resolution where
    v: "loads_strict E raw = Some v"
      "webhook_record v [''id'', ''type'', ''timestamp'', ''workspace_id'', ''data''] = Inr body"
    and named: "\<not> (dget body ''id'' \<noteq> PStr i \<or> dget body ''workspace_id'' \<noteq> PStr w)"
    and prompt: "webhook_identifier data ''prompt_id'' (prompt_prefix type) = Inr prompt"
    and status: "\<not> status \<notin> {''approved'', ''rejected''}"
    and resolution: "webhook_identifier data ''resolution_receipt_id'' ''rcp_'' = Inr resolution"
    and ev: "Inr \<lparr>we_id = i, we_type = type, we_timestamp = timestamp, we_workspace_id = w,
          we_data = \<lparr>wd_prompt_id = prompt, wd_status = status, wd_source_receipt_id = source,
                     wd_resolution_receipt_id = resolution\<rparr>\<rparr> = (Inr ev :: webhook_event res)"
    unfolding parse_webhook_event_def by (elim result_elims) (rule that)
  from v have "loads_strict E raw = Some (PDict body)" by (simp only: fields)
  with named have "\<exists>d. loads_strict E raw = Some (PDict d) \<and> dget d ''id'' = PStr i \<and> dget d ''workspace_id'' = PStr w"
    by metis
  with ident[OF prompt] ident[OF resolution] status ev[THEN Inr_inject, symmetric] show ?thesis by simp
qed

lemma webhook_clock_read:
  assumes "outcome (if now = PNone then bindp (perform Unix_Time as_float) (\<lambda>t. return (PFloat t))
        else return now) as = Some (Inr current)"
    and "finite_seconds current = Inr seconds" and "now = PNone"
  shows "\<exists>as'. as = A_Float (Fin seconds) # as'"
proof -
  from assms(1,3) obtain x where x: "outcome (perform Unix_Time as_float) as = Some (Inr x)" "current = PFloat x"
    by (simp add: outcome_ok) metis
  from x(2) assms(2) have "x = Fin seconds" by (cases x) (simp_all add: finite_seconds_def)
  with float_answered[OF x(1)] show ?thesis by blast
qed

lemma check_webhook_signature_ok:
  "check_webhook_signature E key i t signature raw = Inr () \<Longrightarrow>
     ''v1,'' @ b64encode (hmac_sha256 E key (i @ ''.'' @ t @ ''.'' @ raw)) \<in> set (split_words signature)"
  using verify_signatures_ok unfolding check_webhook_signature_def
  by (fastforce simp: Let_def split: if_splits)


subsection \<open>Consistent configurations\<close>

text \<open>An endpoint is either missing, with everything null and disabled, or complete.\<close>

definition config_consistent :: "webhook_config \<Rightarrow> bool" where
  "config_consistent c \<longleftrightarrow>
     (if wc_endpoint_id c = None
      then \<not> wc_enabled c \<and> wc_url c = None \<and> wc_credential_version c = None
        \<and> wc_created_at c = None \<and> wc_updated_at c = None
      else wc_url c \<noteq> None \<and> wc_created_at c \<noteq> None \<and> wc_updated_at c \<noteq> None
        \<and> (\<exists>n. wc_credential_version c = Some n \<and> 1 \<le> n))"

lemma positive_version_ok: "positive_version v = Inr (Some n) \<Longrightarrow> 1 \<le> n"
  by (auto simp: positive_version_def split: pyval.splits if_splits)

lemma parse_webhook_config_ok: "parse_webhook_config E v = Inr c \<Longrightarrow> config_consistent c"
proof -
  assume "parse_webhook_config E v = Inr c"
  then obtain raw enabled version w endpoint url created updated where
    version: "positive_version (dget raw ''credential_version'') = Inr version"
    and checks: "\<not> (endpoint = None
        \<and> (enabled \<or> url \<noteq> None \<or> version \<noteq> None \<or> created \<noteq> None \<or> updated \<noteq> None))"
      "\<not> (endpoint \<noteq> None \<and> (url = None \<or> version = None \<or> created = None \<or> updated = None))"
    and c: "Inr \<lparr>wc_workspace_id = w, wc_endpoint_id = endpoint, wc_url = url,
               wc_enabled = enabled, wc_credential_version = version, wc_created_at = created,
               wc_updated_at = updated\<rparr> = (Inr c :: webhook_config res)"
    unfolding parse_webhook_config_def by (elim result_elims) (rule that)
  from c[THEN Inr_inject, symmetric] checks version positive_version_ok show ?thesis
    by (auto simp: config_consistent_def)
qed

text \<open>
  The setup resource never hands out a contradictory configuration. Whatever \<open>get\<close>, \<open>disable\<close>,
  \<open>configure\<close> and \<open>rotate\<close> return is consistent, and a returned secret belongs to a configured
  endpoint and is a well-formed 32-byte key.
\<close>

theorem webhook_config_consistent:
  "(outcome (get_webhook E C) as = Some (Inr c) \<longrightarrow> config_consistent c)
   \<and> (outcome (disable_webhook E C) as = Some (Inr c) \<longrightarrow> config_consistent c)
   \<and> (outcome (configure_webhook E C url) as = Some (Inr s) \<or> outcome (rotate_webhook E C) as = Some (Inr s) \<longrightarrow>
        config_consistent (webhook_config.truncate s) \<and> wc_endpoint_id s \<noteq> None
        \<and> (\<exists>key. length key = 32 \<and> ws_signing_secret s = ''whsec_'' @ b64encode key))"
proof -
  have secret: "config_consistent (webhook_config.truncate s) \<and> wc_endpoint_id s \<noteq> None
      \<and> (\<exists>key. length key = 32 \<and> ws_signing_secret s = ''whsec_'' @ b64encode key)"
    if "parse_webhook_secret E raw = Inr s" for raw
  proof -
    from that obtain d where d: "raw = PDict d" by (auto simp: parse_webhook_secret_def split: pyval.splits)
    from that obtain secret key config where key: "signing_key (PStr secret) = Inr key"
      and config: "parse_webhook_config E (PDict (filter (\<lambda>(k, _). k \<noteq> ''signing_secret'') d)) = Inr config"
      and endpoint: "wc_endpoint_id config \<noteq> None"
      and s: "Inr (webhook_config.extend config (webhook_secret.fields secret)) = (Inr s :: webhook_secret res)"
      unfolding parse_webhook_secret_def d pyval.case by (elim result_elims) (rule that)
    from parse_webhook_config_ok[OF config] key endpoint s[THEN Inr_inject, symmetric] show ?thesis
      by (auto simp: webhook_config.defs webhook_secret.defs signing_key_iff config_consistent_def)
  qed
  show ?thesis
    unfolding get_webhook_def disable_webhook_def configure_webhook_def rotate_webhook_def outcome_ok
    using parse_webhook_config_ok secret by blast
qed

end
