(* ===== verification/Resolution_Samples.thy ===== *)
theory Resolution_Samples
  imports Resolution_Webhook Policy_Samples
begin

text \<open>The webhook properties on a concrete notification and a concrete configuration.\<close>

definition sample_key :: string where
  "sample_key = ''aaaaaaaaaaaaaaaaaaaaaaaaaaaaaaaa''"

definition sample_key64 :: string where
  "sample_key64 = ''YWFhYWFhYWFhYWFhYWFhYWFhYWFhYWFhYWFhYWFhYWE=''"

lemma sample_key_encoded: "b64encode sample_key = sample_key64"
  by (simp add: b64encode_def encode_with_def b64_digit_def sample_key_def sample_key64_def) code_simp

definition sample_payload :: pydict where
  "sample_payload =
     [(''id'', PStr ''evt_1''), (''type'', PStr ''confirmation.resolved''),
      (''timestamp'', PStr ''2026-01-02T03:04:05Z''), (''workspace_id'', PStr ''w''),
      (''data'', PDict [(''prompt_id'', PStr ''cnf_1''), (''status'', PStr ''approved''),
                        (''source_receipt_id'', PNone), (''resolution_receipt_id'', PStr ''rcp_2'')])]"

definition webhook_env :: sdk_env where
  "webhook_env = sample_env\<lparr>json_tree := (\<lambda>s. Some (PDict sample_payload))\<rparr>"

definition sample_notification_headers :: "(pyval \<times> pyval) list" where
  "sample_notification_headers =
     [(PStr ''Host'', PStr ''h''), (PStr ''Webhook-Id'', PStr ''evt_1''),
      (PStr ''webhook-timestamp'', PStr ''1000''),
      (PStr ''WEBHOOK-SIGNATURE'', PStr (''v1,'' @ sample_key64))]"

definition sample_event :: webhook_event where
  "sample_event =
     \<lparr>we_id = ''evt_1'', we_type = Confirmation_Resolved, we_timestamp = ''2026-01-02T03:04:05Z'',
      we_workspace_id = ''w'',
      we_data = \<lparr>wd_prompt_id = ''cnf_1'', wd_status = ''approved'', wd_source_receipt_id = None,
                 wd_resolution_receipt_id = ''rcp_2''\<rparr>\<rparr>"

lemma sample_notification_parts:
  "read_webhook_headers (Some sample_notification_headers) = Inr (''evt_1'', ''1000'', ''v1,'' @ sample_key64)"
  "base64_32 (PStr sample_key64) = Inr sample_key" "signing_key (PStr (''whsec_'' @ sample_key64)) = Inr sample_key"
  "parse_webhook_event webhook_env ''body'' ''evt_1'' ''w'' = Inr sample_event"
  "digits_value ''1000'' 0 = 1000"
  "hmac_sha256 webhook_env sample_key ''evt_1.1000.body'' = sample_key"
proof -
  show "read_webhook_headers (Some sample_notification_headers) = Inr (''evt_1'', ''1000'', ''v1,'' @ sample_key64)"
    by code_simp
  show "base64_32 (PStr sample_key64) = Inr sample_key" "signing_key (PStr (''whsec_'' @ sample_key64)) = Inr sample_key"
    by (simp_all only: base64_32_iff signing_key_iff sample_key_encoded) (simp_all add: sample_key_def)
  show "parse_webhook_event webhook_env ''body'' ''evt_1'' ''w'' = Inr sample_event" by code_simp
  show "digits_value ''1000'' 0 = 1000" by simp
  show "hmac_sha256 webhook_env sample_key (''evt_1.1000.body'') = sample_key" by code_simp
qed

lemma sample_signature:
  "check_webhook_signature webhook_env sample_key ''evt_1'' ''1000'' (''v1,'' @ sample_key64) ''body'' = Inr ()"
proof -
  have words: "split_words (''v1,'' @ sample_key64) = [''v1,'' @ sample_key64]"
    "partition_on (CHR '','') (''v1,'' @ sample_key64) = (''v1'', True, sample_key64)"
    "sample_key64 \<noteq> []" "CHR '','' \<notin> set sample_key64" "list_all is_alnum ''v1''"
    by code_simp+
  show ?thesis
    using sample_notification_parts(2,6)
    unfolding check_webhook_signature_def Let_def words by (simp add: words(2-) char_class_defs)
qed

lemma sample_notification:
  "outcome (verify_resolution_webhook webhook_env (PBytes ''body'') (Some sample_notification_headers)
      (PStr (''whsec_'' @ sample_key64)) (PStr ''w'') (PInt 1300)) [] = Some (Inr sample_event)"
  by (simp add: verify_resolution_webhook_def sample_notification_parts sample_signature body_bytes_def
      trusted_workspace_def finite_seconds_def del: append_Cons)


definition sample_config :: webhook_config where
  "sample_config =
     \<lparr>wc_workspace_id = ''w'', wc_endpoint_id = None, wc_url = None, wc_enabled = False,
      wc_credential_version = None, wc_created_at = None, wc_updated_at = None\<rparr>"

definition sample_config_answer :: pyval where
  "sample_config_answer =
     PDict [(''workspace_id'', PStr ''w''), (''endpoint_id'', PNone), (''url'', PNone), (''enabled'', PBool False),
            (''credential_version'', PNone), (''created_at'', PNone), (''updated_at'', PNone)]"

lemma sample_config_parses: "parse_webhook_config sample_env sample_config_answer = Inr sample_config"
  by code_simp

lemma sample_config_run:
  "outcome (get_webhook sample_env sample_client) [sample_reply 200 sample_config_answer] = Some (Inr sample_config)"
  by (simp add: get_webhook_def run_request sample_config_parses)

lemma webhook_config_consistent_witness: "config_consistent sample_config"
  using webhook_config_consistent sample_config_run by blast

end
