(* ===== verification/Keys_Cache.thy ===== *)
theory Keys_Cache
  imports Quote_Facts Json_Text
begin

text \<open>
  \<open>fetch_keys_doc\<close>, \<open>load_keys_from_json\<close> and \<open>clear_keys_doc_cache\<close> of \<open>allowly/verify.py\<close>. The module's cache
  is an argument and part of the result. Copies protect the cached document from the caller; values
  are immutable here, so they disappear. The text of a foreign exception is not modelled.
\<close>

subsection \<open>Key documents\<close>

type_synonym cache_key = "string \<times> string option \<times> int"
type_synonym keys_cache = "(cache_key \<times> rat \<times> pyval) list"

record keys_request =
  kr_workspace_id :: string
  kr_base_url :: string
  kr_cache_ttl :: int
  kr_expected_sha256 :: "string option"
  kr_allow_insecure :: bool
  kr_edge_token :: "string option"

fun exn_text :: "exn \<Rightarrow> string" where
  "exn_text (ProtocolError m) = m"
| "exn_text (ValueError m) = m"
| "exn_text (TypeError m) = m"
| "exn_text (KeyError k) = repr_str k"
| "exn_text (VerificationError m) = m"
| "exn_text _ = []"

definition load_keys_from_json :: "sdk_env \<Rightarrow> pyval \<Rightarrow> pyval list res" where
  "load_keys_from_json E doc =
     map_exn (\<lambda>e. case e of VerificationError m \<Rightarrow> VerificationError m
                  | _ \<Rightarrow> if is_exception e then VerificationError (exn_text e) else e)
       (load_keys E doc)"

definition keys_url :: "string \<Rightarrow> string \<Rightarrow> string" where
  "keys_url base_url workspace_id =
     rstrip_char (CHR ''/'') base_url @ ''/v1/workspaces/'' @ quote workspace_id @ ''/keys''"

definition check_keys_url :: "string \<Rightarrow> bool \<Rightarrow> unit res" where
  "check_keys_url url allow_insecure =
     (case urlsplit url of
        None \<Rightarrow> Inl (ValueError ''Invalid IPv6 URL'')
      | Some parsed \<Rightarrow>
          (if su_netloc parsed = [] then Inl (VerificationError (''keys document URL must be valid: '' @ url))
           else if su_scheme parsed \<notin> {''http'', ''https''}
           then Inl (VerificationError (''keys document URL must use HTTP or HTTPS: '' @ url))
           else if su_scheme parsed \<noteq> ''https'' \<and> \<not> allow_insecure
           then Inl (VerificationError (''keys document URL must use HTTPS: '' @ url))
           else Inr ()))"

subsection \<open>One download\<close>

fun is_http_error :: "exn \<Rightarrow> bool" where
  \<comment> \<open>\<open>except httpx.HTTPError\<close>\<close>
  "is_http_error (HttpxError k) = (k \<noteq> OtherHttpxError)"
| "is_http_error _ = False"

definition edge_headers :: "string option \<Rightarrow> (string \<times> string) list" where
  "edge_headers token = (case token of None \<Rightarrow> [] | Some t \<Rightarrow> [(''X-Allowly-Edge-Token'', t)])"

definition check_keys_response ::
  "sdk_env \<Rightarrow> keys_request \<Rightarrow> string \<Rightarrow> int \<times> string \<times> bool \<times> document \<Rightarrow> pyval res" where
  "check_keys_response E r url = (\<lambda>(status, final_url, same, document).
     if status \<noteq> 200
     then Inl (VerificationError (''failed to fetch keys document: expected HTTP 200, got '' @ int_str status))
     else if \<not> same
     then Inl (VerificationError (''keys document final URL changed: got '' @ final_url @ '', want '' @ url))
     else if (case kr_expected_sha256 r of None \<Rightarrow> False
              | Some pin \<Rightarrow> str_lower (sha256_hex E (doc_bytes document)) \<noteq> str_lower pin)
     then Inl (VerificationError ''keys document SHA-256 hash did not match expected pin'')
     else case loads_text E (doc_bytes document) of
       None \<Rightarrow> Inl (VerificationError ''keys document was not valid JSON'')
     | Some doc \<Rightarrow>
         (if (case doc of PDict d \<Rightarrow> dget d ''workspace_id'' \<noteq> PStr (kr_workspace_id r) | _ \<Rightarrow> False)
          then Inl (VerificationError ''keys document workspace_id mismatch'')
          else bindr (load_keys_from_json E doc) (\<lambda>_. Inr doc)))"

definition download_keys :: "sdk_env \<Rightarrow> keys_request \<Rightarrow> pyval prog" where
  "download_keys E r =
     (let url = keys_url (kr_base_url r) (kr_workspace_id r) in
      bindp
        (handle (perform (Fetch_Document url (edge_headers (kr_edge_token r))) as_fetched)
           (\<lambda>e. raise (if is_http_error e then VerificationError ''failed to fetch keys document'' else e)))
        (\<lambda>response. Done (check_keys_response E r url response)))"

subsection \<open>The cache\<close>

definition cache_key_of :: "keys_request \<Rightarrow> cache_key" where
  "cache_key_of r =
     (keys_url (kr_base_url r) (kr_workspace_id r), kr_expected_sha256 r, kr_cache_ttl r)"

definition fetch_keys_doc ::
  "sdk_env \<Rightarrow> keys_cache \<Rightarrow> keys_request \<Rightarrow> (pyval \<times> keys_cache) prog" where
  "fetch_keys_doc E cache r =
     bindp (Done (check_keys_url (keys_url (kr_base_url r) (kr_workspace_id r)) (kr_allow_insecure r))) (\<lambda>_.
     bindp (perform Unix_Time as_clock) (\<lambda>now.
     case map_of cache (cache_key_of r) of
       Some (expiry, doc) \<Rightarrow>
         (if now < expiry then return (doc, cache)
          else bindp (download_keys E r) (\<lambda>doc.
               return (doc, AList.update (cache_key_of r) (now + of_int (kr_cache_ttl r), doc) cache)))
     | None \<Rightarrow>
         bindp (download_keys E r) (\<lambda>doc.
         return (doc, AList.update (cache_key_of r) (now + of_int (kr_cache_ttl r), doc) cache))))"

definition clear_keys_doc_cache :: "keys_cache \<Rightarrow> keys_cache" where
  "clear_keys_doc_cache cache = []"

text \<open>A process: calls in order, each with what the environment answers; a call that raises leaves the cache.\<close>

datatype cache_call = Fetch keys_request "ans list" | Clear

fun run_calls :: "sdk_env \<Rightarrow> keys_cache \<Rightarrow> cache_call list \<Rightarrow> (keys_request \<times> pyval) list" where
  "run_calls E cache [] = []"
| "run_calls E cache (Clear # calls) = run_calls E (clear_keys_doc_cache cache) calls"
| "run_calls E cache (Fetch r as # calls) =
     (case outcome (fetch_keys_doc E cache r) as of
        Some (Inr (doc, cache')) \<Rightarrow> (r, doc) # run_calls E cache' calls
      | _ \<Rightarrow> run_calls E cache calls)"

subsection \<open>Documents that may be used\<close>

text \<open>
  A document is trusted for a workspace and a pin: it was read from bytes with the pinned digest,
  its keys load, and an object names the workspace.
\<close>

definition trusted_document :: "sdk_env \<Rightarrow> string \<Rightarrow> string option \<Rightarrow> pyval \<Rightarrow> bool" where
  "trusted_document E workspace_id pin doc \<longleftrightarrow>
     (\<exists>bytes. loads_text E bytes = Some doc
        \<and> (\<forall>p. pin = Some p \<longrightarrow> str_lower (sha256_hex E bytes) = str_lower p))
     \<and> (\<exists>keys. load_keys E doc = Inr keys)
     \<and> (\<forall>d. doc = PDict d \<longrightarrow> dget d ''workspace_id'' = PStr workspace_id)"

definition cache_trusted :: "sdk_env \<Rightarrow> keys_cache \<Rightarrow> bool" where
  "cache_trusted E cache \<longleftrightarrow>
     (\<forall>k expiry doc. map_of cache k = Some (expiry, doc) \<longrightarrow>
        (\<exists>base workspace_id. fst k = keys_url base workspace_id
           \<and> trusted_document E workspace_id (fst (snd k)) doc))"

lemma check_keys_response_trusted:
  "check_keys_response E r url response = Inr doc \<Longrightarrow>
     trusted_document E (kr_workspace_id r) (kr_expected_sha256 r) doc"
  unfolding check_keys_response_def trusted_document_def split_def load_keys_from_json_def
  by (elim result_elims) (auto split: option.splits pyval.splits)

lemma download_keys_trusted:
  "outcome (download_keys E r) as = Some (Inr doc) \<Longrightarrow>
     trusted_document E (kr_workspace_id r) (kr_expected_sha256 r) doc"
  unfolding download_keys_def Let_def outcome_ok using check_keys_response_trusted by blast

text \<open>The identifier is the part between the last two slashes, so the URL determines it.\<close>

lemma keys_url_inject: "keys_url b w = keys_url b' w' \<Longrightarrow> w = w'"
proof -
  have slash: "CHR ''/'' \<notin> set (quote v)" for v
    using quote_plain by (fastforce simp: is_unreserved_def char_class_defs)
  have upto: "takeWhile (\<lambda>c. c \<noteq> CHR ''/'') (rev (quote v) @ CHR ''/'' # rest) = rev (quote v)" for v rest
    using slash[of v] by (subst takeWhile_append2) auto
  have "takeWhile (\<lambda>c. c \<noteq> CHR ''/'') (drop 5 (rev (keys_url c v))) = rev (quote v)" for c v
    by (simp add: keys_url_def upto)
  then have "keys_url b w = keys_url b' w' \<Longrightarrow> rev (quote w) = rev (quote w')" by metis
  then show "keys_url b w = keys_url b' w' \<Longrightarrow> w = w'" by (simp add: quote_inject)
qed

lemma fetch_keys_doc_ok:
  assumes "outcome (fetch_keys_doc E cache r) as = Some (Inr (doc, cache'))"
  obtains (hit) now expiry where "map_of cache (cache_key_of r) = Some (expiry, doc)" "now < expiry" "cache' = cache"
    | (miss) now as' where "outcome (download_keys E r) as' = Some (Inr doc)"
        "cache' = AList.update (cache_key_of r) (now + of_int (kr_cache_ttl r), doc) cache"
proof -
  let ?miss = "\<lambda>now. bindp (download_keys E r) (\<lambda>doc.
      return (doc, AList.update (cache_key_of r) (now + of_int (kr_cache_ttl r), doc) cache))"
  from assms obtain now as' where run: "outcome (case map_of cache (cache_key_of r) of
       Some (expiry, doc) \<Rightarrow> (if now < expiry then return (doc, cache) else ?miss now)
     | None \<Rightarrow> ?miss now) as' = Some (Inr (doc, cache'))"
    unfolding fetch_keys_doc_def outcome_ok by auto
  show ?thesis
  proof (cases "\<exists>expiry. map_of cache (cache_key_of r) = Some (expiry, doc) \<and> now < expiry \<and> cache' = cache")
    case False
    with run have "outcome (?miss now) as' = Some (Inr (doc, cache'))"
      by (auto split: option.splits if_splits)
    then show ?thesis unfolding outcome_ok by (auto intro: miss)
  qed (auto intro: hit)
qed

text \<open>
  A call keeps the cache trusted, and what it returns is trusted for the workspace it asked for: the
  URL in a key of the cache determines the workspace.
\<close>

lemma fetch_keys_doc_trusted:
  assumes "cache_trusted E cache" and "outcome (fetch_keys_doc E cache r) as = Some (Inr (doc, cache'))"
  shows "cache_trusted E cache' \<and> trusted_document E (kr_workspace_id r) (kr_expected_sha256 r) doc"
  using assms(2)
proof (cases rule: fetch_keys_doc_ok)
  case (hit now expiry)
  then obtain base w where "keys_url (kr_base_url r) (kr_workspace_id r) = keys_url base w"
    and "trusted_document E w (kr_expected_sha256 r) doc"
    using assms(1) by (fastforce simp: cache_trusted_def cache_key_of_def)
  with keys_url_inject assms(1) hit show ?thesis by blast
next
  case (miss now as')
  have trusted: "trusted_document E (kr_workspace_id r) (kr_expected_sha256 r) doc"
    by (rule download_keys_trusted[OF miss(1)])
  then have "\<exists>base w. fst (cache_key_of r) = keys_url base w \<and> trusted_document E w (fst (snd (cache_key_of r))) doc"
    by (auto simp: cache_key_of_def)
  with assms(1) trusted show ?thesis
    unfolding miss(2) cache_trusted_def update_conv' by (auto simp: cache_key_of_def)
qed


subsection \<open>The cache as a log of downloads\<close>

text \<open>
  The specification keeps every download with its time, newest first, and answers from the newest
  download of the same document while it is younger than the lifetime the caller asked for.
\<close>

type_synonym download_log = "(cache_key \<times> rat \<times> pyval) list"

definition spec_fetch ::
  "sdk_env \<Rightarrow> download_log \<Rightarrow> keys_request \<Rightarrow> (pyval \<times> download_log) prog" where
  "spec_fetch E dl r =
     bindp (Done (check_keys_url (keys_url (kr_base_url r) (kr_workspace_id r)) (kr_allow_insecure r))) (\<lambda>_.
     bindp (perform Unix_Time as_clock) (\<lambda>now.
     case map_of dl (cache_key_of r) of
       Some (t, doc) \<Rightarrow>
         (if now - t < of_int (kr_cache_ttl r) then return (doc, dl)
          else bindp (download_keys E r) (\<lambda>doc. return (doc, (cache_key_of r, now, doc) # dl)))
     | None \<Rightarrow> bindp (download_keys E r) (\<lambda>doc. return (doc, (cache_key_of r, now, doc) # dl))))"

definition represents :: "keys_cache \<Rightarrow> download_log \<Rightarrow> bool" where
  "represents cache dl \<longleftrightarrow>
     (\<forall>url pin ttl. map_of cache (url, pin, ttl)
        = map_option (\<lambda>(t, doc). (t + of_int ttl, doc)) (map_of dl (url, pin, ttl)))"

lemma represents_update:
  "represents cache dl \<Longrightarrow>
     represents (AList.update (cache_key_of r) (now + of_int (kr_cache_ttl r), doc) cache)
       ((cache_key_of r, now, doc) # dl)"
  by (simp add: represents_def update_conv' cache_key_of_def)

text \<open>
  C32: the cache implements the log. On related states \<open>fetch_keys_doc\<close> does what the specification
  does: the same requests, the same document or exception, and related states afterwards. So a
  cached answer is always the newest download and younger than the lifetime.
\<close>

theorem keys_cache_refines_log:
  assumes "represents cache dl"
  shows "events (fetch_keys_doc E cache r) as = events (spec_fetch E dl r) as
    \<and> rel_option (rel_sum (=) (rel_prod (=) represents))
        (outcome (fetch_keys_doc E cache r) as) (outcome (spec_fetch E dl r) as)"
proof -
  obtain url pin ttl where k: "cache_key_of r = (url, pin, ttl)" and ttl: "ttl = kr_cache_ttl r"
    by (simp add: cache_key_of_def)
  have lookup: "map_of cache (cache_key_of r)
      = map_option (\<lambda>(t, doc). (t + of_int (kr_cache_ttl r), doc)) (map_of dl (cache_key_of r))"
    using assms unfolding represents_def k ttl by blast
  have fresh: "now < t + of_int l \<longleftrightarrow> now - t < of_int l" for now t :: rat and l by linarith
  note update = represents_update[OF assms, of r]
  show ?thesis
    unfolding fetch_keys_doc_def spec_fetch_def lookup events_bindp outcome_bindp
    using assms update
    by (auto simp: events_bindp outcome_bindp fresh split: option.splits sum.splits)
qed

subsection \<open>A concrete cache\<close>

definition keys_env :: sdk_env where
  "keys_env = sample_env\<lparr>json_tree := (\<lambda>s. Some (PDict [(''workspace_id'', PStr ''w'')]))\<rparr>"

definition sample_keys_request :: keys_request where
  "sample_keys_request =
     \<lparr>kr_workspace_id = ''w'', kr_base_url = ''https://a.io/'', kr_cache_ttl = 300,
      kr_expected_sha256 = Some (replicate 64 (CHR ''A'')), kr_allow_insecure = False, kr_edge_token = None\<rparr>"

definition sample_download :: "ans list" where
  "sample_download = [A_Float (Fin 10), A_Fetched 200 ''u'' True (Doc ''b'' None)]"

lemma sample_keys_parts:
  "keys_url (kr_base_url sample_keys_request) (kr_workspace_id sample_keys_request)
     = ''https://a.io/v1/workspaces/w/keys''"
  "check_keys_url ''https://a.io/v1/workspaces/w/keys'' (kr_allow_insecure sample_keys_request) = Inr ()"
  "check_keys_response keys_env sample_keys_request ''https://a.io/v1/workspaces/w/keys''
     (200, ''u'', True, Doc ''b'' None) = Inr (PDict [(''workspace_id'', PStr ''w'')])"
  by code_simp+

lemma sample_keys_run:
  "run_calls keys_env [] [Fetch sample_keys_request sample_download,
     Fetch sample_keys_request [A_Float (Fin 309)], Fetch sample_keys_request [A_Float (Fin 310)]]
   = [(sample_keys_request, PDict [(''workspace_id'', PStr ''w'')]),
      (sample_keys_request, PDict [(''workspace_id'', PStr ''w'')])]"
proof -
  have ttl: "kr_cache_ttl sample_keys_request = 300" by (simp add: sample_keys_request_def)
  show ?thesis
    by (simp add: fetch_keys_doc_def download_keys_def sample_keys_parts sample_download_def perform_def
        handle_def ttl Let_def)
qed


lemma keys_cache_refines_log_witness:
  "events (fetch_keys_doc keys_env [] sample_keys_request) sample_download
     = events (spec_fetch keys_env [] sample_keys_request) sample_download"
  using keys_cache_refines_log[of "[]" "[]" keys_env sample_keys_request sample_download]
  by (simp add: represents_def)

end
