(* ===== verification/Json_Ascii.thy ===== *)
theory Json_Ascii
  imports Py_Json
begin

text \<open>
  \<open>json.dumps\<close> of a flat object with its default \<open>ensure_ascii\<close>: everything outside the printable ASCII
  range is escaped. The separators are arguments: \<open>", "\<close> and \<open>": "\<close> by default, \<open>","\<close> and \<open>":"\<close> in tokens.
\<close>

datatype flat = Flat_Null | Flat_Int int | Flat_Str string

definition ascii_char :: "char \<Rightarrow> string" where
  "ascii_char c =
     (if between 32 126 c then json_char c
      else if ord c < 32 then json_char c
      else [char_of (92 :: nat), CHR ''u'', CHR ''0'', CHR ''0''] @ hex_byte c)"

definition ascii_string :: "string \<Rightarrow> string" where
  "ascii_string s = [char_of (34 :: nat)] @ concat (map ascii_char s) @ [char_of (34 :: nat)]"

fun flat_text :: "flat \<Rightarrow> string" where
  "flat_text Flat_Null = ''null''"
| "flat_text (Flat_Int i) = int_str i"
| "flat_text (Flat_Str s) = ascii_string s"

definition flat_object :: "string \<Rightarrow> string \<Rightarrow> (string \<times> flat) list \<Rightarrow> string" where
  "flat_object item_sep key_sep d =
     ''{'' @ join_with item_sep (map (\<lambda>(k, v). ascii_string k @ key_sep @ flat_text v) d) @ ''}''"

definition flat_opt :: "string option \<Rightarrow> flat" where
  "flat_opt s = (case s of None \<Rightarrow> Flat_Null | Some t \<Rightarrow> Flat_Str t)"

end
