(* ===== verification/Mcp.thy ===== *)
theory Mcp
  imports Check Json_Ascii
begin

text \<open>
  \<open>AllowlyMCPMiddleware\<close> of \<open>allowly/mcp.py\<close>. A host's callback, called or awaited, is one effect with
  the callback's name and its argument; the identity callbacks return what their annotations promise,
  a string or nothing. The two opaque members of the callback's context are left out.
\<close>

record mcp_middleware =
  mm_client :: client
  mm_user_id_fn :: bool
  mm_agent_token_fn :: bool
  mm_check_input_fn :: bool

text \<open>\<open>__init__\<close>: the middleware's client has its defaults, so no fallback and no identity of its own.\<close>

definition mcp_middleware_of :: "string \<Rightarrow> bool \<Rightarrow> bool \<Rightarrow> bool \<Rightarrow> mcp_middleware" where
  "mcp_middleware_of api_key user_id_fn agent_token_fn check_input_fn =
     \<lparr>mm_client = \<lparr>cl_api_key = api_key, cl_edge_token = None, cl_agent_token = PNone, cl_has_supplier = False,
                  cl_check_timeout = 1, cl_fallback_by_action = []\<rparr>,
      mm_user_id_fn = user_id_fn, mm_agent_token_fn = agent_token_fn, mm_check_input_fn = check_input_fn\<rparr>"

definition mcp_context :: "string \<Rightarrow> pydict \<Rightarrow> pyval" where
  "mcp_context tool_name arguments =
     PDict [(''tool_name'', PStr tool_name), (''arguments'', PDict arguments)]"

fun as_optional_id :: "ans \<Rightarrow> string option res" where
  "as_optional_id (A_Val PNone) = Inr None"
| "as_optional_id (A_Val (PStr s)) = Inr (Some s)"
| "as_optional_id _ = ill_typed"

definition resolve_user_id :: "mcp_middleware \<Rightarrow> pyval \<Rightarrow> string option prog" where
  "resolve_user_id M context =
     (if mm_user_id_fn M then perform (Callback ''user_id_fn'' context) as_optional_id else return None)"

definition resolve_authorization_id :: "mcp_middleware \<Rightarrow> pyval \<Rightarrow> string option prog" where
  "resolve_authorization_id M context =
     bindp (resolve_user_id M context) (\<lambda>user_id.
     case user_id of
       Some (c # s) \<Rightarrow> perform (Callback ''authorization_id_fn'' (PStr (c # s))) as_optional_id
     | _ \<Rightarrow> return None)"

definition unavailable :: "string \<Rightarrow> exn \<Rightarrow> 'a prog" where
  "unavailable m e = raise (if is_exception e then ToolError m else e)"

definition resolve_agent_token :: "mcp_middleware \<Rightarrow> pyval \<Rightarrow> pyval prog" where
  "resolve_agent_token M context =
     (if \<not> mm_agent_token_fn M then return PNone
      else
        bindp (handle (perform (Callback ''agent_token_fn'' context) as_val)
                 (unavailable ''agent_token_unavailable'')) (\<lambda>token.
        if \<not> nonblank_str token then raise (ToolError ''agent_token_not_found'') else return token))"

definition no_check_input :: check_input where
  "no_check_input =
     \<lparr>ci_action = PNone, ci_resource = PNone, ci_context = None, ci_client_timestamp = None,
      ci_estimated_cost_micros = PNone, ci_idempotency_key = None\<rparr>"

definition resolve_check_input :: "mcp_middleware \<Rightarrow> pyval \<Rightarrow> check_input prog" where
  "resolve_check_input M context =
     (if \<not> mm_check_input_fn M then return no_check_input
      else
        bindp (handle (perform (Callback ''check_input_fn'' context) as_check_input)
                 (unavailable ''check_input_unavailable'')) (\<lambda>resolved.
        case resolved of None \<Rightarrow> raise (ToolError ''check_input_invalid'') | Some i \<Rightarrow> return i))"

definition decision_payload :: "action_check_result \<Rightarrow> (string \<times> flat) list" where
  "decision_payload r =
     [(''decision'', Flat_Str (decision_str (result_decision r))),
      (''reason'', Flat_Str (cr_reason (result_base r)))] @
     (case r of
        Result_Confirm _ c \<Rightarrow>
          [(''confirm_nonce'', Flat_Str (cd_nonce c)), (''confirm_expires_at'', Flat_Str (cd_expires_at c)),
           (''confirm_prompt_hint'', Flat_Str (cd_prompt_hint c))]
      | Result_Escalate _ x \<Rightarrow>
          [(''escalation_id'', Flat_Str (xd_escalation_id x)),
           (''escalation_to'', flat_opt (xd_escalation_to x)),
           (''escalation_expires_at'', flat_opt (xd_escalation_expires_at x))]
      | _ \<Rightarrow> [])"

text \<open>\<open>on_call_tool\<close>: what it checks, the check, and what it does with the answer.\<close>

definition mcp_check_call :: "string \<Rightarrow> string \<Rightarrow> check_input \<Rightarrow> pyval \<Rightarrow> check_call" where
  "mcp_check_call authorization_id action i agent_token =
     \<lparr>cc_authorization_id = authorization_id, cc_actions = [action], cc_resource = ci_resource i,
      cc_session_id = PNone, cc_estimated_cost_micros = ci_estimated_cost_micros i,
      cc_context = ci_context i, cc_wait = False, cc_idempotency_key = ci_idempotency_key i,
      cc_client_timestamp = ci_client_timestamp i, cc_agent_token = agent_token\<rparr>"

definition select_action :: "string \<Rightarrow> check_input \<Rightarrow> string res" where
  "select_action name i =
     (let action = (if ci_action i \<noteq> PNone then ci_action i else PStr name) in
      case action of
        PStr a \<Rightarrow> if strip a = [] then Inl (ToolError ''check_action_invalid'') else Inr a
      | _ \<Rightarrow> Inl (ToolError ''check_action_invalid''))"

definition mcp_check_authorized ::
  "sdk_env \<Rightarrow> mcp_middleware \<Rightarrow> string \<Rightarrow> pyval \<Rightarrow> string \<Rightarrow> (string \<times> check_response) prog" where
  "mcp_check_authorized E M name context authorization_id =
     bindp (resolve_check_input M context) (\<lambda>check_input.
     bindp (Done (select_action name check_input)) (\<lambda>action.
     bindp (resolve_agent_token M context) (\<lambda>agent_token.
     bindp (check E (mm_client M) (mcp_check_call authorization_id action check_input agent_token)) (\<lambda>result.
     return (action, result)))))"

definition mcp_check ::
  "sdk_env \<Rightarrow> mcp_middleware \<Rightarrow> string \<Rightarrow> pydict \<Rightarrow> (string \<times> check_response) prog" where
  "mcp_check E M name arguments =
     bindp (resolve_authorization_id M (mcp_context name arguments)) (\<lambda>authorization_id.
     case authorization_id of
       None \<Rightarrow> raise (ToolError ''authorization_not_found'')
     | Some i \<Rightarrow> mcp_check_authorized E M name (mcp_context name arguments) i)"

definition mcp_decide :: "string \<times> check_response \<Rightarrow> pyval prog" where
  "mcp_decide = (\<lambda>(action, result).
     case map_of (ck_results result) action of
       None \<Rightarrow> raise (ToolError ''missing_result'')
     | Some r \<Rightarrow>
         (if result_decision r = Allow then perform Call_Next as_val
          else raise (ToolError (flat_object '', '' '': '' (decision_payload r)))))"

definition on_call_tool :: "sdk_env \<Rightarrow> mcp_middleware \<Rightarrow> string \<Rightarrow> pydict \<Rightarrow> pyval prog" where
  "on_call_tool E M name arguments = bindp (mcp_check E M name arguments) mcp_decide"

subsection \<open>What reaches a tool\<close>

definition not_forward :: "eff \<Rightarrow> bool" where
  "not_forward e \<longleftrightarrow> e \<noteq> Call_Next"

lemma check_keeps: "uses_only not_forward (check E C c)"
proof -
  have headers: "uses_only not_forward (identity_headers C t k)" for t k
    unfolding identity_headers_def effective_agent_token_def
    by (intro uses_only_bindp) (auto simp: not_forward_def Let_def split: pyval.split)
  have sent: "uses_only not_forward (request_with_headers E C rq expected Json_Response)" for rq expected
    unfolding request_with_headers_def send_request_def
    by (intro uses_only_bindp uses_only_handle) (auto simp: not_forward_def)
  show ?thesis
    unfolding check_def
    by (intro uses_only_bindp headers) (auto simp: sent split: sum.split option.split intro!: uses_only_bindp)
qed

lemma resolve_keeps:
  "uses_only not_forward (resolve_authorization_id M context)"
  "uses_only not_forward (resolve_check_input M context)"
  "uses_only not_forward (resolve_agent_token M context)"
  unfolding resolve_authorization_id_def resolve_user_id_def resolve_check_input_def
    resolve_agent_token_def unavailable_def
  by (auto simp: not_forward_def split: option.split list.split intro!: uses_only_bindp uses_only_handle)

lemma mcp_check_keeps: "uses_only not_forward (mcp_check E M name arguments)"
proof -
  have "uses_only not_forward (mcp_check_authorized E M name ctx i)" for ctx i
    unfolding mcp_check_authorized_def by (intro uses_only_bindp resolve_keeps check_keeps) simp_all
  then show ?thesis
    unfolding mcp_check_def by (intro uses_only_bindp resolve_keeps) (simp split: option.split)
qed

lemma mcp_decide_events:
  "events (mcp_decide (action, result)) as = [] \<or>
   (\<exists>r a. map_of (ck_results result) action = Some r \<and> result_decision r = Allow
     \<and> events (mcp_decide (action, result)) as = [(Call_Next, a)])"
  by (cases as) (auto simp: mcp_decide_def perform_def split: option.split)

text \<open>A check that returned was made with the authorization the host's callback named.\<close>

lemma resolved_id:
  assumes "outcome (resolve_authorization_id M context) as = Some (Inr (Some i))"
  shows "\<exists>u. u \<noteq> [] \<and> (Callback ''user_id_fn'' context, A_Val (PStr u)) \<in> set (events (resolve_authorization_id M context) as)
    \<and> (Callback ''authorization_id_fn'' (PStr u), A_Val (PStr i))
        \<in> set (events (resolve_authorization_id M context) as)"
proof -
  have ids: "as_optional_id a = Inr (Some s) \<Longrightarrow> a = A_Val (PStr s)" for a s
    by (cases a rule: as_optional_id.cases) (auto simp: ill_typed_def)
  from assms obtain y where y: "outcome (resolve_user_id M context) as = Some (Inr y)"
    and rest: "outcome (case y of
         Some (c # s) \<Rightarrow> perform (Callback ''authorization_id_fn'' (PStr (c # s))) as_optional_id
       | _ \<Rightarrow> return None) (leftover (resolve_user_id M context) as) = Some (Inr (Some i))"
    unfolding resolve_authorization_id_def outcome_bindp_ok by blast
  from rest obtain c s where "y = Some (c # s)" by (auto split: option.splits list.splits)
  with y rest obtain u where u: "outcome (resolve_user_id M context) as = Some (Inr (Some u))" "u \<noteq> []"
    and i: "outcome (perform (Callback ''authorization_id_fn'' (PStr u)) as_optional_id)
      (leftover (resolve_user_id M context) as) = Some (Inr (Some i))"
    by auto
  from u(1) have "(Callback ''user_id_fn'' context, A_Val (PStr u)) \<in> set (events (resolve_user_id M context) as)"
    unfolding resolve_user_id_def by (auto dest!: performed_ok ids split: if_splits)
  moreover from performed_ok[OF i] have "(Callback ''authorization_id_fn'' (PStr u), A_Val (PStr i))
      \<in> set (events (perform (Callback ''authorization_id_fn'' (PStr u)) as_optional_id)
          (leftover (resolve_user_id M context) as))"
    using ids by fastforce
  moreover obtain c s where "u = c # s" using u(2) by (cases u) auto
  ultimately show ?thesis
    using u(1) by (intro exI[of _ u]) (simp add: resolve_authorization_id_def events_bindp)
qed

lemma mcp_check_authorized_ok:
  assumes "outcome (mcp_check_authorized E M name ctx i) as = Some (Inr (action, result))"
  shows "\<exists>check_input token as'.
      outcome (check E (mm_client M) (mcp_check_call i action check_input token)) as' = Some (Inr result)
    \<and> set (events (check E (mm_client M) (mcp_check_call i action check_input token)) as')
      \<subseteq> set (events (mcp_check_authorized E M name ctx i) as)"
  (is "\<exists>check_input token as'. ?P check_input token as'")
proof -
  let ?call = "\<lambda>a check_input token. bindp (check E (mm_client M) (mcp_check_call i a check_input token))
      (\<lambda>result. return (a, result))"
  let ?token = "\<lambda>a check_input. bindp (resolve_agent_token M ctx) (?call a check_input)"
  from outcome_bindp_tail[OF assms[unfolded mcp_check_authorized_def]] obtain check_input as1 where
    1: "outcome (bindp (Done (select_action name check_input)) (\<lambda>a. ?token a check_input)) as1
        = Some (Inr (action, result))"
    and sub1: "set (events (bindp (Done (select_action name check_input)) (\<lambda>a. ?token a check_input)) as1)
        \<subseteq> set (events (mcp_check_authorized E M name ctx i) as)"
    unfolding mcp_check_authorized_def by blast
  from outcome_bindp_tail[OF 1] obtain a as2 where
    2: "outcome (?token a check_input) as2 = Some (Inr (action, result))"
    and sub2: "set (events (?token a check_input) as2) \<subseteq> set (events (mcp_check_authorized E M name ctx i) as)"
    using sub1 by blast
  from outcome_bindp_tail[OF 2] obtain token as3 where
    3: "outcome (?call a check_input token) as3 = Some (Inr (action, result))"
    and sub3: "set (events (?call a check_input token) as3)
        \<subseteq> set (events (mcp_check_authorized E M name ctx i) as)"
    using sub2 by blast
  from 3 have "a = action" and "outcome (check E (mm_client M) (mcp_check_call i a check_input token)) as3
      = Some (Inr result)" by (auto simp: outcome_ok)
  with sub3 have "?P check_input token as3" by (simp add: events_bindp)
  then show ?thesis by blast
qed

lemma mcp_check_ok:
  assumes "outcome (mcp_check E M name arguments) as = Some (Inr (action, result))"
  shows "\<exists>i check_input token as' u.
      outcome (check E (mm_client M) (mcp_check_call i action check_input token)) as' = Some (Inr result)
    \<and> set (events (check E (mm_client M) (mcp_check_call i action check_input token)) as')
      \<subseteq> set (events (mcp_check E M name arguments) as)
    \<and> {(Callback ''user_id_fn'' (mcp_context name arguments), A_Val (PStr u)),
       (Callback ''authorization_id_fn'' (PStr u), A_Val (PStr i))}
      \<subseteq> set (events (mcp_check E M name arguments) as)"
proof -
  let ?ctx = "mcp_context name arguments"
  let ?id = "resolve_authorization_id M ?ctx"
  from assms obtain i where i: "outcome ?id as = Some (Inr (Some i))"
    and rest: "outcome (mcp_check_authorized E M name ?ctx i) (leftover ?id as) = Some (Inr (action, result))"
    unfolding mcp_check_def outcome_bindp_ok by (auto split: option.splits)
  then have events: "events (mcp_check E M name arguments) as
      = events ?id as @ events (mcp_check_authorized E M name ?ctx i) (leftover ?id as)"
    by (simp add: mcp_check_def events_bindp)
  from mcp_check_authorized_ok[OF rest] resolved_id[OF i] show ?thesis
    unfolding events set_append by blast
qed


end
