(* ===== verification/Mcp_Samples.thy ===== *)
theory Mcp_Samples
  imports Mcp Check_Samples
begin

text \<open>The middleware on a concrete call: the host names a user and an authorization, the API allows.\<close>

definition sample_mcp_reply :: pyval where
  "sample_mcp_reply =
     PDict [(''authorization_id'', PStr ''az''), (''engine_version'', PStr digest_a),
            (''results'', PDict
              [(''pay'', PDict [(''decision'', PStr ''allow''), (''reason'', PStr ''ok''),
                                (''receipt'', sample_receipt)])])]"

definition sample_mcp_response :: check_response where
  "sample_mcp_response = sample_check_response\<lparr>ck_results := [(''pay'', Result_Allow (sample_base ''ok''))]\<rparr>"

lemma sample_mcp_parses:
  "parse_check_response sample_env sample_mcp_reply ''az'' [''pay''] = Inr sample_mcp_response"
  by code_simp

abbreviation sample_middleware :: mcp_middleware where
  "sample_middleware \<equiv> mcp_middleware_of ''key'' True False False"

definition sample_mcp_answers :: "ans list" where
  "sample_mcp_answers = [A_Val (PStr ''u''), A_Val (PStr ''az''), sample_reply 200 sample_mcp_reply]"

lemma sample_mcp_check:
  "outcome (mcp_check sample_env sample_middleware ''pay'' []) (sample_mcp_answers @ rest)
     = Some (Inr (''pay'', sample_mcp_response))
   \<and> leftover (mcp_check sample_env sample_middleware ''pay'' []) (sample_mcp_answers @ rest) = rest"
proof -
  have headers: "identity_headers (mm_client sample_middleware) PNone None = return None"
    by (simp add: identity_headers_def effective_agent_token_def mcp_middleware_of_def)
  have action: "select_action ''pay'' no_check_input = Inr ''pay''" by code_simp
  have response: "sample_mcp_response\<lparr>ck_billing_warning := None\<rparr> = sample_mcp_response"
    by (simp add: sample_mcp_response_def sample_check_response_def)
  have call: "cc_client_timestamp (mcp_check_call ''az'' ''pay'' no_check_input PNone) = None"
    "cc_agent_token (mcp_check_call ''az'' ''pay'' no_check_input PNone) = PNone"
    "cc_idempotency_key (mcp_check_call ''az'' ''pay'' no_check_input PNone) = None"
    "cc_wait (mcp_check_call ''az'' ''pay'' no_check_input PNone) = False"
    "cc_authorization_id (mcp_check_call ''az'' ''pay'' no_check_input PNone) = ''az''"
    "cc_actions (mcp_check_call ''az'' ''pay'' no_check_input PNone) = [''pay'']"
    by (simp_all add: mcp_check_call_def no_check_input_def)
  have parts: "mm_user_id_fn sample_middleware" "\<not> mm_check_input_fn sample_middleware"
    "\<not> mm_agent_token_fn sample_middleware" by (simp_all add: mcp_middleware_of_def)
  show ?thesis
    by (simp add: mcp_check_def mcp_check_authorized_def resolve_authorization_id_def resolve_user_id_def
        resolve_check_input_def resolve_agent_token_def parts action check_def call headers optional_timestamp_def
        request_with_headers_def send_request_def perform_def handle_def sample_reply_def decode_response_def
        sample_mcp_answers_def
        is_success_def sample_mcp_parses response)
qed

lemma sample_mcp_forward:
  "(Call_Next, A_Val (PStr ''done'')) \<in> set (events (on_call_tool sample_env sample_middleware ''pay'' [])
     (sample_mcp_answers @ [A_Val (PStr ''done'')]))"
  by (simp add: on_call_tool_def events_bindp sample_mcp_check mcp_decide_def sample_mcp_response_def perform_def)


end
