(* ===== verification/Authorizations.thy ===== *)
theory Authorizations
  imports Policy_Api
begin

text \<open>
  The authorizations resource of \<open>allowly/client.py\<close>: granting a names-only subset of one exact policy
  edition, and revoking a grant.
\<close>

subsection \<open>Granting\<close>

record authorization_call =
  ac_user_id :: pyval
  ac_policy_id :: pyval
  ac_policy_version :: pyval
  ac_actions :: pyval
  ac_expires_at :: "timestamp_arg option"
  ac_budget_limit_micros :: pyval
  ac_replaces :: pyval
  ac_metadata :: pyval
  ac_idempotency_key :: "string option"

record authorization =
  au_authorization_id :: string
  au_policy_ref :: pydict
  au_actions :: "string list"
  au_created_at :: string
  au_expires_at :: string
  au_receipt :: pending_receipt
  au_provenance :: pyval
  au_budget_limit_micros :: "int option"
  au_budget_spent_micros :: "int option"
  au_replaced_authorization_id :: "string option"
  au_revocation_receipt :: "pending_receipt option"
  au_billing_warning :: "string option"

definition optional_integer :: "pyval \<Rightarrow> string \<Rightarrow> int option res" where
  \<comment> \<open>\<open>if v is not None: _integer(v, name, minimum=0)\<close>\<close>
  "optional_integer v name =
     (if v = PNone then Inr None
      else bindr (policy_integer v name 0 max_safe_integer) (\<lambda>i. Inr (Some i)))"

definition optional_strings :: "pyval \<Rightarrow> string list option res" where
  "optional_strings v =
     (if v = PNone then Inr None else bindr (policy_strings v ''actions'' 32 64) (\<lambda>s. Inr (Some s)))"

fun expires_member :: "timestamp_arg option \<Rightarrow> pydict" where
  "expires_member (Some (Datetime_Arg t aware)) = [(''expires_at'', PStr t)]"
| "expires_member (Some (Value_Arg v)) = (if v = PNone then [] else [(''expires_at'', v)])"
| "expires_member None = []"

text \<open>The request body, and the requested edition and scope the response is compared with.\<close>

definition authorization_body ::
  "sdk_env \<Rightarrow> authorization_call \<Rightarrow> (pydict \<times> string \<times> int \<times> string list option) res" where
  "authorization_body E c =
     bindr (policy_text (ac_user_id c) ''user_id'' 128) (\<lambda>user_id.
     bindr (policy_text (ac_policy_id c) ''policy_id'' 128) (\<lambda>policy_id.
     bindr (policy_integer (ac_policy_version c) ''policy_version'' 1 max_safe_integer) (\<lambda>version.
     bindr (optional_strings (ac_actions c)) (\<lambda>actions.
     bindr (optional_integer (ac_budget_limit_micros c) ''budget_limit_micros'') (\<lambda>budget.
     bindr (optional_text (ac_replaces c) ''replaces'' 128) (\<lambda>replaces.
     bindr (policy_document E (if ac_metadata c = PNone then PDict [] else ac_metadata c) ''metadata'' 4096)
       (\<lambda>metadata.
     Inr ([(''user_id'', PStr user_id), (''policy_id'', PStr policy_id), (''policy_version'', PInt version),
           (''metadata'', metadata)]
          @ (case actions of None \<Rightarrow> [] | Some a \<Rightarrow> [(''actions'', str_list a)])
          @ expires_member (ac_expires_at c)
          @ (case budget of None \<Rightarrow> [] | Some b \<Rightarrow> [(''budget_limit_micros'', PInt b)])
          @ (case replaces of None \<Rightarrow> [] | Some i \<Rightarrow> [(''replaces'', PStr i)]),
          policy_id, version, actions))))))))"

definition authorization_required :: "string list" where
  "authorization_required = [''authorization_id'', ''policy_ref'', ''actions'', ''created_at'', ''expires_at'',
     ''receipt'', ''authorization_provenance'']"

definition authorization_optional :: "string list" where
  "authorization_optional = [''budget_limit_micros'', ''budget_spent_micros'', ''replaced_authorization_id'',
     ''revocation_receipt'']"

definition optional_pending_receipt :: "pyval \<Rightarrow> pending_receipt option res" where
  "optional_pending_receipt v =
     (if v = PNone then Inr None else bindr (parse_pending_envelope v) (\<lambda>p. Inr (Some p)))"

definition parse_authorization ::
  "sdk_env \<Rightarrow> pyval \<Rightarrow> string \<Rightarrow> int \<Rightarrow> string list option \<Rightarrow> string option \<Rightarrow> authorization res" where
  "parse_authorization E v policy_id version actions billing_warning =
     bindr (policy_keys v authorization_required ''authorization response'' authorization_optional) (\<lambda>raw.
     bindr (parse_policy_reference E (dget raw ''policy_ref'')) (\<lambda>reference.
     if dget reference ''policy_id'' \<noteq> PStr policy_id \<or> dget reference ''policy_version'' \<noteq> PInt version
     then Inl (ProtocolError ''authorization policy_ref does not match the requested edition'')
     else
     bindr (policy_strings (dget raw ''actions'') ''actions'' 32 64) (\<lambda>granted.
     if actions \<noteq> None \<and> actions \<noteq> Some granted
     then Inl (ProtocolError ''authorization actions do not match the requested scope'')
     else
     bindr (policy_document E (dget raw ''authorization_provenance'') ''authorization_provenance'' definition_limit)
       (\<lambda>provenance.
     bindr (optional_integer (dget raw ''budget_limit_micros'') ''budget_limit_micros'') (\<lambda>limit.
     bindr (optional_integer (dget raw ''budget_spent_micros'') ''budget_spent_micros'') (\<lambda>spent.
     bindr (require_str raw ''authorization_id'') (\<lambda>authorization_id.
     bindr (require_str raw ''created_at'') (\<lambda>created_at.
     bindr (require_str raw ''expires_at'') (\<lambda>expires_at.
     bindr (parse_pending_envelope (dget raw ''receipt'')) (\<lambda>receipt.
     bindr (optional_str raw ''replaced_authorization_id'') (\<lambda>replaced.
     bindr (optional_pending_receipt (dget raw ''revocation_receipt'')) (\<lambda>revocation.
     Inr \<lparr>au_authorization_id = authorization_id, au_policy_ref = reference, au_actions = granted,
          au_created_at = created_at, au_expires_at = expires_at, au_receipt = receipt,
          au_provenance = provenance, au_budget_limit_micros = limit, au_budget_spent_micros = spent,
          au_replaced_authorization_id = replaced, au_revocation_receipt = revocation,
          au_billing_warning = billing_warning\<rparr>))))))))))))"

definition create_authorization ::
  "sdk_env \<Rightarrow> client \<Rightarrow> authorization_call \<Rightarrow> authorization prog" where
  "create_authorization E C c =
     bindp (Done (authorization_body E c)) (\<lambda>(body, policy_id, version, actions).
     bindp (request_with_headers E C
              (api_call ''POST'' ''/v1/authorizations'' (Some (PDict body)) (key_header (ac_idempotency_key c)))
              [201] Json_Response) (\<lambda>(raw, response_headers).
     Done (parse_authorization E raw policy_id version actions
             (header_get response_headers ''X-Allowly-Billing-Warning''))))"

subsection \<open>Revoking\<close>

record revocation =
  rk_authorization_id :: string
  rk_revoked_at :: string
  rk_receipt :: pending_receipt
  rk_revoked_confirmations :: "string list"

definition truthy_member :: "string \<Rightarrow> string option \<Rightarrow> pydict" where
  "truthy_member k v = (case v of Some (c # s) \<Rightarrow> [(k, PStr (c # s))] | _ \<Rightarrow> [])"

text \<open>A body that is no object fails on its \<open>get\<close>.\<close>

definition parse_revocation :: "pyval \<Rightarrow> revocation res" where
  "parse_revocation v =
     bindr (as_dict AttributeError v) (\<lambda>raw.
     bindr (require_str raw ''authorization_id'') (\<lambda>authorization_id.
     bindr (require_str raw ''revoked_at'') (\<lambda>revoked_at.
     bindr (parse_pending_envelope (dget raw ''receipt'')) (\<lambda>receipt.
     bindr (require_str_list raw ''revoked_confirmations'') (\<lambda>confirmations.
     Inr \<lparr>rk_authorization_id = authorization_id, rk_revoked_at = revoked_at, rk_receipt = receipt,
          rk_revoked_confirmations = confirmations\<rparr>)))))"

definition revoke_authorization ::
  "sdk_env \<Rightarrow> client \<Rightarrow> string \<Rightarrow> string option \<Rightarrow> string option \<Rightarrow> string option \<Rightarrow> revocation prog" where
  "revoke_authorization E C authorization_id revoked_by notes idempotency_key =
     (let body = truthy_member ''revoked_by'' revoked_by @ truthy_member ''notes'' notes in
      bindp (request E C
               (api_call ''DELETE'' (''/v1/authorizations/'' @ quote authorization_id)
                  (if body = [] then None else Some (PDict body)) (key_header idempotency_key)) [200])
        (\<lambda>raw. Done (parse_revocation raw)))"

subsection \<open>A grant is of the requested edition\<close>

lemma optional_integer_ok: "optional_integer v name = Inr (Some n) \<Longrightarrow> 0 \<le> n"
  by (auto simp: optional_integer_def split: if_splits)

lemma optional_strings_ok: "optional_strings v = Inr s \<Longrightarrow> v \<noteq> PNone \<Longrightarrow> \<exists>ss. s = Some ss \<and> v = str_list ss"
  by (auto simp: optional_strings_def policy_strings_iff)

lemma parse_authorization_ok:
  assumes "parse_authorization E v policy_id version actions w = Inr a"
  shows "is_policy_reference (au_policy_ref a) \<and> dget (au_policy_ref a) ''policy_id'' = PStr policy_id
    \<and> dget (au_policy_ref a) ''policy_version'' = PInt version
    \<and> (actions = None \<or> actions = Some (au_actions a))
    \<and> distinct (au_actions a) \<and> 1 \<le> length (au_actions a) \<and> length (au_actions a) \<le> 32
    \<and> (\<forall>n. au_budget_limit_micros a = Some n \<longrightarrow> 0 \<le> n) \<and> (\<forall>n. au_budget_spent_micros a = Some n \<longrightarrow> 0 \<le> n)"
proof -
  from assms obtain raw where
    "parse_policy_reference E (dget raw ''policy_ref'') = Inr (au_policy_ref a)"
    and named: "\<not> (dget (au_policy_ref a) ''policy_id'' \<noteq> PStr policy_id
      \<or> dget (au_policy_ref a) ''policy_version'' \<noteq> PInt version)"
    and granted: "policy_strings (dget raw ''actions'') ''actions'' 32 64 = Inr (au_actions a)"
    and scope: "\<not> (actions \<noteq> None \<and> actions \<noteq> Some (au_actions a))"
    and budget: "optional_integer (dget raw ''budget_limit_micros'') ''budget_limit_micros'' = Inr (au_budget_limit_micros a)"
      "optional_integer (dget raw ''budget_spent_micros'') ''budget_spent_micros'' = Inr (au_budget_spent_micros a)"
    unfolding parse_authorization_def by (elim result_elims) (auto intro!: that)
  then show ?thesis
    using optional_integer_ok by (auto simp: parse_policy_reference_iff policy_strings_iff)
qed

text \<open>
  C33: a grant is what was asked for. The policy edition of a returned authorization is the requested
  identifier and version, its actions are the requested ones when they were given, in their order,
  and otherwise at most 32 distinct ones, and its budget figures are not negative.
\<close>

theorem granted_authorization_requested:
  assumes "outcome (create_authorization E C c) as = Some (Inr a)"
  shows "is_policy_reference (au_policy_ref a) \<and> dget (au_policy_ref a) ''policy_id'' = ac_policy_id c
    \<and> dget (au_policy_ref a) ''policy_version'' = ac_policy_version c
    \<and> (ac_actions c \<noteq> PNone \<longrightarrow> ac_actions c = str_list (au_actions a))
    \<and> distinct (au_actions a) \<and> 1 \<le> length (au_actions a) \<and> length (au_actions a) \<le> 32
    \<and> (\<forall>n. au_budget_limit_micros a = Some n \<longrightarrow> 0 \<le> n) \<and> (\<forall>n. au_budget_spent_micros a = Some n \<longrightarrow> 0 \<le> n)"
proof -
  from assms obtain q raw hs where body: "authorization_body E c = Inr q"
    and parsed: "parse_authorization E raw (fst (snd q)) (fst (snd (snd q))) (snd (snd (snd q)))
      (header_get hs ''X-Allowly-Billing-Warning'') = Inr a"
    unfolding create_authorization_def split_def outcome_ok by auto
  from body obtain actions where "ac_policy_id c = PStr (fst (snd q))" "ac_policy_version c = PInt (fst (snd (snd q)))"
    and "optional_strings (ac_actions c) = Inr (snd (snd (snd q)))"
    unfolding authorization_body_def by (elim result_elims) auto
  with parse_authorization_ok[OF parsed] optional_strings_ok[of "ac_actions c"] show ?thesis by fastforce
qed

end
