(* ===== verification/Client_Setup.thy ===== *)
theory Client_Setup
  imports Policy_Api Py_Url
begin

text \<open>
  The constructor of the client with \<open>_validate_base_url\<close> and \<open>_validate_fallback_mode\<close>, \<open>readiness\<close>,
  \<open>agent_instructions\<close>, and \<open>create_custom_executable\<close> with its parser.
\<close>

subsection \<open>The constructor\<close>

definition validate_base_url :: "string \<Rightarrow> bool \<Rightarrow> string res" where
  "validate_base_url base_url allow_insecure =
     (let normalized = rstrip_char (CHR ''/'') base_url in
      case urlsplit normalized of
        None \<Rightarrow> Inl (ValueError ''Invalid IPv6 URL'')
      | Some parsed \<Rightarrow>
          (if su_scheme parsed = [] \<or> su_netloc parsed = [] then Inl (ValueError ''base_url must be a valid URL'')
           else if su_scheme parsed \<notin> {''http'', ''https''} then Inl (ValueError ''base_url must use HTTP or HTTPS'')
           else if su_scheme parsed \<noteq> ''https'' \<and> \<not> allow_insecure then Inl (ValueError ''base_url must use HTTPS'')
           else Inr normalized))"

definition validate_fallback_mode :: "string \<Rightarrow> fallback_mode res" where
  "validate_fallback_mode mode =
     (if mode = ''fail_open'' then Inr Fail_Open else if mode = ''fail_closed'' then Inr Fail_Closed
      else Inl (ValueError (''fallback mode must be '' @ repr_str ''fail_open'' @ '' or '' @ repr_str ''fail_closed'')))"

record client_options =
  co_api_key :: string
  co_base_url :: string
  co_check_timeout_ms :: int
  co_fallback_by_action :: "(string \<times> string) list"
  co_allow_insecure :: bool
  co_edge_token :: "string option"
  co_agent_token :: pyval
  co_agent_token_supplier :: bool

text \<open>The client, the base URL and the headers of its HTTP connection.\<close>

definition new_client :: "client_options \<Rightarrow> (client \<times> string \<times> (string \<times> string) list) res" where
  "new_client o' =
     bindr (validate_base_url (co_base_url o') (co_allow_insecure o')) (\<lambda>base_url.
     if co_check_timeout_ms o' \<le> 0 then Inl (ValueError ''check_timeout_ms must be positive'')
     else
     bindr (mapr (\<lambda>(action, mode). bindr (validate_fallback_mode mode) (\<lambda>m. Inr (action, m)))
              (co_fallback_by_action o')) (\<lambda>fallback.
     Inr (\<lparr>cl_api_key = co_api_key o', cl_edge_token = co_edge_token o', cl_agent_token = co_agent_token o',
           cl_has_supplier = co_agent_token_supplier o',
           cl_check_timeout = of_int (co_check_timeout_ms o') / 1000, cl_fallback_by_action = fallback\<rparr>,
          base_url,
          (''Authorization'', ''Bearer '' @ co_api_key o') #
          (case co_edge_token o' of None \<Rightarrow> [] | Some t \<Rightarrow> [(''X-Allowly-Edge-Token'', t)]))))"

subsection \<open>Readiness and instructions\<close>

definition readiness :: "sdk_env \<Rightarrow> client \<Rightarrow> bool prog" where
  "readiness E C =
     bindp (request E C (api_call ''GET'' ''/readyz'' None None) [200]) (\<lambda>v.
     bindp (Done (require_dict v ''readiness response'')) (\<lambda>raw.
     bindp (Done (require_str raw ''status'')) (\<lambda>status. return (status = ''ready''))))"

definition agent_instructions :: "sdk_env \<Rightarrow> client \<Rightarrow> pyval \<Rightarrow> pyval prog" where
  "agent_instructions E C agent_name =
     (if cl_agent_token C \<noteq> PNone \<or> cl_has_supplier C
      then raise (ValueError ''name-routed instructions cannot use configured agent identity'')
      else
        bindp (Done (policy_text agent_name ''agent_name'' 128)) (\<lambda>name.
        if name \<noteq> strip name \<or> char_of (0 :: nat) \<in> set name
        then raise (ValueError ''agent_name must be an exact configured name'')
        else
          bindp (request_with_headers E C
                   ((api_call ''GET'' ''/v1/agent-instructions'' None (Some [(''Accept'', ''text/plain'')]))
                      \<lparr>rq_params := [(''agent_name'', PStr name)]\<rparr>) [200] Text_Response)
            (\<lambda>(text, _). return text)))"

subsection \<open>Custom executables\<close>

record custom_executable_request =
  xe_name :: string
  xe_url :: string
  xe_method :: string
  xe_request_content_type :: "string option"
  xe_required_headers :: "string list"

definition asdict_executable :: "custom_executable_request \<Rightarrow> pydict" where
  "asdict_executable r =
     [(''name'', PStr (xe_name r)), (''url'', PStr (xe_url r)), (''method'', PStr (xe_method r)),
      (''request_content_type'', opt_str (xe_request_content_type r)),
      (''required_headers'', str_list (xe_required_headers r))]"

datatype evidence_source = Customer_Reported | Independent_Witness

fun evidence_source_str :: "evidence_source \<Rightarrow> string" where
  "evidence_source_str Customer_Reported = ''customer_reported''"
| "evidence_source_str Independent_Witness = ''independent_allowly_witness''"

record evidence_capability =
  ec_available :: bool
  ec_evidence_source :: evidence_source
  ec_profile :: "string option"
  ec_reason :: "string option"
  ec_api_request_match_verification :: "string option"

record executable_operation =
  eo_provider_id :: string
  eo_operation_id :: string
  eo_label :: string
  eo_method :: string
  eo_path :: string
  eo_effect :: string
  eo_request_content_type :: "string option"
  eo_required_headers :: "string list"
  eo_status :: string
  eo_definition_fingerprint :: string
  eo_customer_reported_receipt :: evidence_capability
  eo_tls_witness :: evidence_capability
  eo_allowly_live_tested :: bool
  eo_tls_witness_tested :: bool

record enabled_executable =
  ee_enabled_executable_id :: string
  ee_provider_id :: string
  ee_provider_name :: string
  ee_category :: string
  ee_origin :: string
  ee_catalog_revision :: string
  ee_status :: string
  ee_allowly_live_tested :: bool
  ee_tls_witness_tested :: bool
  ee_operation :: executable_operation
  ee_enabled_at :: string
  ee_disabled_at :: "string option"

definition require_flag :: "pydict \<Rightarrow> string \<Rightarrow> bool res" where
  "require_flag raw key =
     (case dget raw key of PBool b \<Rightarrow> Inr b | _ \<Rightarrow> Inl (ProtocolError (key @ '' must be a boolean'')))"

definition parse_capability :: "pyval \<Rightarrow> evidence_source \<Rightarrow> evidence_capability res" where
  "parse_capability v source =
     bindr (require_dict v ''executable evidence capability'') (\<lambda>raw.
     if dget raw ''evidence_source'' \<noteq> PStr (evidence_source_str source)
     then Inl (ProtocolError ''invalid executable evidence source'')
     else
     bindr (require_flag raw ''available'') (\<lambda>available.
     bindr (optional_str raw ''profile'') (\<lambda>profile.
     bindr (optional_str raw ''reason'') (\<lambda>reason.
     bindr (optional_str raw ''api_request_match_verification'') (\<lambda>matching.
     Inr \<lparr>ec_available = available, ec_evidence_source = source, ec_profile = profile, ec_reason = reason,
          ec_api_request_match_verification = matching\<rparr>)))))"

definition parse_executable_operation :: "string \<Rightarrow> pyval \<Rightarrow> executable_operation res" where
  "parse_executable_operation provider_id v =
     bindr (require_dict v ''executable operation'') (\<lambda>raw.
     bindr (require_dict (dget raw ''capabilities'') ''executable capabilities'') (\<lambda>capabilities.
     bindr (require_str raw ''definition_fingerprint'') (\<lambda>fingerprint.
     if dget raw ''provider_id'' \<noteq> PStr provider_id \<or> \<not> is_sha256_tag fingerprint
     then Inl (ProtocolError ''invalid executable operation identity or fingerprint'')
     else
     bindr (require_str raw ''operation_id'') (\<lambda>operation_id.
     bindr (require_str raw ''label'') (\<lambda>label.
     bindr (require_str raw ''method'') (\<lambda>meth.
     bindr (require_str raw ''path'') (\<lambda>pth.
     bindr (require_str raw ''effect'') (\<lambda>effect.
     bindr (optional_str raw ''request_content_type'') (\<lambda>content_type.
     bindr (require_str_list raw ''required_headers'') (\<lambda>required_headers.
     bindr (require_str raw ''status'') (\<lambda>status.
     bindr (parse_capability (dget capabilities ''customer_reported_receipt'') Customer_Reported) (\<lambda>customer.
     bindr (parse_capability (dget capabilities ''tls_witness'') Independent_Witness) (\<lambda>witness.
     bindr (require_flag raw ''allowly_live_tested'') (\<lambda>live_tested.
     bindr (require_flag raw ''tls_witness_tested'') (\<lambda>witness_tested.
     Inr \<lparr>eo_provider_id = provider_id, eo_operation_id = operation_id, eo_label = label, eo_method = meth,
          eo_path = pth, eo_effect = effect, eo_request_content_type = content_type,
          eo_required_headers = required_headers, eo_status = status, eo_definition_fingerprint = fingerprint,
          eo_customer_reported_receipt = customer, eo_tls_witness = witness,
          eo_allowly_live_tested = live_tested, eo_tls_witness_tested = witness_tested\<rparr>)))))))))))))))"

definition parse_custom_executable_response :: "pyval \<Rightarrow> enabled_executable res" where
  "parse_custom_executable_response v =
     bindr (require_dict v ''enabled executable'') (\<lambda>raw.
     if dget raw ''credential_location'' \<noteq> PStr ''customer_runtime''
        \<or> dget raw ''connection_status'' \<noteq> PStr ''not_verified''
     then Inl (ProtocolError ''invalid executable credential location or connection status'')
     else case dget raw ''operations'' of
       PList [item] \<Rightarrow>
     bindr (require_int raw ''operation_count'') (\<lambda>n.
     if n \<noteq> 1 then Inl (ProtocolError ''a custom executable must contain exactly one operation'')
     else
     bindr (require_str raw ''provider_id'') (\<lambda>provider_id.
     bindr (parse_executable_operation provider_id item) (\<lambda>operation.
     bindr (require_str raw ''enabled_executable_id'') (\<lambda>enabled_executable_id.
     bindr (require_str raw ''provider_name'') (\<lambda>provider_name.
     bindr (require_str raw ''category'') (\<lambda>category.
     bindr (require_str raw ''origin'') (\<lambda>origin.
     bindr (require_str raw ''catalog_revision'') (\<lambda>catalog_revision.
     bindr (require_str raw ''status'') (\<lambda>status.
     bindr (require_flag raw ''allowly_live_tested'') (\<lambda>live_tested.
     bindr (require_flag raw ''tls_witness_tested'') (\<lambda>witness_tested.
     bindr (require_str raw ''enabled_at'') (\<lambda>enabled_at.
     bindr (optional_str raw ''disabled_at'') (\<lambda>disabled_at.
     Inr \<lparr>ee_enabled_executable_id = enabled_executable_id, ee_provider_id = provider_id,
          ee_provider_name = provider_name, ee_category = category, ee_origin = origin,
          ee_catalog_revision = catalog_revision, ee_status = status, ee_allowly_live_tested = live_tested,
          ee_tls_witness_tested = witness_tested, ee_operation = operation, ee_enabled_at = enabled_at,
          ee_disabled_at = disabled_at\<rparr>)))))))))))))
     | _ \<Rightarrow> Inl (ProtocolError ''a custom executable must contain exactly one operation''))"

definition create_custom_executable ::
  "sdk_env \<Rightarrow> client \<Rightarrow> custom_executable_request \<Rightarrow> enabled_executable prog" where
  "create_custom_executable E C r =
     bindp (request E C (api_call ''POST'' ''/v1/setup/custom-executables''
              (Some (PDict (asdict_executable r))) None) [201])
       (\<lambda>raw. Done (parse_custom_executable_response raw))"

subsection \<open>Where the key goes\<close>

lemma fallback_modes_ok:
  "mapr (\<lambda>(action, mode). bindr (validate_fallback_mode mode) (\<lambda>m. Inr (action, m))) ms = Inr fs \<Longrightarrow>
     map_of fs a = Some Fail_Open \<Longrightarrow> map_of ms a = Some ''fail_open''"
  by (induction ms arbitrary: fs) (auto simp: validate_fallback_mode_def split: if_splits)

text \<open>
  C34: a client exists only with a safe configuration. A constructed client talks to an absolute URL
  that uses HTTPS unless the insecure option was given, has a positive timeout, and fails open only
  for an action the caller named so; its HTTP connection carries the key and at most the edge token.
\<close>

theorem new_client_configured:
  assumes "new_client options = Inr (C, base_url, headers)"
  shows "(\<exists>u. urlsplit base_url = Some u \<and> su_netloc u \<noteq> []
      \<and> (su_scheme u = ''https'' \<or> su_scheme u = ''http'' \<and> co_allow_insecure options))
    \<and> 0 < cl_check_timeout C
    \<and> (\<forall>a. map_of (cl_fallback_by_action C) a = Some Fail_Open \<longrightarrow>
          map_of (co_fallback_by_action options) a = Some ''fail_open'')
    \<and> set headers \<subseteq> {(''Authorization'', ''Bearer '' @ co_api_key options),
        (''X-Allowly-Edge-Token'', case co_edge_token options of None \<Rightarrow> [] | Some t \<Rightarrow> t)}"
proof -
  from assms obtain fallback where url: "validate_base_url (co_base_url options) (co_allow_insecure options) = Inr base_url"
    and positive: "\<not> co_check_timeout_ms options \<le> 0"
    and fallback: "mapr (\<lambda>(action, mode). bindr (validate_fallback_mode mode) (\<lambda>m. Inr (action, m)))
        (co_fallback_by_action options) = Inr fallback"
    and C: "cl_check_timeout C = of_int (co_check_timeout_ms options) / 1000" "cl_fallback_by_action C = fallback"
    and headers: "headers = (''Authorization'', ''Bearer '' @ co_api_key options) #
          (case co_edge_token options of None \<Rightarrow> [] | Some t \<Rightarrow> [(''X-Allowly-Edge-Token'', t)])"
    unfolding new_client_def by auto
  from url have "\<exists>u. urlsplit base_url = Some u \<and> su_netloc u \<noteq> []
      \<and> (su_scheme u = ''https'' \<or> su_scheme u = ''http'' \<and> co_allow_insecure options)"
    by (auto simp: validate_base_url_def Let_def split: option.splits if_splits)
  moreover have "0 < cl_check_timeout C" using positive C by simp
  moreover have "set headers \<subseteq> {(''Authorization'', ''Bearer '' @ co_api_key options),
        (''X-Allowly-Edge-Token'', case co_edge_token options of None \<Rightarrow> [] | Some t \<Rightarrow> t)}"
    by (cases "co_edge_token options") (simp_all add: headers)
  ultimately show ?thesis using fallback_modes_ok[OF fallback] C(2) by simp
qed

end
