(* ===== verification/Client_Samples.thy ===== *)
theory Client_Samples
  imports Authorizations Client_Setup Policy_Samples
begin

text \<open>A grant of version 1 of the sample policy, and a client of the production URL.\<close>

definition sample_grant_call :: authorization_call where
  "sample_grant_call =
     \<lparr>ac_user_id = PStr ''u'', ac_policy_id = PStr ''p'', ac_policy_version = PInt 1,
      ac_actions = PList [PStr ''pay''], ac_expires_at = None, ac_budget_limit_micros = PInt 5,
      ac_replaces = PNone, ac_metadata = PNone, ac_idempotency_key = None\<rparr>"

definition sample_grant_reply :: pyval where
  "sample_grant_reply = PDict
     [(''authorization_id'', PStr ''az''), (''policy_ref'', PDict sample_reference),
      (''actions'', PList [PStr ''pay'']), (''created_at'', PStr ''t''), (''expires_at'', PStr ''t''),
      (''receipt'', PDict [(''status'', PStr ''pending''), (''receipt_id'', PStr ''r''), (''url'', PStr ''u'')]),
      (''authorization_provenance'', PDict []), (''budget_limit_micros'', PInt 5)]"

definition sample_grant :: authorization where
  "sample_grant =
     \<lparr>au_authorization_id = ''az'', au_policy_ref = sample_reference, au_actions = [''pay''],
      au_created_at = ''t'', au_expires_at = ''t'',
      au_receipt = \<lparr>rcp_receipt_id = ''r'', rcp_ready_at_estimate = None, rcp_url = ''u''\<rparr>,
      au_provenance = PDict [], au_budget_limit_micros = Some 5, au_budget_spent_micros = None,
      au_replaced_authorization_id = None, au_revocation_receipt = None, au_billing_warning = None\<rparr>"

lemma sample_grant_parts:
  "authorization_body policy_env sample_grant_call = Inr
     ([(''user_id'', PStr ''u''), (''policy_id'', PStr ''p''), (''policy_version'', PInt 1),
       (''metadata'', PDict []), (''actions'', PList [PStr ''pay'']), (''budget_limit_micros'', PInt 5)],
      ''p'', 1, Some [''pay''])"
  "parse_authorization policy_env sample_grant_reply ''p'' 1 (Some [''pay'']) None = Inr sample_grant"
  by code_simp+

lemma sample_create_authorization:
  "outcome (create_authorization policy_env sample_client sample_grant_call) [sample_reply 201 sample_grant_reply]
   = Some (Inr sample_grant)"
  by (simp add: create_authorization_def sample_grant_parts request_with_headers_def send_request_def
      sample_reply_def perform_def handle_def decode_response_def is_success_def)

lemma granted_authorization_requested_witness:
  "au_actions sample_grant = [''pay''] \<and> is_policy_reference (au_policy_ref sample_grant)"
  using granted_authorization_requested[OF sample_create_authorization] by (simp add: sample_grant_def)

definition sample_options :: client_options where
  "sample_options =
     \<lparr>co_api_key = ''key'', co_base_url = ''https://a.io/'', co_check_timeout_ms = 200,
      co_fallback_by_action = [(''read'', ''fail_open'')], co_allow_insecure = False,
      co_edge_token = None, co_agent_token = PNone, co_agent_token_supplier = False\<rparr>"

lemma sample_new_client:
  "new_client sample_options = Inr
     (\<lparr>cl_api_key = ''key'', cl_edge_token = None, cl_agent_token = PNone, cl_has_supplier = False,
       cl_check_timeout = of_int 200 / 1000, cl_fallback_by_action = [(''read'', Fail_Open)]\<rparr>,
      ''https://a.io'', [(''Authorization'', ''Bearer key'')])"
proof -
  have "validate_base_url ''https://a.io/'' False = Inr ''https://a.io''" by code_simp
  then show ?thesis by (simp add: new_client_def sample_options_def validate_fallback_mode_def)
qed

lemma new_client_configured_witness:
  "\<exists>u. urlsplit ''https://a.io'' = Some u \<and> su_scheme u = ''https''"
  using new_client_configured[OF sample_new_client] by (auto simp: sample_options_def)

end
