(* ===== verification/Py_Query.thy ===== *)
theory Py_Query
  imports Py_Url Quote_Facts
begin

text \<open>
  \<open>parse_qsl\<close> and \<open>urlencode\<close> of \<open>urllib.parse\<close> on the query of a URL. Decoded text may hold any code
  point, so it is kept as its UTF-8 bytes; bytes that are no UTF-8 become U+FFFD, as the decoder's
  \<open>replace\<close> mode makes them. The main fact is the round trip of one encoded field.
\<close>

subsection \<open>Decoding UTF-8 with replacement\<close>

text \<open>What may follow a lead byte; \<open>None\<close> if the byte starts no sequence.\<close>

definition follow :: "char \<Rightarrow> (char \<Rightarrow> bool) list option" where
  "follow a =
     (if ord a < 128 then Some []
      else if between 194 223 a then Some [is_cont]
      else if ord a = 224 then Some [between 160 191, is_cont]
      else if ord a = 237 then Some [between 128 159, is_cont]
      else if between 225 239 a then Some [is_cont, is_cont]
      else if ord a = 240 then Some [between 144 191, is_cont, is_cont]
      else if between 241 243 a then Some [is_cont, is_cont, is_cont]
      else if ord a = 244 then Some [between 128 143, is_cont, is_cont]
      else None)"

fun matched :: "(char \<Rightarrow> bool) list \<Rightarrow> string \<Rightarrow> string" where
  "matched (p # ps) (c # cs) = (if p c then c # matched ps cs else [])"
| "matched _ _ = []"

definition replacement :: string where
  "replacement = map char_of [239, 191, 189 :: nat]"

text \<open>A broken sequence is replaced as far as it went.\<close>

function utf8_replace :: "string \<Rightarrow> string" where
  "utf8_replace [] = []"
| "utf8_replace (a # cs) =
     (case follow a of
        None \<Rightarrow> replacement @ utf8_replace cs
      | Some ps \<Rightarrow>
          (if length (matched ps cs) = length ps then a # matched ps cs else replacement)
          @ utf8_replace (drop (length (matched ps cs)) cs))"
  by pat_completeness auto
termination by (relation "measure length") auto

declare utf8_replace.simps(2) [simp del]

lemma matched_take: "matched ps (matched ps cs @ r) = matched ps cs" if "length (matched ps cs) = length ps"
  using that by (induction ps cs rule: matched.induct) auto

lemma utf8_replace_sequence:
  assumes "follow a = Some ps" and "length (matched ps cs) = length ps"
  shows "utf8_replace (a # matched ps cs @ r) = a # matched ps cs @ utf8_replace r"
  using assms by (subst utf8_replace.simps) (simp add: matched_take)

lemma utf8_replace_replacement: "utf8_replace (replacement @ r) = replacement @ utf8_replace r"
proof -
  have "follow (char_of (239 :: nat)) = Some [is_cont, is_cont]"
    by (simp add: follow_def char_class_defs ord_char_of)
  then show ?thesis
    using utf8_replace_sequence[of "char_of (239 :: nat)" _ "map char_of [191, 189 :: nat]" r]
    by (simp add: replacement_def char_class_defs ord_char_of)
qed

lemma utf8_replace_append: "utf8_replace (utf8_replace s @ r) = utf8_replace s @ utf8_replace r"
proof (induction s rule: utf8_replace.induct)
  case (2 a cs)
  show ?case
  proof (cases "follow a")
    case None
    then show ?thesis using 2(1) by (simp add: utf8_replace.simps(2)[of a cs] utf8_replace_replacement)
  next
    case (Some ps)
    then have "utf8_replace (a # cs) =
        (if length (matched ps cs) = length ps then a # matched ps cs else replacement)
        @ utf8_replace (drop (length (matched ps cs)) cs)"
      by (simp add: utf8_replace.simps(2)[of a cs])
    then show ?thesis using 2(2)[OF Some] utf8_replace_sequence[OF Some]
      by (auto simp: utf8_replace_replacement)
  qed
qed simp

lemma utf8_replace_idem [simp]: "utf8_replace (utf8_replace s) = utf8_replace s"
  using utf8_replace_append[of s "[]"] by simp

lemma utf8_replace_char:
  assumes "\<not> ord c < 128"
  shows "utf8_replace (utf8 [c] @ r) = utf8 [c] @ utf8_replace r"
proof -
  have "ord c div 64 \<in> {2, 3}"
    using assms ord_parts(3)[of c] by auto
  then have "follow (char_of (192 + ord c div 64)) = Some [is_cont]"
    by (auto simp: follow_def char_class_defs ord_char_of)
  moreover have "is_cont (char_of (128 + ord c mod 64))"
    using mod_less_divisor[of 64 "ord c"] by (simp add: char_class_defs ord_char_of)
  ultimately show ?thesis
    using utf8_replace_sequence[of "char_of (192 + ord c div 64)" _ "[char_of (128 + ord c mod 64)]" r] assms
    by (simp add: utf8_def)
qed

lemma utf8_replace_eq_Nil [simp]: "utf8_replace s = [] \<longleftrightarrow> s = []"
  by (cases s) (auto simp: utf8_replace.simps replacement_def split: option.splits)

subsection \<open>Query fields\<close>

text \<open>
  \<open>unquote(s, errors="replace")\<close>: runs of ASCII are decoded as a whole, other characters stay. The
  accumulator holds the current run.
\<close>

primrec unquote_runs :: "string \<Rightarrow> string \<Rightarrow> string" where
  "unquote_runs run [] = utf8_replace (percent_decode run)"
| "unquote_runs run (c # cs) =
     (if ord c < 128 then unquote_runs (run @ [c]) cs
      else utf8_replace (percent_decode run) @ utf8 [c] @ unquote_runs [] cs)"

definition form_text :: "string \<Rightarrow> string" where
  "form_text s = unquote_runs [] (map (\<lambda>c. if c = CHR ''+'' then CHR '' '' else c) s)"

definition parse_qsl :: "string \<Rightarrow> (string \<times> string) list" where
  "parse_qsl q =
     map (\<lambda>field. case partition_on (CHR ''='') field of (name, _, v) \<Rightarrow> (form_text name, form_text v))
       (filter (\<lambda>field. field \<noteq> []) (split_on (CHR ''&'') q))"

definition plus_char :: "char \<Rightarrow> string" where
  "plus_char c = (if c = CHR '' '' then ''+'' else quote_char c)"

definition quote_plus :: "string \<Rightarrow> string" where
  \<comment> \<open>of text given as its UTF-8 bytes\<close>
  "quote_plus bytes = concat (map plus_char bytes)"

subsection \<open>One field, written and read\<close>

lemma unquote_runs_ascii: "list_all (\<lambda>c. ord c < 128) s \<Longrightarrow> unquote_runs run s = utf8_replace (percent_decode (run @ s))"
  by (induction s arbitrary: run) auto

lemma quote_plus_chars: "x \<in> set (quote_plus t) \<Longrightarrow> is_unreserved x \<or> x = CHR ''%'' \<or> x = CHR ''+''"
  by (auto simp: quote_plus_def plus_char_def split: if_splits dest: quote_char_chars)

lemma unreserved_plain: "is_unreserved x \<Longrightarrow> ord x < 128 \<and> x \<notin> set ''&=#?/+ ''"
  by (auto simp: is_unreserved_def char_class_defs)

lemma quote_plus_plain:
  "list_all (\<lambda>c. ord c < 128) (quote_plus t)"
  "CHR ''&'' \<notin> set (quote_plus t)" "CHR ''='' \<notin> set (quote_plus t)" "CHR ''#'' \<notin> set (quote_plus t)"
  using quote_plus_chars[of _ t] unreserved_plain by (fastforce simp: list_all_iff)+

lemma quote_plus_visible: "c \<in> set (quote_plus t) \<Longrightarrow> 32 < ord c"
  using quote_plus_chars[of c t] by (auto simp: is_unreserved_def char_class_defs)

lemma percent_decode_plus:
  "percent_decode (map (\<lambda>c. if c = CHR ''+'' then CHR '' '' else c) (quote_plus t)) = t"
proof (induction t)
  case (Cons c t)
  have "map (\<lambda>c. if c = CHR ''+'' then CHR '' '' else c) (quote_char c) = quote_char c"
    using quote_char_chars[of _ c] unreserved_plain by (intro map_idI) fastforce
  with Cons show ?case
    by (auto simp: quote_plus_def plus_char_def percent_decode_quote_char percent_decode_other)
qed (simp add: quote_plus_def)

lemma form_text_quote_plus: "form_text (quote_plus t) = utf8_replace t"
proof -
  have "list_all (\<lambda>c. ord c < 128) (map (\<lambda>c. if c = CHR ''+'' then CHR '' '' else c) (quote_plus t))"
    using quote_plus_plain(1)[of t] by (auto simp: list_all_iff)
  then show ?thesis by (simp add: form_text_def unquote_runs_ascii percent_decode_plus)
qed

lemma split_on_absent: "c \<notin> set s \<Longrightarrow> split_on c s = [s]"
  by (induction s) auto

lemma partition_on_prefix: "c \<notin> set a \<Longrightarrow> partition_on c (a @ c # b) = (a, True, b)"
  by (induction a) auto

lemma partition_on_absent: "c \<notin> set s \<Longrightarrow> partition_on c s = (s, False, [])"
  by (induction s) auto

lemma parse_qsl_field:
  assumes "CHR ''&'' \<notin> set name" and "CHR ''='' \<notin> set name"
  shows "parse_qsl (name @ CHR ''='' # quote_plus t) = [(form_text name, utf8_replace t)]"
proof -
  have "split_on (CHR ''&'') (name @ CHR ''='' # quote_plus t) = [name @ CHR ''='' # quote_plus t]"
    using assms(1) quote_plus_plain(2)[of t] by (intro split_on_absent) auto
  then show ?thesis by (simp add: parse_qsl_def partition_on_prefix[OF assms(2)] form_text_quote_plus)
qed

lemma unquote_runs_settled: "utf8_replace (unquote_runs run s) = unquote_runs run s"
  by (induction s arbitrary: run) (simp_all add: utf8_replace_append utf8_replace_char)

lemma form_text_settled: "utf8_replace (form_text s) = form_text s"
  by (simp add: form_text_def unquote_runs_settled)

text \<open>So the fields of any query, written again one by one, read back as they were.\<close>

lemma parse_qsl_settled: "(k, v) \<in> set (parse_qsl q) \<Longrightarrow> utf8_replace v = v"
  by (auto simp: parse_qsl_def form_text_settled split: prod.splits)

end
