(* ===== verification/Seal_Webhook.thy ===== *)
theory Seal_Webhook
  imports Sdk_Transport Wire_Readers Py_Json Py_Query
begin

text \<open>
  \<open>allowly/seal_webhook.py\<close>: the client of one private SEAL webhook URL. The URL is its only
  credential; the constructor reduces it to an origin and a canonical query that carries the token.
  The facts: a canonical URL validates to itself, and a delivery the client returns is the requested
  one, with its receipt, workspace and metadata bound together.
\<close>

subsection \<open>The URL\<close>

text \<open>\<open>urlparse(url).path\<close>: parameters of the last segment are split off and not looked at.\<close>

definition strip_params :: "string \<Rightarrow> string" where
  "strip_params p =
     (let segment = rev (takeWhile (\<lambda>c. c \<noteq> CHR ''/'') (rev p)) in
      take (length p - length segment) p @ takeWhile (\<lambda>c. c \<noteq> CHR '';'') segment)"

definition webhook_endpoint :: string where
  "webhook_endpoint = ''/v1/seal/webhooks''"

definition token_query :: "string \<Rightarrow> string" where
  "token_query token = ''token'' @ CHR ''='' # quote_plus token"

definition validate_webhook_url :: "pyval \<Rightarrow> bool \<Rightarrow> (string \<times> string \<times> string) res" where
  "validate_webhook_url v allow_insecure =
     (case v of
        PStr url \<Rightarrow>
          (case urlsplit url of
             None \<Rightarrow> Inl (ValueError ''Invalid IPv6 URL'')
           | Some parsed \<Rightarrow>
               (if su_scheme parsed \<notin> {''http'', ''https''} \<or> su_netloc parsed = []
                then Inl (ValueError ''webhook_url must be a valid HTTP or HTTPS URL'')
                else if su_scheme parsed \<noteq> ''https'' \<and> \<not> allow_insecure
                then Inl (ValueError ''webhook_url must use HTTPS'')
                else if user_info parsed \<noteq> None \<or> su_fragment parsed \<noteq> []
                then Inl (ValueError ''webhook_url must not contain user info or a fragment'')
                else if strip_params (su_path parsed) \<noteq> webhook_endpoint
                then Inl (ValueError ''webhook_url must use the SEAL webhook endpoint'')
                else case parse_qsl (su_query parsed) of
                  [(name, token)] \<Rightarrow>
                    (if name \<noteq> ''token'' \<or> token = []
                     then Inl (ValueError ''webhook_url must contain exactly one non-empty token'')
                     else let origin = su_scheme parsed @ ''://'' @ su_netloc parsed;
                              query = token_query token in
                          Inr (origin @ webhook_endpoint @ ''?'' @ query, origin, query))
                | _ \<Rightarrow> Inl (ValueError ''webhook_url must contain exactly one non-empty token'')))
      | _ \<Rightarrow> Inl (TypeError ''webhook_url must be a string''))"

record seal_webhook_client =
  sw_webhook_url :: string
  sw_origin :: string
  sw_query :: string

definition new_seal_webhook_client :: "pyval \<Rightarrow> pyfloat \<Rightarrow> bool \<Rightarrow> seal_webhook_client res" where
  "new_seal_webhook_client webhook_url timeout allow_insecure =
     bindr (validate_webhook_url webhook_url allow_insecure) (\<lambda>(url, origin, query).
     if float_le timeout (Fin 0) then Inl (ValueError ''timeout must be positive'')
     else Inr \<lparr>sw_webhook_url = url, sw_origin = origin, sw_query = query\<rparr>)"

definition webhook_url_for :: "seal_webhook_client \<Rightarrow> string \<Rightarrow> string" where
  "webhook_url_for W pth = sw_origin W @ pth @ ''?'' @ sw_query W"

subsection \<open>Requests\<close>

text \<open>\<open>str(v)\<close> of a decoded JSON value; bytes and other objects do not occur there.\<close>

fun py_repr :: "sdk_env \<Rightarrow> pyval \<Rightarrow> string" where
  "py_repr E PNone = ''None''"
| "py_repr E (PBool b) = (if b then ''True'' else ''False'')"
| "py_repr E (PInt i) = int_str i"
| "py_repr E (PFloat x) =
     (case x of Fin q \<Rightarrow> float_repr E q | Pos_Inf \<Rightarrow> ''inf'' | Neg_Inf \<Rightarrow> ''-inf'' | Nan \<Rightarrow> ''nan'')"
| "py_repr E (PStr s) = repr_str s"
| "py_repr E (PList xs) = ''['' @ join_with '', '' (map (py_repr E) xs) @ '']''"
| "py_repr E (PDict d) = ''{'' @ join_with '', '' (map (\<lambda>(k, v). repr_str k @ '': '' @ py_repr E v) d) @ ''}''"
| "py_repr E (PBytes s) = []"
| "py_repr E (PObj i) = []"

definition py_str :: "sdk_env \<Rightarrow> pyval \<Rightarrow> string" where
  "py_str E v = (case v of PStr s \<Rightarrow> s | _ \<Rightarrow> py_repr E v)"

definition webhook_error_fields :: "sdk_env \<Rightarrow> pyval \<Rightarrow> field_error list" where
  "webhook_error_fields E raw_fields =
     concat (map (\<lambda>item. case item of
         PDict d \<Rightarrow> [\<lparr>fe_field = py_str E (dget_or d ''field'' (PStr [])),
                     fe_message = py_str E (dget_or d ''message'' (PStr []))\<rparr>]
       | _ \<Rightarrow> []) (case raw_fields of PList items \<Rightarrow> items | _ \<Rightarrow> []))"

definition webhook_response_error :: "sdk_env \<Rightarrow> http_response \<Rightarrow> exn" where
  "webhook_response_error E resp =
     (let err = error_object (case rs_json resp of None \<Rightarrow> PDict [] | Some v \<Rightarrow> v) in
      ApiError (allowly_api_error (rs_status resp)
        (dget_or err ''code'' (PStr ''error'')) (dget_or err ''message'' (PStr ''Unknown error''))
        (Some (webhook_error_fields E (dget err ''fields'')))
        (parse_retry_after E (header_get (rs_headers resp) ''Retry-After''))))"

definition decode_webhook_response :: "sdk_env \<Rightarrow> int list \<Rightarrow> http_response \<Rightarrow> pyval res" where
  "decode_webhook_response E expected resp =
     (if is_success resp \<and> rs_status resp \<notin> set expected
      then Inl (ProtocolError (''unexpected successful HTTP status: '' @ int_str (rs_status resp)))
      else if \<not> is_success resp then Inl (webhook_response_error E resp)
      else case rs_json resp of
        None \<Rightarrow> Inl (ProtocolError ''successful SEAL webhook response must be valid JSON'')
      | Some data \<Rightarrow> Inr data)"

text \<open>A transport exception can hold the URL with its token, so it is replaced.\<close>

definition webhook_request ::
  "sdk_env \<Rightarrow> string \<Rightarrow> string \<Rightarrow> string \<Rightarrow> (string \<times> string) list \<Rightarrow> int list \<Rightarrow> pyval prog" where
  "webhook_request E method url content headers expected =
     bindp
       (handle (perform (Webhook_Request method url content headers) as_response)
          (\<lambda>e. raise (if is_transport_error e then ProtocolError ''SEAL webhook request failed'' else e)))
       (\<lambda>resp. Done (decode_webhook_response E expected resp))"

subsection \<open>Deliveries\<close>

datatype seal_webhook_status = Seal_Received | Seal_Signing | Seal_Sealed | Seal_Rejected | Seal_Failed

definition seal_webhook_status_of :: "string \<Rightarrow> seal_webhook_status option" where
  "seal_webhook_status_of =
     map_of [(''received'', Seal_Received), (''signing'', Seal_Signing), (''sealed'', Seal_Sealed),
             (''rejected'', Seal_Rejected), (''failed'', Seal_Failed)]"

record seal_webhook_delivery =
  sd_attempt_id :: string
  sd_workspace_id :: string
  sd_status :: seal_webhook_status
  sd_received_at :: string
  sd_updated_at :: string
  sd_profile :: string
  sd_record_sha256 :: "string option"
  sd_metadata :: "pydict option"
  sd_receipt_id :: "string option"
  sd_error_code :: "string option"
  sd_status_url :: string
  sd_receipt_url :: "string option"
  sd_keys_url :: string
  sd_receipt :: "pydict option"

definition seal_str :: "pydict \<Rightarrow> string \<Rightarrow> string res" where
  "seal_str raw key =
     (case dget raw key of
        PStr (c # s) \<Rightarrow> Inr (c # s)
      | _ \<Rightarrow> Inl (ProtocolError (''SEAL webhook response '' @ key @ '' must be a non-empty string'')))"

definition seal_optional_str :: "pydict \<Rightarrow> string \<Rightarrow> string option res" where
  "seal_optional_str raw key =
     (case dget raw key of
        PNone \<Rightarrow> Inr None
      | PStr s \<Rightarrow> Inr (Some s)
      | _ \<Rightarrow> Inl (ProtocolError (''SEAL webhook response '' @ key @ '' must be a string or null'')))"

definition seal_optional_dict :: "pydict \<Rightarrow> string \<Rightarrow> pydict option res" where
  "seal_optional_dict raw key =
     (if dget raw key = PNone then Inr None
      else bindr (require_dict (dget raw key) (''SEAL webhook response '' @ key)) (\<lambda>d. Inr (Some d)))"

definition seal_optional_metadata :: "pyval \<Rightarrow> string \<Rightarrow> pydict option res" where
  "seal_optional_metadata v name =
     (if v = PNone then Inr None
      else
        bindr (require_dict v name) (\<lambda>metadata.
        if \<exists>(k, item) \<in> set metadata. as_string item = None
        then Inl (ProtocolError (name @ '' must contain only string values''))
        else Inr (Some metadata)))"

text \<open>What the receipt of a delivery must say; the result is the signed metadata.\<close>

definition signed_seal_metadata :: "pydict option \<Rightarrow> pyval" where
  "signed_seal_metadata context =
     (case context of None \<Rightarrow> PNone | Some c \<Rightarrow> dget c ''seal_metadata'')"

definition check_seal_receipt ::
  "sdk_env \<Rightarrow> pydict \<Rightarrow> string option \<Rightarrow> string \<Rightarrow> pydict option \<Rightarrow> pydict option res" where
  "check_seal_receipt E receipt receipt_id workspace_id metadata =
     bindr (map_exn (verification_to_protocol ''invalid SEAL webhook receipt: '') (decode_receipt E (PDict receipt)))
       (\<lambda>claims.
     if receipt_id = None \<or> dget claims ''receipt_id'' \<noteq> opt_str receipt_id
     then Inl (ProtocolError ''SEAL webhook receipt_id binding does not match'')
     else if dget claims ''workspace_id'' \<noteq> PStr workspace_id
     then Inl (ProtocolError ''SEAL webhook workspace_id binding does not match'')
     else
     bindr (seal_optional_dict claims ''context'') (\<lambda>context.
     bindr (seal_optional_metadata (signed_seal_metadata context) ''signed SEAL receipt metadata'')
       (\<lambda>signed.
     if (case (metadata, signed) of
           (None, _) \<Rightarrow> False
         | (Some m, None) \<Rightarrow> True
         | (Some m, Some s) \<Rightarrow> \<not> py_eq (PDict m) (PDict s))
     then Inl (ProtocolError ''SEAL webhook response metadata does not match the signed receipt'')
     else Inr signed)))"

definition seal_webhook_profile :: string where
  "seal_webhook_profile = ''allowly.seal.jcs-sha256.v1''"

definition parse_seal_delivery :: "sdk_env \<Rightarrow> pyval \<Rightarrow> seal_webhook_delivery res" where
  "parse_seal_delivery E v =
     bindr (require_dict v ''SEAL webhook delivery response'') (\<lambda>raw.
     bindr (seal_str raw ''status'') (\<lambda>raw_status.
     case seal_webhook_status_of raw_status of
       None \<Rightarrow> Inl (ProtocolError (''unknown SEAL webhook status: '' @ repr_str raw_status))
     | Some status \<Rightarrow>
     bindr (seal_str raw ''profile'') (\<lambda>profile.
     if profile \<noteq> seal_webhook_profile
     then Inl (ProtocolError ''SEAL webhook response has an unknown profile'')
     else
     bindr (seal_optional_dict raw ''receipt'') (\<lambda>receipt.
     bindr (seal_optional_metadata (dget raw ''metadata'') ''SEAL webhook response metadata'') (\<lambda>metadata.
     bindr (seal_optional_str raw ''receipt_id'') (\<lambda>receipt_id.
     bindr (seal_str raw ''workspace_id'') (\<lambda>workspace_id.
     bindr (case receipt of None \<Rightarrow> Inr metadata
            | Some r \<Rightarrow> check_seal_receipt E r receipt_id workspace_id metadata) (\<lambda>metadata.
     bindr (seal_str raw ''attempt_id'') (\<lambda>attempt_id.
     bindr (seal_str raw ''received_at'') (\<lambda>received_at.
     bindr (seal_str raw ''updated_at'') (\<lambda>updated_at.
     bindr (seal_optional_str raw ''record_sha256'') (\<lambda>record_sha256.
     bindr (seal_optional_str raw ''error_code'') (\<lambda>error_code.
     bindr (seal_str raw ''status_url'') (\<lambda>status_url.
     bindr (seal_optional_str raw ''receipt_url'') (\<lambda>receipt_url.
     bindr (seal_str raw ''keys_url'') (\<lambda>keys_url.
     Inr \<lparr>sd_attempt_id = attempt_id, sd_workspace_id = workspace_id, sd_status = status,
          sd_received_at = received_at, sd_updated_at = updated_at, sd_profile = profile,
          sd_record_sha256 = record_sha256, sd_metadata = metadata, sd_receipt_id = receipt_id,
          sd_error_code = error_code, sd_status_url = status_url, sd_receipt_url = receipt_url,
          sd_keys_url = keys_url, sd_receipt = receipt\<rparr>))))))))))))))))"

subsection \<open>Operations\<close>

text \<open>One of the optional \<open>Allowly-Seal-\<close> headers.\<close>

definition seal_detail :: "string \<Rightarrow> pyval \<Rightarrow> (string \<times> string) list res" where
  "seal_detail name v =
     (case v of
        PNone \<Rightarrow> Inr []
      | PStr s \<Rightarrow>
          (if \<not> list_all (between 32 126) s
           then Inl (ValueError (str_lower name @ '' must contain printable ASCII only''))
           else if 256 < int (length s)
           then Inl (ValueError (str_lower name @ '' must be at most 256 characters''))
           else if s \<noteq> strip s
           then Inl (ValueError (str_lower name @ '' must not contain leading or trailing whitespace''))
           else Inr [(''Allowly-Seal-'' @ name, s)])
      | _ \<Rightarrow> Inl (TypeError (str_lower name @ '' must be a string'')))"

definition record_content :: "pyval \<Rightarrow> string res" where
  "record_content v =
     (case v of PStr s \<Rightarrow> Inr (utf8 s) | PBytes b \<Rightarrow> Inr b
      | _ \<Rightarrow> Inl (TypeError ''record_json must be str or bytes''))"

definition webhook_send_headers ::
  "string option \<Rightarrow> pyval \<Rightarrow> pyval \<Rightarrow> pyval \<Rightarrow> (string \<times> string) list res" where
  "webhook_send_headers idempotency_key kind reference statement =
     bindr (seal_detail ''Type'' kind) (\<lambda>t.
     bindr (seal_detail ''Reference'' reference) (\<lambda>r.
     bindr (seal_detail ''Statement'' statement) (\<lambda>s.
     Inr ((''Content-Type'', ''application/json'')
          # (case idempotency_key of None \<Rightarrow> [] | Some k \<Rightarrow> [(''Idempotency-Key'', k)]) @ t @ r @ s))))"

definition webhook_send ::
  "sdk_env \<Rightarrow> seal_webhook_client \<Rightarrow> pyval \<Rightarrow> string option \<Rightarrow> pyval \<Rightarrow> pyval \<Rightarrow> pyval \<Rightarrow> seal_webhook_delivery prog" where
  "webhook_send E W record_json idempotency_key kind reference statement =
     bindp (Done (record_content record_json)) (\<lambda>content.
     bindp (Done (webhook_send_headers idempotency_key kind reference statement)) (\<lambda>headers.
     bindp (webhook_request E ''POST'' (sw_webhook_url W) content headers [200, 202]) (\<lambda>raw.
     Done (parse_seal_delivery E raw))))"

definition get_seal_delivery :: "sdk_env \<Rightarrow> seal_webhook_client \<Rightarrow> string \<Rightarrow> seal_webhook_delivery prog" where
  "get_seal_delivery E W attempt_id =
     bindp (webhook_request E ''GET'' (webhook_url_for W (''/v1/seal/webhooks/deliveries/'' @ quote attempt_id))
              [] [] [200]) (\<lambda>raw.
     bindp (Done (parse_seal_delivery E raw)) (\<lambda>delivery.
     if sd_attempt_id delivery \<noteq> attempt_id
     then raise (ProtocolError ''SEAL webhook response attempt_id does not match the request'')
     else return delivery))"

definition get_seal_receipt :: "sdk_env \<Rightarrow> seal_webhook_client \<Rightarrow> string \<Rightarrow> seal_webhook_delivery prog" where
  "get_seal_receipt E W receipt_id =
     bindp (webhook_request E ''GET'' (webhook_url_for W (''/v1/seal/webhooks/receipts/'' @ quote receipt_id))
              [] [] [200]) (\<lambda>raw.
     bindp (Done (parse_seal_delivery E raw)) (\<lambda>delivery.
     if sd_receipt_id delivery \<noteq> Some receipt_id
     then raise (ProtocolError ''SEAL webhook response receipt_id does not match the request'')
     else return delivery))"

definition get_seal_keys :: "sdk_env \<Rightarrow> seal_webhook_client \<Rightarrow> pydict prog" where
  "get_seal_keys E W =
     bindp (webhook_request E ''GET'' (webhook_url_for W ''/v1/seal/webhooks/keys'') [] [] [200]) (\<lambda>raw.
     Done (require_dict raw ''SEAL webhook keys response''))"

subsection \<open>The canonical URL\<close>

lemma partition_on_parts:
  "partition_on c s = (a, b, r) \<Longrightarrow> set a \<subseteq> set s \<and> set r \<subseteq> set s \<and> c \<notin> set a"
  by (induction c s arbitrary: a b r rule: partition_on.induct) (fastforce split: prod.splits if_splits)+

definition plain_netloc :: "string \<Rightarrow> bool" where
  "plain_netloc n \<longleftrightarrow> (\<forall>c \<in> set n. c \<notin> set ''/?#'' \<and> ord c \<notin> {9, 10, 13})
     \<and> (CHR ''['' \<in> set n \<longleftrightarrow> CHR '']'' \<in> set n)"

lemma split_netloc_plain:
  assumes "split_netloc s = (n, r)"
  shows "set n \<subseteq> set s \<and> (\<forall>c \<in> set n. c \<notin> set ''/?#'')"
  using assms by (auto simp: split_netloc_def Let_def dest!: set_takeWhileD in_set_dropD split: if_splits)

lemma urlsplit_netloc:
  assumes "urlsplit url = Some u"
  shows "plain_netloc (su_netloc u)"
proof -
  define s where "s = filter (\<lambda>c. ord c \<notin> {9, 10, 13}) (dropWhile (\<lambda>c. ord c \<le> 32) url)"
  obtain scheme r where scheme: "split_scheme s = (scheme, r)" by (cases "split_scheme s")
  obtain n r' where n: "split_netloc r = (n, r')" by (cases "split_netloc r")
  have "set r \<subseteq> set s"
    using scheme by (auto simp: split_scheme_def split: prod.splits if_splits dest: partition_on_parts)
  with split_netloc_plain[OF n] have chars: "\<forall>c \<in> set n. c \<notin> set ''/?#'' \<and> c \<in> set s" by blast
  then have "\<forall>c \<in> set n. c \<notin> set ''/?#'' \<and> ord c \<notin> {9, 10, 13}" by (auto simp: s_def)
  moreover from assms have "su_netloc u = n" "CHR ''['' \<in> set n \<longleftrightarrow> CHR '']'' \<in> set n"
    unfolding urlsplit_def Let_def s_def[symmetric] scheme n prod.case
    by (auto split: prod.splits if_splits)
  ultimately show ?thesis by (simp add: plain_netloc_def)
qed

lemma until_path:
  assumes "\<forall>c \<in> set n. c \<notin> set ''/?#''"
  shows "takeWhile (\<lambda>c. c \<notin> {CHR ''/'', CHR ''?'', CHR ''#''}) (n @ CHR ''/'' # r) = n"
    and "dropWhile (\<lambda>c. c \<notin> {CHR ''/'', CHR ''?'', CHR ''#''}) (n @ CHR ''/'' # r) = CHR ''/'' # r"
  using assms by (induction n) auto

lemma urlsplit_canonical:
  assumes "scheme \<in> {''http'', ''https''}" and "plain_netloc n"
  shows "urlsplit (scheme @ ''://'' @ n @ webhook_endpoint @ ''?'' @ token_query token) =
    Some \<lparr>su_scheme = scheme, su_netloc = n, su_path = webhook_endpoint, su_query = token_query token,
          su_fragment = []\<rparr>"
proof -
  have query: "CHR ''#'' \<notin> set (token_query token)" "\<forall>c \<in> set (token_query token). ord c \<notin> {9, 10, 13}"
    using quote_plus_plain(4)[of token] quote_plus_visible[of _ token]
    by (fastforce simp: token_query_def)+
  have rest: "filter (\<lambda>c. ord c \<notin> {9, 10, 13}) (n @ webhook_endpoint @ ''?'' @ token_query token)
      = n @ webhook_endpoint @ ''?'' @ token_query token"
    using assms(2) query(2) by (intro filter_True) (auto simp: plain_netloc_def webhook_endpoint_def)
  have cleaned: "filter (\<lambda>c. ord c \<notin> {9, 10, 13}) (dropWhile (\<lambda>c. ord c \<le> 32)
      (scheme @ ''://'' @ n @ webhook_endpoint @ ''?'' @ token_query token))
      = scheme @ ''://'' @ n @ webhook_endpoint @ ''?'' @ token_query token"
    using assms(1) rest by auto
  have scheme: "split_scheme (scheme @ ''://'' @ n @ t) = (scheme, ''//'' @ n @ t)" for t
    using assms(1) by (auto simp: split_scheme_def is_scheme_char_def char_class_defs str_lower_def lower_char_def)
  have "\<forall>c \<in> set n. c \<notin> set ''/?#''" using assms(2) by (simp add: plain_netloc_def)
  then have netloc: "split_netloc (''//'' @ n @ webhook_endpoint @ t) = (n, webhook_endpoint @ t)" for t
    using until_path[of n "tl webhook_endpoint @ t"]
    by (simp add: split_netloc_def starts_with_iff webhook_endpoint_def Let_def)
  have "CHR ''#'' \<notin> set (webhook_endpoint @ ''?'' @ token_query token)"
    using query(1) by (simp add: webhook_endpoint_def)
  then have fragment: "partition_on (CHR ''#'') (webhook_endpoint @ ''?'' @ token_query token)
      = (webhook_endpoint @ ''?'' @ token_query token, False, [])"
    by (rule partition_on_absent)
  have "partition_on (CHR ''?'') (webhook_endpoint @ ''?'' @ token_query token)
      = (webhook_endpoint, True, token_query token)"
    using partition_on_prefix[of "CHR ''?''" webhook_endpoint] by (simp add: webhook_endpoint_def)
  with scheme netloc fragment assms(2) show ?thesis
    unfolding urlsplit_def Let_def cleaned by (simp add: plain_netloc_def)
qed

lemma token_query_reads: "parse_qsl (token_query token) = [(''token'', utf8_replace token)]"
proof -
  have "form_text ''token'' = ''token''" by code_simp
  with parse_qsl_field[of "''token''" token] show ?thesis by (simp add: token_query_def)
qed

lemma validate_webhook_url_ok:
  assumes "validate_webhook_url v insecure = Inr (url, origin, query)"
  shows "\<exists>text parsed token. v = PStr text \<and> urlsplit text = Some parsed
    \<and> parse_qsl (su_query parsed) = [(''token'', token)] \<and> token \<noteq> []
    \<and> su_scheme parsed \<in> {''http'', ''https''} \<and> (su_scheme parsed = ''https'' \<or> insecure)
    \<and> su_netloc parsed \<noteq> [] \<and> CHR ''@'' \<notin> set (su_netloc parsed)
    \<and> origin = su_scheme parsed @ ''://'' @ su_netloc parsed \<and> query = token_query token
    \<and> url = origin @ webhook_endpoint @ ''?'' @ query"
  using assms
  by (auto simp: validate_webhook_url_def user_info_def Let_def
      split: pyval.splits option.splits if_splits list.splits prod.splits)

lemma strip_params_endpoint: "strip_params webhook_endpoint = webhook_endpoint"
  by code_simp

text \<open>
  C37: a webhook client keeps the token and nothing else of its URL. What the constructor accepts has
  HTTPS unless the insecure option was given, no user information and the exact endpoint; the query
  it keeps reads back as the one token the caller's URL carried; and the URL it builds is canonical:
  validating it again gives the same URL, origin and query.
\<close>

theorem webhook_url_canonical:
  assumes "new_seal_webhook_client v timeout insecure = Inr W"
  shows "\<exists>text parsed token. v = PStr text \<and> urlsplit text = Some parsed
    \<and> parse_qsl (su_query parsed) = [(''token'', token)] \<and> token \<noteq> []
    \<and> parse_qsl (sw_query W) = [(''token'', token)]
    \<and> sw_origin W = su_scheme parsed @ ''://'' @ su_netloc parsed \<and> CHR ''@'' \<notin> set (su_netloc parsed)
    \<and> (su_scheme parsed = ''https'' \<or> insecure \<and> su_scheme parsed = ''http'')
    \<and> sw_webhook_url W = sw_origin W @ webhook_endpoint @ ''?'' @ sw_query W
    \<and> new_seal_webhook_client (PStr (sw_webhook_url W)) timeout insecure = Inr W"
proof -
  from assms have valid: "validate_webhook_url v insecure = Inr (sw_webhook_url W, sw_origin W, sw_query W)"
    and positive: "\<not> float_le timeout (Fin 0)"
    by (auto simp: new_seal_webhook_client_def split: if_splits prod.splits)
  from validate_webhook_url_ok[OF valid] obtain given parsed token where source: "v = PStr given"
    "urlsplit given = Some parsed" "parse_qsl (su_query parsed) = [(''token'', token)]" "token \<noteq> []"
    and scheme: "su_scheme parsed \<in> {''http'', ''https''}" "su_scheme parsed = ''https'' \<or> insecure"
    and netloc: "su_netloc parsed \<noteq> []" "CHR ''@'' \<notin> set (su_netloc parsed)"
    and built: "sw_origin W = su_scheme parsed @ ''://'' @ su_netloc parsed" "sw_query W = token_query token"
      "sw_webhook_url W = sw_origin W @ webhook_endpoint @ ''?'' @ sw_query W"
    by blast
  have settled: "utf8_replace token = token" 
    using parse_qsl_settled[of "''token''" token "su_query parsed"] source(3) by simp
  have "urlsplit (sw_webhook_url W) = Some \<lparr>su_scheme = su_scheme parsed, su_netloc = su_netloc parsed,
      su_path = webhook_endpoint, su_query = token_query token, su_fragment = []\<rparr>"
    using urlsplit_canonical[OF scheme(1) urlsplit_netloc[OF source(2)]] built by simp
  then have "validate_webhook_url (PStr (sw_webhook_url W)) insecure
      = Inr (sw_webhook_url W, sw_origin W, sw_query W)"
    using scheme netloc source(4) built settled
    by (simp add: validate_webhook_url_def user_info_def strip_params_endpoint token_query_reads Let_def)
  then have "new_seal_webhook_client (PStr (sw_webhook_url W)) timeout insecure = Inr W"
    using positive by (simp add: new_seal_webhook_client_def)
  with source scheme netloc built settled show ?thesis
    by (intro exI[of _ given] exI[of _ parsed] exI[of _ token]) (auto simp: token_query_reads)
qed

subsection \<open>Deliveries are bound to their receipts\<close>

definition delivery_bound :: "sdk_env \<Rightarrow> seal_webhook_delivery \<Rightarrow> bool" where
  "delivery_bound E d =
     (case sd_receipt d of
        None \<Rightarrow> True
      | Some receipt \<Rightarrow>
          (case decode_receipt E (PDict receipt) of
             Inl e \<Rightarrow> False
           | Inr claims \<Rightarrow>
               sd_receipt_id d \<noteq> None \<and> dget claims ''receipt_id'' = opt_str (sd_receipt_id d)
               \<and> dget claims ''workspace_id'' = PStr (sd_workspace_id d)
               \<and> (case sd_metadata d of
                    None \<Rightarrow> \<forall>c. dget claims ''context'' = PDict c \<longrightarrow> dget c ''seal_metadata'' = PNone
                  | Some m \<Rightarrow> \<exists>c. dget claims ''context'' = PDict c \<and> dget c ''seal_metadata'' = PDict m)))"

lemma seal_optional_dict_ok:
  "seal_optional_dict raw key = Inr d \<longleftrightarrow>
     (case d of None \<Rightarrow> dget raw key = PNone | Some d' \<Rightarrow> dget raw key = PDict d')"
  by (auto simp: seal_optional_dict_def split: option.splits)

lemma seal_optional_metadata_ok:
  "seal_optional_metadata v name = Inr m \<Longrightarrow> (case m of None \<Rightarrow> v = PNone | Some d \<Rightarrow> v = PDict d)"
  by (auto simp: seal_optional_metadata_def split: if_splits)

lemma check_seal_receipt_ok:
  assumes "check_seal_receipt E receipt receipt_id workspace_id metadata = Inr signed"
  shows "\<exists>claims. decode_receipt E (PDict receipt) = Inr claims
    \<and> receipt_id \<noteq> None \<and> dget claims ''receipt_id'' = opt_str receipt_id
    \<and> dget claims ''workspace_id'' = PStr workspace_id
    \<and> (case signed of
         None \<Rightarrow> \<forall>c. dget claims ''context'' = PDict c \<longrightarrow> dget c ''seal_metadata'' = PNone
       | Some m \<Rightarrow> \<exists>c. dget claims ''context'' = PDict c \<and> dget c ''seal_metadata'' = PDict m)"
proof -
  from assms obtain claims ctxt where claims: "decode_receipt E (PDict receipt) = Inr claims"
    "\<not> (receipt_id = None \<or> dget claims ''receipt_id'' \<noteq> opt_str receipt_id)"
    "\<not> dget claims ''workspace_id'' \<noteq> PStr workspace_id"
    and ctx: "seal_optional_dict claims ''context'' = Inr ctxt"
    and signed: "seal_optional_metadata (signed_seal_metadata ctxt) ''signed SEAL receipt metadata'' = Inr signed"
    unfolding check_seal_receipt_def by (elim result_elims) auto
  show ?thesis
    using claims ctx seal_optional_metadata_ok[OF signed]
    by (auto simp: seal_optional_dict_ok signed_seal_metadata_def split: option.splits)
qed

lemma parse_seal_delivery_bound:
  assumes "parse_seal_delivery E v = Inr d"
  shows "delivery_bound E d \<and> sd_profile d = seal_webhook_profile"
proof -
  from assms obtain receipt receipt_id workspace_id metadata signed where checked:
    "(case receipt of None \<Rightarrow> Inr metadata
      | Some r \<Rightarrow> check_seal_receipt E r receipt_id workspace_id metadata) = Inr signed"
    and d: "sd_receipt d = receipt" "sd_receipt_id d = receipt_id" "sd_workspace_id d = workspace_id"
      "sd_metadata d = signed" "sd_profile d = seal_webhook_profile"
    unfolding parse_seal_delivery_def by (elim result_elims) (rule that, assumption, auto)
  then show ?thesis
    using check_seal_receipt_ok[of E _ receipt_id workspace_id metadata signed]
    by (cases receipt) (fastforce simp: delivery_bound_def)+
qed

text \<open>A request of the webhook client, as it went out, and the answer the client took.\<close>

definition webhook_answered :: "string \<Rightarrow> string \<Rightarrow> int set \<Rightarrow> (eff \<times> ans) list \<Rightarrow> bool" where
  "webhook_answered method url statuses es \<longleftrightarrow>
     (\<exists>content headers resp. (Webhook_Request method url content headers, A_Response resp) \<in> set es
        \<and> rs_status resp \<in> statuses)"

lemma webhook_request_ok:
  assumes "outcome (bindp (webhook_request E method url content headers expected) f) as = Some (Inr x)"
  shows "\<exists>raw as'. outcome (f raw) as' = Some (Inr x)
    \<and> webhook_answered method url (set expected)
        (events (bindp (webhook_request E method url content headers expected) f) as)"
proof (cases as)
  case Nil
  then show ?thesis using assms by (simp add: webhook_request_def handle_def perform_def)
next
  case (Cons a as')
  with assms obtain resp raw where "a = A_Response resp" "decode_webhook_response E expected resp = Inr raw"
    "outcome (f raw) as' = Some (Inr x)"
    by (auto simp: webhook_request_def handle_def perform_def ill_typed_def split: ans.splits sum.splits if_splits)
  moreover from this(2) have "rs_status resp \<in> set expected"
    by (auto simp: decode_webhook_response_def webhook_response_error_def Let_def split: if_splits option.splits)
  ultimately show ?thesis using Cons
    by (auto simp: webhook_answered_def webhook_request_def handle_def perform_def intro!: exI[of _ raw])
qed

lemma webhook_send_bound:
  assumes run: "outcome (webhook_send E W v key kind reference statement) as = Some (Inr d)"
  shows "delivery_bound E d \<and> webhook_answered ''POST'' (sw_webhook_url W) {200, 202}
        (events (webhook_send E W v key kind reference statement) as)"
proof -
  from run obtain content headers where parts: "record_content v = Inr content"
    "webhook_send_headers key kind reference statement = Inr headers"
    by (auto simp: webhook_send_def split: sum.splits)
  then have sent: "webhook_send E W v key kind reference statement =
      bindp (webhook_request E ''POST'' (sw_webhook_url W) content headers [200, 202])
        (\<lambda>raw. Done (parse_seal_delivery E raw))"
    by (simp add: webhook_send_def)
  from webhook_request_ok[OF run[unfolded sent]] parse_seal_delivery_bound show ?thesis
    by (auto simp: sent)
qed

lemma get_seal_delivery_bound:
  assumes run: "outcome (get_seal_delivery E W attempt_id) as = Some (Inr d)"
  shows "delivery_bound E d \<and> sd_attempt_id d = attempt_id
      \<and> webhook_answered ''GET'' (webhook_url_for W (''/v1/seal/webhooks/deliveries/'' @ quote attempt_id)) {200}
          (events (get_seal_delivery E W attempt_id) as)"
proof -
  from webhook_request_ok[OF run[unfolded get_seal_delivery_def]]
  obtain raw where "parse_seal_delivery E raw = Inr d" "sd_attempt_id d = attempt_id"
    unfolding outcome_ok by auto
  with webhook_request_ok[OF run[unfolded get_seal_delivery_def]] parse_seal_delivery_bound show ?thesis
    unfolding get_seal_delivery_def by auto
qed

lemma get_seal_receipt_bound:
  assumes run: "outcome (get_seal_receipt E W receipt_id) as = Some (Inr d)"
  shows "delivery_bound E d \<and> sd_receipt_id d = Some receipt_id
      \<and> webhook_answered ''GET'' (webhook_url_for W (''/v1/seal/webhooks/receipts/'' @ quote receipt_id)) {200}
          (events (get_seal_receipt E W receipt_id) as)"
proof -
  from webhook_request_ok[OF run[unfolded get_seal_receipt_def]]
  obtain raw where "parse_seal_delivery E raw = Inr d" "sd_receipt_id d = Some receipt_id"
    unfolding outcome_ok by auto
  with webhook_request_ok[OF run[unfolded get_seal_receipt_def]] parse_seal_delivery_bound show ?thesis
    unfolding get_seal_receipt_def by auto
qed


end
