(* ===== verification/Seal_Samples.thy ===== *)
theory Seal_Samples
  imports Seal_Webhook
begin

text \<open>The webhook client of a concrete URL, and a sealed delivery read through it.\<close>

definition sample_webhook :: seal_webhook_client where
  "sample_webhook =
     \<lparr>sw_webhook_url = ''https://a.io/v1/seal/webhooks?token=t+k%2F'', sw_origin = ''https://a.io'',
      sw_query = ''token=t+k%2F''\<rparr>"

lemma sample_webhook_accepted:
  "new_seal_webhook_client (PStr ''https://a.io/v1/seal/webhooks?&token=t%20k%2f'') (Fin 10) False = Inr sample_webhook"
  by code_simp

lemma webhook_url_canonical_witness:
  "new_seal_webhook_client (PStr (sw_webhook_url sample_webhook)) (Fin 10) False = Inr sample_webhook"
  using webhook_url_canonical[OF sample_webhook_accepted] by blast

definition sample_seal_receipt :: pydict where
  "sample_seal_receipt =
     [(''receipt_id'', PStr ''r1''), (''workspace_id'', PStr ''w''),
      (''context'', PDict [(''seal_metadata'', PDict [(''k'', PStr ''v'')])])]"

definition sample_delivery_body :: pyval where
  "sample_delivery_body = PDict
     [(''attempt_id'', PStr ''a1''), (''workspace_id'', PStr ''w''), (''status'', PStr ''sealed''),
      (''received_at'', PStr ''t''), (''updated_at'', PStr ''t''), (''profile'', PStr seal_webhook_profile),
      (''metadata'', PDict [(''k'', PStr ''v'')]), (''receipt_id'', PStr ''r1''),
      (''status_url'', PStr ''u''), (''keys_url'', PStr ''u''), (''receipt'', PDict sample_seal_receipt)]"

definition sample_seal_delivery :: seal_webhook_delivery where
  "sample_seal_delivery =
     \<lparr>sd_attempt_id = ''a1'', sd_workspace_id = ''w'', sd_status = Seal_Sealed, sd_received_at = ''t'',
      sd_updated_at = ''t'', sd_profile = seal_webhook_profile, sd_record_sha256 = None,
      sd_metadata = Some [(''k'', PStr ''v'')], sd_receipt_id = Some ''r1'', sd_error_code = None,
      sd_status_url = ''u'', sd_receipt_url = None, sd_keys_url = ''u'', sd_receipt = Some sample_seal_receipt\<rparr>"

lemma sample_delivery_parses: "parse_seal_delivery sample_env sample_delivery_body = Inr sample_seal_delivery"
  by code_simp

lemma sample_delivery_run:
  "outcome (get_seal_delivery sample_env sample_webhook ''a1'') [sample_reply 200 sample_delivery_body]
   = Some (Inr sample_seal_delivery)"
  by (simp add: get_seal_delivery_def webhook_request_def handle_def perform_def sample_reply_def
      decode_webhook_response_def is_success_def sample_delivery_parses)
     (simp add: sample_seal_delivery_def)


end
