(* ===== verification/Execution_Evidence.thy ===== *)
theory Execution_Evidence
  imports Execution Policy_Api Receipt_Facts Samples
begin

text \<open>
  \<open>complete_execution_evidence\<close> of \<open>allowly/execution.py\<close>: it reads the journal and the approval of an
  operation, gets the signed decision receipt, has it verified and writes the evidence package. The
  verification itself is the effect \<open>Verify_Receipt\<close>; polling has the fuel of \<open>fetch_signed\<close>, and
  \<open>None\<close> means that it ran out.
\<close>

subsection \<open>The checks\<close>

fun as_claims :: "ans \<Rightarrow> pydict res" where
  "as_claims (A_Val (PDict d)) = Inr d"
| "as_claims _ = ill_typed"

definition claimed_approval :: "pydict \<Rightarrow> pyval res" where
  \<comment> \<open>\<open>claims.get("context", {}).get("execution", {}).get("approval_sha256")\<close>\<close>
  "claimed_approval claims =
     bindr (as_dict AttributeError (dget_or claims ''context'' (PDict []))) (\<lambda>c.
     bindr (as_dict AttributeError (dget_or c ''execution'' (PDict []))) (\<lambda>x.
     Inr (dget x ''approval_sha256'')))"

definition unbound_receipt :: exn where
  "unbound_receipt = ProtocolError ''signed decision receipt does not bind this approval''"

definition bound_approval :: "sdk_env \<Rightarrow> string \<Rightarrow> pyval \<Rightarrow> pydict \<Rightarrow> pydict res" where
  "bound_approval E workspace_id bound claims =
     bindr (subscript bound ''approval'') (\<lambda>approval.
     bindr (hash_seal_value E approval) (\<lambda>digest.
     bindr (subscript bound ''approval_sha256'') (\<lambda>expected.
     if PStr (''sha256:'' @ digest) \<noteq> expected then Inl unbound_receipt
     else
     bindr (as_dict AttributeError approval) (\<lambda>a.
     if dget a ''workspace_id'' \<noteq> PStr workspace_id then Inl unbound_receipt
     else
     bindr (claimed_approval claims) (\<lambda>claimed.
     if claimed \<noteq> expected \<or> dget claims ''decision'' \<noteq> PStr ''allow''
        \<or> \<not> py_eq (dget claims ''action'') (dget a ''action'')
        \<or> \<not> py_eq (dget claims ''authorization_id'') (dget a ''authorization_id'')
     then Inl unbound_receipt
     else Inr a)))))"

text \<open>\<open>{"profile": ..., **binding, ...}\<close>: the profile stays first, with the binding's value if it has one.\<close>

definition evidence_package :: "pyval \<Rightarrow> pyval \<Rightarrow> pydict \<Rightarrow> pydict res" where
  "evidence_package bound receipt approval =
     bindr (as_dict (TypeError ''not a mapping'') bound) (\<lambda>b.
     bindr (dict_item approval ''evidence_mode'') (\<lambda>mode.
     let witnessed = (mode = PStr ''witnessed'') in
     Inr (merge_items ((''profile'', dget_or b ''profile'' (PStr ''allowly.execution.customer_bundle.v1''))
                       # pop_item ''profile'' b)
       [(''decision_receipt'', receipt), (''decision_receipt_verified'', PBool True),
        (''tls_presentation'', if witnessed then PStr ''witness/presentation.json'' else PNone),
        (''tls_verification'',
           PStr (if witnessed then ''separate_native_verification_required'' else ''not_requested''))])))"

subsection \<open>The call\<close>

definition decision_receipt ::
  "nat \<Rightarrow> sdk_env \<Rightarrow> client \<Rightarrow> pyval \<Rightarrow> pyval option prog" where
  "decision_receipt fuel E C envelope =
     bindp (Done (subscript envelope ''status'')) (\<lambda>status.
     if status = PStr ''signed''
     then bindp (Done (subscript envelope ''receipt'')) (\<lambda>receipt. return (Some receipt))
     else
       bindp (Done (subscript envelope ''receipt_id'')) (\<lambda>receipt_id.
       case as_string receipt_id of
         None \<Rightarrow> raise (TypeError ''quote_from_bytes() expected bytes'')
       | Some i \<Rightarrow>
           bindp (fetch_signed fuel E C i 1 120) (\<lambda>r. return (map_option PDict r))))"

definition package_evidence ::
  "sdk_env \<Rightarrow> pyval \<Rightarrow> string \<Rightarrow> string \<Rightarrow> pyval \<Rightarrow> pyval \<Rightarrow> pydict prog" where
  "package_evidence E public_keys workspace_id folder bound receipt =
     bindp (perform (Verify_Receipt receipt public_keys workspace_id) as_claims) (\<lambda>claims.
     bindp (Done (bound_approval E workspace_id bound claims)) (\<lambda>approval.
     bindp (Done (evidence_package bound receipt approval)) (\<lambda>package.
     bindp (save E (folder, ''evidence-package.json'') (PDict package)) (\<lambda>_.
     return package))))"

definition complete_execution_evidence ::
  "nat \<Rightarrow> sdk_env \<Rightarrow> client \<Rightarrow> string \<Rightarrow> pyval \<Rightarrow> string \<Rightarrow> pydict option prog" where
  "complete_execution_evidence fuel E C operation_dir public_keys workspace_id =
     bindp (perform (Resolve_Dir operation_dir) as_str) (\<lambda>folder.
     bindp (read_json (journal_path folder) default_maximum) (\<lambda>state.
     bindp (read_json (folder, ''approval.json'') default_maximum) (\<lambda>bound.
     bindp (Done (bindr (subscript state ''authorization'') (\<lambda>a. subscript a ''decision_receipt'')))
       (\<lambda>envelope.
     bindp (decision_receipt fuel E C envelope) (\<lambda>found.
     case found of
       None \<Rightarrow> return None
     | Some receipt \<Rightarrow>
         bindp (package_evidence E public_keys workspace_id folder bound receipt) (\<lambda>package.
         return (Some package)))))))"

subsection \<open>What a package says\<close>

definition package_bound :: "sdk_env \<Rightarrow> string \<Rightarrow> pydict \<Rightarrow> pydict \<Rightarrow> bool" where
  "package_bound E workspace_id claims p \<longleftrightarrow>
     (\<exists>a digest. dget p ''approval'' = PDict a \<and> hash_seal_value E (PDict a) = Inr digest
        \<and> dget p ''approval_sha256'' = PStr (''sha256:'' @ digest)
        \<and> dget a ''workspace_id'' = PStr workspace_id
        \<and> claimed_approval claims = Inr (PStr (''sha256:'' @ digest))
        \<and> dget claims ''decision'' = PStr ''allow''
        \<and> py_eq (dget claims ''action'') (dget a ''action'')
        \<and> py_eq (dget claims ''authorization_id'') (dget a ''authorization_id''))"

lemma as_claims_iff [simp]: "as_claims a = Inr d \<longleftrightarrow> a = A_Val (PDict d)"
  by (cases a rule: as_claims.cases) (auto simp: ill_typed_def)

lemma subscript_ok [simp]: "subscript v k = Inr x \<longleftrightarrow> (\<exists>d. v = PDict d \<and> map_of d k = Some x)"
  by (cases v) (auto simp: subscript_def)

lemma bound_package:
  assumes "bound_approval E ws bound claims = Inr a" and "evidence_package bound receipt a = Inr p"
  shows "package_bound E ws claims p \<and> dget p ''decision_receipt'' = receipt
    \<and> dget p ''decision_receipt_verified'' = PBool True"
proof -
  from assms(1) obtain approval digest expected claimed where checks:
    "subscript bound ''approval'' = Inr approval" "hash_seal_value E approval = Inr digest"
    "subscript bound ''approval_sha256'' = Inr expected" "\<not> PStr (''sha256:'' @ digest) \<noteq> expected"
    "as_dict AttributeError approval = Inr a" "\<not> dget a ''workspace_id'' \<noteq> PStr ws"
    "claimed_approval claims = Inr claimed"
    "\<not> (claimed \<noteq> expected \<or> dget claims ''decision'' \<noteq> PStr ''allow''
        \<or> \<not> py_eq (dget claims ''action'') (dget a ''action'')
        \<or> \<not> py_eq (dget claims ''authorization_id'') (dget a ''authorization_id''))"
    unfolding bound_approval_def by (elim result_elims) (rule that, simp_all)
  from assms(2) obtain b mode where "bound = PDict b"
    and p: "p = merge_items ((''profile'', dget_or b ''profile'' (PStr ''allowly.execution.customer_bundle.v1''))
        # pop_item ''profile'' b)
       [(''decision_receipt'', receipt), (''decision_receipt_verified'', PBool True),
        (''tls_presentation'', if mode = PStr ''witnessed'' then PStr ''witness/presentation.json'' else PNone),
        (''tls_verification'', PStr (if mode = PStr ''witnessed'' then ''separate_native_verification_required''
           else ''not_requested''))]"
    by (auto simp: evidence_package_def Let_def)
  then have "dget p ''approval'' = dget b ''approval''" "dget p ''approval_sha256'' = dget b ''approval_sha256''"
    "dget p ''decision_receipt'' = receipt" "dget p ''decision_receipt_verified'' = PBool True"
    by simp_all
  moreover have "dget b ''approval'' = PDict a" "dget b ''approval_sha256'' = PStr (''sha256:'' @ digest)"
    using checks \<open>bound = PDict b\<close> by (auto simp: dget_def)
  ultimately show ?thesis using checks by (auto simp: package_bound_def)
qed

lemma saved_file:
  assumes "outcome (save E p v) as = Some (Inr ())"
  shows "\<exists>t. (Replace_File t p v, A_Unit) \<in> set (events (save E p v) as)"
proof -
  have "safe (\<lambda>_ _. True) snoc (save E p v)
      (\<lambda>h r. r = Inr () \<longrightarrow> (\<exists>t. (Replace_File t p v, A_Unit) \<in> set h)) []"
    unfolding save_def by (rule history.wp_steps | simp | force)+
  from safe_snoc_outcome[OF this assms] show ?thesis by simp
qed

lemma package_evidence_ok:
  assumes "outcome (package_evidence E keys ws folder bound receipt) as = Some (Inr p)"
  shows "\<exists>claims t. (Verify_Receipt receipt keys ws, A_Val (PDict claims))
      \<in> set (events (package_evidence E keys ws folder bound receipt) as)
    \<and> dget p ''decision_receipt'' = receipt \<and> package_bound E ws claims p
    \<and> (Replace_File t (folder, ''evidence-package.json'') (PDict p), A_Unit)
      \<in> set (events (package_evidence E keys ws folder bound receipt) as)"
proof (cases as)
  case Nil
  then show ?thesis using assms by (simp add: package_evidence_def perform_def)
next
  case (Cons answer as')
  with assms obtain claims a where answer: "answer = A_Val (PDict claims)"
    and bound: "bound_approval E ws bound claims = Inr a" "evidence_package bound receipt a = Inr p"
    and saved: "outcome (save E (folder, ''evidence-package.json'') (PDict p)) as' = Some (Inr ())"
    by (auto simp: package_evidence_def perform_def outcome_bindp ill_typed_def
        split: ans.splits sum.splits option.splits)
  from answer bound Cons have
    "(Verify_Receipt receipt keys ws, A_Val (PDict claims)) \<in> set (events (package_evidence E keys ws folder bound receipt) as)"
    "set (events (save E (folder, ''evidence-package.json'') (PDict p)) as')
      \<subseteq> set (events (package_evidence E keys ws folder bound receipt) as)"
    by (auto simp: package_evidence_def perform_def events_bindp)
  with saved_file[OF saved] bound_package[OF bound] show ?thesis by blast
qed

lemma outcome_tailE:
  assumes "outcome (bindp m f) as = Some (Inr x)" and "set (events (bindp m f) as) \<subseteq> S"
    and "\<And>y as'. outcome (f y) as' = Some (Inr x) \<Longrightarrow> set (events (f y) as') \<subseteq> S \<Longrightarrow> P"
  shows P
  using outcome_bindp_tail[OF assms(1)] assms(2,3) by blast

lemma complete_reaches_package:
  "outcome (complete_execution_evidence fuel E C dir keys ws) as = Some (Inr (Some p)) \<Longrightarrow>
   set (events (complete_execution_evidence fuel E C dir keys ws) as) \<subseteq> S \<Longrightarrow>
   \<exists>folder bound receipt as'. outcome (package_evidence E keys ws folder bound receipt) as' = Some (Inr p)
    \<and> set (events (package_evidence E keys ws folder bound receipt) as') \<subseteq> S"
  unfolding complete_execution_evidence_def
  apply (erule (1) outcome_tailE)+
  subgoal for folder as1 state as2 bound as3 envelope as4 found as5
  proof (cases found)
    case (Some receipt)
    moreover assume "outcome (case found of None \<Rightarrow> return None
        | Some receipt \<Rightarrow> bindp (package_evidence E keys ws folder bound receipt) (\<lambda>package. return (Some package))) as5
          = Some (Inr (Some p))"
      "set (events (case found of None \<Rightarrow> return None
        | Some receipt \<Rightarrow> bindp (package_evidence E keys ws folder bound receipt) (\<lambda>package. return (Some package))) as5)
          \<subseteq> S"
    ultimately have "outcome (package_evidence E keys ws folder bound receipt) as5 = Some (Inr p)"
      "set (events (package_evidence E keys ws folder bound receipt) as5) \<subseteq> S"
      by (auto simp: outcome_bindp_ok events_bindp)
    then show ?thesis by blast
  qed simp
  done


definition evidence_approval :: pydict where
  "evidence_approval =
     [(''workspace_id'', PStr ''w''), (''action'', PStr ''pay''), (''authorization_id'', PStr ''az''),
      (''evidence_mode'', PStr ''receipt'')]"

definition evidence_claims :: pydict where
  "evidence_claims =
     [(''context'', PDict [(''execution'', PDict [(''approval_sha256'', PStr digest_b)])]),
      (''decision'', PStr ''allow''), (''action'', PStr ''pay''), (''authorization_id'', PStr ''az'')]"

definition evidence_answers :: "ans list" where
  "evidence_answers =
     [A_Str ''d'',
      A_Doc (Doc [] (Some (PDict [(''authorization'', PDict [(''decision_receipt'',
        PDict [(''status'', PStr ''signed''), (''receipt'', PDict [])])])]))),
      A_Doc (Doc [] (Some (PDict [(''approval'', PDict evidence_approval), (''approval_sha256'', PStr digest_b)]))),
      A_Val (PDict evidence_claims), A_Str ''t'', A_Unit, A_Unit, A_Unit, A_Bool False]"

definition evidence_result :: pydict where
  "evidence_result =
     [(''profile'', PStr ''allowly.execution.customer_bundle.v1''), (''approval'', PDict evidence_approval),
      (''approval_sha256'', PStr digest_b), (''decision_receipt'', PDict []),
      (''decision_receipt_verified'', PBool True), (''tls_presentation'', PNone),
      (''tls_verification'', PStr ''not_requested'')]"

lemma sample_evidence_parts:
  "bound_approval sample_env ''w'' (PDict [(''approval'', PDict evidence_approval), (''approval_sha256'', PStr digest_b)])
     evidence_claims = Inr evidence_approval"
  "evidence_package (PDict [(''approval'', PDict evidence_approval), (''approval_sha256'', PStr digest_b)])
     (PDict []) evidence_approval = Inr evidence_result"
  "is_ok (dumps sample_env (PDict evidence_result))"
  by (code_simp, code_simp, simp add: dumps_ok_iff evidence_result_def evidence_approval_def)

lemma sample_evidence_run:
  "outcome (complete_execution_evidence 0 sample_env sample_client ''d'' PNone ''w'') evidence_answers
     = Some (Inr (Some evidence_result))"
proof -
  obtain bytes where "json_bytes sample_env (PDict evidence_result) = Inr bytes"
    using sample_evidence_parts(3) unfolding is_ok_iff json_bytes_def by (auto simp del: dumps.simps)
  then show ?thesis
    by (simp add: complete_execution_evidence_def evidence_answers_def decision_receipt_def subscript_def
        package_evidence_def sample_evidence_parts save_def finally_do_def perform_def read_json_def read_bytes_def
        loads_def default_maximum_def dict_item_def as_dict_def)
qed


end
