(* ===== verification/Agent_Identity.thy ===== *)
theory Agent_Identity
  imports Receipts Base64 Json_Ascii Json_Text
begin

text \<open>
  \<open>allowly/agent_identity.py\<close>, native credentials that sign short-lived agent tokens, and
  \<open>allowly/identifiers.py\<close>, opaque user identifiers derived from email addresses. The facts: only
  canonical base64 is read, a token carries the credential's claims under its own key, and an
  identifier tells apart exactly what the keyed hash tells apart.
\<close>

subsection \<open>Credentials\<close>

definition invalid_credential :: exn where
  "invalid_credential = ValueError ''Invalid Allowly agent credential''"

definition agent_decode :: "string \<Rightarrow> string res" where
  "agent_decode s =
     (if s = [] \<or> \<not> list_all (\<lambda>c. url_index c \<noteq> None) s then Inl invalid_credential
      else case decode_with url_index s of
        None \<Rightarrow> Inl invalid_credential
      | Some decoded \<Rightarrow> if b64url decoded \<noteq> s then Inl invalid_credential else Inr decoded)"

record agent_credential =
  nc_workspace_id :: string
  nc_agent_id :: string
  nc_binding_id :: string
  nc_key_id :: string
  nc_key :: string

definition credential_str :: "pydict \<Rightarrow> string \<Rightarrow> string res" where
  "credential_str data name =
     (case dget data name of PStr (c # s) \<Rightarrow> Inr (c # s) | _ \<Rightarrow> Inl invalid_credential)"

definition credential_key :: "sdk_env \<Rightarrow> pyval \<Rightarrow> string res" where
  "credential_key E v =
     bindr (as_dict invalid_credential v) (\<lambda>jwk.
     if dget jwk ''kty'' \<noteq> PStr ''OKP'' \<or> dget jwk ''crv'' \<noteq> PStr ''Ed25519'' then Inl invalid_credential
     else case (dget jwk ''d'', dget jwk ''x'') of
       (PStr private_value, PStr public_value) \<Rightarrow>
         bindr (agent_decode private_value) (\<lambda>private.
         bindr (if length private \<noteq> 32 then Inl invalid_credential else agent_decode public_value)
           (\<lambda>public.
         if length public \<noteq> 32 \<or> ed25519_public E private \<noteq> public then Inl invalid_credential
         else Inr private))
     | _ \<Rightarrow> Inl invalid_credential)"

definition new_agent_credential :: "sdk_env \<Rightarrow> pydict \<Rightarrow> agent_credential res" where
  "new_agent_credential E data =
     (if \<not> py_eq (dget data ''version'') (PInt 1) \<or> dget data ''provider'' \<noteq> PStr ''allowly''
      then Inl invalid_credential
      else
        bindr (credential_str data ''workspace_id'') (\<lambda>workspace_id.
        bindr (credential_str data ''agent_id'') (\<lambda>agent_id.
        bindr (credential_str data ''binding_id'') (\<lambda>binding_id.
        bindr (credential_str data ''key_id'') (\<lambda>key_id.
        bindr (credential_key E (dget data ''private_key_jwk'')) (\<lambda>key.
        Inr \<lparr>nc_workspace_id = workspace_id, nc_agent_id = agent_id, nc_binding_id = binding_id,
             nc_key_id = key_id, nc_key = key\<rparr>))))))"

definition credential_from_json :: "sdk_env \<Rightarrow> string \<Rightarrow> agent_credential res" where
  "credential_from_json E value =
     (case loads_text E (utf8 value) of
        None \<Rightarrow> Inl (ValueError ''Expecting value'')
      | Some parsed \<Rightarrow> bindr (as_dict invalid_credential parsed) (new_agent_credential E))"

definition credential_from_file :: "sdk_env \<Rightarrow> string \<Rightarrow> agent_credential prog" where
  "credential_from_file E pth =
     bindp (perform (Read_Text pth) as_str) (\<lambda>text. Done (credential_from_json E text))"

subsection \<open>Tokens\<close>

definition token_header :: "agent_credential \<Rightarrow> string" where
  "token_header A = flat_object '','' '':''
     [(''alg'', Flat_Str ''EdDSA''), (''typ'', Flat_Str ''JWT''), (''kid'', Flat_Str (nc_key_id A))]"

definition token_claims :: "agent_credential \<Rightarrow> int \<Rightarrow> string" where
  "token_claims A now = flat_object '','' '':''
     [(''iss'', Flat_Str ''allowly-agent''), (''aud'', Flat_Str (nc_workspace_id A)),
      (''sub'', Flat_Str (nc_agent_id A)), (''bid'', Flat_Str (nc_binding_id A)),
      (''iat'', Flat_Int now), (''nbf'', Flat_Int now), (''exp'', Flat_Int (now + 60))]"

definition truncated :: "rat \<Rightarrow> int" where
  \<comment> \<open>\<open>int(t)\<close>\<close>
  "truncated t = (if 0 \<le> t then \<lfloor>t\<rfloor> else \<lceil>t\<rceil>)"

definition signed_token :: "sdk_env \<Rightarrow> agent_credential \<Rightarrow> int \<Rightarrow> string" where
  "signed_token E A now =
     (let signing_input = b64url (token_header A) @ ''.'' @ b64url (token_claims A now) in
      signing_input @ ''.'' @ b64url (ed25519_sign E (nc_key A) signing_input))"

definition agent_token :: "sdk_env \<Rightarrow> agent_credential \<Rightarrow> string prog" where
  "agent_token E A = bindp (perform Unix_Time as_clock) (\<lambda>t. return (signed_token E A (truncated t)))"

subsection \<open>Identifiers\<close>

definition normalize_email :: "string \<Rightarrow> string res" where
  "normalize_email email =
     (let normalized = str_lower (strip email) in
      if normalized = [] then Inl (ValueError ''email must not be empty'') else Inr normalized)"

definition from_email :: "sdk_env \<Rightarrow> string \<Rightarrow> pyval \<Rightarrow> string \<Rightarrow> string res" where
  "from_email E email pepper version =
     (if version \<noteq> ''v1'' then Inl (ValueError ''unsupported email identifier version'')
      else
        bindr (case pepper of PStr s \<Rightarrow> Inr (utf8 s) | PBytes b \<Rightarrow> Inr b
               | _ \<Rightarrow> Inl (TypeError ''pepper must be str or bytes'')) (\<lambda>key.
        if key = [] then Inl (ValueError ''pepper must not be empty'')
        else
          bindr (normalize_email email) (\<lambda>normalized.
          Inr (''email_hmac:'' @ version @ '':'' @ b64url (hmac_sha256 E key (utf8 normalized))))))"

subsection \<open>Canonical base64\<close>

lemma agent_decode_iff: "agent_decode s = Inr d \<longleftrightarrow> s = b64url d \<and> s \<noteq> []"
proof
  assume "agent_decode s = Inr d"
  then show "s = b64url d \<and> s \<noteq> []"
    by (auto simp: agent_decode_def split: if_splits option.splits)
next
  assume s: "s = b64url d \<and> s \<noteq> []"
  then have "list_all (\<lambda>c. url_index c \<noteq> None) s"
    using url.encoded_digits by (auto simp: b64url_def list_all_iff)
  moreover have "decode_with url_index s = Some d"
    using s url.decode_encode by (simp add: b64url_def)
  moreover from s have "s = b64url d" "s \<noteq> []" by blast+
  ultimately show "agent_decode s = Inr d" by (simp add: agent_decode_def)
qed

lemma b64url_eq_Nil: "b64url d = [] \<longleftrightarrow> d = []"
proof
  assume "b64url d = []"
  then have "b64url d = b64url []" by (simp add: b64url_def encode_with_def)
  then show "d = []" by (simp add: b64url_def url.encode_inject)
qed (simp add: b64url_def encode_with_def)

lemma b64url_no_dot: "CHR ''.'' \<notin> set (b64url s)"
proof
  assume "CHR ''.'' \<in> set (b64url s)"
  then have "url_index (CHR ''.'') \<noteq> None" using url.encoded_digits unfolding b64url_def by blast
  then show False by (simp add: b64_index_def char_class_defs)
qed

lemma split_on_append: "c \<notin> set a \<Longrightarrow> split_on c (a @ c # b) = a # split_on c b"
  by (induction a) auto

lemma split_on_none: "c \<notin> set s \<Longrightarrow> split_on c s = [s]"
  by (induction s) auto

lemma new_agent_credential_key:
  assumes "new_agent_credential E data = Inr A"
  shows "\<exists>jwk. dget data ''private_key_jwk'' = PDict jwk \<and> length (nc_key A) = 32
    \<and> dget jwk ''d'' = PStr (b64url (nc_key A)) \<and> dget jwk ''x'' = PStr (b64url (ed25519_public E (nc_key A)))
    \<and> dget data ''workspace_id'' = PStr (nc_workspace_id A) \<and> dget data ''agent_id'' = PStr (nc_agent_id A)"
proof -
  from assms obtain key where key: "credential_key E (dget data ''private_key_jwk'') = Inr key" "nc_key A = key"
    and ids: "credential_str data ''workspace_id'' = Inr (nc_workspace_id A)"
      "credential_str data ''agent_id'' = Inr (nc_agent_id A)"
    unfolding new_agent_credential_def by (elim result_elims) auto
  from key(1) obtain jwk where jwk: "dget data ''private_key_jwk'' = PDict jwk"
    by (cases "dget data ''private_key_jwk''") (auto simp: credential_key_def as_dict_def)
  with key(1) have "length key = 32" "dget jwk ''d'' = PStr (b64url key)"
    "dget jwk ''x'' = PStr (b64url (ed25519_public E key))"
    by (cases "dget jwk ''d''"; cases "dget jwk ''x''";
        auto simp: credential_key_def agent_decode_iff split: if_splits)+
  with jwk key(2) ids show ?thesis
    by (auto simp: credential_str_def split: pyval.splits list.splits)
qed

lemma clock_answer: "as_clock a = Inr t \<longleftrightarrow> a = A_Float (Fin t)"
  by (cases a rule: as_clock.cases) (auto simp: ill_typed_def)


subsection \<open>Email identifiers\<close>

lemma is_space_lower: "is_space (lower_char c) \<longleftrightarrow> is_space c"
proof -
  have "ord (lower_char c) = (if between 65 90 c \<or> between 192 222 c \<and> ord c \<noteq> 215 then ord c + 32 else ord c)"
    by (auto simp: lower_char_def char_class_defs)
  then show ?thesis by (auto simp: is_space_def char_class_defs)
qed

lemma lower_char_idem: "lower_char (lower_char c) = lower_char c"
proof (cases "between 65 90 c \<or> between 192 222 c \<and> ord c \<noteq> 215")
  case True
  then have "lower_char c = char_of (ord c + 32)" "ord (char_of (ord c + 32) :: char) = ord c + 32"
    by (auto simp: lower_char_def char_class_defs)
  with True show ?thesis by (auto simp: lower_char_def char_class_defs)
qed (auto simp: lower_char_def)

lemma dropWhile_lower: "dropWhile is_space (map lower_char s) = map lower_char (dropWhile is_space s)"
  by (induction s) (simp_all add: is_space_lower)

lemma strip_lower: "strip (str_lower s) = str_lower (strip s)"
  by (simp add: strip_def lstrip_def str_lower_def dropWhile_lower rev_map)

lemma strip_idem: "strip (strip s) = strip s"
proof -
  define u where "u = dropWhile is_space s"
  define t where "t = rev (dropWhile is_space (rev u))"
  have "u = t @ rev (takeWhile is_space (rev u))"
    unfolding t_def by (metis rev_append rev_rev_ident takeWhile_dropWhile_id)
  then have "t = [] \<or> hd t = hd u" by (metis hd_append2)
  moreover have "u = [] \<longrightarrow> t = []" by (simp add: t_def)
  moreover have "u = [] \<or> \<not> is_space (hd u)" unfolding u_def using hd_dropWhile by blast
  ultimately have "dropWhile is_space t = t" by (cases t) auto
  moreover have "dropWhile is_space (rev t) = rev t" by (simp add: t_def dropWhile_idem)
  ultimately show ?thesis unfolding strip_def lstrip_def u_def[symmetric] t_def[symmetric] by simp
qed

lemma normal_form_fixed: "str_lower (strip (str_lower (strip s))) = str_lower (strip s)"
  unfolding strip_lower strip_idem by (simp add: str_lower_def lower_char_idem)

text \<open>
  An email identifier hides the address and nothing is lost but case and surrounding blanks. Two
  accepted addresses get the same identifier under one pepper exactly when the keyed hashes of their
  normal forms agree, so addresses with one normal form share it, and the normal form is a fixed
  point of normalisation.
\<close>

theorem email_identifier_separates:
  assumes "from_email E email pepper version = Inr i" and "from_email E other pepper version = Inr j"
  shows "\<exists>key a b. normalize_email email = Inr a \<and> normalize_email other = Inr b \<and> key \<noteq> []
    \<and> (i = j \<longleftrightarrow> hmac_sha256 E key (utf8 a) = hmac_sha256 E key (utf8 b))
    \<and> from_email E a pepper version = Inr i"
proof -
  from assms obtain key a b where "version = ''v1''" "key \<noteq> []"
    and key: "(case pepper of PStr s \<Rightarrow> Inr (utf8 s) | PBytes b \<Rightarrow> Inr b
               | _ \<Rightarrow> Inl (TypeError ''pepper must be str or bytes'')) = Inr key"
    and n: "normalize_email email = Inr a" "normalize_email other = Inr b"
    and ij: "i = ''email_hmac:'' @ version @ '':'' @ b64url (hmac_sha256 E key (utf8 a))"
      "j = ''email_hmac:'' @ version @ '':'' @ b64url (hmac_sha256 E key (utf8 b))"
    by (auto simp: from_email_def split: if_splits)
  moreover have "normalize_email a = Inr a"
    using n(1) by (auto simp: normalize_email_def Let_def normal_form_fixed split: if_splits)
  ultimately show ?thesis
    by (intro exI[of _ key] exI[of _ a] exI[of _ b]) (auto simp: from_email_def b64url_def url.encode_inject)
qed

end
