(* ===== verification/Agent_Samples.thy ===== *)
theory Agent_Samples
  imports Agent_Identity
begin

text \<open>A credential whose key is its own public half, as in the sample environment, and an address.\<close>

definition sample_credential_data :: pydict where
  "sample_credential_data =
     [(''version'', PInt 1), (''provider'', PStr ''allowly''), (''workspace_id'', PStr ''w''),
      (''agent_id'', PStr ''ag''), (''binding_id'', PStr ''b''), (''key_id'', PStr ''k''),
      (''private_key_jwk'', PDict
        [(''kty'', PStr ''OKP''), (''crv'', PStr ''Ed25519''),
         (''d'', PStr (b64url (replicate 32 (CHR ''s'')))), (''x'', PStr (b64url (replicate 32 (CHR ''s''))))])]"

definition sample_credential :: agent_credential where
  "sample_credential =
     \<lparr>nc_workspace_id = ''w'', nc_agent_id = ''ag'', nc_binding_id = ''b'', nc_key_id = ''k'',
      nc_key = replicate 32 (CHR ''s'')\<rparr>"

lemma sample_credential_loads:
  "new_agent_credential sample_env sample_credential_data = Inr sample_credential"
proof -
  have "agent_decode (b64url (replicate 32 (CHR ''s''))) = Inr (replicate 32 (CHR ''s''))"
    unfolding agent_decode_iff b64url_eq_Nil by simp
  then show ?thesis
    by (simp add: new_agent_credential_def credential_key_def credential_str_def as_dict_def
        sample_credential_data_def sample_credential_def sample_env_def)
qed

lemma sample_token:
  "outcome (agent_token sample_env sample_credential) [A_Float (Fin 1)]
   = Some (Inr (signed_token sample_env sample_credential 1))"
  by (simp add: agent_token_def perform_def truncated_def)


lemma sample_email:
  "from_email sample_env '' A@b '' (PStr ''p'') ''v1'' =
     Inr (''email_hmac:v1:'' @ b64url (hmac_sha256 sample_env ''p'' ''a@b''))"
  by code_simp

lemma email_identifier_separates_witness:
  "\<exists>a. from_email sample_env a (PStr ''p'') ''v1'' =
     Inr (''email_hmac:v1:'' @ b64url (hmac_sha256 sample_env ''p'' ''a@b''))"
  using email_identifier_separates[OF sample_email sample_email] by blast

end
