(* ===== verification/Observe.thy ===== *)
theory Observe
  imports Policy_Api
begin

text \<open>
  \<open>allowly/observe.py\<close>: reporting captured actions. Nothing here grants permission; the facts are that
  a status says nothing but what was reported, for the reported event.
\<close>

subsection \<open>Readers\<close>

text \<open>\<open>[A-Za-z0-9][A-Za-z0-9._:-]{0,127}\<close>.\<close>

definition is_event_id :: "string \<Rightarrow> bool" where
  "is_event_id s \<longleftrightarrow> s \<noteq> [] \<and> length s \<le> 128 \<and> is_alnum (hd s)
     \<and> list_all (\<lambda>c. is_alnum c \<or> c \<in> set ''._:-'') (tl s)"

definition observe_event_id :: "pyval \<Rightarrow> string res" where
  "observe_event_id v =
     (case v of
        PStr s \<Rightarrow> (if is_event_id s then Inr s
                 else Inl (ProtocolError ''event_id must be 1 to 128 safe ASCII characters''))
      | _ \<Rightarrow> Inl (ProtocolError ''event_id must be 1 to 128 safe ASCII characters''))"

definition observe_choice :: "pyval \<Rightarrow> string list \<Rightarrow> string \<Rightarrow> string res" where
  "observe_choice v choices name =
     (case v of
        PStr s \<Rightarrow> (if s \<in> set choices then Inr s else Inl (ProtocolError (name @ '' is unsupported'')))
      | _ \<Rightarrow> Inl (ProtocolError (name @ '' is unsupported'')))"

definition status_fields :: "string list" where
  "status_fields = [''event_id'', ''agent_id'', ''action'', ''policy_ref'', ''mode'', ''intervention'',
     ''reported_execution'', ''processing_status'', ''assessment_status'', ''signing_status'',
     ''observed_action_id'', ''assessment_id'', ''dashboard_url'', ''last_error'']"

definition execution_choices :: "string list" where
  "execution_choices = [''accepted'', ''sent'', ''failed'', ''unknown'']"

record observe_status =
  ob_event_id :: string
  ob_agent_id :: string
  ob_action :: string
  ob_policy_ref :: pydict
  ob_mode :: string
  ob_intervention :: string
  ob_reported_execution :: string
  ob_processing_status :: string
  ob_assessment_status :: string
  ob_signing_status :: string
  ob_observed_action_id :: "string option"
  ob_assessment_id :: "string option"
  ob_dashboard_url :: "string option"
  ob_last_error :: "string option"

text \<open>The comparison of a status with the submitted event, when there is one.\<close>

definition describes_event :: "observe_status \<Rightarrow> string \<Rightarrow> pydict option \<Rightarrow> bool" where
  "describes_event s event_id event \<longleftrightarrow> ob_event_id s = event_id
     \<and> (case event of
          None \<Rightarrow> True
        | Some e \<Rightarrow> py_eq (PStr (ob_agent_id s)) (dget e ''agent_id'') \<and> py_eq (PStr (ob_action s)) (dget e ''action'')
            \<and> py_eq (PDict (ob_policy_ref s)) (dget e ''policy_ref'')
            \<and> py_eq (PStr (ob_reported_execution s)) (dget e ''reported_execution''))"

definition parse_observe_status ::
  "sdk_env \<Rightarrow> pyval \<Rightarrow> string \<Rightarrow> pydict option \<Rightarrow> observe_status res" where
  "parse_observe_status E v event_id event =
     bindr (policy_document E v ''Observe status'' 16384) (\<lambda>doc.
     bindr (policy_keys doc status_fields ''Observe status'' []) (\<lambda>raw.
     bindr (observe_event_id (dget raw ''event_id'')) (\<lambda>event_id'.
     bindr (policy_text (dget raw ''agent_id'') ''agent_id'' 128) (\<lambda>agent_id.
     bindr (policy_text (dget raw ''action'') ''action'' 64) (\<lambda>action.
     bindr (parse_policy_reference E (dget raw ''policy_ref'')) (\<lambda>policy_ref.
     bindr (observe_choice (dget raw ''mode'') [''observe''] ''mode'') (\<lambda>mode.
     bindr (observe_choice (dget raw ''intervention'') [''none''] ''intervention'') (\<lambda>intervention.
     bindr (observe_choice (dget raw ''reported_execution'') execution_choices ''reported_execution'') (\<lambda>reported.
     bindr (observe_choice (dget raw ''processing_status'') [''pending'', ''processing'', ''complete'', ''failed'']
              ''processing_status'') (\<lambda>processing.
     bindr (observe_choice (dget raw ''assessment_status'')
              [''not_assessed'', ''no_violation_found'', ''violation_detected'', ''insufficient_evidence'']
              ''assessment_status'') (\<lambda>assessment.
     bindr (observe_choice (dget raw ''signing_status'') [''unavailable'', ''pending'', ''signed''] ''signing_status'')
       (\<lambda>signing.
     bindr (optional_text (dget raw ''observed_action_id'') ''observed_action_id'' 128) (\<lambda>observed_action_id.
     bindr (optional_text (dget raw ''assessment_id'') ''assessment_id'' 128) (\<lambda>assessment_id.
     bindr (optional_text (dget raw ''dashboard_url'') ''dashboard_url'' 2048) (\<lambda>dashboard_url.
     bindr (optional_text (dget raw ''last_error'') ''last_error'' 128) (\<lambda>last_error.
     let s = \<lparr>ob_event_id = event_id', ob_agent_id = agent_id, ob_action = action, ob_policy_ref = policy_ref,
              ob_mode = mode, ob_intervention = intervention, ob_reported_execution = reported,
              ob_processing_status = processing, ob_assessment_status = assessment, ob_signing_status = signing,
              ob_observed_action_id = observed_action_id, ob_assessment_id = assessment_id,
              ob_dashboard_url = dashboard_url, ob_last_error = last_error\<rparr> in
     if \<not> describes_event s event_id event
     then Inl (ProtocolError ''Observe response does not match the submitted event'')
     else Inr s))))))))))))))))"

subsection \<open>Submitting\<close>

record observe_call =
  oc_event_id :: pyval
  oc_agent_id :: pyval
  oc_action :: pyval
  oc_policy_ref :: pyval
  oc_occurred_at :: pyval
  oc_reported_execution :: pyval
  oc_sources :: pyval

definition observe_event :: "sdk_env \<Rightarrow> observe_call \<Rightarrow> pyval res" where
  "observe_event E c =
     bindr (observe_event_id (oc_event_id c)) (\<lambda>event_id.
     bindr (policy_text (oc_agent_id c) ''agent_id'' 128) (\<lambda>agent_id.
     bindr (policy_text (oc_action c) ''action'' 64) (\<lambda>action.
     bindr (parse_policy_reference E (oc_policy_ref c)) (\<lambda>policy_ref.
     bindr (observe_choice (oc_reported_execution c) execution_choices ''reported_execution'') (\<lambda>reported.
     policy_document E (PDict
       [(''event_id'', PStr event_id), (''agent_id'', PStr agent_id), (''action'', PStr action),
        (''policy_ref'', PDict policy_ref), (''occurred_at'', oc_occurred_at c),
        (''reported_execution'', PStr reported), (''sources'', oc_sources c)])
       ''Observe event'' 40960)))))"

definition aware_timestamp :: "sdk_env \<Rightarrow> pyval \<Rightarrow> bool" where
  "aware_timestamp E v =
     (case v of
        PStr s \<Rightarrow> CHR ''T'' \<in> set s
          \<and> (case fromisoformat E (replace_all ''Z'' ''+00:00'' s) of Some (_, aware) \<Rightarrow> aware | None \<Rightarrow> False)
      | _ \<Rightarrow> False)"

definition source_pointer :: "string \<Rightarrow> string" where
  "source_pointer name = ''/input/sources/'' @ replace_all ''/'' ''~1'' (replace_all ''~'' ''~0'' name)"

definition observe_refused :: exn where
  "observe_refused = ProtocolError ''Observe requires an aware timestamp and 1 to 32 bounded string sources''"

fun observe_error :: "exn \<Rightarrow> bool" where
  \<comment> \<open>\<open>except (ValueError, TypeError, AttributeError)\<close>\<close>
  "observe_error (TypeError _) = True"
| "observe_error AttributeError = True"
| "observe_error e = is_value_error e"

definition check_observation :: "sdk_env \<Rightarrow> observe_call \<Rightarrow> pyval \<Rightarrow> unit res" where
  "check_observation E c event =
     (if \<not> aware_timestamp E (oc_occurred_at c) then Inl observe_refused
      else case event of
        PDict e \<Rightarrow>
          (case map_of e ''sources'' of
             None \<Rightarrow> Inl (KeyError ''sources'')
           | Some (PDict sources) \<Rightarrow>
               (if \<exists>(name, v) \<in> set sources. \<not> (case v of PStr s \<Rightarrow> char_of (0 :: nat) \<notin> set s | _ \<Rightarrow> False)
                then Inl observe_refused
                else
                  map_exn (\<lambda>x. if observe_error x then observe_refused else x)
                    (validate_mapping E (PDict
                       [(''observation_name'', oc_action c),
                        (''sources'', PDict (map (\<lambda>(name, _). (name, PStr (source_pointer name))) sources)),
                        (''execution_pointer'', PStr ''/output/reported_execution''),
                        (''mapping_version'', PStr ''allowly.observe.event.v1'')])))
           | Some _ \<Rightarrow> Inl observe_refused)
      | _ \<Rightarrow> Inl observe_refused)"

definition observe_submit :: "sdk_env \<Rightarrow> client \<Rightarrow> observe_call \<Rightarrow> observe_status prog" where
  "observe_submit E C c =
     bindp (Done (observe_event E c)) (\<lambda>event.
     bindp (Done (check_observation E c event)) (\<lambda>_.
     bindp (request E C (api_call ''POST'' ''/v1/observe/events'' (Some event) None) [202]) (\<lambda>raw.
     bindp (Done (observe_event_id (oc_event_id c))) (\<lambda>event_id.
     bindp (Done (as_dict AttributeError event)) (\<lambda>e.
     Done (parse_observe_status E raw event_id (Some e)))))))"

definition observe_get :: "sdk_env \<Rightarrow> client \<Rightarrow> pyval \<Rightarrow> observe_status prog" where
  "observe_get E C v =
     bindp (Done (observe_event_id v)) (\<lambda>event_id.
     bindp (request E C (api_call ''GET'' (''/v1/observe/events/'' @ quote event_id) None None) [200]) (\<lambda>raw.
     Done (parse_observe_status E raw event_id None)))"

subsection \<open>A status is of the event\<close>

lemma observe_choice_iff [simp]: "observe_choice v choices name = Inr s \<longleftrightarrow> v = PStr s \<and> s \<in> set choices"
  by (cases v) (auto simp: observe_choice_def)

lemma observe_event_id_iff [simp]: "observe_event_id v = Inr s \<longleftrightarrow> v = PStr s \<and> is_event_id s"
  by (cases v) (auto simp: observe_event_id_def)

lemma parse_observe_status_ok:
  assumes "parse_observe_status E v event_id event = Inr s"
  shows "describes_event s event_id event \<and> is_policy_reference (ob_policy_ref s)
    \<and> ob_mode s = ''observe'' \<and> ob_intervention s = ''none''"
proof -
  from assms obtain raw i ag ac pr mo inter rep proc ass sig oa ai du le where
    pr: "parse_policy_reference E (dget raw ''policy_ref'') = Inr pr"
    and mo: "observe_choice (dget raw ''mode'') [''observe''] ''mode'' = Inr mo"
    and inter: "observe_choice (dget raw ''intervention'') [''none''] ''intervention'' = Inr inter"
    and event: "\<not> \<not> describes_event \<lparr>ob_event_id = i, ob_agent_id = ag, ob_action = ac, ob_policy_ref = pr, ob_mode = mo,
      ob_intervention = inter, ob_reported_execution = rep, ob_processing_status = proc,
      ob_assessment_status = ass, ob_signing_status = sig, ob_observed_action_id = oa, ob_assessment_id = ai,
      ob_dashboard_url = du, ob_last_error = le\<rparr> event_id event"
    and s: "Inr \<lparr>ob_event_id = i, ob_agent_id = ag, ob_action = ac, ob_policy_ref = pr, ob_mode = mo,
      ob_intervention = inter, ob_reported_execution = rep, ob_processing_status = proc,
      ob_assessment_status = ass, ob_signing_status = sig, ob_observed_action_id = oa, ob_assessment_id = ai,
      ob_dashboard_url = du, ob_last_error = le\<rparr> = (Inr s :: observe_status res)"
    unfolding parse_observe_status_def Let_def by (elim result_elims) (rule that)
  from s[THEN Inr_inject, symmetric] event have "describes_event s event_id event" "ob_policy_ref s = pr"
    "ob_mode s = mo" "ob_intervention s = inter" by simp_all
  with pr mo inter show ?thesis by (simp add: parse_policy_reference_iff)
qed

text \<open>
  A status reports what was reported, about the right event. What submit returns was answered with
  status 202 to the request that carries the event, and names the event's identifier, agent, action,
  policy reference and reported execution; what get returns names the requested event; and no status
  claims to have intervened.
\<close>

theorem observe_status_matches:
  "(outcome (observe_submit E C c) as = Some (Inr s) \<longrightarrow>
      (\<exists>event rq resp. (Request rq, A_Response resp) \<in> set (events (observe_submit E C c) as)
         \<and> rq_json rq = Some (PDict event) \<and> rs_status resp = 202
         \<and> oc_event_id c = PStr (ob_event_id s) \<and> describes_event s (ob_event_id s) (Some event)
         \<and> ob_mode s = ''observe'' \<and> ob_intervention s = ''none''))
   \<and> (outcome (observe_get E C v) as = Some (Inr s) \<longrightarrow>
      v = PStr (ob_event_id s) \<and> is_policy_reference (ob_policy_ref s)
      \<and> ob_mode s = ''observe'' \<and> ob_intervention s = ''none'')"
proof (intro conjI impI)
  assume run: "outcome (observe_submit E C c) as = Some (Inr s)"
  let ?rq = "\<lambda>event. api_call ''POST'' ''/v1/observe/events'' (Some event) None"
  from run obtain event event_id raw where parts: "observe_event E c = Inr (PDict event)"
    "check_observation E c (PDict event) = Inr ()" "oc_event_id c = PStr event_id"
    and sent: "outcome (request E C (?rq (PDict event)) [202]) as = Some (Inr raw)"
    and parsed: "parse_observe_status E raw event_id (Some event) = Inr s"
    unfolding observe_submit_def outcome_ok by auto
  from request_ok[OF sent] obtain resp where
    "(Request (?rq (PDict event)), A_Response resp) \<in> set (events (request E C (?rq (PDict event)) [202]) as)"
    "rs_status resp = 202" by auto
  moreover have "set (events (request E C (?rq (PDict event)) [202]) as) \<subseteq> set (events (observe_submit E C c) as)"
    using parts by (simp add: observe_submit_def events_bindp)
  ultimately show "\<exists>event rq resp. (Request rq, A_Response resp) \<in> set (events (observe_submit E C c) as)
      \<and> rq_json rq = Some (PDict event) \<and> rs_status resp = 202
      \<and> oc_event_id c = PStr (ob_event_id s) \<and> describes_event s (ob_event_id s) (Some event)
      \<and> ob_mode s = ''observe'' \<and> ob_intervention s = ''none''"
    using parse_observe_status_ok[OF parsed] parts(3)
    by (intro exI[of _ event] exI[of _ "?rq (PDict event)"] exI[of _ resp])
       (auto simp: api_call_def describes_event_def)
next
  assume "outcome (observe_get E C v) as = Some (Inr s)"
  then obtain event_id raw where "v = PStr event_id" "parse_observe_status E raw event_id None = Inr s"
    unfolding observe_get_def outcome_ok by auto
  then show "v = PStr (ob_event_id s)" "is_policy_reference (ob_policy_ref s)"
    "ob_mode s = ''observe''" "ob_intervention s = ''none''"
    using parse_observe_status_ok by (auto simp: describes_event_def)
qed

end
