(* ===== verification/Observe_Samples.thy ===== *)
theory Observe_Samples
  imports Observe Policy_Samples
begin

text \<open>One reported event and the status the API answers.\<close>

definition observed_event :: pydict where
  "observed_event =
     [(''event_id'', PStr ''e1''), (''agent_id'', PStr ''ag''), (''action'', PStr ''pay''),
      (''policy_ref'', PDict sample_reference), (''occurred_at'', PStr ''dTt''),
      (''reported_execution'', PStr ''sent''), (''sources'', PDict [(''a'', PStr ''s'')])]"

definition observed_status :: pydict where
  "observed_status =
     [(''event_id'', PStr ''e1''), (''agent_id'', PStr ''ag''), (''action'', PStr ''pay''),
      (''policy_ref'', PDict sample_reference), (''mode'', PStr ''observe''), (''intervention'', PStr ''none''),
      (''reported_execution'', PStr ''sent''), (''processing_status'', PStr ''pending''),
      (''assessment_status'', PStr ''not_assessed''), (''signing_status'', PStr ''pending''),
      (''observed_action_id'', PNone), (''assessment_id'', PNone), (''dashboard_url'', PNone), (''last_error'', PNone)]"

definition observe_env :: sdk_env where
  "observe_env = sample_env
     \<lparr>canonicalize := (\<lambda>v. Inr (case v of PDict d \<Rightarrow>
         (if length d = 3 then ''ref'' else if length d = 7 then ''event'' else ''status'') | _ \<Rightarrow> [])),
      json_tree := (\<lambda>s. Some (PDict
        (if s = ''ref'' then sample_reference else if s = ''event'' then observed_event else observed_status)))\<rparr>"

definition observed_call :: observe_call where
  "observed_call =
     \<lparr>oc_event_id = PStr ''e1'', oc_agent_id = PStr ''ag'', oc_action = PStr ''pay'',
      oc_policy_ref = PDict sample_reference, oc_occurred_at = PStr ''dTt'',
      oc_reported_execution = PStr ''sent'', oc_sources = PDict [(''a'', PStr ''s'')]\<rparr>"

definition observed_result :: observe_status where
  "observed_result =
     \<lparr>ob_event_id = ''e1'', ob_agent_id = ''ag'', ob_action = ''pay'', ob_policy_ref = sample_reference,
      ob_mode = ''observe'', ob_intervention = ''none'', ob_reported_execution = ''sent'',
      ob_processing_status = ''pending'', ob_assessment_status = ''not_assessed'', ob_signing_status = ''pending'',
      ob_observed_action_id = None, ob_assessment_id = None, ob_dashboard_url = None, ob_last_error = None\<rparr>"

lemma observed_parts:
  "observe_event observe_env observed_call = Inr (PDict observed_event)"
  "check_observation observe_env observed_call (PDict observed_event) = Inr ()"
  "parse_observe_status observe_env (PDict observed_status) ''e1'' (Some observed_event) = Inr observed_result"
  "observe_event_id (PStr ''e1'') = Inr ''e1''"
  by code_simp+

lemma observed_run:
  "outcome (observe_submit observe_env sample_client observed_call) [sample_reply 202 (PDict observed_status)]
   = Some (Inr observed_result)"
proof -
  have "oc_event_id observed_call = PStr ''e1''" by (simp add: observed_call_def)
  then show ?thesis by (simp add: observe_submit_def observed_parts run_request as_dict_def)
qed

lemma observe_status_matches_witness:
  "\<exists>event. describes_event observed_result ''e1'' (Some event)"
  using observe_status_matches[of observe_env sample_client observed_call "[sample_reply 202 (PDict observed_status)]"
      observed_result] observed_run
  by (auto simp: observed_result_def)

end
