(* ===== verification/Spec2Isabelle.thy ===== *)
theory Spec2Isabelle
  imports Dispatch_Spec Client_Methods Receipt_Verify Typed_Dicts Transport_Facts Check_Samples
    Prompts Quote_Facts Receipt_Samples
    Resolution_Samples Keys_Cache Mcp_Samples Client_Samples Seal_Samples Execution_Evidence
    Agent_Samples Observe_Samples
begin

text \<open>
  Verification library of the Allowly SDK for Python, \<open>src/allowly/\<close>. The SDK asks the Allowly API
  whether an agent may act, executes approved HTTP requests locally, and handles the signed receipts of
  both. The library models every module but \<open>__init__.py\<close>, in the order data, effects, transport,
  resources, local execution, and proves the properties named \<open>C1\<close> to \<open>C40\<close> in the theories.

  \<^bold>\<open>Values, errors and effects.\<close> \<open>Sdk_Prelude\<close> has the results (\<open>exn + 'a\<close>), dictionaries as
  association lists in insertion order, and the string operations; \<open>Py_Value\<close> the Python values with their
  equality and truth; \<open>Sdk_Error\<close> the exceptions of \<open>error.py\<close>, of the language and of the HTTP client, with
  the predicates that say which handler catches which. \<open>Sdk_Effects\<close> has the programs: a coroutine is a
  tree of effects (an HTTP request, a file operation, a reading of a clock, a callback, a lock) whose
  answers the environment chooses, exceptions included. \<open>outcome\<close> and \<open>events\<close> run a tree on a list of
  answers; \<open>safe\<close> is its weakest precondition under a protocol (locale \<open>effect_protocol\<close>). What is
  not under \<open>src/\<close> is a field of \<open>sdk_env\<close>, the parameter of every definition that uses it: the package
  \<open>allowly-receipt-format\<close>, hashing and signing, JSON parsing, \<open>fromisoformat\<close>, the rendering of floats.
  \<open>Py_Json\<close>, \<open>Json_Text\<close>, \<open>Json_Ascii\<close>, \<open>Py_Url\<close>, \<open>Py_Query\<close> and \<open>Base64\<close> model what the SDK uses of the
  standard library. \<open>Sdk_Types\<close> holds the dataclasses and literals of \<open>types.py\<close>, one record or datatype each;
  \<open>Typed_Dicts\<close> its typed dictionaries, one decidable predicate each.

  \<^bold>\<open>Modules and theories.\<close> The names of the definitions are those of the functions without the leading
  underscore, methods with a word for their class.
  \<^item> \<open>client.py\<close>: the field readers in \<open>Wire_Readers\<close>; \<open>_request_with_headers\<close> and the identity headers in
    \<open>Sdk_Transport\<close>, its facts in \<open>Transport_Facts\<close>; \<open>_parse_execution_response\<close> with the stored form of its
    result in \<open>Execution_Wire\<close>; the execution endpoints in \<open>Execution_Api\<close>; \<open>check\<close>, \<open>check_by_agent\<close> and the
    fallback in \<open>Check\<close>; receipts, acknowledgments, budgets, polling and seals in \<open>Receipts\<close> and
    \<open>Receipt_Facts\<close>; confirmations and escalations in \<open>Prompts\<close>; grants in \<open>Authorizations\<close>; the constructor,
    readiness, instructions and custom executables in \<open>Client_Setup\<close>; request paths in \<open>Quote_Facts\<close>.
  \<^item> \<open>execution.py\<close>: \<open>_http_execution_request\<close> in \<open>Http_Request\<close>; \<open>_validate_approval\<close>, \<open>_live\<close> and
    \<open>_observed_response\<close> in \<open>Approval\<close>; \<open>_save\<close>, \<open>_read\<close>, \<open>_operation_lock\<close> and \<open>_provider_send\<close> in
    \<open>Journal\<close>; \<open>_witness_files\<close> in \<open>Witness_Setup\<close>; \<open>execute_http\<close>, \<open>continue_http_execution\<close>,
    \<open>_dispatch_approved\<close> and \<open>flush_execution_outcome\<close> in \<open>Execution\<close>; \<open>complete_execution_evidence\<close> in
    \<open>Execution_Evidence\<close>; the methods of \<open>Allowly\<close> that call these functions, with their defaults, in
    \<open>Client_Methods\<close>.
  \<^item> \<open>policies.py\<close>: the readers in \<open>Policies\<close>, the resource in \<open>Policy_Api\<close>.
  \<^item> \<open>resolution_webhook.py\<close> in \<open>Resolution_Webhook\<close>, \<open>seal_webhook.py\<close> in \<open>Seal_Webhook\<close>, the keys document
    and its cache of \<open>verify.py\<close> in \<open>Keys_Cache\<close>, its calls of the verifier package in
    \<open>Receipt_Verify\<close>, \<open>mcp.py\<close> in \<open>Mcp\<close>, \<open>observe.py\<close> in \<open>Observe\<close>,
    \<open>agent_identity.py\<close> and \<open>identifiers.py\<close> in \<open>Agent_Identity\<close>.
  \<^item> Theories named \<open>_Samples\<close> and \<open>Dispatch_Run\<close> evaluate the definitions on concrete inputs and show that
    the hypotheses of the properties can hold.

  \<^bold>\<open>How the parts interact.\<close> Every resource goes through \<open>request\<close>, so \<open>Transport_Facts\<close> (sent at most
  once unless a read was dropped; the three ways to fail) holds for all of them, and the lemma \<open>request_ok\<close>
  gives each property the answered request it speaks of. \<open>Mcp\<close> calls \<open>check\<close>; \<open>Execution\<close> calls the
  execution endpoints, \<open>Http_Request\<close>, \<open>Approval\<close>, \<open>Journal\<close> and \<open>Witness_Setup\<close>;
  \<open>Execution_Evidence\<close> polls with \<open>fetch_signed\<close>. The journal of an operation is shared by processes:
  \<open>Dispatch_Protocol\<close> states the discipline one process keeps (stages of a ghost state over its effects) and
  proves it of each entry point; \<open>Dispatch_Safety\<close> is the world of all processes, a step relation over their
  interleaved effects with failing calls, crashes and power losses, and derives from the discipline that
  at most one request is ever sent for an operation, and that the journal of a sent request always holds a
  report that \<open>flush_execution_outcome\<close> can deliver; \<open>Dispatch_Progress\<close> runs that delivery from every
  reachable state, and \<open>Dispatch_Spec\<close> states the whole as the refinement of an abstract write-ahead ledger.

  \<^bold>\<open>Interfaces.\<close> \<open>wire_literal\<close> (a literal type and its strings), interpreted for decisions, execution
  statuses, review kinds and prompt statuses; \<open>field_reader\<close> (a reader accepts exactly the encodings of
  its values), interpreted for the readers of \<open>Wire_Readers\<close>; \<open>effect_protocol\<close>, interpreted for histories and the
  clock of the polling loop, and its extension \<open>file_protocol\<close> (the law of \<open>_save\<close> for a protocol that ignores
  temporary files), interpreted for the dispatch discipline; \<open>base64_alphabet\<close> (digits and their
  indices), interpreted for both alphabets.

  \<^bold>\<open>Bounds and fuel.\<close> The wait for the native witness polls at most \<open>ready_turns\<close> = 6000 times: a turn
  sleeps 25 ms and \<open>asyncio.wait_for\<close> ends the wait after 150 s, so no run of the code has more turns.
  \<open>fetch_signed\<close> takes its fuel as an argument, and \<open>polling_ends\<close> proves that fuel above the timeout divided
  by the least time a turn takes is enough. \<open>unquote\<close> is applied four times, as the code does. Every other
  recursion ends by structure or a measure, and every program ends with enough answers (\<open>outcome_total\<close>).

  \<^bold>\<open>Assumptions.\<close> Strings have code points below 256; the sources compare characters with ASCII only.
  Floats are rationals, infinities or NaN, so rounding is not modelled. Dictionaries read from outside have
  distinct keys where an operation needs it. Directories are synced as on POSIX, and a directory entry,
  once made, survives a power loss. A cancellation arrives at an effect, as an exception; a thread that
  \<open>asyncio.to_thread\<close> leaves running is not modelled. The text of exceptions of other packages is left out.

  \<^bold>\<open>Not modelled.\<close> \<open>__init__.py\<close> (re-exports); closing HTTP clients and the context managers around it;
  the constructors of the resource objects, which only keep the client; the package \<open>allowly-receipt-format\<close>
  itself, a parameter here; logging, documentation and tests.
\<close>

end
